(* ===== verification/Prelude.thy ===== *)
theory Prelude
  imports Main "HOL-Library.Word" "HOL-Library.AList"
begin

text \<open>
  Shared vocabulary of the development: Go's error values, the parts of the Go standard
  library that the installer calls on strings and numbers (\<^verbatim>\<open>strings\<close>, \<^verbatim>\<open>strconv\<close>), Go maps
  as association lists, and the generic lemmas the component theories rest on.

  A Go string is a sequence of bytes, so it is a \<^typ>\<open>string\<close> (a list of 8-bit characters).
  White space and letter case are those of ASCII; the Unicode tables that
  \<^verbatim>\<open>strings.TrimSpace\<close> and \<^verbatim>\<open>strings.ToLower\<close> consult for bytes above 127 are not modelled.
\<close>

section \<open>Collections\<close>

named_theorems go_string_simps \<open>evaluation rules for the string functions\<close>
named_theorems result_simps \<open>rules for results that are an error or a value\<close>

section \<open>Errors and results\<close>

text \<open>
  An error value of Go: a text made by the program (\<^verbatim>\<open>errors.New\<close>, \<^verbatim>\<open>fmt.Errorf\<close>), one of
  \<^verbatim>\<open>strconv\<close>, one reported by the operating system, a command or a library outside the
  repository, an error wrapped in a message, or a run-time panic (a failed type assertion, an
  index out of range), which stops the program at that point.
\<close>

datatype goerror =
    Msg string
  | NumSyntax string string
  | NumRange string string
  | Ext string
  | Wrap string goerror
  | Panic string

type_synonym 'a result = "goerror + 'a"

primrec errText :: "goerror \<Rightarrow> string" where
  "errText (Msg s) = s"
| "errText (NumSyntax f s) = ''strconv.'' @ f @ '': parsing '' @ s @ '': invalid syntax''"
| "errText (NumRange f s) = ''strconv.'' @ f @ '': parsing '' @ s @ '': value out of range''"
| "errText (Ext s) = s"
| "errText (Wrap s e) = s @ '': '' @ errText e"
| "errText (Panic s) = s"

definition isOk :: "'a result \<Rightarrow> bool" where
  "isOk r = (case r of Inl e \<Rightarrow> False | Inr x \<Rightarrow> True)"

definition bindR :: "'a result \<Rightarrow> ('a \<Rightarrow> 'b result) \<Rightarrow> 'b result" where
  "bindR r k = (case r of Inl e \<Rightarrow> Inl e | Inr x \<Rightarrow> k x)"

text \<open>\<^verbatim>\<open>if err := a; err != nil { return err }; b\<close>.\<close>

definition thenR :: "unit result \<Rightarrow> 'b result \<Rightarrow> 'b result" where
  "thenR a b = (case a of Inl e \<Rightarrow> Inl e | Inr u \<Rightarrow> b)"

text \<open>\<^verbatim>\<open>for _, x := range xs { if err := f(x); err != nil { return err } }\<close>.\<close>

fun allR :: "('a \<Rightarrow> unit result) \<Rightarrow> 'a list \<Rightarrow> unit result" where
  "allR f [] = Inr ()"
| "allR f (x # xs) = (case f x of Inl e \<Rightarrow> Inl e | Inr u \<Rightarrow> allR f xs)"

text \<open>The same loop building a list, and one that threads a state.\<close>

fun mapR :: "('a \<Rightarrow> 'b result) \<Rightarrow> 'a list \<Rightarrow> 'b list result" where
  "mapR f [] = Inr []"
| "mapR f (x # xs) =
     (case f x of Inl e \<Rightarrow> Inl e
      | Inr y \<Rightarrow> (case mapR f xs of Inl e \<Rightarrow> Inl e | Inr ys \<Rightarrow> Inr (y # ys)))"

fun foldR :: "('a \<Rightarrow> 's \<Rightarrow> 's result) \<Rightarrow> 'a list \<Rightarrow> 's \<Rightarrow> 's result" where
  "foldR f [] s = Inr s"
| "foldR f (x # xs) s = (case f x s of Inl e \<Rightarrow> Inl e | Inr s' \<Rightarrow> foldR f xs s')"

lemma isOk_simps [simp, result_simps]: "isOk (Inr x)" "\<not> isOk (Inl e)"
  by (simp_all add: isOk_def)

lemma isOk_iff: "isOk r \<longleftrightarrow> (\<exists>x. r = Inr x)"
  by (cases r) auto

lemma bindR_simps [simp, result_simps]: "bindR (Inr x) k = k x" "bindR (Inl e) k = Inl e"
  by (simp_all add: bindR_def)

lemma bindR_Inr: "bindR r k = Inr y \<longleftrightarrow> (\<exists>x. r = Inr x \<and> k x = Inr y)"
  by (cases r) auto

lemma thenR_simps [simp, result_simps]: "thenR (Inr u) b = b" "thenR (Inl e) b = Inl e"
  by (simp_all add: thenR_def)

lemma thenR_Inr [result_simps]: "thenR a b = Inr y \<longleftrightarrow> a = Inr () \<and> b = Inr y"
  by (cases a) auto

lemma isOk_thenR: "isOk (thenR a b) \<longleftrightarrow> isOk a \<and> isOk b"
  by (cases a) auto

lemma allR_Inr: "allR f xs = Inr () \<longleftrightarrow> (\<forall>x \<in> set xs. f x = Inr ())"
  by (induction xs) (auto split: sum.splits)

lemma allR_ok: "allR f xs = Inr u \<longleftrightarrow> (\<forall>x \<in> set xs. f x = Inr ())"
  using allR_Inr [of f xs] by simp

lemma mapR_Inr_length: "mapR f xs = Inr ys \<Longrightarrow> length ys = length xs"
  by (induction xs arbitrary: ys) (auto split: sum.splits)

lemma mapR_Inr_iff: "mapR f xs = Inr ys \<longleftrightarrow> list_all2 (\<lambda>x y. f x = Inr y) xs ys"
proof (induction xs arbitrary: ys)
  case Nil
  then show ?case by auto
next
  case (Cons x xs)
  show ?case
    by (auto simp: list_all2_Cons1 Cons.IH [symmetric] split: sum.splits)
qed

lemma foldR_append:
  "foldR f (xs @ ys) s = (case foldR f xs s of Inl e \<Rightarrow> Inl e | Inr s' \<Rightarrow> foldR f ys s')"
  by (induction xs arbitrary: s) (auto split: sum.splits)

text \<open>An invariant of the body is an invariant of the loop.\<close>

lemma foldR_invariant:
  assumes "\<And>x s s'. x \<in> set xs \<Longrightarrow> I s \<Longrightarrow> f x s = Inr s' \<Longrightarrow> I s'"
    and "I s" and "foldR f xs s = Inr s'"
  shows "I s'"
  using assms
proof (induction xs arbitrary: s)
  case Nil
  then show ?case by simp
next
  case (Cons x xs)
  then obtain s1 where s1: "f x s = Inr s1" "foldR f xs s1 = Inr s'"
    by (auto split: sum.splits)
  have "I s1" using Cons.prems(1) [of x s s1] Cons.prems(2) s1(1) by simp
  then show ?case using Cons s1 by auto
qed

section \<open>Programs with state\<close>

text \<open>
  Code that changes state and may fail: the state is part of both outcomes, since what was
  changed before an error stays changed.
\<close>

type_synonym ('s, 'a) prog = "'s \<Rightarrow> 'a result \<times> 's"

definition retS :: "'a \<Rightarrow> ('s, 'a) prog" where
  "retS x s = (Inr x, s)"

definition failS :: "goerror \<Rightarrow> ('s, 'a) prog" where
  "failS e s = (Inl e, s)"

definition liftS :: "'a result \<Rightarrow> ('s, 'a) prog" where
  "liftS r s = (r, s)"

definition getS :: "('s \<Rightarrow> 'a) \<Rightarrow> ('s, 'a) prog" where
  "getS f s = (Inr (f s), s)"

definition modS :: "('s \<Rightarrow> 's) \<Rightarrow> ('s, unit) prog" where
  "modS f s = (Inr (), f s)"

definition bindS :: "('s, 'a) prog \<Rightarrow> ('a \<Rightarrow> ('s, 'b) prog) \<Rightarrow> ('s, 'b) prog" where
  "bindS m k s = (case m s of (Inl e, s') \<Rightarrow> (Inl e, s') | (Inr x, s') \<Rightarrow> k x s')"

definition seqS :: "('s, unit) prog \<Rightarrow> ('s, 'b) prog \<Rightarrow> ('s, 'b) prog" where
  "seqS m n = bindS m (\<lambda>u. n)"

fun forS :: "('a \<Rightarrow> ('s, unit) prog) \<Rightarrow> 'a list \<Rightarrow> ('s, unit) prog" where
  "forS f [] = retS ()"
| "forS f (x # xs) = seqS (f x) (forS f xs)"

named_theorems prog_simps \<open>evaluation of programs with state\<close>

lemma prog_basic [simp, prog_simps]:
  "retS x s = (Inr x, s)" "failS e s = (Inl e, s)" "liftS r s = (r, s)" "getS g s = (Inr (g s), s)"
  "modS f s = (Inr (), f s)"
  by (simp_all add: retS_def failS_def liftS_def getS_def modS_def)

lemma bindS_eqs [prog_simps]:
  "m s = (Inr x, s') \<Longrightarrow> bindS m k s = k x s'" "m s = (Inl e, s') \<Longrightarrow> bindS m k s = (Inl e, s')"
  by (simp_all add: bindS_def)

lemma bindS_Inr:
  "bindS m k s = (Inr y, t) \<longleftrightarrow> (\<exists>x s'. m s = (Inr x, s') \<and> k x s' = (Inr y, t))"
  by (auto simp: bindS_def split: prod.splits sum.splits)

lemma seqS_Inr:
  "seqS m n s = (Inr y, t) \<longleftrightarrow> (\<exists>s'. m s = (Inr (), s') \<and> n s' = (Inr y, t))"
  by (auto simp: seqS_def bindS_Inr)

lemma bindS_run:
  "bindS m k s = (case m s of (Inl e, s') \<Rightarrow> (Inl e, s') | (Inr x, s') \<Rightarrow> k x s')"
  "seqS m1 n s = (case m1 s of (Inl e, s') \<Rightarrow> (Inl e, s') | (Inr u, s') \<Rightarrow> n s')"
  by (simp_all add: seqS_def bindS_def)

lemma seqS_assoc: "seqS (seqS a b) c = seqS a (seqS b c)"
  by (rule ext) (auto simp: bindS_run split: prod.splits sum.splits)

lemma seqS_retS [simp]:
  "seqS (retS u) b = b" "seqS c (retS ()) = c" "seqS (Pair (Inr u)) b = b" "seqS c (Pair (Inr ())) = c"
  by (rule ext, auto simp: bindS_run split: prod.splits sum.splits)+

lemma forS_append: "forS f (xs @ ys) = seqS (forS f xs) (forS f ys)"
  by (induction xs) (simp_all add: seqS_assoc)

lemma forS_map: "forS f (map g xs) = forS (\<lambda>x. f (g x)) xs"
  by (induction xs) simp_all

text \<open>An invariant of the parts is an invariant of the whole, on success and on failure.\<close>

definition keeps :: "('s \<Rightarrow> bool) \<Rightarrow> ('s, 'a) prog \<Rightarrow> bool" where
  "keeps I m \<longleftrightarrow> (\<forall>s. I s \<longrightarrow> I (snd (m s)))"

named_theorems keeps_intros \<open>compositional rules for invariants of programs\<close>

lemma keeps_basic [keeps_intros]:
  "keeps I (retS x)" "keeps I (failS e)" "keeps I (liftS r)" "keeps I (getS g)"
  "(\<And>s. I s \<Longrightarrow> I (f s)) \<Longrightarrow> keeps I (modS f)"
  by (simp_all add: keeps_def)

lemma keeps_bindS [keeps_intros]: "keeps I m \<Longrightarrow> (\<And>x. keeps I (k x)) \<Longrightarrow> keeps I (bindS m k)"
  unfolding keeps_def bindS_def by (auto split: prod.splits sum.splits)

lemma keeps_get: "(\<And>s. I s \<Longrightarrow> keeps I (k (g s))) \<Longrightarrow> keeps I (bindS (getS g) k)"
  by (auto simp: keeps_def bindS_def)

lemma keeps_seqS [keeps_intros]: "keeps I m \<Longrightarrow> keeps I n \<Longrightarrow> keeps I (seqS m n)"
  unfolding seqS_def by (rule keeps_bindS)

lemma keeps_forS [keeps_intros]: "(\<And>x. x \<in> set xs \<Longrightarrow> keeps I (f x)) \<Longrightarrow> keeps I (forS f xs)"
  by (induction xs) (auto intro: keeps_intros)

lemma keeps_if [keeps_intros]: "(c \<Longrightarrow> keeps I a) \<Longrightarrow> (\<not> c \<Longrightarrow> keeps I b) \<Longrightarrow> keeps I (if c then a else b)"
  by simp

lemma keepsD: "keeps I m \<Longrightarrow> I s \<Longrightarrow> m s = (r, t) \<Longrightarrow> I t"
  by (metis keeps_def snd_conv)

lemma find_snoc: "find P (xs @ [x]) = (case find P xs of None \<Rightarrow> if P x then Some x else None | Some y \<Rightarrow> Some y)"
  by (induction xs) auto

section \<open>Go maps\<close>

text \<open>
  A Go map is an association list with distinct keys; the order of the list stands for the
  order in which \<^verbatim>\<open>range\<close> visits the keys. Go leaves that order open, so a theorem about
  every list is a theorem about every order. A nil map and an empty map read the same.
\<close>

type_synonym 'v gomap = "(string \<times> 'v) list"

definition mapGet :: "'v gomap \<Rightarrow> string \<Rightarrow> 'v option" where
  "mapGet m k = map_of m k"

definition mapPut :: "string \<Rightarrow> 'v \<Rightarrow> 'v gomap \<Rightarrow> 'v gomap" where
  "mapPut k v m = AList.update k v m"

definition mapDel :: "string \<Rightarrow> 'v gomap \<Rightarrow> 'v gomap" where
  "mapDel k m = AList.delete k m"

definition wfMap :: "'v gomap \<Rightarrow> bool" where
  "wfMap m = distinct (map fst m)"

lemma mapGet_put [simp]: "mapGet (mapPut k v m) k' = (if k' = k then Some v else mapGet m k')"
  by (simp add: mapGet_def mapPut_def update_conv')

lemma mapGet_del [simp]: "mapGet (mapDel k m) k' = (if k' = k then None else mapGet m k')"
  by (simp add: mapGet_def mapDel_def delete_conv')

lemma wfMap_put [simp, intro]: "wfMap m \<Longrightarrow> wfMap (mapPut k v m)"
  by (simp add: wfMap_def mapPut_def distinct_update)

lemma wfMap_Nil [simp]: "wfMap []"
  by (simp add: wfMap_def)

lemma keys_put: "fst ` set (mapPut k v m) = insert k (fst ` set m)"
  by (simp add: mapPut_def dom_update)

section \<open>Strings\<close>

subsection \<open>Prefixes, splitting, joining, trimming\<close>

definition hasPrefix :: "string \<Rightarrow> string \<Rightarrow> bool" where
  "hasPrefix s p = (take (length p) s = p)"

definition hasSuffix :: "string \<Rightarrow> string \<Rightarrow> bool" where
  "hasSuffix s p = (length p \<le> length s \<and> drop (length s - length p) s = p)"

definition trimPrefix :: "string \<Rightarrow> string \<Rightarrow> string" where
  "trimPrefix s p = (if hasPrefix s p then drop (length p) s else s)"

lemma hasPrefix_append: "hasPrefix s p \<longleftrightarrow> (\<exists>t. s = p @ t)"
  by (metis append_eq_conv_conj append_take_drop_id hasPrefix_def)

text \<open>\<^verbatim>\<open>strings.Split(s, sep)\<close> and \<^verbatim>\<open>strings.SplitN(s, sep, 2)\<close> for a separator of one byte.\<close>

fun splitOn :: "char \<Rightarrow> string \<Rightarrow> string list" where
  "splitOn c [] = [[]]"
| "splitOn c (x # xs) =
     (if x = c then [] # splitOn c xs
      else (case splitOn c xs of [] \<Rightarrow> [[x]] | w # ws \<Rightarrow> (x # w) # ws))"

fun splitN2 :: "char \<Rightarrow> string \<Rightarrow> string \<times> string option" where
  "splitN2 c [] = ([], None)"
| "splitN2 c (x # xs) =
     (if x = c then ([], Some xs) else (case splitN2 c xs of (a, b) \<Rightarrow> (x # a, b)))"

fun strJoin :: "string \<Rightarrow> string list \<Rightarrow> string" where
  "strJoin sep [] = []"
| "strJoin sep [w] = w"
| "strJoin sep (w # ws) = w @ sep @ strJoin sep ws"

definition isSpace :: "char \<Rightarrow> bool" where
  "isSpace c = (c \<in> {CHR '' '', CHR 0x09, CHR 0x0A, CHR 0x0B, CHR 0x0C, CHR 0x0D})"

definition trimBy :: "(char \<Rightarrow> bool) \<Rightarrow> string \<Rightarrow> string" where
  "trimBy p s = rev (dropWhile p (rev (dropWhile p s)))"

definition trimSpace :: "string \<Rightarrow> string" where
  "trimSpace s = trimBy isSpace s"

definition trimChar :: "char \<Rightarrow> string \<Rightarrow> string" where
  "trimChar c s = trimBy (\<lambda>x. x = c) s"

definition trimRight :: "char \<Rightarrow> string \<Rightarrow> string" where
  "trimRight c s = rev (dropWhile (\<lambda>x. x = c) (rev s))"

lemma trimBy_none: "\<forall>c \<in> set s. \<not> p c \<Longrightarrow> trimBy p s = s"
proof -
  assume a: "\<forall>c \<in> set s. \<not> p c"
  then have "dropWhile p s = s" "dropWhile p (rev s) = rev s"
    by (metis dropWhile_eq_self_iff hd_in_set, metis dropWhile_eq_self_iff hd_in_set set_rev)
  then show ?thesis by (simp add: trimBy_def)
qed

lemma splitOn_nonempty [simp]: "splitOn c s \<noteq> []"
  by (induction s) (auto split: list.splits)

lemma splitOn_noSep: "w \<in> set (splitOn c s) \<Longrightarrow> c \<notin> set w"
  by (induction s arbitrary: w) (auto split: list.splits if_splits)

lemma strJoin_Cons: "ws \<noteq> [] \<Longrightarrow> strJoin sep (w # ws) = w @ sep @ strJoin sep ws"
  by (cases ws) simp_all

lemma strJoin_splitOn: "strJoin [c] (splitOn c s) = s"
proof (induction s)
  case Nil
  show ?case by simp
next
  case (Cons x xs)
  obtain w ws where ws: "splitOn c xs = w # ws" by (cases "splitOn c xs") auto
  show ?case
  proof (cases "x = c")
    case True
    with Cons ws show ?thesis by simp
  next
    case False
    have "strJoin [c] ((x # w) # ws) = x # strJoin [c] (w # ws)"
      by (cases ws) simp_all
    with Cons ws False show ?thesis by simp
  qed
qed

lemma splitOn_single: "c \<notin> set s \<Longrightarrow> splitOn c s = [s]"
  by (induction s) auto

lemma splitOn_append_sep: "c \<notin> set w \<Longrightarrow> splitOn c (w @ c # t) = w # splitOn c t"
  by (induction w) auto

lemma splitOn_strJoin:
  "ws \<noteq> [] \<Longrightarrow> \<forall>w \<in> set ws. c \<notin> set w \<Longrightarrow> splitOn c (strJoin [c] ws) = ws"
proof (induction ws)
  case Nil
  then show ?case by simp
next
  case (Cons w ws)
  then show ?case
    by (cases ws) (simp_all add: splitOn_single splitOn_append_sep)
qed

lemma splitOn_length_eq_1: "length (splitOn c s) = 1 \<longleftrightarrow> c \<notin> set s"
  by (induction s) (auto split: list.splits)

subsection \<open>Letter case\<close>

definition isUpperC :: "char \<Rightarrow> bool" where
  "isUpperC c = (65 \<le> (of_char c :: nat) \<and> (of_char c :: nat) \<le> 90)"

definition isLowerC :: "char \<Rightarrow> bool" where
  "isLowerC c = (97 \<le> (of_char c :: nat) \<and> (of_char c :: nat) \<le> 122)"

definition isDigitC :: "char \<Rightarrow> bool" where
  "isDigitC c = (48 \<le> (of_char c :: nat) \<and> (of_char c :: nat) \<le> 57)"

definition toLowerC :: "char \<Rightarrow> char" where
  "toLowerC c = (if isUpperC c then char_of (of_char c + 32 :: nat) else c)"

definition toUpperC :: "char \<Rightarrow> char" where
  "toUpperC c = (if isLowerC c then char_of (of_char c - 32 :: nat) else c)"

definition toLower :: "string \<Rightarrow> string" where
  "toLower s = map toLowerC s"

definition toUpper :: "string \<Rightarrow> string" where
  "toUpper s = map toUpperC s"

lemma toLowerC_idem [simp]: "toLowerC (toLowerC c) = toLowerC c"
  by (auto simp: toLowerC_def isUpperC_def)

lemma toLower_idem [simp]: "toLower (toLower s) = toLower s"
  by (simp add: toLower_def)

subsection \<open>Numbers\<close>

definition digitVal :: "char \<Rightarrow> nat" where
  "digitVal c = of_char c - 48"

definition natOfDigits :: "nat \<Rightarrow> string \<Rightarrow> nat" where
  "natOfDigits b s = foldl (\<lambda>n c. n * b + digitVal c) 0 s"

text \<open>
  \<^verbatim>\<open>strconv.ParseUint(s, base, bits)\<close> for a base of at most ten: digits only, no sign, no
  underscore; a value of \<^verbatim>\<open>2^bits\<close> or more is a range error.
\<close>

definition parseUint :: "string \<Rightarrow> nat \<Rightarrow> nat \<Rightarrow> nat result" where
  "parseUint s base bits =
     (if s = [] \<or> \<not> list_all (\<lambda>c. isDigitC c \<and> digitVal c < base) s
      then Inl (NumSyntax ''ParseUint'' s)
      else if 2 ^ bits \<le> natOfDigits base s then Inl (NumRange ''ParseUint'' s)
      else Inr (natOfDigits base s))"

text \<open>\<^verbatim>\<open>strconv.ParseInt(s, 10, 64)\<close> and \<^verbatim>\<open>strconv.Atoi\<close> on a 64-bit machine.\<close>

definition parseInt10 :: "string \<Rightarrow> string \<Rightarrow> int result" where
  "parseInt10 fn s =
     (let neg = (case s of c # cs \<Rightarrow> c = CHR ''-'' | [] \<Rightarrow> False);
          ds = (case s of c # cs \<Rightarrow> if c = CHR ''-'' \<or> c = CHR ''+'' then cs else s | [] \<Rightarrow> [])
      in if ds = [] \<or> \<not> list_all isDigitC ds then Inl (NumSyntax fn s)
         else let n = int (natOfDigits 10 ds) in
           if neg then (if n \<le> 2 ^ 63 then Inr (- n) else Inl (NumRange fn s))
           else (if n < 2 ^ 63 then Inr n else Inl (NumRange fn s)))"

definition atoi :: "string \<Rightarrow> int result" where
  "atoi s = parseInt10 ''Atoi'' s"

text \<open>\<^verbatim>\<open>%d\<close> and \<^verbatim>\<open>strconv.Itoa\<close>.\<close>

fun showNat :: "nat \<Rightarrow> string" where
  "showNat n = (if n < 10 then [char_of (48 + n)] else showNat (n div 10) @ [char_of (48 + n mod 10)])"

declare showNat.simps [simp del]

definition showInt :: "int \<Rightarrow> string" where
  "showInt i = (if i < 0 then CHR ''-'' # showNat (nat (- i)) else showNat (nat i))"

lemma of_char_digit [simp]: "n < 10 \<Longrightarrow> (of_char (char_of (48 + n) :: char) :: nat) = 48 + n"
  by (simp add: of_char_of)

lemma digit_char: "n < 10 \<Longrightarrow> isDigitC (char_of (48 + n))" "n < 10 \<Longrightarrow> digitVal (char_of (48 + n)) = n"
  by (simp_all add: isDigitC_def digitVal_def)

lemma natOfDigits_snoc: "natOfDigits b (s @ [c]) = natOfDigits b s * b + digitVal c"
  by (simp add: natOfDigits_def)

lemma showNat_digits: "list_all isDigitC (showNat n)"
proof (induction n rule: showNat.induct)
  case (1 n)
  then show ?case
    by (subst showNat.simps) (auto simp: digit_char)
qed

lemma natOfDigits_showNat [simp]: "natOfDigits 10 (showNat n) = n"
proof (induction n rule: showNat.induct)
  case (1 n)
  show ?case
  proof (cases "n < 10")
    case True
    then show ?thesis
      by (subst showNat.simps) (simp add: natOfDigits_def digit_char)
  next
    case False
    then show ?thesis
      using "1.IH" by (subst showNat.simps) (simp add: natOfDigits_snoc digit_char)
  qed
qed

lemma showNat_nonempty [simp]: "showNat n \<noteq> []"
  by (subst showNat.simps) simp

lemma digit_lt_10: "isDigitC c \<Longrightarrow> digitVal c < 10"
  unfolding isDigitC_def digitVal_def by arith

lemma parseUint_showNat:
  assumes "n < 2 ^ bits"
  shows "parseUint (showNat n) 10 bits = Inr n"
proof -
  have "list_all (\<lambda>c. isDigitC c \<and> digitVal c < 10) (showNat n)"
    using showNat_digits [of n] by (simp add: list_all_iff digit_lt_10)
  then show ?thesis using assms by (simp add: parseUint_def)
qed

lemma parseUint_bound: "parseUint s b bits = Inr n \<Longrightarrow> n < 2 ^ bits"
  by (auto simp: parseUint_def split: if_splits)

lemma showNat_head_digit: "\<exists>c cs. showNat n = c # cs \<and> isDigitC c"
  using showNat_digits [of n] by (cases "showNat n") auto

lemma atoi_showNat:
  assumes "n < 2 ^ 63"
  shows "atoi (showNat n) = Inr (int n)"
proof -
  obtain c cs where c: "showNat n = c # cs" "isDigitC c"
    using showNat_head_digit by blast
  have "c \<noteq> CHR ''-''" "c \<noteq> CHR ''+''"
    using c(2) by (auto simp: isDigitC_def)
  moreover have "int n < 2 ^ 63"
    using assms by (simp flip: of_nat_power add: of_nat_less_iff)
  ultimately show ?thesis
    using showNat_digits [of n] natOfDigits_showNat [of n] c(1)
    by (simp add: atoi_def parseInt10_def Let_def)
qed

lemma trimSpace_showNat [simp]: "trimSpace (showNat n) = showNat n"
  using showNat_digits [of n] unfolding trimSpace_def
  by (intro trimBy_none) (auto simp: list_all_iff isDigitC_def isSpace_def)

lemmas string_defs [go_string_simps] =
  hasPrefix_def hasSuffix_def trimPrefix_def trimSpace_def trimChar_def trimBy_def trimRight_def
  isSpace_def toLower_def toUpper_def toLowerC_def toUpperC_def isUpperC_def isLowerC_def

end
