(* ===== verification/Util_Disk.thy ===== *)
theory Util_Disk
  imports Prelude
begin

text \<open>
  Package \<^verbatim>\<open>util\<close>: byte units and list helpers (\<^verbatim>\<open>pkg/util/common.go\<close>), the parser and checker of
  the persistent partition's size (\<^verbatim>\<open>pkg/util/disk.go\<close>) and the part of \<^verbatim>\<open>GetDiskSizeBytes\<close>
  (\<^verbatim>\<open>pkg/util/os.go\<close>) that reads the output of \<^verbatim>\<open>lsblk\<close>. Sizes are \<^verbatim>\<open>uint64\<close> in the source and
  64-bit words here, so the wrap-around of \<^verbatim>\<open>*\<close>, \<^verbatim>\<open>-\<close> and \<^verbatim>\<open><<\<close> is the machine's.
\<close>

type_synonym u64 = "64 word"

section \<open>Units and list helpers (common.go)\<close>

fun StringSliceContains :: "string list \<Rightarrow> string \<Rightarrow> bool" where
  "StringSliceContains [] s = False"
| "StringSliceContains (target # ts) s = (if target = s then True else StringSliceContains ts s)"

text \<open>\<^verbatim>\<open>DupStrings\<close>: a nil slice stays nil, any other is copied element by element.\<close>

definition DupStrings :: "string list option \<Rightarrow> string list option" where
  "DupStrings src =
     (case src of None \<Rightarrow> None
      | Some xs \<Rightarrow> Some (foldl (\<lambda>s i. s[i := xs ! i]) (replicate (length xs) '''') [0..<length xs]))"

definition ByteToGi :: "u64 \<Rightarrow> u64" where
  "ByteToGi b = drop_bit 30 b"

definition ByteToMi :: "u64 \<Rightarrow> u64" where
  "ByteToMi b = drop_bit 20 b"

definition GiToByte :: "u64 \<Rightarrow> u64" where
  "GiToByte gi = push_bit 30 gi"

definition MiToByte :: "u64 \<Rightarrow> u64" where
  "MiToByte mi = push_bit 20 mi"

lemma StringSliceContains_iff [simp]: "StringSliceContains ts s \<longleftrightarrow> s \<in> set ts"
  by (induction ts) auto

lemma copy_loop:
  "n \<le> length xs \<Longrightarrow>
   foldl (\<lambda>s i. s[i := xs ! i]) (replicate (length xs) y) [0..<n] =
   take n xs @ replicate (length xs - n) y"
proof (induction n)
  case 0
  then show ?case by simp
next
  case (Suc n)
  then have "replicate (length xs - n) y = y # replicate (length xs - Suc n) y"
    by (metis Suc_diff_le diff_Suc_Suc replicate_Suc)
  with Suc show ?case
    by (simp add: list_update_append take_Suc_conv_app_nth)
qed

lemma DupStrings_id [simp]: "DupStrings src = src"
  by (cases src) (simp_all add: DupStrings_def copy_loop)

lemma unat_ByteToGi: "unat (ByteToGi b) = unat b div 2 ^ 30"
  unfolding ByteToGi_def unat_drop_bit_eq by (simp add: drop_bit_eq_div)

lemma unat_ByteToMi: "unat (ByteToMi b) = unat b div 2 ^ 20"
  unfolding ByteToMi_def unat_drop_bit_eq by (simp add: drop_bit_eq_div)

lemma GiToByte_mult: "GiToByte g = g * 2 ^ 30"
  by (simp add: GiToByte_def push_bit_eq_mult)

lemma MiToByte_mult: "MiToByte m = m * 2 ^ 20"
  by (simp add: MiToByte_def push_bit_eq_mult)

lemma unat_mult_small:
  fixes a b :: u64
  assumes "unat a * unat b < 2 ^ 64"
  shows "unat (a * b) = unat a * unat b"
  using assms by (simp add: unat_word_ariths)

lemma unat_GiToByte: "unat g < 2 ^ 34 \<Longrightarrow> unat (GiToByte g) = unat g * 2 ^ 30"
  unfolding GiToByte_mult by (subst unat_mult_small) simp_all

section \<open>Partition sizes (disk.go)\<close>

definition MinDiskSize :: u64 where
  "MinDiskSize = 268435456000" \<comment> \<open>250 << 30\<close>

definition MinPersistentSize :: u64 where
  "MinPersistentSize = 161061273600" \<comment> \<open>150 << 30\<close>

definition MiByteMultiplier :: u64 where
  "MiByteMultiplier = 1048576"

definition GiByteMultiplier :: u64 where
  "GiByteMultiplier = 1073741824"

definition fixedOccupiedSize :: u64 where
  "fixedOccupiedSize = (50 + 15360 + 8192 + 64 + 51200) * MiByteMultiplier"

text \<open>The regular expression \<^verbatim>\<open>^(\d+)(Mi|Gi)$\<close>.\<close>

definition matchSize :: "string \<Rightarrow> bool" where
  "matchSize s =
     (let n = length s - 2 in
      3 \<le> length s \<and> drop n s \<in> {''Mi'', ''Gi''} \<and> list_all isDigitC (take n s))"

definition parsePartitionBytes :: "string \<Rightarrow> u64 result" where
  "parsePartitionBytes partitionSize =
     (if \<not> matchSize partitionSize
      then Inl (Msg ''partition size must end with 'Mi' or 'Gi'. Decimals and negatives are not allowed'')
      else (case parseUint (take (length partitionSize - 2) partitionSize) 10 64 of
              Inl e \<Rightarrow> Inl (Msg (''failed to parse partition size: '' @ partitionSize))
            | Inr sz \<Rightarrow>
                (let unit = drop (length partitionSize - 2) partitionSize in
                 if unit = ''Mi'' then Inr (of_nat sz * MiByteMultiplier)
                 else if unit = ''Gi'' then Inr (of_nat sz * GiByteMultiplier)
                 else Inr 0)))"

definition ParsePartitionSize :: "u64 \<Rightarrow> string \<Rightarrow> bool \<Rightarrow> u64 result" where
  "ParsePartitionSize diskSizeBytes partitionSize skipChecks =
     (if \<not> skipChecks \<and> diskSizeBytes < MinDiskSize
      then Inl (Msg (''installation disk size is too small. Minimum '' @
                     showNat (unat (ByteToGi MinDiskSize)) @ ''Gi is required''))
      else (case parsePartitionBytes partitionSize of
              Inl e \<Rightarrow> Inl e
            | Inr partitionBytes \<Rightarrow>
                if \<not> skipChecks \<and> partitionBytes < MinPersistentSize
                then Inl (Msg (''partition size is too small. Minimum '' @
                               showNat (unat (ByteToGi MinPersistentSize)) @ ''Gi is required''))
                else
                  (let actualDiskSizeBytes = diskSizeBytes - fixedOccupiedSize in
                   if actualDiskSizeBytes < partitionBytes
                   then (if skipChecks then Inr actualDiskSizeBytes
                         else Inl (Msg (''partition size is too large. Maximum '' @
                                        showNat (unat (ByteToGi actualDiskSizeBytes)) @ ''Gi is allowed'')))
                   else Inr partitionBytes)))"

text \<open>
  \<^verbatim>\<open>GetDiskSizeBytes\<close>: \<open>lsblk\<close> is the command's result for a device path, its raw output or
  the error of running it.
\<close>

definition GetDiskSizeBytes :: "(string \<Rightarrow> string result) \<Rightarrow> string \<Rightarrow> u64 result" where
  "GetDiskSizeBytes lsblk devPath =
     (case lsblk devPath of
        Inl e \<Rightarrow> Inl e
      | Inr out \<Rightarrow>
          (case parseUint (trimSpace out) 10 64 of
             Inl e \<Rightarrow> Inl e
           | Inr sizeBytes \<Rightarrow> Inr (of_nat sizeBytes)))"

subsection \<open>Lemmas on sizes\<close>

lemma unat_size_consts [simp]:
  "unat MinDiskSize = 268435456000" "unat MinPersistentSize = 161061273600"
  "unat MiByteMultiplier = 1048576" "unat GiByteMultiplier = 1073741824"
  "unat fixedOccupiedSize = 78502690816"
  by (simp_all add: MinDiskSize_def MinPersistentSize_def MiByteMultiplier_def
      GiByteMultiplier_def fixedOccupiedSize_def)

lemma unat_of_nat_u64: "n < 2 ^ 64 \<Longrightarrow> unat (of_nat n :: u64) = n"
  by (simp add: unat_of_nat)

lemma matchSize_unit:
  assumes "ds \<noteq> []" "list_all isDigitC ds" "u \<in> {''Mi'', ''Gi''}"
  shows "matchSize (ds @ u)" "take (length (ds @ u) - 2) (ds @ u) = ds"
    "drop (length (ds @ u) - 2) (ds @ u) = u"
  using assms by (cases ds; auto simp: matchSize_def)+

lemma parseUint_showNat_range:
  "2 ^ bits \<le> n \<Longrightarrow> parseUint (showNat n) 10 bits = Inl (NumRange ''ParseUint'' (showNat n))"
  using showNat_digits [of n] digit_lt_10
  by (auto simp: parseUint_def list_all_iff)

text \<open>The parser on a decimal numeral followed by its unit.\<close>

lemma parsePartitionBytes_Gi:
  assumes "n < 2 ^ 64"
  shows "parsePartitionBytes (showNat n @ ''Gi'') = Inr (of_nat n * GiByteMultiplier)"
  using assms matchSize_unit [of "showNat n" "''Gi''"]
  by (simp add: parsePartitionBytes_def showNat_digits parseUint_showNat)

lemma parsePartitionBytes_Mi:
  assumes "n < 2 ^ 64"
  shows "parsePartitionBytes (showNat n @ ''Mi'') = Inr (of_nat n * MiByteMultiplier)"
  using assms matchSize_unit [of "showNat n" "''Mi''"]
  by (simp add: parsePartitionBytes_def showNat_digits parseUint_showNat)

lemma unat_scaled:
  fixes k :: u64
  assumes "n * unat k < 2 ^ 64" "0 < unat k"
  shows "unat (of_nat n * k) = n * unat k"
proof -
  have "n * 1 \<le> n * unat k" using assms(2) by (intro mult_le_mono) auto
  then have n: "n < 2 ^ 64" using assms(1) by linarith
  show ?thesis using assms(1) n by (simp add: unat_mult_small unat_of_nat_u64)
qed

lemma unat_actual:
  "unat fixedOccupiedSize \<le> unat d \<Longrightarrow> unat (d - fixedOccupiedSize) = unat d - unat fixedOccupiedSize"
  by (simp add: unat_sub word_le_nat_alt)

text \<open>With the checks on, what the parser accepts leaves room for the fixed partitions.\<close>

lemma ParsePartitionSize_checked:
  "ParsePartitionSize d s False = Inr p \<longleftrightarrow>
     parsePartitionBytes s = Inr p \<and> unat MinDiskSize \<le> unat d \<and>
     unat MinPersistentSize \<le> unat p \<and> unat p + unat fixedOccupiedSize \<le> unat d"
proof (cases "unat MinDiskSize \<le> unat d")
  case False
  then show ?thesis
    by (simp add: ParsePartitionSize_def word_less_nat_alt)
next
  case True
  then have "unat (d - fixedOccupiedSize) = unat d - unat fixedOccupiedSize"
    by (intro unat_actual) simp
  with True show ?thesis
    by (cases "parsePartitionBytes s")
      (auto simp: ParsePartitionSize_def Let_def word_less_nat_alt)
qed

lemma ParsePartitionSize_skip:
  "ParsePartitionSize d s True =
     (case parsePartitionBytes s of Inl e \<Rightarrow> Inl e
      | Inr b \<Rightarrow> Inr (min b (d - fixedOccupiedSize)))"
  by (auto simp: ParsePartitionSize_def Let_def min_def split: sum.splits)

end
