(* ===== verification/Go_Net.thy ===== *)
theory Go_Net
  imports Prelude
begin

text \<open>
  The parts of Go's \<^verbatim>\<open>net\<close> and \<^verbatim>\<open>net/netip\<close> packages that the installer calls: textual IP addresses
  (version 4 and 6), CIDR notation, IPv4 masks and hardware addresses. Octets are naturals
  below 256; an address of \<^verbatim>\<open>net.IP\<close> has 16 of them, with the IPv4 ones in the mapped form
  \<^verbatim>\<open>::ffff:a.b.c.d\<close>.
\<close>

type_synonym octets = "nat list"

definition wfOctets :: "octets \<Rightarrow> bool" where
  "wfOctets xs = list_all (\<lambda>v. v < 256) xs"

section \<open>Hexadecimal\<close>

definition hexDigit :: "nat \<Rightarrow> char" where
  "hexDigit n = (if n < 10 then char_of (48 + n) else char_of (87 + n))"

definition hexByte :: "nat \<Rightarrow> string" where
  "hexByte v = [hexDigit (v div 16), hexDigit (v mod 16)]"

definition isHexC :: "char \<Rightarrow> bool" where
  "isHexC c = (isDigitC c \<or> (97 \<le> (of_char c :: nat) \<and> (of_char c :: nat) \<le> 102)
                 \<or> (65 \<le> (of_char c :: nat) \<and> (of_char c :: nat) \<le> 70))"

definition hexVal :: "char \<Rightarrow> nat" where
  "hexVal c = (if isDigitC c then of_char c - 48
               else if 97 \<le> (of_char c :: nat) then of_char c - 87 else of_char c - 55)"

definition natOfHex :: "string \<Rightarrow> nat" where
  "natOfHex s = foldl (\<lambda>n c. n * 16 + hexVal c) 0 s"

section \<open>IPv4 and IPv6 addresses\<close>

text \<open>One field of a dotted address: digits, no leading zero, at most 255.\<close>

definition v4Field :: "string \<Rightarrow> nat option" where
  "v4Field f =
     (if f = [] \<or> \<not> list_all isDigitC f \<or> (1 < length f \<and> hd f = CHR ''0'') \<or> 255 < natOfDigits 10 f
      then None else Some (natOfDigits 10 f))"

fun optAll :: "'a option list \<Rightarrow> 'a list option" where
  "optAll [] = Some []"
| "optAll (None # xs) = None"
| "optAll (Some x # xs) = map_option ((#) x) (optAll xs)"

definition parseIPv4 :: "string \<Rightarrow> octets option" where
  "parseIPv4 s =
     (let fs = splitOn (CHR ''.'') s in
      if length fs \<noteq> 4 then None else optAll (map v4Field fs))"

text \<open>
  The loop of \<^verbatim>\<open>netip.parseIPv6\<close> over groups of hexadecimal digits; the counter is the number of
  16-bit groups that still fit, \<open>ell\<close> the position of the ellipsis, the last component of the
  result the text left over.
\<close>

fun v6loop :: "nat \<Rightarrow> string \<Rightarrow> octets \<Rightarrow> nat option \<Rightarrow> (octets \<times> nat option \<times> string) option" where
  "v6loop 0 s acc ell = Some (acc, ell, s)"
| "v6loop (Suc k) s acc ell =
     (let hs = takeWhile isHexC s; rest = dropWhile isHexC s; v = natOfHex hs;
          acc' = acc @ [v div 256, v mod 256]
      in if hs = [] \<or> 4 < length hs then None
         else (case rest of
           [] \<Rightarrow> Some (acc', ell, [])
         | c # r \<Rightarrow>
             if c = CHR ''.''
             then (if (ell = None \<and> length acc \<noteq> 12) \<or> 16 < length acc + 4 then None
                   else map_option (\<lambda>fs. (acc @ fs, ell, [])) (parseIPv4 s))
             else if c \<noteq> CHR '':'' then None
             else (case r of
               [] \<Rightarrow> None
             | d # r' \<Rightarrow>
                 if d = CHR '':''
                 then (if ell \<noteq> None then None
                       else if r' = [] then Some (acc', Some (length acc'), [])
                       else v6loop k r' acc' (Some (length acc')))
                 else v6loop k r acc' ell)))"

definition v6expand :: "octets \<Rightarrow> nat option \<Rightarrow> string \<Rightarrow> octets option" where
  "v6expand acc ell rest =
     (if rest \<noteq> [] then None
      else if length acc < 16
      then (case ell of None \<Rightarrow> None
            | Some e \<Rightarrow> Some (take e acc @ replicate (16 - length acc) 0 @ drop e acc))
      else if ell \<noteq> None then None else Some acc)"

definition parseIPv6 :: "string \<Rightarrow> octets option" where
  "parseIPv6 s =
     (if hasPrefix s ''::''
      then (if length s = 2 then Some (replicate 16 0)
            else (case v6loop 8 (drop 2 s) [] (Some 0) of None \<Rightarrow> None
                  | Some (acc, ell, rest) \<Rightarrow> v6expand acc ell rest))
      else (case v6loop 8 s [] None of None \<Rightarrow> None
            | Some (acc, ell, rest) \<Rightarrow> v6expand acc ell rest))"

text \<open>
  \<^verbatim>\<open>netip.ParseAddr\<close>: the first of the characters dot, colon and percent decides the family. A
  zone (\<^verbatim>\<open>%eth0\<close>) belongs to IPv6 only and must not be empty.
\<close>

datatype addr = V4 octets | V6 octets string

definition ParseAddr :: "string \<Rightarrow> addr option" where
  "ParseAddr s =
     (case dropWhile (\<lambda>c. c \<notin> {CHR ''.'', CHR '':'', CHR ''%''}) s of
        [] \<Rightarrow> None
      | c # _ \<Rightarrow>
          if c = CHR ''.'' then map_option V4 (parseIPv4 s)
          else if c = CHR '':''
          then (case splitN2 (CHR ''%'') s of
                  (a, None) \<Rightarrow> map_option (\<lambda>os. V6 os []) (parseIPv6 a)
                | (a, Some zone) \<Rightarrow>
                    if zone = [] then None else map_option (\<lambda>os. V6 os zone) (parseIPv6 a))
          else None)"

definition v4in6 :: "octets \<Rightarrow> octets" where
  "v4in6 os = replicate 10 0 @ [255, 255] @ os"

definition ParseIP :: "string \<Rightarrow> octets option" where
  "ParseIP s =
     (case ParseAddr s of
        Some (V4 os) \<Rightarrow> Some (v4in6 os)
      | Some (V6 os zone) \<Rightarrow> if zone = [] then Some os else None
      | None \<Rightarrow> None)"

definition To4 :: "octets \<Rightarrow> octets option" where
  "To4 ip =
     (if length ip = 4 then Some ip
      else if length ip = 16 \<and> take 12 ip = replicate 10 0 @ [255, 255] then Some (drop 12 ip)
      else None)"

definition dotted :: "octets \<Rightarrow> string" where
  "dotted os = strJoin ''.'' (map showNat os)"

text \<open>The text form of an IPv6 address: the first longest run of two or more zero groups is \<^verbatim>\<open>::\<close>.\<close>

fun groups16 :: "octets \<Rightarrow> nat list" where
  "groups16 (a # b # os) = (a * 256 + b) # groups16 os"
| "groups16 _ = []"

fun showHex :: "nat \<Rightarrow> string" where
  "showHex n = (if n < 16 then [hexDigit n] else showHex (n div 16) @ [hexDigit (n mod 16)])"

declare showHex.simps [simp del]

fun bestRun :: "nat \<Rightarrow> nat list \<Rightarrow> nat \<times> nat" where
  "bestRun i [] = (0, 0)"
| "bestRun i (g # gs) =
     (let n = length (takeWhile (\<lambda>x. x = 0) (g # gs)); (j, m) = bestRun (Suc i) gs
      in if 2 \<le> n \<and> m \<le> n then (i, n) else (j, m))"

definition showV6 :: "octets \<Rightarrow> string" where
  "showV6 os =
     (let gs = groups16 os; (st, n) = bestRun 0 gs in
      if n = 0 then strJoin '':'' (map showHex gs)
      else strJoin '':'' (map showHex (take st gs)) @ ''::'' @
           strJoin '':'' (map showHex (drop (st + n) gs)))"

definition ipString :: "octets \<Rightarrow> string" where
  "ipString ip = (case To4 ip of Some v4 \<Rightarrow> dotted v4 | None \<Rightarrow> showV6 ip)"

section \<open>Masks and CIDR notation\<close>

text \<open>\<^verbatim>\<open>for v&0x80 != 0 { n++; v <<= 1 }\<close> on a byte: the leading ones and what is left.\<close>

fun leadingOnes :: "nat \<Rightarrow> nat \<times> nat" where
  "leadingOnes v =
     (if 128 \<le> v \<and> v < 256 then (case leadingOnes (2 * v - 256) of (n, r) \<Rightarrow> (Suc n, r)) else (0, v))"

declare leadingOnes.simps [simp del]

fun simpleMaskLength :: "octets \<Rightarrow> nat option" where
  "simpleMaskLength [] = Some 0"
| "simpleMaskLength (v # vs) =
     (if v = 255 then map_option ((+) 8) (simpleMaskLength vs)
      else (case leadingOnes v of (n, r) \<Rightarrow>
              if r \<noteq> 0 \<or> \<not> list_all (\<lambda>x. x = 0) vs then None else Some n))"

text \<open>\<^verbatim>\<open>IPMask.Size\<close>: \<^verbatim>\<open>(0, 0)\<close> for a mask that is not ones followed by zeros.\<close>

definition maskSize :: "octets \<Rightarrow> nat \<times> nat" where
  "maskSize m = (case simpleMaskLength m of None \<Rightarrow> (0, 0) | Some n \<Rightarrow> (n, length m * 8))"

fun cidrOctets :: "nat \<Rightarrow> nat \<Rightarrow> octets" where
  "cidrOctets 0 n = []"
| "cidrOctets (Suc l) n =
     (if 8 \<le> n then 255 # cidrOctets l (n - 8) else (256 - 2 ^ (8 - n)) # cidrOctets l 0)"

definition CIDRMask :: "nat \<Rightarrow> nat \<Rightarrow> octets option" where
  "CIDRMask ones bits =
     (if (bits = 32 \<or> bits = 128) \<and> ones \<le> bits then Some (cidrOctets (bits div 8) ones) else None)"

definition maskString :: "octets \<Rightarrow> string" where
  "maskString m = (if m = [] then ''<nil>'' else concat (map hexByte m))"

text \<open>\<^verbatim>\<open>net.ParseCIDR\<close>: the address (16 octets) and the mask of its network.\<close>

definition ParseCIDR :: "string \<Rightarrow> (octets \<times> octets) option" where
  "ParseCIDR s =
     (case splitN2 (CHR ''/'') s of
        (a, None) \<Rightarrow> None
      | (a, Some m) \<Rightarrow>
          (if m = [] \<or> \<not> list_all isDigitC m \<or> 16777215 \<le> natOfDigits 10 m then None
           else (case ParseAddr a of
             Some (V4 os) \<Rightarrow>
               map_option (\<lambda>mask. (v4in6 os, mask)) (CIDRMask (natOfDigits 10 m) 32)
           | Some (V6 os zone) \<Rightarrow>
               if zone = [] then map_option (\<lambda>mask. (os, mask)) (CIDRMask (natOfDigits 10 m) 128) else None
           | None \<Rightarrow> None)))"

section \<open>Hardware addresses\<close>

text \<open>\<^verbatim>\<open>xtoi2(s, e)\<close>: two hexadecimal digits, then the end of the text or the separator.\<close>

definition xtoi2 :: "string \<Rightarrow> char option \<Rightarrow> nat option" where
  "xtoi2 s e =
     (if 2 < length s \<and> Some (s ! 2) \<noteq> e then None
      else if length (take 2 s) = 2 \<and> list_all isHexC (take 2 s) then Some (natOfHex (take 2 s)) else None)"

definition ParseMAC :: "string \<Rightarrow> octets option" where
  "ParseMAC s =
     (if length s < 14 then None
      else if s ! 2 = CHR '':'' \<or> s ! 2 = CHR ''-''
      then (let n = (length s + 1) div 3 in
            if (length s + 1) mod 3 \<noteq> 0 \<or> n \<notin> {6, 8, 20} then None
            else optAll (map (\<lambda>i. xtoi2 (drop (3 * i) s) (Some (s ! 2))) [0..<n]))
      else if s ! 4 = CHR ''.''
      then (let n = 2 * (length s + 1) div 5 in
            if (length s + 1) mod 5 \<noteq> 0 \<or> n \<notin> {6, 8, 20} then None
            else optAll (concat (map (\<lambda>i. [xtoi2 (take 2 (drop (5 * i) s)) None,
                                           xtoi2 (drop (5 * i + 2) s) (Some (s ! 4))]) [0..<n div 2])))
      else None)"

definition macString :: "octets \<Rightarrow> string" where
  "macString hw = strJoin '':'' (map hexByte hw)"

section \<open>Facts about addresses and masks\<close>

lemma optAll_map_Some [simp]: "optAll (map Some xs) = Some xs"
  by (induction xs) simp_all

lemma optAll_map_eq: "(\<And>x. x \<in> set xs \<Longrightarrow> f x = Some (g x)) \<Longrightarrow> optAll (map f xs) = Some (map g xs)"
  by (induction xs) simp_all

lemma optAll_Some_iff: "optAll xs = Some ys \<longleftrightarrow> xs = map Some ys"
proof (induction xs arbitrary: ys)
  case Nil
  then show ?case by auto
next
  case (Cons x xs)
  then show ?case by (cases x; cases ys) auto
qed

lemma showNat_small: "n < 10 \<Longrightarrow> showNat n = [char_of (48 + n)]"
  by (subst showNat.simps) simp

lemma showNat_big: "10 \<le> n \<Longrightarrow> showNat n = showNat (n div 10) @ [char_of (48 + n mod 10)]"
  by (subst showNat.simps) simp

lemma showNat_no_leading_zero: "hd (showNat n) = CHR ''0'' \<longleftrightarrow> n = 0"
proof (induction n rule: less_induct)
  case (less n)
  show ?case
  proof (cases "n < 10")
    case True
    have "(char_of (48 + n) = CHR ''0'') = (48 + n = 48)"
    proof
      assume "char_of (48 + n) = CHR ''0''"
      then have "(of_char (char_of (48 + n) :: char) :: nat) = of_char (CHR ''0'')" by simp
      then show "48 + n = 48" using True by simp
    next
      assume "48 + n = 48"
      then show "char_of (48 + n) = CHR ''0''" by (simp add: char_of_def bit_0)
    qed
    with True show ?thesis by (simp add: showNat_small)
  next
    case False
    with less [of "n div 10"] show ?thesis by (simp add: showNat_big)
  qed
qed

lemma showNat_dot: "CHR ''.'' \<notin> set (showNat n)"
proof
  assume "CHR ''.'' \<in> set (showNat n)"
  then have "isDigitC (CHR ''.'')"
    using showNat_digits [of n] by (simp add: list_all_iff)
  then show False by (simp add: isDigitC_def)
qed

lemma length_showNat_gt_1: "1 < length (showNat n) \<longleftrightarrow> 10 \<le> n"
proof (cases "n < 10")
  case True
  then show ?thesis by (simp add: showNat_small)
next
  case False
  then have "0 < length (showNat (n div 10))" by simp
  with False show ?thesis by (simp add: showNat_big)
qed

lemma v4Field_showNat: "v < 256 \<Longrightarrow> v4Field (showNat v) = Some v"
  using showNat_digits [of v] showNat_no_leading_zero [of v] length_showNat_gt_1 [of v]
  by (auto simp: v4Field_def)

text \<open>Printing four octets and parsing them back.\<close>

lemma parseIPv4_dotted:
  assumes "length os = 4" "wfOctets os"
  shows "parseIPv4 (dotted os) = Some os"
proof -
  have ne: "map showNat os \<noteq> []" using assms(1) by auto
  have "splitOn (CHR ''.'') (dotted os) = map showNat os"
    unfolding dotted_def by (rule splitOn_strJoin [OF ne]) (simp add: showNat_dot)
  moreover have "optAll (map v4Field (map showNat os)) = Some os"
    using assms(2) optAll_map_eq [of os "v4Field \<circ> showNat" id]
    by (simp add: wfOctets_def list_all_iff v4Field_showNat)
  ultimately show ?thesis using assms(1) by (simp add: parseIPv4_def)
qed

lemma dropWhile_digits:
  "list_all isDigitC ds \<Longrightarrow>
   dropWhile (\<lambda>c. c \<notin> {CHR ''.'', CHR '':'', CHR ''%''}) (ds @ CHR ''.'' # t) = CHR ''.'' # t"
  by (induction ds) (auto simp: isDigitC_def)

lemma ParseIP_dotted:
  assumes "length os = 4" "wfOctets os"
  shows "ParseIP (dotted os) = Some (v4in6 os)"
proof -
  obtain a b os' where os: "os = a # b # os'"
    using assms(1) by (cases os; cases "tl os") auto
  have "dotted os = showNat a @ CHR ''.'' # strJoin ''.'' (map showNat (b # os'))"
    by (simp add: dotted_def os)
  then have "dropWhile (\<lambda>c. c \<notin> {CHR ''.'', CHR '':'', CHR ''%''}) (dotted os) =
      CHR ''.'' # strJoin ''.'' (map showNat (b # os'))"
    by (simp only: dropWhile_digits [OF showNat_digits])
  then show ?thesis
    using parseIPv4_dotted [OF assms] by (simp add: ParseIP_def ParseAddr_def)
qed

lemma To4_v4in6 [simp]: "length os = 4 \<Longrightarrow> To4 (v4in6 os) = Some os"
  by (simp add: To4_def v4in6_def)

text \<open>The 33 masks of IPv4: \<^verbatim>\<open>Size\<close> inverts \<^verbatim>\<open>CIDRMask\<close>.\<close>

lemma nat_le_32_cases: "n \<le> (32::nat) \<Longrightarrow> n \<in> set [0..<33]"
  by simp

lemma maskSize_cidrOctets_all:
  "list_all (\<lambda>n. maskSize (cidrOctets 4 n) = (n, 32)) [0..<33]"
  by code_simp

lemma maskSize_cidrOctets: "n \<le> 32 \<Longrightarrow> maskSize (cidrOctets 4 n) = (n, 32)"
  using maskSize_cidrOctets_all nat_le_32_cases [of n] by (simp add: list_all_iff)

lemma cidrOctets_length [simp]: "length (cidrOctets l n) = l"
  by (induction l arbitrary: n) simp_all

lemma cidrOctets_wf [simp]: "wfOctets (cidrOctets l n)"
  by (induction l arbitrary: n) (simp_all add: wfOctets_def)

lemma simpleMaskLength_le: "simpleMaskLength m = Some n \<Longrightarrow> wfOctets m \<Longrightarrow> n \<le> 8 * length m"
proof (induction m arbitrary: n)
  case Nil
  then show ?case by simp
next
  case (Cons v vs)
  have ones: "fst (leadingOnes v) \<le> 8"
  proof -
    have "list_all (\<lambda>v. fst (leadingOnes v) \<le> 8) [0..<256]" by code_simp
    moreover have "v \<in> set [0..<256]" using Cons.prems(2) by (simp add: wfOctets_def)
    ultimately show ?thesis by (simp only: list_all_iff)
  qed
  show ?case
  proof (cases "v = 255")
    case True
    with Cons.prems obtain k where "simpleMaskLength vs = Some k" "n = 8 + k" by auto
    with Cons.IH [of k] Cons.prems(2) show ?thesis by (simp add: wfOctets_def)
  next
    case False
    with Cons.prems ones show ?thesis by (auto split: prod.splits if_splits)
  qed
qed

text \<open>Hexadecimal text of octets is injective.\<close>

lemma of_char_hexDigit: "n < 16 \<Longrightarrow> (of_char (hexDigit n) :: nat) = (if n < 10 then 48 + n else 87 + n)"
  by (simp add: hexDigit_def of_char_of)

lemma hexDigit_inj:
  assumes "a < 16" "b < 16" "hexDigit a = hexDigit b"
  shows "a = b"
proof -
  have "(of_char (hexDigit a) :: nat) = of_char (hexDigit b)" using assms(3) by simp
  then show ?thesis using assms(1,2) by (simp add: of_char_hexDigit split: if_splits)
qed

lemma hexByte_inj:
  assumes "a < 256" "b < 256" "hexByte a = hexByte b"
  shows "a = b"
proof -
  have "a div 16 = b div 16" "a mod 16 = b mod 16"
    using assms by (auto simp: hexByte_def intro: hexDigit_inj)
  then show ?thesis by (metis div_mult_mod_eq)
qed

lemma length_hexByte [simp]: "length (hexByte v) = 2"
  by (simp add: hexByte_def)

lemma concat_hexByte_inj:
  "wfOctets xs \<Longrightarrow> wfOctets ys \<Longrightarrow> concat (map hexByte xs) = concat (map hexByte ys) \<Longrightarrow> xs = ys"
proof (induction xs arbitrary: ys)
  case Nil
  then show ?case by (cases ys) (auto simp: hexByte_def)
next
  case (Cons x xs)
  then show ?case
    by (cases ys) (auto simp: wfOctets_def hexByte_def intro: hexByte_inj)
qed

end
