(* ===== verification/K8s_Validation.thy ===== *)
theory K8s_Validation
  imports Prelude
begin

text \<open>
  The three validators of \<^verbatim>\<open>k8s.io/apimachinery/pkg/util/validation\<close> (vendored in the repository)
  that the installer calls: RFC 1123 subdomains, qualified names and label values. Each returns
  the list of the violations, empty for a valid text, as the source does.
\<close>

section \<open>Character classes and regular expressions\<close>

definition isLowerAlnum :: "char \<Rightarrow> bool" where
  "isLowerAlnum c = (isLowerC c \<or> isDigitC c)"

definition isAlnum :: "char \<Rightarrow> bool" where
  "isAlnum c = (isLowerC c \<or> isUpperC c \<or> isDigitC c)"

text \<open>The regular expression \<^verbatim>\<open>[a-z0-9]([-a-z0-9]*[a-z0-9])?\<close>, anchored.\<close>

definition dns1123Label :: "string \<Rightarrow> bool" where
  "dns1123Label s =
     (s \<noteq> [] \<and> isLowerAlnum (hd s) \<and> isLowerAlnum (last s) \<and>
      list_all (\<lambda>c. isLowerAlnum c \<or> c = CHR ''-'') s)"

text \<open>Labels separated by dots.\<close>

definition dns1123Subdomain :: "string \<Rightarrow> bool" where
  "dns1123Subdomain s = list_all dns1123Label (splitOn (CHR ''.'') s)"

text \<open>The regular expression \<^verbatim>\<open>([A-Za-z0-9][-A-Za-z0-9_.]*)?[A-Za-z0-9]\<close>, anchored.\<close>

definition qualifiedName :: "string \<Rightarrow> bool" where
  "qualifiedName s =
     (s \<noteq> [] \<and> isAlnum (hd s) \<and> isAlnum (last s) \<and>
      list_all (\<lambda>c. isAlnum c \<or> c \<in> {CHR ''-'', CHR ''_'', CHR ''.''}) s)"

section \<open>Messages\<close>

definition MaxLenError :: "nat \<Rightarrow> string" where
  "MaxLenError n = ''must be no more than '' @ showNat n @ '' characters''"

definition EmptyError :: string where
  "EmptyError = ''must be non-empty''"

definition RegexError :: "string \<Rightarrow> string \<Rightarrow> string list \<Rightarrow> string" where
  "RegexError msg fmt examples =
     (if examples = [] then msg @ '' (regex used for validation is '' @ [CHR 0x27] @ fmt @ [CHR 0x27] @ '')''
      else msg @ '' (e.g. '' @ strJoin '' or '' (map (\<lambda>e. [CHR 0x27] @ e @ [CHR 0x27] @ '', '') examples) @
           ''regex used for validation is '' @ [CHR 0x27] @ fmt @ [CHR 0x27] @ '')'')"

definition dns1123LabelFmt :: string where
  "dns1123LabelFmt = ''[a-z0-9]([-a-z0-9]*[a-z0-9])?''"

definition dns1123SubdomainFmt :: string where
  "dns1123SubdomainFmt = dns1123LabelFmt @ ''('' @ [CHR 0x5C] @ ''.'' @ dns1123LabelFmt @ '')*''"

definition qualifiedNameFmt :: string where
  "qualifiedNameFmt = ''([A-Za-z0-9][-A-Za-z0-9_.]*)?[A-Za-z0-9]''"

definition qualifiedNameErrMsg :: string where
  "qualifiedNameErrMsg = ''must consist of alphanumeric characters, '' @ [CHR 0x27] @ ''-'' @ [CHR 0x27] @
     '', '' @ [CHR 0x27] @ ''_'' @ [CHR 0x27] @ '' or '' @ [CHR 0x27] @ ''.'' @ [CHR 0x27] @
     '', and must start and end with an alphanumeric character''"

definition dns1123SubdomainErrorMsg :: string where
  "dns1123SubdomainErrorMsg = ''a lowercase RFC 1123 subdomain must consist of lower case alphanumeric characters, '' @
     [CHR 0x27] @ ''-'' @ [CHR 0x27] @ '' or '' @ [CHR 0x27] @ ''.'' @ [CHR 0x27] @
     '', and must start and end with an alphanumeric character''"

section \<open>Validators\<close>

definition IsDNS1123Subdomain :: "string \<Rightarrow> string list" where
  "IsDNS1123Subdomain value =
     (if 253 < length value then [MaxLenError 253] else []) @
     (if dns1123Subdomain value then []
      else [RegexError dns1123SubdomainErrorMsg dns1123SubdomainFmt [''example.com'']])"

definition IsQualifiedName :: "string \<Rightarrow> string list" where
  "IsQualifiedName value =
     (let nameErrs = (\<lambda>name.
            (if name = [] then [''name part '' @ EmptyError]
             else if 63 < length name then [''name part '' @ MaxLenError 63] else []) @
            (if qualifiedName name then []
             else [''name part '' @ RegexError qualifiedNameErrMsg qualifiedNameFmt
                     [''MyName'', ''my.name'', ''123-abc'']]))
      in (case splitOn (CHR ''/'') value of
            [name] \<Rightarrow> nameErrs name
          | [prefix, name] \<Rightarrow>
              (if prefix = [] then [''prefix part '' @ EmptyError]
               else map (\<lambda>m. ''prefix part '' @ m) (IsDNS1123Subdomain prefix)) @ nameErrs name
          | _ \<Rightarrow> [''a qualified name '' @
                  RegexError qualifiedNameErrMsg qualifiedNameFmt [''MyName'', ''my.name'', ''123-abc''] @
                  '' with an optional DNS subdomain prefix and '' @ [CHR 0x27] @ ''/'' @ [CHR 0x27] @ '' (e.g. '' @
                  [CHR 0x27] @ ''example.com/MyName'' @ [CHR 0x27] @ '')'']))"

definition IsValidLabelValue :: "string \<Rightarrow> string list" where
  "IsValidLabelValue value =
     (if 63 < length value then [MaxLenError 63] else []) @
     (if value = [] \<or> qualifiedName value then []
      else [RegexError (''a valid label must be an empty string or consist of alphanumeric characters, '' @
              drop (length ''must consist of alphanumeric characters, '') qualifiedNameErrMsg)
              (''('' @ qualifiedNameFmt @ '')?'') [''MyValue'', ''my_value'', ''12345'']])"

lemma IsDNS1123Subdomain_Nil:
  "IsDNS1123Subdomain s = [] \<longleftrightarrow> length s \<le> 253 \<and> dns1123Subdomain s"
  by (auto simp: IsDNS1123Subdomain_def)

lemma dns1123_nonempty: "dns1123Subdomain s \<Longrightarrow> s \<noteq> []"
  by (auto simp: dns1123Subdomain_def dns1123Label_def)

lemma IsValidLabelValue_Nil:
  "IsValidLabelValue v = [] \<longleftrightarrow> length v \<le> 63 \<and> (v = [] \<or> qualifiedName v)"
  by (auto simp: IsValidLabelValue_def)

lemma IsQualifiedName_Nil_no_comma:
  assumes "IsQualifiedName s = []"
  shows "CHR '','' \<notin> set s \<and> CHR ''='' \<notin> set s"
proof -
  have qn: "qualifiedName n \<Longrightarrow> CHR '','' \<notin> set n \<and> CHR ''='' \<notin> set n" for n
    by (auto simp: qualifiedName_def list_all_iff isAlnum_def isLowerC_def isUpperC_def isDigitC_def)
  have lb: "dns1123Label n \<Longrightarrow> CHR '','' \<notin> set n \<and> CHR ''='' \<notin> set n" for n
    by (auto simp: dns1123Label_def list_all_iff isLowerAlnum_def isLowerC_def isUpperC_def isDigitC_def)
  have join: "set (strJoin [c] ws) \<subseteq> insert c (\<Union> (set ` set ws))" for c and ws :: "string list"
    by (induction ws rule: induct_list012) auto
  have dns: "CHR '','' \<notin> set p \<and> CHR ''='' \<notin> set p" if "dns1123Subdomain p" for p
    using that lb join [of "CHR ''.''" "splitOn (CHR ''.'') p"]
    unfolding strJoin_splitOn by (auto simp: dns1123Subdomain_def list_all_iff)
  have parts: "\<forall>w \<in> set (splitOn (CHR ''/'') s). CHR '','' \<notin> set w \<and> CHR ''='' \<notin> set w"
    using assms qn dns
    by (auto simp: IsQualifiedName_def Let_def IsDNS1123Subdomain_Nil split: list.splits if_splits)
  show ?thesis
    using parts join [of "CHR ''/''" "splitOn (CHR ''/'') s"]
    unfolding strJoin_splitOn by auto
qed

end
