(* ===== verification/Config.thy ===== *)
theory Config
  imports Util_Disk Go_Net K8s_Validation
begin

text \<open>
  The configuration of the installer, \<^verbatim>\<open>pkg/config/config.go\<close> and \<^verbatim>\<open>constants.go\<close>: the records, the
  merge of two configurations (\<^verbatim>\<open>mergo.Merge\<close> with \<^verbatim>\<open>WithAppendSlice\<close>, vendored), the masked copy
  that is logged, the kubelet arguments, the data partition predicates and the look-up of
  network interfaces by name or hardware address.

  A struct is a record and an embedded struct a field. A Go map is an association list
  (see \<open>Prelude\<close>); only \<^verbatim>\<open>BondOptions\<close> tells nil from empty, so only that one is an option. A
  \<^verbatim>\<open>*uint32\<close> is an option.
\<close>

type_synonym u32 = "32 word"

section \<open>Constants\<close>

abbreviation "ModeCreate \<equiv> ''create''"
abbreviation "ModeJoin \<equiv> ''join''"
abbreviation "ModeUpgrade \<equiv> ''upgrade''"
abbreviation "ModeInstall \<equiv> ''install''"
abbreviation "RoleDefault \<equiv> ''default''"
abbreviation "RoleWitness \<equiv> ''witness''"
abbreviation "RoleMgmt \<equiv> ''management''"
abbreviation "RoleWorker \<equiv> ''worker''"
abbreviation "NetworkMethodDHCP \<equiv> ''dhcp''"
abbreviation "NetworkMethodStatic \<equiv> ''static''"
abbreviation "NetworkMethodNone \<equiv> ''none''"
abbreviation "MgmtInterfaceName \<equiv> ''mgmt-br''"
abbreviation "MgmtBondInterfaceName \<equiv> ''mgmt-bo''"
abbreviation "BondModeActiveBackup \<equiv> ''active-backup''"
abbreviation "SchemeVersion \<equiv> (1 :: u32)"
abbreviation "SanitizeMask \<equiv> ''***''"
abbreviation "MaxPods \<equiv> (200 :: nat)"
abbreviation "SingleDiskMinSizeGiB \<equiv> (250 :: u64)"
abbreviation "MultipleDiskMinSizeGiB \<equiv> (180 :: u64)"
abbreviation "HardMinDataDiskSizeGiB \<equiv> (50 :: u64)"
abbreviation "PersistentSizeMinGiB \<equiv> (150 :: nat)"

definition GetSystemSettingsAllowList :: "string list" where
  "GetSystemSettingsAllowList =
     [''additional-ca'', ''api-ui-version'', ''cluster-registration-url'', ''server-version'',
      ''ui-index'', ''ui-path'', ''ui-source'', ''ui-plugin-index'', ''volume-snapshot-class'',
      ''backup-target'', ''upgradable-versions'', ''upgrade-checker-enabled'',
      ''upgrade-checker-url'', ''release-download-url'', ''log-level'', ''ssl-certificates'',
      ''ssl-parameters'', ''support-bundle-image'', ''support-bundle-namespaces'',
      ''support-bundle-timeout'', ''support-bundle-expiration'',
      ''support-bundle-node-collection-timeout'', ''default-storage-class'', ''http-proxy'',
      ''vm-force-reset-policy'', ''overcommit-config'', ''vip-pools'',
      ''auto-disk-provision-paths'', ''csi-driver-config'', ''containerd-registry'',
      ''storage-network'', ''default-vm-termination-grace-period-seconds'',
      ''auto-rotate-rke2-certs'', ''kubeconfig-default-token-ttl-minutes'',
      ''harvester-csi-ccm-versions'', ''ntp-servers'']"

section \<open>Records\<close>

record NetworkInterface =
  ifName :: string
  ifHwAddr :: string

record Network =
  nwInterfaces :: "NetworkInterface list"
  nwMethod :: string
  nwIP :: string
  nwSubnetMask :: string
  nwGateway :: string
  nwDefaultRoute :: bool
  nwBondOptions :: "string gomap option"
  nwMTU :: int
  nwVlanID :: int

record HTTPBasicAuth =
  baUser :: string
  baPassword :: string

record Webhook =
  whEvent :: string
  whMethod :: string
  whHeaders :: "(string list option) gomap option"
  whURL :: string
  whPayload :: string
  whInsecure :: bool
  whBasicAuth :: HTTPBasicAuth

record Addon =
  adEnabled :: bool
  adValuesContent :: string

record LHDefaultSettings =
  lhGuaranteedEngineManagerCPU :: "u32 option"
  lhGuaranteedReplicaManagerCPU :: "u32 option"
  lhGuaranteedInstanceManagerCPU :: "u32 option"
  lhStorageReservedPercentageForDefaultDisk :: "u32 option"

record HarvesterChartValues =
  hcReplicaCount :: u32
  hcLonghorn :: LHDefaultSettings
  hcEnableGoCoverDir :: bool

record Install =
  inAutomatic :: bool
  inSkipChecks :: bool
  inMode :: string
  inManagementInterface :: Network
  inVip :: string
  inVipHwAddr :: string
  inVipMode :: string
  inClusterDNS :: string
  inClusterPodCIDR :: string
  inClusterServiceCIDR :: string
  inForceEFI :: bool
  inDevice :: string
  inConfigURL :: string
  inSilent :: bool
  inISOURL :: string
  inPowerOff :: bool
  inNoFormat :: bool
  inDebug :: bool
  inTTY :: string
  inForceGPT :: bool
  inRole :: string
  inWithNetImages :: bool
  inWipeAllDisks :: bool
  inWipeDisksList :: "string list"
  inForceMBR :: bool
  inDataDisk :: string
  inWebhooks :: "Webhook list"
  inAddons :: "Addon gomap"
  inHarvester :: HarvesterChartValues
  inRawDiskImagePath :: string
  inPersistentPartitionSize :: string

record File =
  fiEncoding :: string
  fiContent :: string
  fiOwner :: string
  fiPath :: string
  fiRawFilePermissions :: string

record DiskConfig =
  dcVendor :: string
  dcProduct :: string

record MultiPathOption2 =
  mpBlacklist :: "DiskConfig list"
  mpBlacklistWwids :: "string list"
  mpBlacklistExceptions :: "DiskConfig list"
  mpBlacklistExceptionWwids :: "string list"

text \<open>
  The interface value \<^verbatim>\<open>MultiPathConfig\<close>: nil, one of the two types that implement
  \<^verbatim>\<open>MultiPathOption\<close>, or any other value (a string or a generic map that was never parsed).
\<close>

datatype multiPath =
    NoMultiPath
  | Option1 "DiskConfig list"
  | Option2 MultiPathOption2
  | Unparsed string

record ExternalStorageConfig =
  esEnabled :: bool
  esMultiPathConfig :: multiPath

record OS =
  osAfterInstallChrootCommands :: "string list"
  osSSHAuthorizedKeys :: "string list"
  osWriteFiles :: "File list"
  osHostname :: string
  osModules :: "string list"
  osSysctls :: "string gomap"
  osNTPServers :: "string list"
  osDNSNameservers :: "string list"
  osPassword :: string
  osEnvironment :: "string gomap"
  osLabels :: "string gomap"
  osSFTP :: bool
  osPersistentStatePaths :: "string list"
  osExternalStorage :: ExternalStorageConfig
  osAdditionalKernelArguments :: string

record HarvesterConfig =
  hSchemeVersion :: u32
  hServerURL :: string
  hToken :: string
  hSANS :: "string list"
  hOS :: OS
  hInstall :: Install
  hRuntimeVersion :: string
  hRancherVersion :: string
  hHarvesterChartVersion :: string
  hMonitoringChartVersion :: string
  hSystemSettings :: "string gomap"
  hLoggingChartVersion :: string
  hKubeovnOperatorChartVersion :: string

subsection \<open>Zero values\<close>

definition emptyNetwork :: Network where
  "emptyNetwork = \<lparr>nwInterfaces = [], nwMethod = [], nwIP = [], nwSubnetMask = [], nwGateway = [],
     nwDefaultRoute = False, nwBondOptions = None, nwMTU = 0, nwVlanID = 0\<rparr>"

definition emptyInstall :: Install where
  "emptyInstall = \<lparr>inAutomatic = False, inSkipChecks = False, inMode = [],
     inManagementInterface = emptyNetwork, inVip = [], inVipHwAddr = [], inVipMode = [],
     inClusterDNS = [], inClusterPodCIDR = [], inClusterServiceCIDR = [], inForceEFI = False,
     inDevice = [], inConfigURL = [], inSilent = False, inISOURL = [], inPowerOff = False,
     inNoFormat = False, inDebug = False, inTTY = [], inForceGPT = False, inRole = [],
     inWithNetImages = False, inWipeAllDisks = False, inWipeDisksList = [], inForceMBR = False,
     inDataDisk = [], inWebhooks = [], inAddons = [],
     inHarvester = \<lparr>hcReplicaCount = 0, hcLonghorn =
       \<lparr>lhGuaranteedEngineManagerCPU = None, lhGuaranteedReplicaManagerCPU = None,
        lhGuaranteedInstanceManagerCPU = None, lhStorageReservedPercentageForDefaultDisk = None\<rparr>,
       hcEnableGoCoverDir = False\<rparr>,
     inRawDiskImagePath = [], inPersistentPartitionSize = []\<rparr>"

definition emptyOS :: OS where
  "emptyOS = \<lparr>osAfterInstallChrootCommands = [], osSSHAuthorizedKeys = [], osWriteFiles = [],
     osHostname = [], osModules = [], osSysctls = [], osNTPServers = [], osDNSNameservers = [],
     osPassword = [], osEnvironment = [], osLabels = [], osSFTP = False,
     osPersistentStatePaths = [],
     osExternalStorage = \<lparr>esEnabled = False, esMultiPathConfig = NoMultiPath\<rparr>,
     osAdditionalKernelArguments = []\<rparr>"

definition NewHarvesterConfig :: HarvesterConfig where
  "NewHarvesterConfig = \<lparr>hSchemeVersion = 0, hServerURL = [], hToken = [], hSANS = [],
     hOS = emptyOS, hInstall = emptyInstall, hRuntimeVersion = [], hRancherVersion = [],
     hHarvesterChartVersion = [], hMonitoringChartVersion = [], hSystemSettings = [],
     hLoggingChartVersion = [], hKubeovnOperatorChartVersion = []\<rparr>"

subsection \<open>Multipath options (the interface MultiPathOption)\<close>

definition GetConfig2 :: "MultiPathOption2 \<Rightarrow> MultiPathOption2" where
  "GetConfig2 m = \<lparr>mpBlacklist = mpBlacklist m, mpBlacklistWwids = mpBlacklistWwids m,
     mpBlacklistExceptions = mpBlacklistExceptions m,
     mpBlacklistExceptionWwids = mpBlacklistExceptionWwids m\<rparr>"

definition GetConfig1 :: "DiskConfig list \<Rightarrow> MultiPathOption2" where
  "GetConfig1 m = \<lparr>mpBlacklist = m, mpBlacklistWwids = [], mpBlacklistExceptions = [],
     mpBlacklistExceptionWwids = []\<rparr>"

section \<open>Merging (mergo.Merge with WithAppendSlice)\<close>

text \<open>
  A scalar of the destination is replaced only when it is the zero value, slices are appended,
  a map keeps its own non-empty entries and takes the others from the source, a pointer is
  taken over when nil and merged through otherwise, and an interface value is kept when set.
\<close>

definition mStr :: "string \<Rightarrow> string \<Rightarrow> string" where
  "mStr d s = (if d = [] then s else d)"

definition mBool :: "bool \<Rightarrow> bool \<Rightarrow> bool" where
  "mBool d s = (if d then d else s)"

definition mNum :: "'a::zero \<Rightarrow> 'a \<Rightarrow> 'a" where
  "mNum d s = (if d = 0 then s else d)"

definition mPtr :: "'a::zero option \<Rightarrow> 'a option \<Rightarrow> 'a option" where
  "mPtr d s = (case s of None \<Rightarrow> d
     | Some y \<Rightarrow> (case d of None \<Rightarrow> Some y | Some x \<Rightarrow> Some (mNum x y)))"

fun mMapWith :: "('v \<Rightarrow> bool) \<Rightarrow> 'v gomap \<Rightarrow> 'v gomap \<Rightarrow> 'v gomap" where
  "mMapWith isEmptyV d [] = d"
| "mMapWith isEmptyV d ((k, v) # s) =
     mMapWith isEmptyV
       (case mapGet d k of None \<Rightarrow> mapPut k v d
        | Some w \<Rightarrow> if isEmptyV w then mapPut k v d else d) s"

definition mMap :: "string gomap \<Rightarrow> string gomap \<Rightarrow> string gomap" where
  "mMap d s = mMapWith (\<lambda>w. w = []) d s"

definition mMapOpt :: "string gomap option \<Rightarrow> string gomap option \<Rightarrow> string gomap option" where
  "mMapOpt d s = (case s of None \<Rightarrow> d
     | Some sm \<Rightarrow> Some (mMap (case d of None \<Rightarrow> [] | Some dm \<Rightarrow> dm) sm))"

definition mIface :: "multiPath \<Rightarrow> multiPath \<Rightarrow> multiPath" where
  "mIface d s = (if d = NoMultiPath then s else d)"

definition mergeNetwork :: "Network \<Rightarrow> Network \<Rightarrow> Network" where
  "mergeNetwork d s = \<lparr>nwInterfaces = nwInterfaces d @ nwInterfaces s,
     nwMethod = mStr (nwMethod d) (nwMethod s), nwIP = mStr (nwIP d) (nwIP s),
     nwSubnetMask = mStr (nwSubnetMask d) (nwSubnetMask s),
     nwGateway = mStr (nwGateway d) (nwGateway s),
     nwDefaultRoute = mBool (nwDefaultRoute d) (nwDefaultRoute s),
     nwBondOptions = mMapOpt (nwBondOptions d) (nwBondOptions s),
     nwMTU = mNum (nwMTU d) (nwMTU s), nwVlanID = mNum (nwVlanID d) (nwVlanID s)\<rparr>"

definition mergeLH :: "LHDefaultSettings \<Rightarrow> LHDefaultSettings \<Rightarrow> LHDefaultSettings" where
  "mergeLH d s = \<lparr>
     lhGuaranteedEngineManagerCPU =
       mPtr (lhGuaranteedEngineManagerCPU d) (lhGuaranteedEngineManagerCPU s),
     lhGuaranteedReplicaManagerCPU =
       mPtr (lhGuaranteedReplicaManagerCPU d) (lhGuaranteedReplicaManagerCPU s),
     lhGuaranteedInstanceManagerCPU =
       mPtr (lhGuaranteedInstanceManagerCPU d) (lhGuaranteedInstanceManagerCPU s),
     lhStorageReservedPercentageForDefaultDisk =
       mPtr (lhStorageReservedPercentageForDefaultDisk d) (lhStorageReservedPercentageForDefaultDisk s)\<rparr>"

definition mergeHarvester :: "HarvesterChartValues \<Rightarrow> HarvesterChartValues \<Rightarrow> HarvesterChartValues" where
  "mergeHarvester d s = \<lparr>hcReplicaCount = mNum (hcReplicaCount d) (hcReplicaCount s),
     hcLonghorn = mergeLH (hcLonghorn d) (hcLonghorn s),
     hcEnableGoCoverDir = mBool (hcEnableGoCoverDir d) (hcEnableGoCoverDir s)\<rparr>"

definition mergeInstall :: "Install \<Rightarrow> Install \<Rightarrow> Install" where
  "mergeInstall d s = \<lparr>inAutomatic = mBool (inAutomatic d) (inAutomatic s),
     inSkipChecks = mBool (inSkipChecks d) (inSkipChecks s), inMode = mStr (inMode d) (inMode s),
     inManagementInterface = mergeNetwork (inManagementInterface d) (inManagementInterface s),
     inVip = mStr (inVip d) (inVip s), inVipHwAddr = mStr (inVipHwAddr d) (inVipHwAddr s),
     inVipMode = mStr (inVipMode d) (inVipMode s), inClusterDNS = mStr (inClusterDNS d) (inClusterDNS s),
     inClusterPodCIDR = mStr (inClusterPodCIDR d) (inClusterPodCIDR s),
     inClusterServiceCIDR = mStr (inClusterServiceCIDR d) (inClusterServiceCIDR s),
     inForceEFI = mBool (inForceEFI d) (inForceEFI s), inDevice = mStr (inDevice d) (inDevice s),
     inConfigURL = mStr (inConfigURL d) (inConfigURL s), inSilent = mBool (inSilent d) (inSilent s),
     inISOURL = mStr (inISOURL d) (inISOURL s), inPowerOff = mBool (inPowerOff d) (inPowerOff s),
     inNoFormat = mBool (inNoFormat d) (inNoFormat s), inDebug = mBool (inDebug d) (inDebug s),
     inTTY = mStr (inTTY d) (inTTY s), inForceGPT = mBool (inForceGPT d) (inForceGPT s),
     inRole = mStr (inRole d) (inRole s), inWithNetImages = mBool (inWithNetImages d) (inWithNetImages s),
     inWipeAllDisks = mBool (inWipeAllDisks d) (inWipeAllDisks s),
     inWipeDisksList = inWipeDisksList d @ inWipeDisksList s,
     inForceMBR = mBool (inForceMBR d) (inForceMBR s), inDataDisk = mStr (inDataDisk d) (inDataDisk s),
     inWebhooks = inWebhooks d @ inWebhooks s,
     inAddons = mMapWith (\<lambda>w. False) (inAddons d) (inAddons s),
     inHarvester = mergeHarvester (inHarvester d) (inHarvester s),
     inRawDiskImagePath = mStr (inRawDiskImagePath d) (inRawDiskImagePath s),
     inPersistentPartitionSize = mStr (inPersistentPartitionSize d) (inPersistentPartitionSize s)\<rparr>"

definition mergeOS :: "OS \<Rightarrow> OS \<Rightarrow> OS" where
  "mergeOS d s = \<lparr>
     osAfterInstallChrootCommands = osAfterInstallChrootCommands d @ osAfterInstallChrootCommands s,
     osSSHAuthorizedKeys = osSSHAuthorizedKeys d @ osSSHAuthorizedKeys s,
     osWriteFiles = osWriteFiles d @ osWriteFiles s, osHostname = mStr (osHostname d) (osHostname s),
     osModules = osModules d @ osModules s, osSysctls = mMap (osSysctls d) (osSysctls s),
     osNTPServers = osNTPServers d @ osNTPServers s,
     osDNSNameservers = osDNSNameservers d @ osDNSNameservers s,
     osPassword = mStr (osPassword d) (osPassword s),
     osEnvironment = mMap (osEnvironment d) (osEnvironment s),
     osLabels = mMap (osLabels d) (osLabels s), osSFTP = mBool (osSFTP d) (osSFTP s),
     osPersistentStatePaths = osPersistentStatePaths d @ osPersistentStatePaths s,
     osExternalStorage = \<lparr>
       esEnabled = mBool (esEnabled (osExternalStorage d)) (esEnabled (osExternalStorage s)),
       esMultiPathConfig =
         mIface (esMultiPathConfig (osExternalStorage d)) (esMultiPathConfig (osExternalStorage s))\<rparr>,
     osAdditionalKernelArguments =
       mStr (osAdditionalKernelArguments d) (osAdditionalKernelArguments s)\<rparr>"

text \<open>\<^verbatim>\<open>(c *HarvesterConfig) Merge(other)\<close>: the updated receiver. \<^verbatim>\<open>mergo\<close> reports no error on two
  values of one struct type.\<close>

definition Merge :: "HarvesterConfig \<Rightarrow> HarvesterConfig \<Rightarrow> HarvesterConfig" where
  "Merge d s = \<lparr>hSchemeVersion = mNum (hSchemeVersion d) (hSchemeVersion s),
     hServerURL = mStr (hServerURL d) (hServerURL s), hToken = mStr (hToken d) (hToken s),
     hSANS = hSANS d @ hSANS s, hOS = mergeOS (hOS d) (hOS s),
     hInstall = mergeInstall (hInstall d) (hInstall s),
     hRuntimeVersion = mStr (hRuntimeVersion d) (hRuntimeVersion s),
     hRancherVersion = mStr (hRancherVersion d) (hRancherVersion s),
     hHarvesterChartVersion = mStr (hHarvesterChartVersion d) (hHarvesterChartVersion s),
     hMonitoringChartVersion = mStr (hMonitoringChartVersion d) (hMonitoringChartVersion s),
     hSystemSettings = mMap (hSystemSettings d) (hSystemSettings s),
     hLoggingChartVersion = mStr (hLoggingChartVersion d) (hLoggingChartVersion s),
     hKubeovnOperatorChartVersion =
       mStr (hKubeovnOperatorChartVersion d) (hKubeovnOperatorChartVersion s)\<rparr>"

definition DeepCopy :: "HarvesterConfig \<Rightarrow> HarvesterConfig" where
  "DeepCopy c = Merge NewHarvesterConfig c"

definition sanitized :: "HarvesterConfig \<Rightarrow> HarvesterConfig" where
  "sanitized c =
     (let copied = DeepCopy c;
          copied1 = (if osPassword (hOS copied) \<noteq> []
                     then copied\<lparr>hOS := (hOS copied)\<lparr>osPassword := SanitizeMask\<rparr>\<rparr> else copied)
      in if hToken copied1 \<noteq> [] then copied1\<lparr>hToken := SanitizeMask\<rparr> else copied1)"

section \<open>Kubelet arguments and data partitions\<close>

text \<open>The loop over the labels, in the order of the association list.\<close>

fun labelArgs :: "string gomap \<Rightarrow> string list result" where
  "labelArgs [] = Inr []"
| "labelArgs ((labelName, labelValue) # ls) =
     (let errs = IsQualifiedName labelName; errs2 = IsValidLabelValue labelValue in
      if errs \<noteq> [] then Inl (Msg (''invalid label name '' @ [CHR 0x27] @ labelName @ [CHR 0x27] @ '': '' @
                                   strJoin '', '' errs))
      else if errs2 \<noteq> [] then Inl (Msg (''invalid label value '' @ [CHR 0x27] @ labelValue @ [CHR 0x27] @ '': '' @
                                        strJoin '', '' errs2))
      else (case labelArgs ls of Inl e \<Rightarrow> Inl e | Inr r \<Rightarrow> Inr ((labelName @ ''='' @ labelValue) # r)))"

definition GetKubeletArgs :: "HarvesterConfig \<Rightarrow> string list result" where
  "GetKubeletArgs c =
     (case labelArgs (osLabels (hOS c)) of
        Inl e \<Rightarrow> Inl e
      | Inr labelStrs \<Rightarrow>
          Inr ([''max-pods='' @ showNat MaxPods] @
               (if labelStrs \<noteq> [] then [''node-labels='' @ strJoin '','' labelStrs] else []) @
               (if inRole (hInstall c) = RoleWitness
                then [''--register-with-taints=node-role.kubernetes.io/etcd=true:NoExecute''] else [])))"

definition ShouldCreateDataPartitionOnOsDisk :: "HarvesterConfig \<Rightarrow> bool" where
  "ShouldCreateDataPartitionOnOsDisk c =
     (if inRole (hInstall c) = RoleWitness then False
      else inDataDisk (hInstall c) = [] \<and> \<not> inForceMBR (hInstall c))"

definition ShouldMountDataPartition :: "HarvesterConfig \<Rightarrow> bool" where
  "ShouldMountDataPartition c =
     (if inRole (hInstall c) = RoleWitness then False
      else if inForceMBR (hInstall c) \<and> inDataDisk (hInstall c) = [] then False
      else True)"

section \<open>Interfaces of the host\<close>

text \<open>What \<^verbatim>\<open>net.Interfaces\<close> reports of an interface; the loopback flag is the only one read.\<close>

record hostIface =
  hiName :: string
  hiHardwareAddr :: octets
  hiLoopback :: bool

definition FindNetworkInterfaceName ::
  "hostIface list result \<Rightarrow> NetworkInterface \<Rightarrow> NetworkInterface result" where
  "FindNetworkInterfaceName interfaces n =
     (if ifName n \<noteq> [] then Inr n
      else if ifName n = [] \<and> ifHwAddr n \<noteq> []
      then (case ParseMAC (ifHwAddr n) of
              None \<Rightarrow> Inl (Msg (''address '' @ ifHwAddr n @ '': invalid MAC address''))
            | Some hwAddr \<Rightarrow>
                (case interfaces of
                   Inl e \<Rightarrow> Inl e
                 | Inr ifs \<Rightarrow>
                     (case find (\<lambda>i. macString (hiHardwareAddr i) = macString hwAddr) ifs of
                        Some i \<Rightarrow> Inr (n\<lparr>ifName := hiName i\<rparr>)
                      | None \<Rightarrow> Inl (Msg (''no interface matching hardware address '' @ ifHwAddr n @ '' found'')))))
      else Inr n)"

definition FindNetworkInterfaceHwAddr ::
  "hostIface list result \<Rightarrow> NetworkInterface \<Rightarrow> NetworkInterface result" where
  "FindNetworkInterfaceHwAddr interfaces n =
     (if ifHwAddr n \<noteq> [] then Inr n
      else if ifName n \<noteq> [] \<and> ifHwAddr n = []
      then (case interfaces of
              Inl e \<Rightarrow> Inl e
            | Inr ifs \<Rightarrow>
                (case find (\<lambda>i. hiName i = ifName n) ifs of
                   Some i \<Rightarrow> Inr (n\<lparr>ifHwAddr := macString (hiHardwareAddr i)\<rparr>)
                 | None \<Rightarrow> Inl (Msg (''no interface matching name '' @ ifName n @ '' found''))))
      else Inr n)"

definition FindNetworkInterfaceNameAndHwAddr ::
  "hostIface list result \<Rightarrow> NetworkInterface \<Rightarrow> NetworkInterface result" where
  "FindNetworkInterfaceNameAndHwAddr interfaces n =
     bindR (FindNetworkInterfaceName interfaces n) (FindNetworkInterfaceHwAddr interfaces)"

section \<open>Facts about merging\<close>

named_theorems merge_defs \<open>the field-wise merge operations\<close>

lemmas merge_ops [merge_defs] = mStr_def mBool_def mNum_def mPtr_def mMapOpt_def mIface_def
  mergeNetwork_def mergeLH_def mergeHarvester_def mergeInstall_def mergeOS_def Merge_def

lemma mMapWith_keeps:
  "mapGet d k = Some w \<Longrightarrow> \<not> isEmptyV w \<Longrightarrow> mapGet (mMapWith isEmptyV d s) k = Some w"
proof (induction isEmptyV d s rule: mMapWith.induct)
  case (1 isEmptyV d)
  then show ?case by simp
next
  case (2 isEmptyV d k' v s)
  have "mapGet (case mapGet d k' of None \<Rightarrow> mapPut k' v d
      | Some w \<Rightarrow> if isEmptyV w then mapPut k' v d else d) k = Some w"
    using "2.prems" by (auto split: option.splits)
  then show ?case using "2.IH" "2.prems" by simp
qed

lemma mMapWith_absent: "k \<notin> fst ` set s \<Longrightarrow> mapGet (mMapWith isEmptyV d s) k = mapGet d k"
proof (induction isEmptyV d s rule: mMapWith.induct)
  case (1 isEmptyV d)
  then show ?case by simp
next
  case (2 isEmptyV d k' v s)
  then show ?case by (auto split: option.splits)
qed

lemma mapPut_fresh: "k \<notin> fst ` set m \<Longrightarrow> mapPut k v m = m @ [(k, v)]"
  unfolding mapPut_def by (induction m) auto

lemma mMapWith_append:
  "distinct (map fst (d @ s)) \<Longrightarrow> mMapWith isEmptyV d s = d @ s"
proof (induction s arbitrary: d)
  case Nil
  then show ?case by simp
next
  case (Cons kv s)
  obtain k v where kv: "kv = (k, v)" by (cases kv)
  have fresh: "k \<notin> fst ` set d" using Cons.prems kv by auto
  then have "mapGet d k = None" by (simp add: mapGet_def map_of_eq_None_iff)
  moreover have "distinct (map fst ((d @ [(k, v)]) @ s))" using Cons.prems kv by auto
  ultimately show ?case using Cons.IH [of "d @ [(k, v)]"] kv fresh by (simp add: mapPut_fresh)
qed

lemma mMapWith_empty [simp]: "wfMap s \<Longrightarrow> mMapWith isEmptyV [] s = s"
  by (simp add: mMapWith_append wfMap_def)

text \<open>A configuration's maps have distinct keys.\<close>

definition wfConfig :: "HarvesterConfig \<Rightarrow> bool" where
  "wfConfig c \<longleftrightarrow> wfMap (osSysctls (hOS c)) \<and> wfMap (osEnvironment (hOS c)) \<and>
     wfMap (osLabels (hOS c)) \<and> wfMap (hSystemSettings c) \<and> wfMap (inAddons (hInstall c)) \<and>
     (\<forall>m. nwBondOptions (inManagementInterface (hInstall c)) = Some m \<longrightarrow> wfMap m)"

lemma mMap_empty [simp]: "wfMap s \<Longrightarrow> mMap [] s = s"
  by (simp add: mMap_def)

lemma mergeNetwork_empty:
  "(\<forall>m. nwBondOptions n = Some m \<longrightarrow> wfMap m) \<Longrightarrow> mergeNetwork emptyNetwork n = n"
  by (simp add: mergeNetwork_def emptyNetwork_def mStr_def mBool_def mNum_def mMapOpt_def
      split: option.splits)

lemma mPtr_None [simp]: "mPtr None s = s"
  by (simp add: mPtr_def split: option.splits)

lemma mergeInstall_empty:
  assumes "wfMap (inAddons i)" "\<forall>m. nwBondOptions (inManagementInterface i) = Some m \<longrightarrow> wfMap m"
  shows "mergeInstall emptyInstall i = i"
  using assms by (simp add: mergeInstall_def emptyInstall_def mergeNetwork_empty mStr_def mBool_def
      mNum_def mergeHarvester_def mergeLH_def)

lemma mergeOS_empty:
  assumes "wfMap (osSysctls s)" "wfMap (osEnvironment s)" "wfMap (osLabels s)"
  shows "mergeOS emptyOS s = s"
  using assms by (simp add: mergeOS_def emptyOS_def mStr_def mBool_def mIface_def)

lemma Merge_empty: "wfConfig c \<Longrightarrow> Merge NewHarvesterConfig c = c"
  by (simp add: Merge_def NewHarvesterConfig_def wfConfig_def mergeInstall_empty mergeOS_empty
      mStr_def mNum_def)

end
