(* ===== verification/Elemental.thy ===== *)
theory Elemental
  imports Config
begin

text \<open>
  The configuration handed to \<^verbatim>\<open>elemental install\<close> (\<^verbatim>\<open>pkg/config/cos.go\<close>): its records, the conversion
  from the Harvester configuration and the two partition layouts. The properties at the end
  say what the layouts promise: the partitions fit on the disk, with the space that is kept
  for the data partition.
\<close>

section \<open>Records\<close>

record ElementalPartition =
  epFilesystemLabel :: string
  epSize :: u64
  epFS :: string

record ElementalDefaultPartition =
  edOEM :: ElementalPartition
  edState :: ElementalPartition
  edRecovery :: ElementalPartition
  edPersistent :: ElementalPartition

record ElementalSystem =
  elLabel :: string
  elSize :: u64
  elFS :: string
  elURI :: string

record ElementalInstallSpec =
  eiTarget :: string
  eiFirmware :: string
  eiPartTable :: string
  eiPartitions :: "ElementalDefaultPartition option"
  eiExtraPartitions :: "ElementalPartition list"
  eiCloudInit :: string
  eiTty :: string
  eiSystem :: "ElementalSystem option"

definition NewElementalConfig :: ElementalInstallSpec where
  "NewElementalConfig = \<lparr>eiTarget = [], eiFirmware = [], eiPartTable = [], eiPartitions = None,
     eiExtraPartitions = [], eiCloudInit = [], eiTty = [], eiSystem = None\<rparr>"

abbreviation "defaultSystemImageSize \<equiv> (3072 :: u64)"
abbreviation "DefaultCosOemSizeMiB \<equiv> (50 :: u64)"
abbreviation "DefaultCosStateSizeMiB \<equiv> (15360 :: u64)"
abbreviation "DefaultCosRecoverySizeMiB \<equiv> (8192 :: u64)"

section \<open>Operations\<close>

text \<open>\<open>evalSymlinks\<close> is the host's resolution of a path.\<close>

definition ConvertToElementalConfig ::
  "(string \<Rightarrow> string result) \<Rightarrow> HarvesterConfig \<Rightarrow> ElementalInstallSpec result" where
  "ConvertToElementalConfig evalSymlinks config =
     (let e0 = NewElementalConfig;
          e1 = (if inForceEFI (hInstall config) then e0\<lparr>eiFirmware := ''efi''\<rparr> else e0);
          e2 = e1\<lparr>eiPartTable := ''gpt''\<rparr>;
          e3 = (if \<not> inForceGPT (hInstall config) then e2\<lparr>eiPartTable := ''msdos''\<rparr> else e2)
      in (case evalSymlinks (inDevice (hInstall config)) of
            Inl e \<Rightarrow> Inl e
          | Inr resolvedDevPath \<Rightarrow>
              Inr (e3\<lparr>eiTarget := resolvedDevPath, eiCloudInit := inConfigURL (hInstall config),
                      eiTty := inTTY (hInstall config),
                      eiSystem := Some \<lparr>elLabel = [], elSize = defaultSystemImageSize, elFS = [], elURI = []\<rparr>\<rparr>)))"

definition calcCosPersistentPartSize :: "u64 \<Rightarrow> string \<Rightarrow> bool \<Rightarrow> u64 result" where
  "calcCosPersistentPartSize diskSizeGiB partSize skipChecks =
     (case ParsePartitionSize (GiToByte diskSizeGiB) partSize skipChecks of
        Inl e \<Rightarrow> Inl e
      | Inr sz \<Rightarrow> Inr (ByteToMi sz))"

text \<open>The four partitions of the operating system; a persistent size of 0 takes what is left.\<close>

definition rootPartitions :: "u64 \<Rightarrow> ElementalDefaultPartition" where
  "rootPartitions persistent =
     \<lparr>edOEM = \<lparr>epFilesystemLabel = ''COS_OEM'', epSize = DefaultCosOemSizeMiB, epFS = ''ext4''\<rparr>,
      edState = \<lparr>epFilesystemLabel = ''COS_STATE'', epSize = DefaultCosStateSizeMiB, epFS = ''ext4''\<rparr>,
      edRecovery = \<lparr>epFilesystemLabel = ''COS_RECOVERY'', epSize = DefaultCosRecoverySizeMiB, epFS = ''ext4''\<rparr>,
      edPersistent = \<lparr>epFilesystemLabel = ''COS_PERSISTENT'', epSize = persistent, epFS = ''ext4''\<rparr>\<rparr>"

definition CreateRootPartitioningLayoutSeparateDataDisk ::
  "ElementalInstallSpec \<Rightarrow> ElementalInstallSpec" where
  "CreateRootPartitioningLayoutSeparateDataDisk elementalConfig =
     elementalConfig\<lparr>eiPartitions := Some (rootPartitions 0)\<rparr>"

definition CreateRootPartitioningLayoutSharedDataDisk ::
  "(string \<Rightarrow> string result) \<Rightarrow> ElementalInstallSpec \<Rightarrow> HarvesterConfig \<Rightarrow> ElementalInstallSpec result" where
  "CreateRootPartitioningLayoutSharedDataDisk lsblk elementalConfig hvstConfig =
     (case GetDiskSizeBytes lsblk (inDevice (hInstall hvstConfig)) of
        Inl e \<Rightarrow> Inl e
      | Inr diskSizeBytes \<Rightarrow>
          (let persistentSize = (if inPersistentPartitionSize (hInstall hvstConfig) = []
                                 then showNat PersistentSizeMinGiB @ ''Gi''
                                 else inPersistentPartitionSize (hInstall hvstConfig))
           in (case calcCosPersistentPartSize (ByteToGi diskSizeBytes) persistentSize
                      (inSkipChecks (hInstall hvstConfig)) of
                 Inl e \<Rightarrow> Inl e
               | Inr cosPersistentSizeMiB \<Rightarrow>
                   Inr (elementalConfig\<lparr>
                     eiPartitions := Some (rootPartitions cosPersistentSizeMiB),
                     eiExtraPartitions :=
                       [\<lparr>epFilesystemLabel = ''HARV_LH_DEFAULT'', epSize = 0, epFS = ''ext4''\<rparr>]\<rparr>))))"

section \<open>What the layouts promise\<close>

definition partitionsMiB :: "ElementalDefaultPartition \<Rightarrow> nat" where
  "partitionsMiB p = unat (epSize (edOEM p)) + unat (epSize (edState p)) +
     unat (epSize (edRecovery p)) + unat (epSize (edPersistent p))"

lemma unat_shift_bounds: "unat (GiToByte (ByteToGi d)) \<le> unat d"
proof -
  have lt: "unat (ByteToGi d) < 2 ^ 34"
  proof -
    have "unat d < 2 ^ 64" using unsigned_less [of d] by simp
    then show ?thesis by (simp add: unat_ByteToGi less_mult_imp_div_less)
  qed
  have "unat (GiToByte (ByteToGi d)) = unat d div 2 ^ 30 * 2 ^ 30"
    using lt by (simp add: unat_GiToByte unat_ByteToGi)
  then show ?thesis by simp
qed

lemma calcCosPersistentPartSize_sound:
  assumes "calcCosPersistentPartSize (ByteToGi d) s False = Inr mib"
  shows "unat mib * 2 ^ 20 + unat fixedOccupiedSize \<le> unat d \<and> 150 * 1024 \<le> unat mib"
proof -
  obtain b where b: "ParsePartitionSize (GiToByte (ByteToGi d)) s False = Inr b" "mib = ByteToMi b"
    using assms by (auto simp: calcCosPersistentPartSize_def split: sum.splits)
  have "unat b + unat fixedOccupiedSize \<le> unat d" "unat MinPersistentSize \<le> unat b"
    using b(1) unat_shift_bounds [of d] unfolding ParsePartitionSize_checked by linarith+
  moreover have m: "unat mib = unat b div 2 ^ 20" using b(2) by (simp add: unat_ByteToMi)
  moreover have "unat mib * 2 ^ 20 \<le> unat b" unfolding m by (rule div_times_less_eq_dividend)
  moreover have "161061273600 div 2 ^ 20 \<le> unat b div 2 ^ 20"
    using calculation(2) by (intro div_le_mono) simp
  ultimately show ?thesis by simp
qed

text \<open>C4: With the checks on, the layout that shares the installation disk with the data partition
  never asks for more than the disk has: the OEM, state, recovery and persistent partitions
  together with the 64 MiB of the EFI partition and the 50 GiB kept for data fit in the size that
  \<^verbatim>\<open>lsblk\<close> reports, the persistent partition has at least the required 150 GiB, and the data
  partition is the one that takes the rest of the disk (size 0).\<close>

theorem shared_layout_fits:
  assumes "CreateRootPartitioningLayoutSharedDataDisk lsblk e cfg = Inr e'"
    and "\<not> inSkipChecks (hInstall cfg)"
  shows "\<exists>d p. GetDiskSizeBytes lsblk (inDevice (hInstall cfg)) = Inr d \<and>
    eiPartitions e' = Some p \<and>
    (partitionsMiB p + 64 + 50 * 1024) * 2 ^ 20 \<le> unat d \<and>
    150 * 1024 \<le> unat (epSize (edPersistent p)) \<and>
    map epFilesystemLabel (eiExtraPartitions e') = [''HARV_LH_DEFAULT''] \<and>
    map epSize (eiExtraPartitions e') = [0]"
proof -
  obtain d s mib where d: "GetDiskSizeBytes lsblk (inDevice (hInstall cfg)) = Inr d"
    and m: "calcCosPersistentPartSize (ByteToGi d) s False = Inr mib"
    and e': "e' = e\<lparr>eiPartitions := Some (rootPartitions mib), eiExtraPartitions :=
       [\<lparr>epFilesystemLabel = ''HARV_LH_DEFAULT'', epSize = 0, epFS = ''ext4''\<rparr>]\<rparr>"
    using assms
    by (auto simp: CreateRootPartitioningLayoutSharedDataDisk_def Let_def split: sum.splits)
  from calcCosPersistentPartSize_sound [OF m] show ?thesis
    using d e' by (simp add: partitionsMiB_def rootPartitions_def)
qed

theorem shared_layout_fits_witness:
  "\<exists>d p. GetDiskSizeBytes (\<lambda>_. Inr (showNat 322122547200)) (inDevice (hInstall NewHarvesterConfig)) = Inr d \<and>
    eiPartitions (NewElementalConfig\<lparr>eiPartitions := Some (rootPartitions 153600), eiExtraPartitions :=
       [\<lparr>epFilesystemLabel = ''HARV_LH_DEFAULT'', epSize = 0, epFS = ''ext4''\<rparr>]\<rparr>) = Some p \<and>
    (partitionsMiB p + 64 + 50 * 1024) * 2 ^ 20 \<le> unat d"
proof -
  have size: "GetDiskSizeBytes (\<lambda>_. Inr (showNat 322122547200)) [] = Inr 322122547200"
    using parseUint_showNat [of 322122547200 64] by (simp add: GetDiskSizeBytes_def)
  have gi: "ByteToGi 322122547200 = 300" by (simp add: ByteToGi_def drop_bit_eq_div)
  have "parsePartitionBytes (showNat 150 @ ''Gi'') = Inr MinPersistentSize"
    using parsePartitionBytes_Gi [of 150] by (simp add: GiByteMultiplier_def MinPersistentSize_def)
  then have calc: "calcCosPersistentPartSize 300 (showNat 150 @ ''Gi'') False = Inr 153600"
    by (simp add: calcCosPersistentPartSize_def GiToByte_mult ParsePartitionSize_def Let_def
        MinDiskSize_def MinPersistentSize_def fixedOccupiedSize_def MiByteMultiplier_def
        ByteToMi_def drop_bit_eq_div)
  have "CreateRootPartitioningLayoutSharedDataDisk (\<lambda>_. Inr (showNat 322122547200)) NewElementalConfig
      NewHarvesterConfig = Inr (NewElementalConfig\<lparr>eiPartitions := Some (rootPartitions 153600),
      eiExtraPartitions := [\<lparr>epFilesystemLabel = ''HARV_LH_DEFAULT'', epSize = 0, epFS = ''ext4''\<rparr>]\<rparr>)"
    by (simp add: CreateRootPartitioningLayoutSharedDataDisk_def NewHarvesterConfig_def
        emptyInstall_def size gi calc)
  from shared_layout_fits [OF this] show ?thesis
    by (auto simp: NewHarvesterConfig_def emptyInstall_def)
qed

text \<open>C16: The size parser is exact on every numeral whose byte count fits in 64 bits: with the checks on,
  \<^verbatim>\<open>ParsePartitionSize\<close> accepts \<^verbatim>\<open><n>Gi\<close> precisely when the disk has 250 GiB, \<open>n\<close> is at least 150 and
  \<open>n\<close> GiB plus the fixed partitions fit on the disk, and then it returns exactly \<open>n\<close> GiB.\<close>

theorem partition_size_exact:
  assumes "n < 2 ^ 34"
  shows "ParsePartitionSize d (showNat n @ ''Gi'') False = Inr p \<longleftrightarrow>
    unat p = n * 2 ^ 30 \<and> 250 * 2 ^ 30 \<le> unat d \<and> 150 \<le> n \<and>
    n * 2 ^ 30 + (50 + 15360 + 8192 + 64 + 51200) * 2 ^ 20 \<le> unat d"
proof -
  have parse: "parsePartitionBytes (showNat n @ ''Gi'') = Inr (of_nat n * GiByteMultiplier)"
    using assms by (intro parsePartitionBytes_Gi) simp
  have val: "unat (of_nat n * GiByteMultiplier) = n * 2 ^ 30"
    using assms by (subst unat_scaled) simp_all
  have eq: "of_nat n * GiByteMultiplier = p \<longleftrightarrow> unat p = n * 2 ^ 30"
    using val by (metis word_unat_eq_iff)
  show ?thesis
    unfolding ParsePartitionSize_checked parse by (auto simp: eq val)
qed

theorem partition_size_exact_witness:
  "ParsePartitionSize (250 * 2 ^ 30) (showNat 160 @ ''Gi'') False = Inr (160 * 2 ^ 30)"
  using partition_size_exact [of 160 "250 * 2 ^ 30" "160 * 2 ^ 30"] by simp

text \<open>C26: Beyond 64 bits the parser wraps around without an error: adding \<open>2^34\<close> to a number of GiB
  does not change what \<^verbatim>\<open>parsePartitionBytes\<close> returns, so a request of \<open>2^34 + 150\<close> GiB is
  accepted as 150 GiB.\<close>

theorem partition_size_wraps:
  assumes "n + 2 ^ 34 < 2 ^ 64"
  shows "parsePartitionBytes (showNat (n + 2 ^ 34) @ ''Gi'') = parsePartitionBytes (showNat n @ ''Gi'')"
proof -
  have "(of_nat (2 ^ 34) :: u64) * GiByteMultiplier = 0"
    by (simp add: GiByteMultiplier_def)
  then have "(of_nat (n + 2 ^ 34) :: u64) * GiByteMultiplier = of_nat n * GiByteMultiplier"
    by (simp only: of_nat_add distrib_right add_0_right)
  then show ?thesis
    using assms parsePartitionBytes_Gi [of "n + 2 ^ 34"] parsePartitionBytes_Gi [of n] by simp
qed

theorem partition_size_wraps_witness:
  "parsePartitionBytes (showNat 17179869334 @ ''Gi'') = Inr MinPersistentSize"
  using partition_size_wraps [of 150] parsePartitionBytes_Gi [of 150]
  by (simp add: GiByteMultiplier_def MinPersistentSize_def)

text \<open>With the checks skipped and a disk smaller than the fixed partitions, the subtraction of the
  fixed size wraps around and limits nothing: every size up to \<open>2^63\<close> bytes that parses is accepted
  unchanged, also when it is larger than the whole disk.\<close>

theorem partition_size_skip_underflow:
  assumes "unat d < unat fixedOccupiedSize" "parsePartitionBytes s = Inr b" "unat b \<le> 2 ^ 63"
  shows "ParsePartitionSize d s True = Inr b"
proof -
  have "unat (d - fixedOccupiedSize) = 2 ^ 64 + unat d - unat fixedOccupiedSize"
    using assms(1) unat_sub_if' [of d fixedOccupiedSize] by (simp add: not_le)
  then have "b \<le> d - fixedOccupiedSize"
    using assms(1,3) by (simp add: word_le_nat_alt)
  then show ?thesis using assms(2) by (simp add: ParsePartitionSize_skip min_def)
qed

theorem partition_size_skip_underflow_witness:
  "ParsePartitionSize (40 * 2 ^ 30) (showNat 150 @ ''Gi'') True = Inr MinPersistentSize \<and>
   40 * 2 ^ 30 < MinPersistentSize"
proof -
  have p: "parsePartitionBytes (showNat 150 @ ''Gi'') = Inr MinPersistentSize"
    using parsePartitionBytes_Gi [of 150] by (simp add: GiByteMultiplier_def MinPersistentSize_def)
  show ?thesis
    using partition_size_skip_underflow [OF _ p, of "40 * 2 ^ 30"]
    by (simp add: word_less_nat_alt)
qed

end
