(* ===== verification/Disks.thy ===== *)
theory Disks
  imports Elemental "HOL-Library.List_Lexorder" "HOL-Library.Char_ord" "HOL-Library.Multiset"
begin

text \<open>
  The disks of the host (\<^verbatim>\<open>pkg/console/util.go\<close>, \<^verbatim>\<open>install_panels.go\<close>): the devices that
  \<^verbatim>\<open>lsblk -J\<close> lists, their deduplication by serial number and WWN, the cache of options that
  the disk page shows, the size checks and the default size of the persistent partition.

  The decoding of the JSON text into devices is a parameter \<open>unmarshal\<close>. A Go map that is built
  here keeps the order of insertion; the options are sorted afterwards, so that order does not
  reach the page (\<open>options_order_free\<close>).
\<close>

section \<open>Devices\<close>

datatype Device = Device (dvName: string) (dvSize: string) (dvDiskType: string)
  (dvWWN: string) (dvSerial: string) (dvLabel: string) (dvChildren: "Device list")

abbreviation "diskType \<equiv> ''disk''"
abbreviation "PartitionType \<equiv> ''part''"
abbreviation "MpathType \<equiv> ''mpath''"
abbreviation "CosDiskLabelPrefix \<equiv> ''COS_OEM''"

definition generateDiskEntry :: "Device \<Rightarrow> string" where
  "generateDiskEntry d = dvName d @ '' '' @ dvSize d"

text \<open>\<^verbatim>\<open>if _, ok := m[k]; !ok { m[k] = d }\<close>.\<close>

definition putNew :: "string \<Rightarrow> 'a \<Rightarrow> 'a gomap \<Rightarrow> 'a gomap" where
  "putNew k d m = (case mapGet m k of None \<Rightarrow> mapPut k d m | Some x \<Rightarrow> m)"

text \<open>One round of the loop that fills \<^verbatim>\<open>dedupMap\<close>.\<close>

definition dedupDisk :: "Device gomap \<Rightarrow> Device \<Rightarrow> Device gomap" where
  "dedupDisk dedupMap disk =
     (if dvDiskType disk = diskType
      then (if dvWWN disk = [] \<and> dvSerial disk = [] then mapPut (dvName disk) disk dedupMap
            else (let m1 = (if dvSerial disk \<noteq> [] then putNew (dvSerial disk) disk dedupMap else dedupMap)
                  in if dvWWN disk \<noteq> [] then putNew (dvWWN disk) disk m1 else m1))
      else dedupMap)"

definition filterUniqueDisks :: "(string \<Rightarrow> Device list result) \<Rightarrow> string \<Rightarrow> Device gomap result" where
  "filterUniqueDisks unmarshal output =
     (case unmarshal output of
        Inl err \<Rightarrow> Inl (Msg (''error unmarshalling lsblk json output: '' @ errText err))
      | Inr disks \<Rightarrow>
          Inr (foldl (\<lambda>resultMap (k, v). mapPut (dvName v) v resultMap) []
                 (foldl dedupDisk [] disks)))"

text \<open>\<open>cosPartition\<close> is the loop over the children.\<close>

fun deviceContainsCOSPartition :: "Device \<Rightarrow> bool"
and cosPartition :: "Device list \<Rightarrow> bool" where
  "deviceContainsCOSPartition (Device name sz dtype wwn serial label children) = cosPartition children"
| "cosPartition [] = False"
| "cosPartition (part # ps) =
     (if dvDiskType part = MpathType then deviceContainsCOSPartition part
      else if dvDiskType part = PartitionType \<and> dvLabel part = CosDiskLabelPrefix then True
      else cosPartition ps)"

section \<open>The cache of disk options\<close>

record Option =
  opValue :: string
  opText :: string

record DiskOptionsCache =
  doDiskOptions :: "Option list"
  doHvstInstalledDiskOptions :: "Option list"

definition NewDiskOptionsCache :: DiskOptionsCache where
  "NewDiskOptionsCache = \<lparr>doDiskOptions = [], doHvstInstalledDiskOptions = []\<rparr>"

fun generateDiskWidgetOptions :: "string list \<Rightarrow> Option list" where
  "generateDiskWidgetOptions [] = []"
| "generateDiskWidgetOptions (line # ls) =
     (case splitN2 CHR '' '' line of
        (a, None) \<Rightarrow> generateDiskWidgetOptions ls
      | (a, Some b) \<Rightarrow> \<lparr>opValue = ''/dev/'' @ a, opText = line\<rparr> # generateDiskWidgetOptions ls)"

text \<open>\<open>run\<close> is the result of the \<^verbatim>\<open>lsblk\<close> command, its output or an error.\<close>

definition refresh ::
  "(string \<Rightarrow> Device list result) \<Rightarrow> string result \<Rightarrow> DiskOptionsCache \<Rightarrow> DiskOptionsCache result" where
  "refresh unmarshal run d =
     (case run of
        Inl err \<Rightarrow> Inl err
      | Inr output \<Rightarrow>
          (case filterUniqueDisks unmarshal output of
             Inl err \<Rightarrow> Inl err
           | Inr resultMap \<Rightarrow>
               (let disks = map (\<lambda>(k, device). generateDiskEntry device) resultMap;
                    hvstInstalledDisks = map (\<lambda>(k, device). generateDiskEntry device)
                      (filter (\<lambda>(k, device). deviceContainsCOSPartition device) resultMap)
                in Inr (d\<lparr>doDiskOptions := generateDiskWidgetOptions (sort disks),
                          doHvstInstalledDiskOptions :=
                            generateDiskWidgetOptions (sort hvstInstalledDisks)\<rparr>))))"

definition getAllValidDiskOptions :: "DiskOptionsCache \<Rightarrow> Option list" where
  "getAllValidDiskOptions d = doDiskOptions d"

definition useInstallDisk :: "string \<Rightarrow> string" where
  "useInstallDisk text = ''Use the installation disk ('' @ text @ '')''"

text \<open>The search for the operating system's disk; \<open>seen\<close> are the options passed over.\<close>

fun moveToFront :: "string \<Rightarrow> Option list \<Rightarrow> Option list \<Rightarrow> Option list option" where
  "moveToFront dev seen [] = None"
| "moveToFront dev seen (diskOpt # ds) =
     (if opValue diskOpt = dev
      then Some (\<lparr>opValue = opValue diskOpt, opText = useInstallDisk (opText diskOpt)\<rparr> # seen @ ds)
      else moveToFront dev (seen @ [diskOpt]) ds)"

definition getDataDiskOptions :: "DiskOptionsCache \<Rightarrow> HarvesterConfig \<Rightarrow> Option list result" where
  "getDataDiskOptions d hvstConfig =
     (if inDevice (hInstall hvstConfig) = []
      then (case doDiskOptions d of
              [] \<Rightarrow> Inl (Panic ''index out of range'')
            | o1 # os \<Rightarrow> Inr (o1\<lparr>opText := useInstallDisk (opText o1)\<rparr> # os))
      else (case moveToFront (inDevice (hInstall hvstConfig)) [] (doDiskOptions d) of
              Some ds \<Rightarrow> Inr ds
            | None \<Rightarrow> Inr []))"

definition getWipeDisksOptions :: "DiskOptionsCache \<Rightarrow> HarvesterConfig \<Rightarrow> Option list" where
  "getWipeDisksOptions d hvstConfig =
     filter (\<lambda>v. opValue v \<noteq> inDevice (hInstall hvstConfig) \<and> opValue v \<noteq> inDataDisk (hInstall hvstConfig))
       (doHvstInstalledDiskOptions d)"

definition presetConfigDisks :: "HarvesterConfig \<Rightarrow> Option list \<Rightarrow> HarvesterConfig" where
  "presetConfigDisks c diskOpts =
     (let i = hInstall c in
      if inDevice i \<noteq> [] \<and> inDataDisk i \<noteq> [] then c
      else (case diskOpts of
              [] \<Rightarrow> c
            | o1 # os \<Rightarrow>
                (let i1 = (if inDevice i = [] then i\<lparr>inDevice := opValue o1\<rparr> else i);
                     i2 = (if inDataDisk i1 = [] then i1\<lparr>inDataDisk := inDevice i1\<rparr> else i1)
                 in c\<lparr>hInstall := i2\<rparr>)))"

section \<open>Size checks\<close>

definition validateDiskSize :: "(string \<Rightarrow> string result) \<Rightarrow> string \<Rightarrow> bool \<Rightarrow> unit result" where
  "validateDiskSize lsblk devPath single =
     (case GetDiskSizeBytes lsblk devPath of
        Inl err \<Rightarrow> Inl err
      | Inr diskSizeBytes \<Rightarrow>
          (let limit = (if \<not> single then MultipleDiskMinSizeGiB else SingleDiskMinSizeGiB) in
           if ByteToGi diskSizeBytes < limit
           then Inl (Msg (''installation disk size is too small. Minimum '' @ showNat (unat limit) @ ''Gi is required''))
           else Inr ()))"

definition validateDataDiskSize :: "(string \<Rightarrow> string result) \<Rightarrow> string \<Rightarrow> unit result" where
  "validateDataDiskSize lsblk devPath =
     (case GetDiskSizeBytes lsblk devPath of
        Inl err \<Rightarrow> Inl err
      | Inr diskSizeBytes \<Rightarrow>
           if ByteToGi diskSizeBytes < HardMinDataDiskSizeGiB
           then Inl (Msg (''data disk size is too small. Minimum '' @ showNat (unat HardMinDataDiskSizeGiB) @ ''Gi is required''))
           else Inr ())"

definition diskExceedsMBRLimit :: "(string \<Rightarrow> string result) \<Rightarrow> string \<Rightarrow> bool result" where
  "diskExceedsMBRLimit lsblk blockDevPath =
     (case lsblk blockDevPath of
        Inl err \<Rightarrow> Inl err
      | Inr output \<Rightarrow>
          (case parseInt10 ''ParseInt'' (trimSpace output) of
             Inl err \<Rightarrow> Inl err
           | Inr sizeByte \<Rightarrow> if 2199023255040 < sizeByte then Inr True else Inr False))"

subsection \<open>The default size of the persistent partition\<close>

text \<open>
  \<^verbatim>\<open>float64(n)\<close> for a natural number: the nearest multiple of a power of two with 53 significant
  bits, ties to the even one.
\<close>

fun bitLen :: "nat \<Rightarrow> nat" where
  "bitLen n = (if n = 0 then 0 else Suc (bitLen (n div 2)))"

declare bitLen.simps [simp del]

definition round53 :: "nat \<Rightarrow> nat" where
  "round53 n =
     (if n < 2 ^ 53 then n
      else (let e = bitLen n - 53; q = n div 2 ^ e; r = n mod 2 ^ e; half = 2 ^ (e - 1)
            in (if half < r \<or> (r = half \<and> odd q) then q + 1 else q) * 2 ^ e))"

text \<open>
  \<^verbatim>\<open>uint64(float64(bytes) * 0.3)\<close>: the constant is the double \<open>5404319552844595 / 2 ^ 54\<close>, so the
  product is that of two integers, rounded to 53 bits, over \<open>2 ^ 54\<close>; the conversion truncates.
\<close>

definition mulPercentage :: "nat \<Rightarrow> nat" where
  "mulPercentage bytes = round53 (round53 bytes * 5404319552844595) div 2 ^ 54"

definition calculateDefaultPersistentSize :: "(string \<Rightarrow> string result) \<Rightarrow> string \<Rightarrow> string result" where
  "calculateDefaultPersistentSize lsblk dev =
     (case GetDiskSizeBytes lsblk dev of
        Inl err \<Rightarrow> Inl err
      | Inr bytes \<Rightarrow>
          (let defaultSize = ByteToGi (of_nat (mulPercentage (unat bytes)));
               defaultSize1 = (if defaultSize < of_nat PersistentSizeMinGiB
                               then of_nat PersistentSizeMinGiB else defaultSize)
           in Inr (showNat (unat defaultSize1) @ ''Gi'')))"

section \<open>Deduplication\<close>

text \<open>The identifiers of a disk and the keys under which it may be entered.\<close>

definition identifiers :: "Device \<Rightarrow> string list" where
  "identifiers d = filter (\<lambda>s. s \<noteq> []) [dvSerial d, dvWWN d]"

definition dedupKeys :: "Device \<Rightarrow> string list" where
  "dedupKeys d = (if identifiers d = [] then [dvName d] else identifiers d)"

lemma mapGet_putNew [simp]:
  "mapGet (putNew k d m) k' = (if k' = k \<and> mapGet m k = None then Some d else mapGet m k')"
  by (auto simp: putNew_def split: option.splits)

lemma dedupDisk_skip: "dvDiskType d \<noteq> diskType \<Longrightarrow> dedupDisk m d = m"
  by (simp add: dedupDisk_def)

lemma foldl_dedup_filter:
  "foldl dedupDisk m ds = foldl dedupDisk m (filter (\<lambda>d. dvDiskType d = diskType) ds)"
  by (induction ds arbitrary: m) (auto simp: dedupDisk_skip)

lemma mapGet_dedupDisk:
  assumes "dvDiskType d = diskType" "identifiers d = [] \<Longrightarrow> mapGet m (dvName d) = None"
  shows "mapGet (dedupDisk m d) k =
    (case mapGet m k of Some e \<Rightarrow> Some e | None \<Rightarrow> if k \<in> set (dedupKeys d) then Some d else None)"
  using assms
  by (auto simp: dedupDisk_def dedupKeys_def identifiers_def Let_def split: option.splits if_splits)

text \<open>Names are distinct and no name is used as an identifier.\<close>

definition namesApart :: "Device list \<Rightarrow> bool" where
  "namesApart ds \<longleftrightarrow> distinct (map dvName ds) \<and> (\<forall>d \<in> set ds. \<forall>e \<in> set ds. dvName d \<notin> set (identifiers e))"

lemma namesApart_snoc: "namesApart (ds @ [d]) \<Longrightarrow> namesApart ds"
  by (auto simp: namesApart_def)

lemma dedup_first:
  assumes "namesApart ds" "\<forall>d \<in> set ds. dvDiskType d = diskType"
  shows "mapGet (foldl dedupDisk [] ds) k = find (\<lambda>d. k \<in> set (dedupKeys d)) ds"
  using assms
proof (induction ds arbitrary: k rule: rev_induct)
  case Nil
  then show ?case by (simp add: mapGet_def)
next
  case (snoc d ds)
  have IH: "mapGet (foldl dedupDisk [] ds) k = find (\<lambda>d. k \<in> set (dedupKeys d)) ds" for k
    using snoc namesApart_snoc by auto
  have "dvName d \<notin> set (dedupKeys e)" if "e \<in> set ds" for e
    using that snoc.prems(1) by (auto simp: namesApart_def dedupKeys_def split: if_splits)
  then have "find (\<lambda>e. dvName d \<in> set (dedupKeys e)) ds = None"
    by (auto simp: find_None_iff)
  then show ?case
    using snoc.prems(2) IH by (auto simp: mapGet_dedupDisk find_snoc split: option.splits)
qed

lemma mapGet_byName_other:
  "n \<notin> (dvName \<circ> snd) ` set kvs \<Longrightarrow>
   mapGet (foldl (\<lambda>r (k, v). mapPut (dvName v) v r) r kvs) n = mapGet r n"
  by (induction kvs arbitrary: r) auto

lemma wfMap_byName: "wfMap r \<Longrightarrow> wfMap (foldl (\<lambda>r (k, v). mapPut (dvName v) v r) r kvs)"
  by (induction kvs arbitrary: r) (auto split: prod.splits)

lemma mapGet_byName:
  assumes "\<And>v w. v \<in> snd ` set kvs \<Longrightarrow> w \<in> snd ` set kvs \<Longrightarrow> dvName v = dvName w \<Longrightarrow> v = w"
  shows "mapGet (foldl (\<lambda>r (k, v). mapPut (dvName v) v r) [] kvs) n = Some d \<longleftrightarrow>
    d \<in> snd ` set kvs \<and> dvName d = n"
  using assms
proof (induction kvs arbitrary: n d rule: rev_induct)
  case Nil
  then show ?case by (simp add: mapGet_def)
next
  case (snoc kv kvs)
  obtain k v where kv: "kv = (k, v)" by (cases kv)
  have IH: "mapGet (foldl (\<lambda>r (k, v). mapPut (dvName v) v r) [] kvs) n = Some d \<longleftrightarrow>
      d \<in> snd ` set kvs \<and> dvName d = n" for n d
    by (rule snoc.IH) (rule snoc.prems; simp)
  have same: "d = v" if "dvName d = dvName v" "d \<in> snd ` set kvs" for d
    using snoc.prems [of d v] that kv by simp
  show ?case
  proof (cases "n = dvName v")
    case True
    then show ?thesis using same kv by auto
  next
    case False
    then show ?thesis using IH [of n d] kv by auto
  qed
qed

lemma dedup_wf: "wfMap m \<Longrightarrow> wfMap (foldl dedupDisk m ds)"
  by (induction ds arbitrary: m)
    (auto simp: dedupDisk_def putNew_def Let_def split: option.splits)

lemma wfMap_values: "wfMap m \<Longrightarrow> v \<in> snd ` set m \<longleftrightarrow> (\<exists>k. mapGet m k = Some v)"
  unfolding wfMap_def mapGet_def by (auto simp: image_iff) (metis map_of_SomeD snd_conv)

lemma find_first_iff:
  "(\<exists>k. find (\<lambda>d. k \<in> set (f d)) ds = Some d) \<longleftrightarrow>
   (\<exists>xs ys. ds = xs @ d # ys \<and> (\<exists>k \<in> set (f d). \<forall>e \<in> set xs. k \<notin> set (f e)))"
proof
  assume "\<exists>k. find (\<lambda>d. k \<in> set (f d)) ds = Some d"
  then obtain k i where "i < length ds" "k \<in> set (f (ds ! i))" "d = ds ! i"
    "\<forall>j < i. k \<notin> set (f (ds ! j))" by (auto simp: find_Some_iff)
  then have "ds = take i ds @ d # drop (Suc i) ds" "\<forall>e \<in> set (take i ds). k \<notin> set (f e)"
    "k \<in> set (f d)"
    by (auto simp: id_take_nth_drop in_set_conv_nth)
  then show "\<exists>xs ys. ds = xs @ d # ys \<and> (\<exists>k \<in> set (f d). \<forall>e \<in> set xs. k \<notin> set (f e))" by blast
next
  assume "\<exists>xs ys. ds = xs @ d # ys \<and> (\<exists>k \<in> set (f d). \<forall>e \<in> set xs. k \<notin> set (f e))"
  then obtain xs ys k where ds: "ds = xs @ d # ys" "k \<in> set (f d)" "\<forall>e \<in> set xs. k \<notin> set (f e)" by blast
  then have "find (\<lambda>d. k \<in> set (f d)) ds = Some d"
    by (induction xs arbitrary: ds) auto
  then show "\<exists>k. find (\<lambda>d. k \<in> set (f d)) ds = Some d" by blast
qed

text \<open>C17: Deduplication is exact. When the listed disks have distinct names and no name doubles as an
  identifier, a disk is offered exactly when it has neither serial number nor WWN, or when one of
  its identifiers was not seen on an earlier disk; it is offered once, under its own name.\<close>

theorem unique_disks_exact:
  assumes "unmarshal out = Inr listed"
    and "disks = filter (\<lambda>d. dvDiskType d = diskType) listed" and "namesApart disks"
  shows "\<exists>res. filterUniqueDisks unmarshal out = Inr res \<and> wfMap res \<and>
    (\<forall>n d. mapGet res n = Some d \<longleftrightarrow> n = dvName d \<and>
       (\<exists>xs ys. disks = xs @ d # ys \<and>
          (identifiers d = [] \<or> (\<exists>k \<in> set (identifiers d). \<forall>e \<in> set xs. k \<notin> set (identifiers e)))))"
proof -
  let ?dd = "foldl dedupDisk [] listed"
  have get: "mapGet ?dd k = find (\<lambda>d. k \<in> set (dedupKeys d)) disks" for k
    unfolding foldl_dedup_filter [of "[]" listed] using assms by (intro trans [OF dedup_first]) auto
  have vals: "v \<in> snd ` set ?dd \<longleftrightarrow>
      (\<exists>xs ys. disks = xs @ v # ys \<and> (\<exists>k \<in> set (dedupKeys v). \<forall>e \<in> set xs. k \<notin> set (dedupKeys e)))" for v
    using wfMap_values [OF dedup_wf [OF wfMap_Nil]] find_first_iff [of dedupKeys disks v]
    by (simp add: get)
  have keys: "(\<exists>k \<in> set (dedupKeys v). \<forall>e \<in> set xs. k \<notin> set (dedupKeys e)) \<longleftrightarrow>
      identifiers v = [] \<or> (\<exists>k \<in> set (identifiers v). \<forall>e \<in> set xs. k \<notin> set (identifiers e))"
    if "disks = xs @ v # ys" for v xs ys
    using assms(3) that unfolding namesApart_def dedupKeys_def by force
  have inj: "v = w" if "v \<in> snd ` set ?dd" "w \<in> snd ` set ?dd" "dvName v = dvName w" for v w
  proof -
    have "v \<in> set disks" "w \<in> set disks" using that(1,2) vals by force+
    then show ?thesis
      using assms(3) that(3) by (auto simp: namesApart_def distinct_map inj_on_def)
  qed
  let ?res = "foldl (\<lambda>r (k, v). mapPut (dvName v) v r) [] ?dd"
  have byName: "mapGet ?res n = Some d \<longleftrightarrow> d \<in> snd ` set ?dd \<and> dvName d = n" for n d
    by (rule mapGet_byName) (rule inj)
  have result: "mapGet ?res n = Some d \<longleftrightarrow> n = dvName d \<and>
       (\<exists>xs ys. disks = xs @ d # ys \<and>
          (identifiers d = [] \<or> (\<exists>k \<in> set (identifiers d). \<forall>e \<in> set xs. k \<notin> set (identifiers e))))" for n d
    unfolding byName vals
    by (subst conj_commute, intro conj_cong ex_cong1 keys) auto
  have "filterUniqueDisks unmarshal out = Inr ?res"
    using assms(1) by (simp add: filterUniqueDisks_def)
  then show ?thesis
    using result by (intro exI [of _ ?res] conjI allI wfMap_byName [OF wfMap_Nil])
qed

theorem unique_disks_exact_witness:
  "\<exists>res. filterUniqueDisks (\<lambda>_. Inr [Device ''sda'' ''300G'' ''disk'' ''w1'' ''s1'' [] [],
       Device ''sdb'' ''300G'' ''disk'' ''w1'' ''s1'' [] [], Device ''sr0'' ''1G'' ''rom'' [] [] [] []]) [] = Inr res \<and>
     mapGet res ''sda'' = Some (Device ''sda'' ''300G'' ''disk'' ''w1'' ''s1'' [] []) \<and> mapGet res ''sdb'' = None"
proof -
  let ?a = "Device ''sda'' ''300G'' ''disk'' ''w1'' ''s1'' [] []"
  let ?b = "Device ''sdb'' ''300G'' ''disk'' ''w1'' ''s1'' [] []"
  let ?listed = "[?a, ?b, Device ''sr0'' ''1G'' ''rom'' [] [] [] []]"
  have "\<exists>res. filterUniqueDisks (\<lambda>_. Inr ?listed) [] = Inr res \<and> wfMap res \<and>
    (\<forall>n d. mapGet res n = Some d \<longleftrightarrow> n = dvName d \<and> (\<exists>xs ys. [?a, ?b] = xs @ d # ys \<and>
      (identifiers d = [] \<or> (\<exists>k \<in> set (identifiers d). \<forall>e \<in> set xs. k \<notin> set (identifiers e)))))"
    by (rule unique_disks_exact [of _ _ ?listed]) (simp_all add: namesApart_def identifiers_def)
  then obtain res where res: "filterUniqueDisks (\<lambda>_. Inr ?listed) [] = Inr res"
    and get: "\<And>n d. mapGet res n = Some d \<longleftrightarrow> n = dvName d \<and> (\<exists>xs ys. [?a, ?b] = xs @ d # ys \<and>
      (identifiers d = [] \<or> (\<exists>k \<in> set (identifiers d). \<forall>e \<in> set xs. k \<notin> set (identifiers e))))"
    by blast
  have "mapGet res ''sda'' = Some ?a"
    unfolding get by (rule conjI, simp, rule exI [of _ "[]"]) (auto simp: identifiers_def)
  moreover have "mapGet res ''sdb'' \<noteq> Some d" for d
    unfolding get by (cases d) (auto simp: Cons_eq_append_conv identifiers_def)
  then have "mapGet res ''sdb'' = None" by (cases "mapGet res ''sdb''") blast+
  ultimately show ?thesis using res by blast
qed

section \<open>The options offered\<close>

definition diskOption :: "Device \<Rightarrow> Option" where
  "diskOption d = \<lparr>opValue = ''/dev/'' @ dvName d, opText = generateDiskEntry d\<rparr>"

definition plainNames :: "Device gomap \<Rightarrow> bool" where
  "plainNames res \<longleftrightarrow> (\<forall>d \<in> snd ` set res. CHR '' '' \<notin> set (dvName d))"

lemma splitN2_first: "c \<notin> set a \<Longrightarrow> splitN2 c (a @ c # b) = (a, Some b)"
  by (induction a) auto

lemma options_concat: "generateDiskWidgetOptions ls = concat (map (\<lambda>l. generateDiskWidgetOptions [l]) ls)"
  by (induction ls) (auto split: option.splits prod.splits)

lemma option_of_entry:
  "CHR '' '' \<notin> set (dvName d) \<Longrightarrow> generateDiskWidgetOptions [generateDiskEntry d] = [diskOption d]"
  by (simp add: generateDiskEntry_def diskOption_def splitN2_first)

lemma options_set:
  assumes "\<forall>d \<in> set ds. CHR '' '' \<notin> set (dvName d)"
  shows "set (generateDiskWidgetOptions (sort (map generateDiskEntry ds))) = diskOption ` set ds"
  using assms by (subst options_concat) (auto simp: option_of_entry simp del: generateDiskWidgetOptions.simps)

lemma options_texts: "opt \<in> set (generateDiskWidgetOptions ls) \<Longrightarrow> opText opt \<in> set ls"
  by (induction ls) (auto split: option.splits prod.splits)

lemma options_sorted: "sorted ls \<Longrightarrow> sorted (map opText (generateDiskWidgetOptions ls))"
proof (induction ls)
  case (Cons l ls)
  then show ?case using options_texts [of _ ls] by (auto split: option.splits prod.splits)
qed simp

lemma options_order_free:
  "mset xs = mset ys \<Longrightarrow> generateDiskWidgetOptions (sort xs) = generateDiskWidgetOptions (sort ys)"
  using properties_for_sort [of "sort ys" xs] by simp

text \<open>After a refresh the page offers exactly the unique disks: one option per disk, with the device
  path as its value, in the byte order of the texts; the disks that already carry an installation
  are those with a \<^verbatim>\<open>COS_OEM\<close> partition, and each of them is among the disks offered.\<close>

theorem refresh_options:
  assumes "filterUniqueDisks unmarshal out = Inr res" "plainNames res"
  shows "\<exists>d'. refresh unmarshal (Inr out) d = Inr d' \<and>
    set (getAllValidDiskOptions d') = diskOption ` snd ` set res \<and>
    sorted (map opText (getAllValidDiskOptions d')) \<and>
    set (doHvstInstalledDiskOptions d') = diskOption ` {v \<in> snd ` set res. deviceContainsCOSPartition v} \<and>
    set (doHvstInstalledDiskOptions d') \<subseteq> set (getAllValidDiskOptions d')"
proof -
  have entries: "map (\<lambda>(k, device). generateDiskEntry device) kvs = map generateDiskEntry (map snd kvs)"
    for kvs :: "Device gomap" by auto
  have all: "set (generateDiskWidgetOptions (sort (map generateDiskEntry (map snd res)))) =
      diskOption ` snd ` set res"
    using assms(2) by (subst options_set) (auto simp: plainNames_def)
  have cos: "set (generateDiskWidgetOptions (sort (map generateDiskEntry (map snd
      (filter (\<lambda>(k, device). deviceContainsCOSPartition device) res))))) =
      diskOption ` {v \<in> snd ` set res. deviceContainsCOSPartition v}"
    using assms(2) by (subst options_set) (force simp: plainNames_def)+
  show ?thesis
    using all cos options_sorted [OF sorted_sort]
    by (simp add: refresh_def assms(1) entries getAllValidDiskOptions_def Let_def) blast
qed

theorem refresh_options_witness:
  "\<exists>d'. refresh (\<lambda>_. Inr [Device ''sda'' ''300G'' ''disk'' [] [] [] []]) (Inr []) NewDiskOptionsCache = Inr d' \<and>
     set (getAllValidDiskOptions d') = {diskOption (Device ''sda'' ''300G'' ''disk'' [] [] [] [])} \<and>
     doHvstInstalledDiskOptions d' = []"
proof -
  let ?sda = "Device ''sda'' ''300G'' ''disk'' [] [] [] []"
  have res: "filterUniqueDisks (\<lambda>_. Inr [?sda]) [] = Inr [(''sda'', ?sda)]"
    by (simp add: filterUniqueDisks_def dedupDisk_def mapPut_def)
  have "plainNames [(''sda'', ?sda)]" by (simp add: plainNames_def)
  from refresh_options [OF res this, of NewDiskOptionsCache] obtain d' where
    d': "refresh (\<lambda>_. Inr [?sda]) (Inr []) NewDiskOptionsCache = Inr d'"
    "set (getAllValidDiskOptions d') = diskOption ` snd ` set [(''sda'', ?sda)]"
    "set (doHvstInstalledDiskOptions d') =
       diskOption ` {v \<in> snd ` set [(''sda'', ?sda)]. deviceContainsCOSPartition v}"
    by (elim exE conjE) (rule that)
  have "{v \<in> snd ` set [(''sda'', ?sda)]. deviceContainsCOSPartition v} = {}" by auto
  with d' have "doHvstInstalledDiskOptions d' = []" by (simp only: image_empty set_empty)
  moreover have "set (getAllValidDiskOptions d') = {diskOption ?sda}" using d'(2) by (simp only: list.set image_insert image_empty snd_conv)
  ultimately show ?thesis using d'(1) by (intro exI [of _ d'] conjI)
qed

lemma moveToFront_Some:
  "moveToFront dev seen ds = Some r \<Longrightarrow>
   \<exists>pre opt post. ds = pre @ opt # post \<and> opValue opt = dev \<and>
     r = opt\<lparr>opText := useInstallDisk (opText opt)\<rparr> # seen @ pre @ post"
proof (induction dev seen ds rule: moveToFront.induct)
  case (2 dev seen diskOpt ds)
  show ?case
  proof (cases "opValue diskOpt = dev")
    case True
    with "2.prems" show ?thesis by (intro exI [of _ "[]"]) auto
  next
    case False
    then obtain pre opt post where "ds = pre @ opt # post" "opValue opt = dev"
      "r = opt\<lparr>opText := useInstallDisk (opText opt)\<rparr> # (seen @ [diskOpt]) @ pre @ post"
      using 2 by auto
    then show ?thesis by (intro exI [of _ "diskOpt # pre"] exI [of _ opt] exI [of _ post]) simp
  qed
qed simp

lemma moveToFront_None: "moveToFront dev seen ds = None \<longleftrightarrow> dev \<notin> opValue ` set ds"
  by (induction dev seen ds rule: moveToFront.induct) auto

text \<open>The choice of the data disk is a rearrangement of the disks offered: when the installation disk
  is one of them it comes first, marked as the installation disk, and every other disk keeps its
  option; when the installation disk is unknown no choice is offered.\<close>

theorem data_disk_options:
  assumes "inDevice (hInstall cfg) \<noteq> []"
  shows "if inDevice (hInstall cfg) \<in> opValue ` set (doDiskOptions d)
    then \<exists>r opt rest. getDataDiskOptions d cfg = Inr r \<and>
      r = opt\<lparr>opText := useInstallDisk (opText opt)\<rparr> # rest \<and>
      opValue opt = inDevice (hInstall cfg) \<and> mset (doDiskOptions d) = add_mset opt (mset rest)
    else getDataDiskOptions d cfg = Inr []"
proof (cases "moveToFront (inDevice (hInstall cfg)) [] (doDiskOptions d)")
  case None
  then have "inDevice (hInstall cfg) \<notin> opValue ` set (doDiskOptions d)"
    by (simp add: moveToFront_None)
  with None assms show ?thesis by (simp add: getDataDiskOptions_def)
next
  case (Some r)
  then have "inDevice (hInstall cfg) \<in> opValue ` set (doDiskOptions d)"
    using moveToFront_None [of "inDevice (hInstall cfg)" "[]" "doDiskOptions d"] by auto
  with moveToFront_Some [OF Some] Some assms show ?thesis
    by (auto simp: getDataDiskOptions_def)
qed

theorem data_disk_options_witness:
  "\<exists>r opt rest. getDataDiskOptions
     \<lparr>doDiskOptions = [\<lparr>opValue = ''/dev/sda'', opText = ''sda''\<rparr>, \<lparr>opValue = ''/dev/sdb'', opText = ''sdb''\<rparr>],
      doHvstInstalledDiskOptions = []\<rparr>
     (NewHarvesterConfig\<lparr>hInstall := emptyInstall\<lparr>inDevice := ''/dev/sdb''\<rparr>\<rparr>) = Inr r \<and>
     r = opt\<lparr>opText := useInstallDisk (opText opt)\<rparr> # rest \<and> opValue opt = ''/dev/sdb''"
  using data_disk_options [of "NewHarvesterConfig\<lparr>hInstall := emptyInstall\<lparr>inDevice := ''/dev/sdb''\<rparr>\<rparr>"
      "\<lparr>doDiskOptions = [\<lparr>opValue = ''/dev/sda'', opText = ''sda''\<rparr>, \<lparr>opValue = ''/dev/sdb'', opText = ''sdb''\<rparr>],
      doHvstInstalledDiskOptions = []\<rparr>"]
  by simp blast

section \<open>Default size\<close>

lemma bitLen_bounds: "0 < n \<Longrightarrow> 2 ^ (bitLen n - 1) \<le> n \<and> n < 2 ^ bitLen n \<and> 0 < bitLen n"
proof (induction n rule: bitLen.induct)
  case (1 n)
  show ?case
  proof (cases "n div 2 = 0")
    case True
    then have "n = 1" using 1 by auto
    moreover have "bitLen 1 = 1" by (subst bitLen.simps) (simp add: bitLen.simps [of 0])
    ultimately show ?thesis by simp
  next
    case False
    then have ih: "2 ^ (bitLen (n div 2) - 1) \<le> n div 2" "n div 2 < 2 ^ bitLen (n div 2)" "0 < bitLen (n div 2)"
      using 1 by auto
    have "(2::nat) ^ bitLen (n div 2) = 2 * 2 ^ (bitLen (n div 2) - 1)"
      using ih(3) by (metis Suc_pred' power_Suc)
    then have "2 ^ bitLen (n div 2) \<le> n" "n < 2 * 2 ^ bitLen (n div 2)"
      using ih by linarith+
    then show ?thesis using 1 by (subst (1 2 3) bitLen.simps) simp
  qed
qed

text \<open>The relative error of rounding is at most \<open>2 ^ -52\<close>.\<close>

lemma round53_upper: "round53 n * 2 ^ 52 \<le> n * (2 ^ 52 + 1)"
proof (cases "n < 2 ^ 53")
  case True
  then show ?thesis by (simp add: round53_def)
next
  case False
  define e where "e = bitLen n - 53"
  define q where "q = n div 2 ^ e"
  have b: "2 ^ (bitLen n - 1) \<le> n" "n < 2 ^ bitLen n" using bitLen_bounds [of n] False by auto
  have "\<not> bitLen n \<le> 53"
    using b(2) False power_increasing [of "bitLen n" 53 "2::nat"] by fastforce
  then have len: "bitLen n - 1 = 52 + e" by (simp add: e_def)
  have "2 ^ 52 * 2 ^ e \<le> n" using b(1) unfolding len by (simp add: power_add)
  then have "(2::nat) ^ 52 * 2 ^ e div 2 ^ e \<le> n div 2 ^ e" by (rule div_le_mono)
  then have q: "2 ^ 52 \<le> q" unfolding q_def by simp
  have "round53 n \<le> (q + 1) * 2 ^ e"
    using False by (auto simp: round53_def Let_def e_def q_def)
  then have "round53 n * 2 ^ 52 \<le> (q + 1) * 2 ^ e * 2 ^ 52" by simp
  also have "\<dots> = q * 2 ^ e * 2 ^ 52 + 2 ^ 52 * 2 ^ e" by (simp add: algebra_simps)
  also have "\<dots> \<le> q * 2 ^ e * 2 ^ 52 + q * 2 ^ e" using q by simp
  also have "\<dots> = q * 2 ^ e * (2 ^ 52 + 1)" by (simp add: algebra_simps)
  also have "\<dots> \<le> n * (2 ^ 52 + 1)" unfolding q_def by (intro mult_le_mono1 div_times_less_eq_dividend)
  finally show ?thesis .
qed

lemma mulPercentage_upper: "mulPercentage n * 100 \<le> 31 * n"
proof -
  let ?m = "5404319552844595 :: nat"
  have "mulPercentage n * 2 ^ 54 \<le> round53 (round53 n * ?m)"
    unfolding mulPercentage_def by (rule div_times_less_eq_dividend)
  then have "mulPercentage n * 2 ^ 54 * 2 ^ 52 \<le> round53 n * ?m * (2 ^ 52 + 1)"
    by (rule order_trans [OF mult_le_mono1 round53_upper])
  then have "mulPercentage n * 2 ^ 54 * 2 ^ 52 * 2 ^ 52 \<le> round53 n * 2 ^ 52 * (?m * (2 ^ 52 + 1))"
    by simp
  also have "\<dots> \<le> n * (2 ^ 52 + 1) * (?m * (2 ^ 52 + 1))"
    by (intro mult_le_mono1 round53_upper)
  finally show ?thesis by simp
qed

text \<open>C28: The default that the disk page proposes for the persistent partition is always valid: on every disk
  of at least 250 GiB it is at least 150 GiB and the size check accepts it, so confirming the default
  never fails, in spite of the rounding of the floating-point product.\<close>

theorem default_persistent_size_accepted:
  assumes "GetDiskSizeBytes lsblk dev = Inr d" "250 * 2 ^ 30 \<le> unat d"
  shows "\<exists>s g. calculateDefaultPersistentSize lsblk dev = Inr s \<and> s = showNat g @ ''Gi'' \<and> 150 \<le> g \<and>
    ParsePartitionSize d s False = Inr (of_nat (g * 2 ^ 30))"
proof -
  let ?p = "mulPercentage (unat d)"
  define g where "g = max 150 (?p div 2 ^ 30)"
  have p: "?p * 100 \<le> 31 * unat d" by (rule mulPercentage_upper)
  have d: "unat d < 2 ^ 64" using unsigned_less [of d] by simp
  have p64: "?p < 2 ^ 64" using p d by linarith
  have gi: "unat (ByteToGi (of_nat ?p)) = ?p div 2 ^ 30"
    using p64 by (simp add: unat_ByteToGi unat_of_nat_u64)
  have "?p div 2 ^ 30 * 2 ^ 30 \<le> ?p" by (rule div_times_less_eq_dividend)
  then have room: "g * 2 ^ 30 + 78502690816 \<le> unat d"
    using p assms(2) unfolding g_def max_def by auto
  have calc: "calculateDefaultPersistentSize lsblk dev = Inr (showNat g @ ''Gi'')"
    using assms(1) gi by (simp add: calculateDefaultPersistentSize_def Let_def word_less_nat_alt g_def max_def)
  have g64: "g < 2 ^ 64" "g * 2 ^ 30 < 2 ^ 64" using room d by simp_all
  have bytes: "of_nat g * GiByteMultiplier = of_nat (g * 2 ^ 30)"
    by (simp add: GiByteMultiplier_def)
  have val: "unat (of_nat (g * 2 ^ 30) :: u64) = g * 2 ^ 30" by (rule unat_of_nat_u64 [OF g64(2)])
  have ok: "ParsePartitionSize d (showNat g @ ''Gi'') False = Inr (of_nat (g * 2 ^ 30))"
    unfolding ParsePartitionSize_checked val parsePartitionBytes_Gi [OF g64(1)] bytes
    using room assms(2) by (simp add: g_def)
  show ?thesis
    using calc ok by (intro exI [of _ "showNat g @ ''Gi''"] exI [of _ g]) (simp add: g_def)
qed

theorem default_persistent_size_accepted_witness:
  "\<exists>s g. calculateDefaultPersistentSize (\<lambda>_. Inr (showNat (2 ^ 40))) ''/dev/sda'' = Inr s \<and>
     s = showNat g @ ''Gi'' \<and> 150 \<le> g \<and>
     ParsePartitionSize (2 ^ 40) s False = Inr (of_nat (g * 2 ^ 30))"
  using default_persistent_size_accepted [of "\<lambda>_. Inr (showNat (2 ^ 40))" "''/dev/sda''" "2 ^ 40"]
    parseUint_showNat [of "2 ^ 40" 64]
  by (simp add: GetDiskSizeBytes_def)

end
