(* ===== verification/Validator.thy ===== *)
theory Validator
  imports Disks
begin

text \<open>
  Validation of a configuration, \<^verbatim>\<open>pkg/console/validator.go\<close>, one definition per check. What the
  checks read of the host is the record \<open>host\<close>. The check of the device refreshes the cache of
  disk options, so the definitions that reach it return the cache as well.
\<close>

section \<open>The host\<close>

text \<open>
  \<open>hoLstat\<close> says whether a path is a symbolic link; \<open>hoLsblk\<close> is \<^verbatim>\<open>lsblk -n -b -d -r -o SIZE\<close> on a
  path and \<open>hoLsblkJSON\<close> the listing of all devices; \<open>hoUnmarshal\<close> and \<open>hoDecodeRegistry\<close> are the
  two uses of \<^verbatim>\<open>encoding/json\<close>; \<open>hoAlreadyInstalled\<close> is the global of that name.
\<close>

record host =
  hoInterfaces :: "hostIface list result"
  hoLstat :: "string \<Rightarrow> bool result"
  hoEvalSymlinks :: "string \<Rightarrow> string result"
  hoLsblk :: "string \<Rightarrow> string result"
  hoLsblkJSON :: "string result"
  hoUnmarshal :: "string \<Rightarrow> Device list result"
  hoDecodeRegistry :: "string \<Rightarrow> unit result"
  hoSystemIsBIOS :: bool
  hoAlreadyInstalled :: bool

section \<open>Checks of single values\<close>

definition prettyError :: "string \<Rightarrow> string \<Rightarrow> goerror" where
  "prettyError errMsg value = Msg (errMsg @ '': '' @ value)"

abbreviation "ErrMsgVLANShouldBeANumberInRange \<equiv> ''VLAN ID should be a number 1 ~ 4094.''"
abbreviation "ErrMsgDeviceTooSmall \<equiv> ''device size too small. At least 250G is required''"

definition checkInterface :: "host \<Rightarrow> NetworkInterface \<Rightarrow> unit result" where
  "checkInterface h iface0 =
     (case FindNetworkInterfaceName (hoInterfaces h) iface0 of
        Inl err \<Rightarrow> Inl err
      | Inr iface \<Rightarrow>
          if ifName iface = [] then Inl (Msg ''no interface specified'')
          else (case hoInterfaces h of
                  Inl err \<Rightarrow> Inl err
                | Inr ifaces \<Rightarrow>
                    (case find (\<lambda>i. hiName i = ifName iface) ifaces of
                       Some i \<Rightarrow> if hiLoopback i
                                 then Inl (prettyError ''interface is a loopback interface'' (ifName iface))
                                 else Inr ()
                     | None \<Rightarrow> Inl (prettyError ''interface not found'' (ifName iface)))))"

definition checkStaticRequiredString :: "string \<Rightarrow> string \<Rightarrow> unit result" where
  "checkStaticRequiredString field value =
     (if length value = 0 then Inl (Msg (''must specify '' @ field @ '' in static method'')) else Inr ())"

definition checkDomain :: "string \<Rightarrow> unit result" where
  "checkDomain domain =
     (if 0 < length (IsDNS1123Subdomain domain) then Inl (Msg (domain @ '' is not a valid domain''))
      else Inr ())"

definition checkIP :: "string \<Rightarrow> unit result" where
  "checkIP addr =
     (case ParseIP addr of
        None \<Rightarrow> Inl (Msg (addr @ '' is not a valid IP address''))
      | Some ip \<Rightarrow> if To4 ip = None then Inl (Msg (addr @ '' is not a valid IP address'')) else Inr ())"

definition checkMTU :: "int \<Rightarrow> unit result" where
  "checkMTU mtu =
     (if mtu = 0 then Inr ()
      else if mtu < 576 \<or> 9000 < mtu then Inl (Msg (showInt mtu @ '' is not a valid MTU value''))
      else Inr ())"

definition checkHwAddr :: "string \<Rightarrow> unit result" where
  "checkHwAddr hwAddr =
     (if ParseMAC hwAddr = None
      then Inl (Wrap (hwAddr @ '' is an invalid hardware address, error'')
                  (Msg (''address '' @ hwAddr @ '': invalid MAC address'')))
      else Inr ())"

definition checkIPList :: "string list \<Rightarrow> unit result" where
  "checkIPList ipList = allR checkIP ipList"

definition checkNetworks :: "host \<Rightarrow> Network \<Rightarrow> string list \<Rightarrow> unit result" where
  "checkNetworks h network dnsServers =
     (if length (nwInterfaces network) = 0
      then Inl (Msg ''no interface specified for management network'')
      else if nwMethod network \<noteq> NetworkMethodDHCP \<and> nwMethod network \<noteq> NetworkMethodStatic
      then Inl (Msg ''management network must configure with either static or DHCP method'')
      else if nwMethod network = NetworkMethodStatic \<and> length dnsServers = 0
      then Inl (Msg ''DNS servers are required for static IP address'')
      else thenR (allR (checkInterface h) (nwInterfaces network))
        (if nwVlanID network < 0 \<or> 4094 < nwVlanID network
         then Inl (Msg ErrMsgVLANShouldBeANumberInRange)
         else if nwMethod network \<in> {NetworkMethodDHCP, NetworkMethodNone, []} then Inr ()
         else if nwMethod network = NetworkMethodStatic
         then thenR (checkStaticRequiredString ''ip'' (nwIP network))
             (thenR (checkIP (nwIP network))
             (thenR (checkStaticRequiredString ''subnetMask'' (nwSubnetMask network))
             (thenR (checkIP (nwSubnetMask network))
             (thenR (checkStaticRequiredString ''gateway'' (nwGateway network))
             (thenR (checkIP (nwGateway network))
             (checkMTU (nwMTU network)))))))
         else Inl (prettyError ''unknown network method'' (nwMethod network))))"

definition checkVip :: "string \<Rightarrow> string \<Rightarrow> string \<Rightarrow> unit result" where
  "checkVip vip vipHwAddr vipMode =
     thenR (checkIP vip)
       (if vipMode = NetworkMethodDHCP then checkHwAddr vipHwAddr
        else if vipMode = NetworkMethodStatic \<or> vipMode = NetworkMethodNone then Inr ()
        else Inl (prettyError ''unknown vip mode'' vipMode))"

definition checkForceMBR :: "host \<Rightarrow> string \<Rightarrow> unit result" where
  "checkForceMBR h device =
     (case diskExceedsMBRLimit (hoLsblk h) device of
        Inl err \<Rightarrow> Inl err
      | Inr diskTooLargeForMBR \<Rightarrow>
          if diskTooLargeForMBR
          then Inl (prettyError ''disk size too large for MBR partitioning table'' device)
          else if \<not> hoSystemIsBIOS h then Inl (prettyError ''cannot force MBR on UEFI system'' ''UEFI'')
          else Inr ())"

text \<open>The character class of a token as the source spells it; \<^verbatim>\<open>,-.\<close> in it is a range.\<close>

definition validTokenChar :: "char \<Rightarrow> bool" where
  "validTokenChar c \<longleftrightarrow>
     (CHR ''a'' \<le> c \<and> c \<le> CHR ''z'') \<or> (CHR ''A'' \<le> c \<and> c \<le> CHR ''Z'') \<or> (CHR ''0'' \<le> c \<and> c \<le> CHR ''9'') \<or>
     c \<in> set '' !'' \<or> c = CHR 0x22 \<or> c \<in> set ''#$%&'' \<or> c = CHR 0x27 \<or> c \<in> set ''()*+'' \<or>
     (CHR '','' \<le> c \<and> c \<le> CHR ''.'') \<or> c \<in> set ''/:;<=>?@^_'' \<or> c = CHR 0x60 \<or> c \<in> set ''{|}~[]'' \<or> c = CHR 0x5C"

definition tokenPattern :: string where
  "tokenPattern = ''^[a-zA-Z0-9 !'' @ [CHR 0x22] @ ''#$%&'' @ [CHR 0x27] @ ''()*+,-./:;<=>?@^_'' @ [CHR 0x60] @
     ''{|}~['' @ [CHR 0x5C] @ '']'' @ [CHR 0x5C, CHR 0x5C] @ '']+$''"

definition checkToken :: "string \<Rightarrow> unit result" where
  "checkToken token =
     (if \<not> (token \<noteq> [] \<and> list_all validTokenChar token)
      then Inl (Msg (''Invalid token. Must be alphanumeric and OWASP special password characters. Regexp: '' @
                     tokenPattern))
      else Inr ())"

definition persistentStateDirBlackList :: "string list" where
  "persistentStateDirBlackList = [''/tmp'']"

definition checkPersistentStatePath :: "string \<Rightarrow> unit result" where
  "checkPersistentStatePath path =
     (if \<not> hasPrefix path ''/''
      then Inl (Msg ''Invalid path. PersistentStatePath must be an absolute path'')
      else allR (\<lambda>d. if path = d \<or> hasPrefix path (d @ ''/'')
                     then Inl (Msg (''Invalid path. Parent dir of PersistentStatePath cannot be '' @ d))
                     else Inr ()) persistentStateDirBlackList)"

definition checkPersistentStatePaths :: "string list \<Rightarrow> unit result" where
  "checkPersistentStatePaths persistentStatePaths = allR checkPersistentStatePath persistentStatePaths"

definition checkSystemSettings :: "host \<Rightarrow> string gomap \<Rightarrow> unit result" where
  "checkSystemSettings h systemSettings =
     allR (\<lambda>(systemSetting, value).
             let isValid = StringSliceContains GetSystemSettingsAllowList systemSetting in
             if systemSetting = ''containerd-registry'' \<and> \<not> isOk (hoDecodeRegistry h value)
             then Inl (Msg ''could not parse containerd-registry as JSON'')
             else if \<not> isValid then Inl (Msg (''unknown system settings: '' @ systemSetting))
             else Inr ())
       systemSettings"

section \<open>Checks that refresh the disk options\<close>

text \<open>The part of \<^verbatim>\<open>checkDevice\<close> after the device was found.\<close>

definition checkDeviceSizes :: "host \<Rightarrow> HarvesterConfig \<Rightarrow> unit result" where
  "checkDeviceSizes h cfg =
     (let installDisk = inDevice (hInstall cfg); dataDisk = inDataDisk (hInstall cfg);
          small = (\<lambda>disk r. case r of Inl err \<Rightarrow> Inl (prettyError ErrMsgDeviceTooSmall disk) | Inr u \<Rightarrow> Inr ())
      in if inSkipChecks (hInstall cfg) then Inr ()
         else if inRole (hInstall cfg) = RoleWitness
         then small installDisk (validateDiskSize (hoLsblk h) installDisk False)
         else if dataDisk = installDisk \<or> dataDisk = []
         then small installDisk (validateDiskSize (hoLsblk h) installDisk True)
         else thenR (small installDisk (validateDiskSize (hoLsblk h) installDisk False))
                (small dataDisk (validateDataDiskSize (hoLsblk h) dataDisk)))"

definition targetDevice :: "host \<Rightarrow> string \<Rightarrow> string result" where
  "targetDevice h installDisk =
     (case hoLstat h installDisk of
        Inl err \<Rightarrow> Inl err
      | Inr isSymlink \<Rightarrow> if isSymlink then hoEvalSymlinks h installDisk else Inr installDisk)"

definition checkDevice ::
  "host \<Rightarrow> DiskOptionsCache \<Rightarrow> HarvesterConfig \<Rightarrow> unit result \<times> DiskOptionsCache" where
  "checkDevice h diskOptionsCache cfg =
     (let installDisk = inDevice (hInstall cfg) in
      if installDisk = [] then (Inl (Msg ''no device specified''), diskOptionsCache)
      else (case targetDevice h installDisk of
              Inl err \<Rightarrow> (Inl err, diskOptionsCache)
            | Inr target \<Rightarrow>
                (case refresh (hoUnmarshal h) (hoLsblkJSON h) diskOptionsCache of
                   Inl err \<Rightarrow> (Inl err, diskOptionsCache)
                 | Inr cache \<Rightarrow>
                     (if \<not> list_ex (\<lambda>opt. target = opValue opt) (getAllValidDiskOptions cache)
                      then Inl (prettyError ''device not found'' installDisk)
                      else checkDeviceSizes h cfg, cache))))"

definition diskChecks ::
  "host \<Rightarrow> DiskOptionsCache \<Rightarrow> HarvesterConfig \<Rightarrow> unit result \<times> DiskOptionsCache" where
  "diskChecks h diskOptionsCache cfg =
     (case checkDevice h diskOptionsCache cfg of
        (Inl err, cache) \<Rightarrow> (Inl err, cache)
      | (Inr u, cache) \<Rightarrow>
          (if inForceMBR (hInstall cfg) then checkForceMBR h (inDevice (hInstall cfg)) else Inr (), cache))"

text \<open>The checks of \<^verbatim>\<open>Validate\<close> before and after the disks.\<close>

definition networkAndTokenChecks :: "host \<Rightarrow> HarvesterConfig \<Rightarrow> unit result" where
  "networkAndTokenChecks h cfg =
     (if inMode (hInstall cfg) \<noteq> ModeInstall
      then (if length (nwInterfaces (inManagementInterface (hInstall cfg))) = 0
            then Inl (Msg (''networks is deprecated, please use management_interface for new config and refer '' @
                   ''https://docs.harvesterhci.io/v1.1/install/harvester-configuration/#installmanagement_interface''))
            else thenR (checkNetworks h (inManagementInterface (hInstall cfg)) (osDNSNameservers (hOS cfg)))
                   (checkToken (hToken cfg)))
      else Inr ())"

definition createChecks :: "host \<Rightarrow> HarvesterConfig \<Rightarrow> unit result" where
  "createChecks h cfg =
     (if inMode (hInstall cfg) = ModeCreate
      then thenR (checkVip (inVip (hInstall cfg)) (inVipHwAddr (hInstall cfg)) (inVipMode (hInstall cfg)))
             (checkSystemSettings h (hSystemSettings cfg))
      else Inr ())"

definition Validate ::
  "host \<Rightarrow> DiskOptionsCache \<Rightarrow> HarvesterConfig \<Rightarrow> unit result \<times> DiskOptionsCache" where
  "Validate h diskOptionsCache cfg =
     (if hSchemeVersion cfg \<noteq> SchemeVersion
      then (Inl (Msg (''Unsupported Harvester Scheme Version '' @ showNat (unat (hSchemeVersion cfg)) @
              '', please use new config and refer https://docs.harvesterhci.io/v1.1/install/harvester-configuration/'')),
            diskOptionsCache)
      else if 0 < length (IsDNS1123Subdomain (osHostname (hOS cfg)))
      then (Inl (Msg (''invalid hostname. A lowercase RFC 1123 subdomain must consist of lower case alphanumeric characters, '' @
              [CHR 0x27] @ ''-'' @ [CHR 0x27] @ '' or '' @ [CHR 0x27] @ ''.'' @ [CHR 0x27])), diskOptionsCache)
      else (case diskChecks h diskOptionsCache cfg of
              (Inl err, cache) \<Rightarrow> (Inl err, cache)
            | (Inr u, cache) \<Rightarrow>
                (thenR (networkAndTokenChecks h cfg)
                   (thenR (createChecks h cfg)
                      (case GetKubeletArgs cfg of Inl err \<Rightarrow> Inl err | Inr args \<Rightarrow> Inr ())), cache)))"

definition commonCheck :: "host \<Rightarrow> HarvesterConfig \<Rightarrow> unit result" where
  "commonCheck h cfg =
     (let mode = inMode (hInstall cfg);
          rest = (if \<not> hoAlreadyInstalled h \<and> mode \<noteq> ModeInstall \<and> inAutomatic (hInstall cfg) \<and>
                     inISOURL (hInstall cfg) = []
                  then Inl (Msg ''iso_url is required in automatic installation'')
                  else if mode \<noteq> ModeInstall \<and> hToken cfg = [] then Inl (Msg ''token not specified'')
                  else if length (osSSHAuthorizedKeys (hOS cfg)) = 0 \<and> osPassword (hOS cfg) = []
                  then Inl (Msg ''no SSH authorized keys or passwords are set'')
                  else checkPersistentStatePaths (osPersistentStatePaths (hOS cfg)))
      in if mode = ModeUpgrade \<or> mode = ModeInstall then Inr ()
         else if mode = ModeCreate
         then (if hServerURL cfg \<noteq> [] then Inl (Msg ''ServerURL need to be empty in create mode'') else rest)
         else if mode = ModeJoin
         then (if hServerURL cfg = [] then Inl (Msg (''ServerURL can'' @ [CHR 0x27] @ ''t empty in join mode'')) else rest)
         else Inl (prettyError ''unknown mode'' mode))"

text \<open>\<^verbatim>\<open>validateConfig\<close> takes any implementation of the interface \<^verbatim>\<open>ValidatorInterface\<close>.\<close>

definition validateConfig ::
  "(host \<Rightarrow> DiskOptionsCache \<Rightarrow> HarvesterConfig \<Rightarrow> unit result \<times> DiskOptionsCache) \<Rightarrow>
   host \<Rightarrow> DiskOptionsCache \<Rightarrow> HarvesterConfig \<Rightarrow> unit result \<times> DiskOptionsCache" where
  "validateConfig v h diskOptionsCache cfg =
     (case commonCheck h cfg of
        Inl err \<Rightarrow> (Inl err, diskOptionsCache)
      | Inr u \<Rightarrow> v h diskOptionsCache cfg)"

section \<open>What the single checks accept\<close>

text \<open>Texts that denote an IPv4 address, in dotted form or mapped into IPv6.\<close>

definition isIPv4Text :: "string \<Rightarrow> bool" where
  "isIPv4Text s = (case ParseIP s of None \<Rightarrow> False | Some ip \<Rightarrow> To4 ip \<noteq> None)"

named_theorems check_ok \<open>when a check returns no error\<close>

lemma checkIP_ok [check_ok]: "checkIP s = Inr () \<longleftrightarrow> isIPv4Text s"
  by (simp add: checkIP_def isIPv4Text_def split: option.splits)

lemma isIPv4Text_nonempty: "isIPv4Text s \<Longrightarrow> s \<noteq> []"
  by (auto simp: isIPv4Text_def ParseIP_def ParseAddr_def)

lemma isIPv4Text_Nil [simp]: "\<not> isIPv4Text []"
  using isIPv4Text_nonempty by blast

lemma isIPv4Text_dotted: "length os = 4 \<Longrightarrow> wfOctets os \<Longrightarrow> isIPv4Text (dotted os)"
  by (simp add: isIPv4Text_def ParseIP_dotted)

lemma checkMTU_ok [check_ok]: "checkMTU m = Inr () \<longleftrightarrow> m = 0 \<or> 576 \<le> m \<and> m \<le> 9000"
  by (auto simp: checkMTU_def)

lemma checkStaticRequiredString_ok [check_ok]: "checkStaticRequiredString f v = Inr () \<longleftrightarrow> v \<noteq> []"
  by (simp add: checkStaticRequiredString_def)

lemma checkHwAddr_ok [check_ok]: "checkHwAddr a = Inr () \<longleftrightarrow> ParseMAC a \<noteq> None"
  by (simp add: checkHwAddr_def)

lemma checkVip_ok [check_ok]:
  "checkVip vip hw mode = Inr () \<longleftrightarrow> isIPv4Text vip \<and>
     (mode = NetworkMethodDHCP \<and> ParseMAC hw \<noteq> None \<or> mode \<in> {NetworkMethodStatic, NetworkMethodNone})"
  by (auto simp: checkVip_def thenR_Inr check_ok)

lemma checkPersistentStatePath_ok [check_ok]:
  "checkPersistentStatePath path = Inr () \<longleftrightarrow>
     hasPrefix path ''/'' \<and> path \<noteq> ''/tmp'' \<and> \<not> hasPrefix path ''/tmp/''"
  by (auto simp: checkPersistentStatePath_def persistentStateDirBlackList_def)

lemma checkSystemSettings_ok [check_ok]:
  "checkSystemSettings h ss = Inr () \<longleftrightarrow>
     (\<forall>(k, v) \<in> set ss. k \<in> set GetSystemSettingsAllowList \<and>
        (k = ''containerd-registry'' \<longrightarrow> isOk (hoDecodeRegistry h v)))"
  by (auto simp: checkSystemSettings_def allR_Inr Let_def split: if_splits prod.splits)

text \<open>The interface that a name or a hardware address denotes on the host.\<close>

lemma checkInterface_ok:
  "checkInterface h iface = Inr () \<longleftrightarrow>
     (\<exists>n ifaces i. FindNetworkInterfaceName (hoInterfaces h) iface = Inr n \<and> ifName n \<noteq> [] \<and>
        hoInterfaces h = Inr ifaces \<and> find (\<lambda>i. hiName i = ifName n) ifaces = Some i \<and> \<not> hiLoopback i)"
  by (auto simp: checkInterface_def split: sum.splits option.splits)

section \<open>Tokens\<close>

lemma char_between: "(c :: char) \<le> d \<longleftrightarrow> (of_char c :: nat) \<le> of_char d"
  by (simp add: less_eq_char_def)

lemma char_eq_nat: "c = d \<longleftrightarrow> (of_char c :: nat) = of_char d"
  by simp

lemma validTokenChar_iff: "validTokenChar c \<longleftrightarrow> 32 \<le> (of_char c :: nat) \<and> (of_char c :: nat) \<le> 126"
  unfolding validTokenChar_def char_between char_eq_nat list.set insert_iff empty_iff
  by (simp del: of_char_eq_iff) arith

text \<open>The token check accepts exactly the non-empty texts of printable ASCII characters.\<close>

theorem check_token_printable:
  "checkToken token = Inr () \<longleftrightarrow>
     token \<noteq> [] \<and> list_all (\<lambda>c. 32 \<le> (of_char c :: nat) \<and> (of_char c :: nat) \<le> 126) token"
  by (auto simp: checkToken_def validTokenChar_iff list_all_iff)

section \<open>Networks\<close>

text \<open>C27: The management network is accepted exactly when it names at least one interface, every interface
  named exists on the host and is not a loopback, the VLAN is 0 to 4094, and the method is DHCP, or
  static with DNS servers, IPv4 address, mask and gateway, and an MTU of 0 or 576 to 9000. Nothing is
  required of the MTU when the method is DHCP.\<close>

theorem check_networks_exact:
  "checkNetworks h n dns = Inr () \<longleftrightarrow>
     nwInterfaces n \<noteq> [] \<and> list_all (\<lambda>i. checkInterface h i = Inr ()) (nwInterfaces n) \<and>
     0 \<le> nwVlanID n \<and> nwVlanID n \<le> 4094 \<and>
     (nwMethod n = NetworkMethodDHCP \<or>
      nwMethod n = NetworkMethodStatic \<and> dns \<noteq> [] \<and> isIPv4Text (nwIP n) \<and> isIPv4Text (nwSubnetMask n) \<and>
      isIPv4Text (nwGateway n) \<and> (nwMTU n = 0 \<or> 576 \<le> nwMTU n \<and> nwMTU n \<le> 9000))"
  unfolding checkNetworks_def
  by (auto simp: thenR_Inr check_ok allR_Inr list_all_iff dest: isIPv4Text_nonempty)

section \<open>Disks\<close>

definition diskAtLeast :: "host \<Rightarrow> string \<Rightarrow> nat \<Rightarrow> bool" where
  "diskAtLeast h dev gib \<longleftrightarrow> (\<exists>b. GetDiskSizeBytes (hoLsblk h) dev = Inr b \<and> gib * 2 ^ 30 \<le> unat b)"

lemma ByteToGi_less: "ByteToGi b < l \<longleftrightarrow> unat b < unat l * 2 ^ 30"
proof -
  have "ByteToGi b < l \<longleftrightarrow> \<not> unat l \<le> unat b div 2 ^ 30"
    by (simp add: word_less_nat_alt unat_ByteToGi not_le)
  also have "\<dots> \<longleftrightarrow> unat b < unat l * 2 ^ 30" by (simp add: less_eq_div_iff_mult_less_eq not_le)
  finally show ?thesis .
qed

lemma validateDiskSize_ok [check_ok]:
  "validateDiskSize (hoLsblk h) dev single = Inr () \<longleftrightarrow> diskAtLeast h dev (if single then 250 else 180)"
  by (auto simp: validateDiskSize_def diskAtLeast_def Let_def ByteToGi_less split: sum.splits)

lemma validateDataDiskSize_ok [check_ok]:
  "validateDataDiskSize (hoLsblk h) dev = Inr () \<longleftrightarrow> diskAtLeast h dev 50"
  by (auto simp: validateDataDiskSize_def diskAtLeast_def ByteToGi_less split: sum.splits)

lemma pretty_ok: "(case r of Inl err \<Rightarrow> Inl (e err) | Inr u \<Rightarrow> Inr ()) = Inr () \<longleftrightarrow> r = Inr ()"
  by (cases r) auto

definition sizesOk :: "host \<Rightarrow> HarvesterConfig \<Rightarrow> bool" where
  "sizesOk h cfg \<longleftrightarrow> inSkipChecks (hInstall cfg) \<or>
     (if inRole (hInstall cfg) = RoleWitness then diskAtLeast h (inDevice (hInstall cfg)) 180
      else if inDataDisk (hInstall cfg) \<in> {inDevice (hInstall cfg), []}
      then diskAtLeast h (inDevice (hInstall cfg)) 250
      else diskAtLeast h (inDevice (hInstall cfg)) 180 \<and> diskAtLeast h (inDataDisk (hInstall cfg)) 50)"

lemma checkDeviceSizes_ok [check_ok]: "checkDeviceSizes h cfg = Inr () \<longleftrightarrow> sizesOk h cfg"
  unfolding checkDeviceSizes_def sizesOk_def Let_def thenR_Inr
  by (simp add: pretty_ok thenR_Inr check_ok)

definition deviceListed :: "host \<Rightarrow> DiskOptionsCache \<Rightarrow> HarvesterConfig \<Rightarrow> DiskOptionsCache \<Rightarrow> bool" where
  "deviceListed h c cfg c' \<longleftrightarrow> inDevice (hInstall cfg) \<noteq> [] \<and>
     (\<exists>t. targetDevice h (inDevice (hInstall cfg)) = Inr t \<and>
        refresh (hoUnmarshal h) (hoLsblkJSON h) c = Inr c' \<and> t \<in> opValue ` set (getAllValidDiskOptions c'))"

lemma checkDevice_ok:
  "checkDevice h c cfg = (Inr (), c') \<longleftrightarrow> deviceListed h c cfg c' \<and> sizesOk h cfg"
  by (auto simp: checkDevice_def deviceListed_def Let_def check_ok list_ex_iff image_iff
      split: sum.splits if_splits)

definition mbrOk :: "host \<Rightarrow> HarvesterConfig \<Rightarrow> bool" where
  "mbrOk h cfg \<longleftrightarrow> (inForceMBR (hInstall cfg) \<longrightarrow>
     diskExceedsMBRLimit (hoLsblk h) (inDevice (hInstall cfg)) = Inr False \<and> hoSystemIsBIOS h)"

lemma checkForceMBR_ok [check_ok]:
  "checkForceMBR h dev = Inr () \<longleftrightarrow> diskExceedsMBRLimit (hoLsblk h) dev = Inr False \<and> hoSystemIsBIOS h"
  by (auto simp: checkForceMBR_def split: sum.splits if_splits)

lemma diskChecks_ok:
  "diskChecks h c cfg = (Inr (), c') \<longleftrightarrow> deviceListed h c cfg c' \<and> sizesOk h cfg \<and> mbrOk h cfg"
proof -
  obtain r c1 where r: "checkDevice h c cfg = (r, c1)" by (cases "checkDevice h c cfg")
  show ?thesis
    using checkDevice_ok [of h c cfg c1] checkDevice_ok [of h c cfg c'] r
    by (cases r) (auto simp: diskChecks_def mbrOk_def check_ok split: if_splits)
qed

section \<open>Whole configurations\<close>

text \<open>What the checks after the disks require.\<close>

definition modeOk :: "host \<Rightarrow> HarvesterConfig \<Rightarrow> bool" where
  "modeOk h cfg \<longleftrightarrow>
     (inMode (hInstall cfg) \<noteq> ModeInstall \<longrightarrow>
        checkNetworks h (inManagementInterface (hInstall cfg)) (osDNSNameservers (hOS cfg)) = Inr () \<and>
        checkToken (hToken cfg) = Inr ()) \<and>
     (inMode (hInstall cfg) = ModeCreate \<longrightarrow>
        checkVip (inVip (hInstall cfg)) (inVipHwAddr (hInstall cfg)) (inVipMode (hInstall cfg)) = Inr () \<and>
        checkSystemSettings h (hSystemSettings cfg) = Inr ()) \<and> isOk (GetKubeletArgs cfg)"

lemma checkNetworks_interfaces: "checkNetworks h n dns = Inr () \<Longrightarrow> nwInterfaces n \<noteq> []"
  by (auto simp: checkNetworks_def)

lemma modeOk_checks:
  "thenR (networkAndTokenChecks h cfg) (thenR (createChecks h cfg)
     (case GetKubeletArgs cfg of Inl err \<Rightarrow> Inl err | Inr args \<Rightarrow> Inr ())) = Inr () \<longleftrightarrow> modeOk h cfg"
proof -
  have "networkAndTokenChecks h cfg = Inr () \<longleftrightarrow> (inMode (hInstall cfg) \<noteq> ModeInstall \<longrightarrow>
        checkNetworks h (inManagementInterface (hInstall cfg)) (osDNSNameservers (hOS cfg)) = Inr () \<and>
        checkToken (hToken cfg) = Inr ())"
    by (auto simp: networkAndTokenChecks_def thenR_Inr dest: checkNetworks_interfaces)
  moreover have "createChecks h cfg = Inr () \<longleftrightarrow> (inMode (hInstall cfg) = ModeCreate \<longrightarrow>
        checkVip (inVip (hInstall cfg)) (inVipHwAddr (hInstall cfg)) (inVipMode (hInstall cfg)) = Inr () \<and>
        checkSystemSettings h (hSystemSettings cfg) = Inr ())"
    by (auto simp: createChecks_def thenR_Inr)
  moreover have "(case GetKubeletArgs cfg of Inl err \<Rightarrow> Inl err | Inr args \<Rightarrow> Inr ()) = Inr () \<longleftrightarrow>
      isOk (GetKubeletArgs cfg)" by (cases "GetKubeletArgs cfg") auto
  ultimately show ?thesis unfolding thenR_Inr modeOk_def by blast
qed

lemma Validate_ok:
  "Validate h c cfg = (Inr (), c') \<longleftrightarrow>
     hSchemeVersion cfg = SchemeVersion \<and> IsDNS1123Subdomain (osHostname (hOS cfg)) = [] \<and>
     deviceListed h c cfg c' \<and> sizesOk h cfg \<and> mbrOk h cfg \<and> modeOk h cfg"
proof -
  obtain r c1 where r: "diskChecks h c cfg = (r, c1)" by (cases "diskChecks h c cfg")
  show ?thesis
    using diskChecks_ok [of h c cfg c1] diskChecks_ok [of h c cfg c'] r
    by (cases r) (auto simp: Validate_def modeOk_checks)
qed

definition credentialsOk :: "host \<Rightarrow> HarvesterConfig \<Rightarrow> bool" where
  "credentialsOk h cfg \<longleftrightarrow>
     (\<not> hoAlreadyInstalled h \<and> inAutomatic (hInstall cfg) \<longrightarrow> inISOURL (hInstall cfg) \<noteq> []) \<and>
     hToken cfg \<noteq> [] \<and> (osSSHAuthorizedKeys (hOS cfg) \<noteq> [] \<or> osPassword (hOS cfg) \<noteq> []) \<and>
     (\<forall>path \<in> set (osPersistentStatePaths (hOS cfg)).
        hasPrefix path ''/'' \<and> path \<noteq> ''/tmp'' \<and> \<not> hasPrefix path ''/tmp/'')"

lemma commonCheck_ok:
  "commonCheck h cfg = Inr () \<longleftrightarrow>
     inMode (hInstall cfg) \<in> {ModeUpgrade, ModeInstall} \<or>
     (inMode (hInstall cfg) = ModeCreate \<and> hServerURL cfg = [] \<or>
      inMode (hInstall cfg) = ModeJoin \<and> hServerURL cfg \<noteq> []) \<and> credentialsOk h cfg"
  unfolding commonCheck_def Let_def credentialsOk_def
  by (auto simp: checkPersistentStatePaths_def allR_Inr check_ok split: if_splits)

text \<open>
  The contract of \<^verbatim>\<open>ValidatorInterface\<close>: what an implementation accepts has the supported scheme
  version, a device that the refreshed options list, and, outside the pure install mode, a
  checked management network.
\<close>

locale validator_interface =
  fixes validate :: "host \<Rightarrow> DiskOptionsCache \<Rightarrow> HarvesterConfig \<Rightarrow> unit result \<times> DiskOptionsCache"
  assumes validate_scheme: "validate h c cfg = (Inr (), c') \<Longrightarrow> hSchemeVersion cfg = SchemeVersion"
    and validate_device: "validate h c cfg = (Inr (), c') \<Longrightarrow> deviceListed h c cfg c'"
    and validate_network: "validate h c cfg = (Inr (), c') \<Longrightarrow> inMode (hInstall cfg) \<noteq> ModeInstall \<Longrightarrow>
      checkNetworks h (inManagementInterface (hInstall cfg)) (osDNSNameservers (hOS cfg)) = Inr ()"
begin

lemma accepted_common:
  "validateConfig validate h c cfg = (Inr (), c') \<Longrightarrow> commonCheck h cfg = Inr () \<and> validate h c cfg = (Inr (), c')"
  by (auto simp: validateConfig_def split: sum.splits)

lemma accepted_device: "validateConfig validate h c cfg = (Inr (), c') \<Longrightarrow> deviceListed h c cfg c'"
  using accepted_common validate_device by blast

lemma accepted_modes:
  "validateConfig validate h c cfg = (Inr (), c') \<Longrightarrow>
   inMode (hInstall cfg) \<in> {ModeCreate, ModeJoin, ModeUpgrade, ModeInstall}"
  using accepted_common commonCheck_ok by blast

lemma accepted_network:
  "validateConfig validate h c cfg = (Inr (), c') \<Longrightarrow> inMode (hInstall cfg) \<noteq> ModeInstall \<Longrightarrow>
   nwInterfaces (inManagementInterface (hInstall cfg)) \<noteq> [] \<and> hSchemeVersion cfg = SchemeVersion"
  using accepted_common validate_network validate_scheme checkNetworks_interfaces by blast

end

interpretation cv: validator_interface Validate
  by unfold_locales (simp_all add: Validate_ok modeOk_def)

text \<open>C10: A configuration for a new cluster is accepted exactly when every part of it is right: scheme version 1,
  a valid host name, a listed device with the required sizes, MBR forced only on a small disk of a
  BIOS system, no server URL, token, credentials and state paths, a valid management network, VIP and
  system settings, and labels that the kubelet accepts. No check hides another.\<close>

theorem validate_create_exact:
  assumes "inMode (hInstall cfg) = ModeCreate"
  shows "validateConfig Validate h c cfg = (Inr (), c') \<longleftrightarrow>
    hSchemeVersion cfg = SchemeVersion \<and> IsDNS1123Subdomain (osHostname (hOS cfg)) = [] \<and>
    deviceListed h c cfg c' \<and> sizesOk h cfg \<and> mbrOk h cfg \<and> hServerURL cfg = [] \<and> credentialsOk h cfg \<and>
    checkNetworks h (inManagementInterface (hInstall cfg)) (osDNSNameservers (hOS cfg)) = Inr () \<and>
    checkToken (hToken cfg) = Inr () \<and>
    checkVip (inVip (hInstall cfg)) (inVipHwAddr (hInstall cfg)) (inVipMode (hInstall cfg)) = Inr () \<and>
    checkSystemSettings h (hSystemSettings cfg) = Inr () \<and> isOk (GetKubeletArgs cfg)"
proof -
  have "validateConfig Validate h c cfg = (Inr (), c') \<longleftrightarrow>
      commonCheck h cfg = Inr () \<and> Validate h c cfg = (Inr (), c')"
    by (auto simp: validateConfig_def split: sum.splits)
  then show ?thesis
    unfolding Validate_ok commonCheck_ok modeOk_def using assms by auto
qed

text \<open>Whatever the mode, an accepted configuration names an installation disk that the host lists at the
  time of the check, and its mode is one of the four known ones.\<close>

theorem validated_device_listed:
  assumes "validateConfig Validate h c cfg = (Inr (), c')"
  shows "\<exists>t. targetDevice h (inDevice (hInstall cfg)) = Inr t \<and>
      t \<in> opValue ` set (getAllValidDiskOptions c') \<and>
      refresh (hoUnmarshal h) (hoLsblkJSON h) c = Inr c' \<and>
      inMode (hInstall cfg) \<in> {ModeCreate, ModeJoin, ModeUpgrade, ModeInstall}"
  using cv.accepted_device [OF assms] cv.accepted_modes [OF assms] unfolding deviceListed_def by blast

section \<open>A concrete host and configuration\<close>

definition sampleHost :: host where
  "sampleHost = \<lparr>hoInterfaces = Inr [\<lparr>hiName = ''ens3'', hiHardwareAddr = [82, 84, 0, 1, 2, 3], hiLoopback = False\<rparr>],
     hoLstat = (\<lambda>_. Inr False), hoEvalSymlinks = Inr, hoLsblk = (\<lambda>_. Inr (showNat (300 * 2 ^ 30))),
     hoLsblkJSON = Inr [], hoUnmarshal = (\<lambda>_. Inr [Device ''sda'' ''300G'' ''disk'' [] [] [] []]),
     hoDecodeRegistry = (\<lambda>_. Inr ()), hoSystemIsBIOS = False, hoAlreadyInstalled = False\<rparr>"

definition sampleConfig :: HarvesterConfig where
  "sampleConfig = NewHarvesterConfig\<lparr>hSchemeVersion := 1, hToken := ''t'',
     hOS := emptyOS\<lparr>osHostname := ''node1'', osPassword := ''x''\<rparr>,
     hInstall := emptyInstall\<lparr>inMode := ModeCreate, inDevice := ''/dev/sda'', inVip := dotted [10, 0, 0, 5],
       inVipMode := NetworkMethodStatic,
       inManagementInterface := emptyNetwork\<lparr>nwInterfaces := [\<lparr>ifName = ''ens3'', ifHwAddr = []\<rparr>],
         nwMethod := NetworkMethodDHCP\<rparr>\<rparr>\<rparr>"

definition sampleCache :: DiskOptionsCache where
  "sampleCache = \<lparr>doDiskOptions = [\<lparr>opValue = ''/dev/sda'', opText = ''sda 300G''\<rparr>], doHvstInstalledDiskOptions = []\<rparr>"

lemma sample_refresh: "refresh (hoUnmarshal sampleHost) (hoLsblkJSON sampleHost) NewDiskOptionsCache = Inr sampleCache"
  by (simp add: refresh_def sampleHost_def filterUniqueDisks_def dedupDisk_def mapPut_def generateDiskEntry_def
      NewDiskOptionsCache_def sampleCache_def)

lemma sample_device: "deviceListed sampleHost NewDiskOptionsCache sampleConfig sampleCache"
  unfolding deviceListed_def sample_refresh
  by (simp add: sampleConfig_def sampleHost_def targetDevice_def getAllValidDiskOptions_def sampleCache_def)

lemma sample_disk: "sizesOk sampleHost sampleConfig" "mbrOk sampleHost sampleConfig"
proof -
  have "GetDiskSizeBytes (hoLsblk sampleHost) dev = Inr (300 * 2 ^ 30)" for dev
    using parseUint_showNat [of "300 * 2 ^ 30" 64] by (simp add: GetDiskSizeBytes_def sampleHost_def)
  then show "sizesOk sampleHost sampleConfig"
    by (simp add: sizesOk_def diskAtLeast_def sampleConfig_def emptyInstall_def)
  show "mbrOk sampleHost sampleConfig" by (simp add: mbrOk_def sampleConfig_def emptyInstall_def)
qed

lemma sample_hostname: "IsDNS1123Subdomain ''node1'' = []"
  by code_simp

lemma sample_common: "hServerURL sampleConfig = []" "credentialsOk sampleHost sampleConfig"
  by (simp_all add: sampleConfig_def NewHarvesterConfig_def credentialsOk_def emptyOS_def emptyInstall_def)

lemma sample_network: "checkNetworks sampleHost (inManagementInterface (hInstall sampleConfig)) [] = Inr ()"
  by (simp add: sampleConfig_def checkNetworks_def sampleHost_def checkInterface_def emptyNetwork_def
      FindNetworkInterfaceName_def)

lemma sample_values:
  "checkToken (hToken sampleConfig) = Inr ()"
  "checkVip (inVip (hInstall sampleConfig)) (inVipHwAddr (hInstall sampleConfig)) (inVipMode (hInstall sampleConfig)) = Inr ()"
  "checkSystemSettings sampleHost (hSystemSettings sampleConfig) = Inr ()" "isOk (GetKubeletArgs sampleConfig)"
  by (simp_all add: sampleConfig_def checkToken_def validTokenChar_iff check_ok isIPv4Text_dotted wfOctets_def
      NewHarvesterConfig_def GetKubeletArgs_def emptyOS_def)

lemmas sample_ok = sample_device sample_disk sample_common sample_network sample_values sample_hostname

theorem validate_create_exact_witness:
  "validateConfig Validate sampleHost NewDiskOptionsCache sampleConfig = (Inr (), sampleCache)"
proof -
  have "inMode (hInstall sampleConfig) = ModeCreate" "osHostname (hOS sampleConfig) = ''node1''"
    "hSchemeVersion sampleConfig = SchemeVersion" "osDNSNameservers (hOS sampleConfig) = []"
    by (simp_all add: sampleConfig_def emptyOS_def)
  then show ?thesis using validate_create_exact [of sampleConfig] sample_ok by simp
qed

lemma sample_valid: "validateConfig Validate sampleHost NewDiskOptionsCache sampleConfig = (Inr (), sampleCache)"
proof -
  have m: "inMode (hInstall sampleConfig) = ModeCreate" "osHostname (hOS sampleConfig) = ''node1''"
    "hSchemeVersion sampleConfig = SchemeVersion" "osDNSNameservers (hOS sampleConfig) = []"
    by (simp_all add: sampleConfig_def emptyOS_def)
  have "Validate sampleHost NewDiskOptionsCache sampleConfig = (Inr (), sampleCache)"
    unfolding Validate_ok modeOk_def using m sample_ok by simp
  moreover have "commonCheck sampleHost sampleConfig = Inr ()"
    unfolding commonCheck_ok using m sample_common by simp
  ultimately show ?thesis by (simp add: validateConfig_def)
qed

theorem validated_device_listed_witness:
  "\<exists>t. targetDevice sampleHost (inDevice (hInstall sampleConfig)) = Inr t \<and>
     t \<in> opValue ` set (getAllValidDiskOptions sampleCache)"
  using validated_device_listed [OF sample_valid] by blast

end
