(* ===== verification/Network_Profiles.thy ===== *)
theory Network_Profiles
  imports Validator
begin

text \<open>
  NetworkManager connection profiles (\<^verbatim>\<open>pkg/config/cos.go\<close>): saving and restoring the original
  profiles, and writing the bond, its slaves, the bridge and the VLAN interface of the
  management network. The templates under \<^verbatim>\<open>pkg/config/templates\<close> are text functions here, one per
  template. The parser of subnet masks of the network page (\<^verbatim>\<open>install_panels.go\<close>) is here too, since
  the profiles rest on it.

  The directory of profiles is an association list from paths to contents. \<open>nmIO\<close> gives the error,
  if any, of each system call and command.
\<close>

section \<open>Subnet masks\<close>

definition isValidMaskFormat :: "octets \<Rightarrow> bool" where
  "isValidMaskFormat msk =
     (let (ones, bits) = maskSize msk; cidrMask = (case CIDRMask ones 32 of Some m \<Rightarrow> m | None \<Rightarrow> [])
      in maskString msk = maskString cidrMask)"

text \<open>The loop over the parts; \<open>i\<close> is the index and \<open>result\<close> the octets so far.\<close>

fun maskOctets :: "string \<Rightarrow> nat \<Rightarrow> string list \<Rightarrow> octets result" where
  "maskOctets msk i [] = Inr []"
| "maskOctets msk i (part # parts) =
     (case atoi part of
        Inl err \<Rightarrow> Inl (Wrap (''invalid unknown number in position '' @ showNat (i + 1) @ '': '' @ part) (Msg msk))
      | Inr num \<Rightarrow>
          if num < 0 \<or> 255 < num
          then Inl (Wrap (''invalid number out of range in position '' @ showNat (i + 1) @ '': '' @ showInt num) (Msg msk))
          else (case maskOctets msk (i + 1) parts of
                  Inl err \<Rightarrow> Inl err | Inr os \<Rightarrow> Inr (nat num # os)))"

definition ParseMask :: "string \<Rightarrow> octets result" where
  "ParseMask msk =
     (let parts = splitOn CHR ''.'' msk in
      if length parts \<noteq> 4 then Inl (Wrap ''invalid mask format must be x.x.x.x, instead of'' (Msg msk))
      else (case maskOctets msk 0 parts of
              Inl err \<Rightarrow> Inl err
            | Inr res \<Rightarrow>
                if \<not> isValidMaskFormat res then Inl (Wrap ''invalid invalid subnet mask: not continuous'' (Msg msk))
                else Inr res))"

text \<open>\<^verbatim>\<open>maskToCIDR\<close>; an address that does not parse is nil, and so is the size \<^verbatim>\<open>(0, 0)\<close>.\<close>

definition maskToCIDR :: "string \<Rightarrow> string" where
  "maskToCIDR msk =
     (if msk \<noteq> []
      then showNat (fst (maskSize (case ParseIP msk of None \<Rightarrow> []
                                   | Some ip \<Rightarrow> (case To4 ip of None \<Rightarrow> [] | Some m \<Rightarrow> m))))
      else [])"

section \<open>Templates\<close>

definition nl :: string where
  "nl = [CHR 0x0A]"

definition unlinesNL :: "string list \<Rightarrow> string" where
  "unlinesNL ls = concat (map (\<lambda>l. l @ nl) ls)"

definition mtuLine :: "int \<Rightarrow> string" where
  "mtuLine mtu = (if 0 < mtu then ''mtu='' @ showInt mtu else [])"

definition nmBondMaster :: "Network \<Rightarrow> string \<Rightarrow> string \<Rightarrow> string" where
  "nmBondMaster bond bondName bridgeName =
     unlinesNL [''[connection]'', ''id=bond-mgmt'', ''type=bond'', ''interface-name='' @ bondName,
       ''master='' @ bridgeName, ''slave-type=bridge'', [], ''[ethernet]'', mtuLine (nwMTU bond), [], ''[bond]''] @
     concat (map (\<lambda>(k, v). nl @ k @ ''='' @ v @ nl)
       (sort_key fst (case nwBondOptions bond of None \<Rightarrow> [] | Some m \<Rightarrow> m))) @
     nl @ nl @ ''[bridge-port]'' @ nl @
     ''vlans=1 pvid untagged'' @ (if 1 < nwVlanID bond then '','' @ showInt (nwVlanID bond) else [])"

definition nmBondSlave :: "NetworkInterface \<Rightarrow> string \<Rightarrow> string" where
  "nmBondSlave iface bondName =
     unlinesNL [''[connection]'', ''id=bond-slave-'' @ ifName iface, ''type=ethernet'',
       ''interface-name='' @ ifName iface, ''master='' @ bondName, ''slave-type=bond'']"

definition staticLines :: "Network \<Rightarrow> string" where
  "staticLines n = ''method=manual'' @ nl @ ''address1='' @ nwIP n @ ''/'' @ nwSubnetMask n @ '','' @ nwGateway n"

definition nmBridge :: "Network \<Rightarrow> string \<Rightarrow> string \<Rightarrow> string" where
  "nmBridge bridge bridgeName dns =
     unlinesNL [''[connection]'', ''id=bridge-mgmt'', ''type=bridge'', ''interface-name='' @ bridgeName, [],
       ''[ethernet]'', mtuLine (nwMTU bridge), [], ''[bridge]'', ''forward-delay=0'', ''stp=false'',
       ''vlan-filtering=true'', ''vlan-default-pvid=1'',
       (if 1 < nwVlanID bridge then ''vlans='' @ showInt (nwVlanID bridge) else []), [],
       ''[ipv4]'', (if dns \<noteq> [] then ''dns='' @ dns else []),
       (if nwMethod bridge = NetworkMethodNone then ''method=disabled'' else []),
       (if nwMethod bridge = NetworkMethodDHCP then ''method=auto'' else []),
       (if nwMethod bridge = NetworkMethodStatic then staticLines bridge else []), [],
       ''[ipv6]'', ''method=disabled'']"

definition nmVlan :: "Network \<Rightarrow> string \<Rightarrow> string \<Rightarrow> string" where
  "nmVlan vlan bridgeName dns =
     unlinesNL [''[connection]'', ''id=vlan-mgmt'', ''type=vlan'', [], ''[ethernet]'', mtuLine (nwMTU vlan), [],
       ''[vlan]'', ''flags=1'', ''id='' @ showInt (nwVlanID vlan), ''parent='' @ bridgeName, [],
       ''[ipv4]'', (if dns \<noteq> [] then ''dns='' @ dns else []),
       (if nwMethod vlan = NetworkMethodDHCP then ''method=auto'' else []),
       (if nwMethod vlan = NetworkMethodStatic then staticLines vlan else []), [],
       ''[ipv6]''] @ ''method=disabled''"

section \<open>Profiles on disk\<close>

record nmIO =
  ioRemove :: "string \<Rightarrow> goerror option"
  ioRead :: "string \<Rightarrow> goerror option"
  ioWrite :: "string \<Rightarrow> goerror option"
  ioMkdirAll :: "string \<Rightarrow> goerror option"
  ioCommand :: "string list \<Rightarrow> goerror option"

text \<open>
  The state: the files, \<^verbatim>\<open>originalNetworkConfigs\<close>, whether \<^verbatim>\<open>saveOriginalNetworkConfigOnce\<close> has run, and
  the commands that succeeded so far.
\<close>

record nmState =
  nsFiles :: "string gomap"
  nsOriginal :: "string gomap"
  nsSavedOnce :: bool
  nsCommands :: "string list list"

abbreviation "NMConnectionPath \<equiv> ''/etc/NetworkManager/system-connections''"

text \<open>\<^verbatim>\<open>filepath.Glob(dir + "/*nmconnection")\<close>: the files directly in the directory with that ending, in order.\<close>

definition isProfile :: "string \<Rightarrow> string \<Rightarrow> bool" where
  "isProfile configPath path \<longleftrightarrow> hasPrefix path (configPath @ ''/'') \<and>
     (let base = drop (length configPath + 1) path in CHR ''/'' \<notin> set base \<and> hasSuffix base ''nmconnection'')"

definition globProfiles :: "string \<Rightarrow> nmState \<Rightarrow> string list" where
  "globProfiles configPath st = sort (filter (isProfile configPath) (map fst (nsFiles st)))"

type_synonym 'a nm = "(nmState, 'a) prog"

text \<open>A system call that fails with the given error or changes the state.\<close>

definition call :: "goerror option \<Rightarrow> ('s \<Rightarrow> 's) \<Rightarrow> ('s, unit) prog" where
  "call err f = (case err of Some e \<Rightarrow> failS e | None \<Rightarrow> modS f)"

definition removeFile :: "nmIO \<Rightarrow> string \<Rightarrow> unit nm" where
  "removeFile io path = call (ioRemove io path) (\<lambda>st. st\<lparr>nsFiles := mapDel path (nsFiles st)\<rparr>)"

definition writeFile :: "nmIO \<Rightarrow> string \<Rightarrow> string \<Rightarrow> unit nm" where
  "writeFile io path bytes = call (ioWrite io path) (\<lambda>st. st\<lparr>nsFiles := mapPut path bytes (nsFiles st)\<rparr>)"

definition runNM :: "nmIO \<Rightarrow> string list \<Rightarrow> unit nm" where
  "runNM io cmd = call (ioCommand io cmd) (\<lambda>st. st\<lparr>nsCommands := nsCommands st @ [cmd]\<rparr>)"

definition wipeNMConnectionProfiles :: "nmIO \<Rightarrow> string \<Rightarrow> unit nm" where
  "wipeNMConnectionProfiles io configPath = bindS (getS (globProfiles configPath)) (forS (removeFile io))"

definition RestoreOriginalNetworkConfig :: "nmIO \<Rightarrow> unit nm" where
  "RestoreOriginalNetworkConfig io =
     bindS (getS nsOriginal) (\<lambda>originalNetworkConfigs.
       if length originalNetworkConfigs = 0 then retS ()
       else seqS (wipeNMConnectionProfiles io NMConnectionPath)
              (forS (\<lambda>(name, bytes). writeFile io name bytes) originalNetworkConfigs))"

definition saveFile :: "nmIO \<Rightarrow> string \<Rightarrow> unit nm" where
  "saveFile io path =
     seqS (call (ioRead io path) (\<lambda>st. st))
       (bindS (getS (\<lambda>st. mapGet (nsFiles st) path)) (\<lambda>content.
          case content of
            None \<Rightarrow> failS (Ext (''open '' @ path @ '': no such file or directory''))
          | Some bytes \<Rightarrow> modS (\<lambda>st. st\<lparr>nsOriginal := mapPut path bytes (nsOriginal st)\<rparr>)))"

definition SaveOriginalNetworkConfig :: "nmIO \<Rightarrow> unit nm" where
  "SaveOriginalNetworkConfig io =
     bindS (getS nsSavedOnce) (\<lambda>done.
       if done then retS ()
       else seqS (modS (\<lambda>st. st\<lparr>nsSavedOnce := True\<rparr>))
              (bindS (getS (globProfiles NMConnectionPath)) (forS (saveFile io))))"

definition updateBond :: "nmIO \<Rightarrow> Network \<Rightarrow> string \<Rightarrow> unit nm" where
  "updateBond io network configPath =
     (let network1 = (if nwBondOptions network = None
                      then network\<lparr>nwBondOptions := Some [(''mode'', BondModeActiveBackup), (''miimon'', ''100'')]\<rparr>
                      else network)
      in seqS (writeFile io (configPath @ ''/bond-mgmt.nmconnection'')
                 (nmBondMaster network1 MgmtBondInterfaceName MgmtInterfaceName))
           (forS (\<lambda>iface. writeFile io (configPath @ ''/bond-slave-'' @ ifName iface @ ''.nmconnection'')
                     (nmBondSlave iface MgmtBondInterfaceName)) (nwInterfaces network1)))"

definition needVlanInterface :: "Network \<Rightarrow> bool" where
  "needVlanInterface mgmtNetwork \<longleftrightarrow> 2 \<le> nwVlanID mgmtNetwork \<and> nwVlanID mgmtNetwork \<le> 4094"

definition bridgeNetwork :: "Network \<Rightarrow> Network" where
  "bridgeNetwork mgmtNetwork =
     \<lparr>nwInterfaces = nwInterfaces mgmtNetwork,
      nwMethod = (if needVlanInterface mgmtNetwork then NetworkMethodNone else nwMethod mgmtNetwork),
      nwIP = nwIP mgmtNetwork, nwSubnetMask = maskToCIDR (nwSubnetMask mgmtNetwork),
      nwGateway = nwGateway mgmtNetwork, nwDefaultRoute = \<not> needVlanInterface mgmtNetwork,
      nwBondOptions = None, nwMTU = nwMTU mgmtNetwork, nwVlanID = nwVlanID mgmtNetwork\<rparr>"

definition vlanNetwork :: "Network \<Rightarrow> Network" where
  "vlanNetwork mgmtNetwork =
     mgmtNetwork\<lparr>nwDefaultRoute := True, nwSubnetMask := maskToCIDR (nwSubnetMask mgmtNetwork)\<rparr>"

definition dnsList :: "string list \<Rightarrow> string" where
  "dnsList dnsNameServers =
     (if 0 < length dnsNameServers then strJoin '';'' dnsNameServers @ '';'' else [])"

definition updateBridge :: "nmIO \<Rightarrow> string \<Rightarrow> Network \<Rightarrow> string list \<Rightarrow> string \<Rightarrow> unit nm" where
  "updateBridge io name mgmtNetwork dnsNameServers configPath =
     (let bridgeDNS = (if \<not> needVlanInterface mgmtNetwork then dnsList dnsNameServers else [])
      in seqS (writeFile io (configPath @ ''/bridge-mgmt.nmconnection'')
                 (nmBridge (bridgeNetwork mgmtNetwork) MgmtInterfaceName bridgeDNS))
           (if needVlanInterface mgmtNetwork
            then writeFile io (configPath @ ''/vlan-mgmt.nmconnection'')
                   (nmVlan (vlanNetwork mgmtNetwork) name (dnsList dnsNameServers))
            else retS ()))"

definition applyCommands :: "string list list" where
  "applyCommands = [[''nmcli'', ''networking'', ''off''], [''nmcli'', ''connection'', ''reload''],
     [''nmcli'', ''networking'', ''on''], [''nm-online'', ''-x'']]"

definition UpdateManagementInterfaceConfig ::
  "nmIO \<Rightarrow> Network \<Rightarrow> string list \<Rightarrow> string \<Rightarrow> bool \<Rightarrow> unit nm" where
  "UpdateManagementInterfaceConfig io mgmtInterface dnsNameServers configPath applyConfig =
     (if length (nwInterfaces mgmtInterface) = 0
      then failS (Msg ''no slave defined for management network bond'')
      else if nwMethod mgmtInterface \<notin> {NetworkMethodDHCP, NetworkMethodStatic, NetworkMethodNone}
      then failS (Msg (''unsupported network method '' @ nwMethod mgmtInterface))
      else seqS (call (ioMkdirAll io configPath) (\<lambda>st. st))
          (seqS (wipeNMConnectionProfiles io configPath)
          (seqS (updateBond io (emptyNetwork\<lparr>nwInterfaces := nwInterfaces mgmtInterface,
                   nwMethod := NetworkMethodNone, nwBondOptions := nwBondOptions mgmtInterface,
                   nwMTU := nwMTU mgmtInterface, nwVlanID := nwVlanID mgmtInterface\<rparr>) configPath)
          (seqS (updateBridge io MgmtInterfaceName mgmtInterface dnsNameServers configPath)
          (if applyConfig then forS (runNM io) applyCommands else retS ())))))"

section \<open>Masks and prefixes\<close>

lemma maskOctets_wf:
  "maskOctets t i parts = Inr os \<Longrightarrow> length os = length parts \<and> wfOctets os"
proof (induction parts arbitrary: i os)
  case Nil
  then show ?case by (simp add: wfOctets_def)
next
  case (Cons part parts)
  then show ?case
    by (auto simp: wfOctets_def split: sum.splits if_splits)
qed

lemma maskOctets_showNat: "wfOctets os \<Longrightarrow> maskOctets t i (map showNat os) = Inr os"
  by (induction os arbitrary: i) (auto simp: atoi_showNat wfOctets_def)

lemma maskSize_le: "length m = 4 \<Longrightarrow> wfOctets m \<Longrightarrow> fst (maskSize m) \<le> 32"
  using simpleMaskLength_le [of m] by (auto simp: maskSize_def split: option.splits)

lemma isValidMaskFormat_iff:
  assumes "length m = 4" "wfOctets m"
  shows "isValidMaskFormat m \<longleftrightarrow> (\<exists>n \<le> 32. m = cidrOctets 4 n)"
proof
  assume "isValidMaskFormat m"
  then have "maskString m = maskString (cidrOctets 4 (fst (maskSize m)))"
    using maskSize_le [OF assms] by (simp add: isValidMaskFormat_def CIDRMask_def split: prod.splits)
  moreover have "cidrOctets 4 (fst (maskSize m)) \<noteq> []" by (metis cidrOctets_length length_0_conv zero_neq_numeral)
  moreover have "m \<noteq> []" using assms(1) by auto
  ultimately have "m = cidrOctets 4 (fst (maskSize m))"
    using assms by (intro concat_hexByte_inj) (auto simp: maskString_def)
  then show "\<exists>n \<le> 32. m = cidrOctets 4 n" using maskSize_le [OF assms] by blast
next
  assume "\<exists>n \<le> 32. m = cidrOctets 4 n"
  then show "isValidMaskFormat m"
    by (auto simp: isValidMaskFormat_def maskSize_cidrOctets CIDRMask_def)
qed

lemma splitOn_dotted: "length os = 4 \<Longrightarrow> splitOn CHR ''.'' (dotted os) = map showNat os"
  unfolding dotted_def by (rule splitOn_strJoin) (auto simp: showNat_dot)

lemma ParseMask_cidr:
  assumes "n \<le> 32"
  shows "ParseMask (dotted (cidrOctets 4 n)) = Inr (cidrOctets 4 n)"
proof -
  have "isValidMaskFormat (cidrOctets 4 n)"
    using assms isValidMaskFormat_iff [of "cidrOctets 4 n"] by auto
  then show ?thesis
    by (simp add: ParseMask_def Let_def splitOn_dotted maskOctets_showNat del: cidrOctets.simps)
qed

text \<open>The masks that the network page accepts are exactly the 33 prefix masks of IPv4.\<close>

theorem parse_mask_range: "(\<exists>s. ParseMask s = Inr m) \<longleftrightarrow> m \<in> cidrOctets 4 ` {0..32}"
proof
  assume "\<exists>s. ParseMask s = Inr m"
  then obtain s where "length (splitOn CHR ''.'' s) = 4" "maskOctets s 0 (splitOn CHR ''.'' s) = Inr m"
    "isValidMaskFormat m" by (auto simp: ParseMask_def Let_def split: if_splits sum.splits)
  then show "m \<in> cidrOctets 4 ` {0..32}"
    using isValidMaskFormat_iff [of m] maskOctets_wf by fastforce
next
  assume "m \<in> cidrOctets 4 ` {0..32}"
  then obtain n where "m = cidrOctets 4 n" "n \<le> 32" by auto
  then show "\<exists>s. ParseMask s = Inr m" using ParseMask_cidr by blast
qed

text \<open>C29: A prefix mask in dotted form is accepted by the parser and turned into its prefix length in the
  profile of NetworkManager: printing, parsing and counting are inverse to each other.\<close>

theorem mask_prefix_roundtrip:
  assumes "n \<le> 32"
  shows "ParseMask (dotted (cidrOctets 4 n)) = Inr (cidrOctets 4 n) \<and>
    maskToCIDR (dotted (cidrOctets 4 n)) = showNat n"
proof -
  have ip: "ParseIP (dotted (cidrOctets 4 n)) = Some (v4in6 (cidrOctets 4 n))"
    by (rule ParseIP_dotted) simp_all
  have ne: "dotted (cidrOctets 4 n) \<noteq> []"
    using arg_cong [OF splitOn_dotted [of "cidrOctets 4 n"], of length] by auto
  show ?thesis
    using assms by (simp add: ParseMask_cidr maskToCIDR_def ip ne maskSize_cidrOctets del: cidrOctets.simps)
qed

theorem mask_prefix_roundtrip_witness:
  "ParseMask (dotted [255, 255, 255, 0]) = Inr [255, 255, 255, 0] \<and> maskToCIDR (dotted [255, 255, 255, 0]) = showNat 24"
proof -
  have "cidrOctets 4 24 = [255, 255, 255, 0]" by (simp add: numeral_eq_Suc)
  then show ?thesis using mask_prefix_roundtrip [of 24] by simp
qed


section \<open>Saving and restoring\<close>

lemma call_Inr: "call err f st = (Inr (), st') \<longleftrightarrow> err = None \<and> st' = f st"
  by (auto simp: call_def split: option.splits)

lemma nm_calls_Inr:
  "removeFile io p st = (Inr (), st') \<longleftrightarrow>
     ioRemove io p = None \<and> st' = st\<lparr>nsFiles := mapDel p (nsFiles st)\<rparr>"
  "writeFile io p c st = (Inr (), st') \<longleftrightarrow>
     ioWrite io p = None \<and> st' = st\<lparr>nsFiles := mapPut p c (nsFiles st)\<rparr>"
  "runNM io cmd st = (Inr (), st') \<longleftrightarrow>
     ioCommand io cmd = None \<and> st' = st\<lparr>nsCommands := nsCommands st @ [cmd]\<rparr>"
  "saveFile io p st = (Inr (), st') \<longleftrightarrow> ioRead io p = None \<and>
     (\<exists>bytes. mapGet (nsFiles st) p = Some bytes \<and> st' = st\<lparr>nsOriginal := mapPut p bytes (nsOriginal st)\<rparr>)"
  by (auto simp: removeFile_def writeFile_def runNM_def saveFile_def call_Inr seqS_Inr bindS_Inr
      split: option.splits)

lemma forS_removes:
  "forS (removeFile io) paths st = (Inr (), st') \<Longrightarrow>
   (\<forall>p. mapGet (nsFiles st') p = (if p \<in> set paths then None else mapGet (nsFiles st) p)) \<and>
   nsOriginal st' = nsOriginal st \<and> nsCommands st' = nsCommands st"
proof (induction paths arbitrary: st)
  case Nil
  then show ?case by simp
next
  case (Cons path paths)
  then obtain st1 where "st1 = st\<lparr>nsFiles := mapDel path (nsFiles st)\<rparr>"
    "forS (removeFile io) paths st1 = (Inr (), st')"
    by (auto simp: seqS_Inr nm_calls_Inr)
  then show ?case using Cons.IH [of st1] by auto
qed

lemma forS_writes:
  "forS (\<lambda>x. writeFile io (p x) (c x)) xs st = (Inr (), st') \<Longrightarrow>
   (\<forall>q. mapGet (nsFiles st') q =
      (case map_of (rev (map (\<lambda>x. (p x, c x)) xs)) q of Some v \<Rightarrow> Some v | None \<Rightarrow> mapGet (nsFiles st) q)) \<and>
   nsOriginal st' = nsOriginal st \<and> nsCommands st' = nsCommands st"
proof (induction xs arbitrary: st)
  case Nil
  then show ?case by simp
next
  case (Cons x xs)
  then obtain st1 where "st1 = st\<lparr>nsFiles := mapPut (p x) (c x) (nsFiles st)\<rparr>"
    "forS (\<lambda>x. writeFile io (p x) (c x)) xs st1 = (Inr (), st')"
    by (auto simp: seqS_Inr nm_calls_Inr)
  then show ?case using Cons.IH [of st1] by (auto simp: map_add_def split: option.splits)
qed

lemma globProfiles_set: "p \<in> set (globProfiles d st) \<longleftrightarrow> isProfile d p \<and> mapGet (nsFiles st) p \<noteq> None"
  by (auto simp: globProfiles_def mapGet_def map_of_eq_None_iff)

lemma wipe_ok:
  "wipeNMConnectionProfiles io d st = (Inr (), st') \<Longrightarrow>
   (\<forall>p. mapGet (nsFiles st') p = (if isProfile d p then None else mapGet (nsFiles st) p)) \<and>
   nsOriginal st' = nsOriginal st \<and> nsCommands st' = nsCommands st"
  using forS_removes [of io "globProfiles d st" st st']
  by (auto simp: wipeNMConnectionProfiles_def bindS_Inr globProfiles_set)

lemma forS_saves:
  "forS (saveFile io) paths st = (Inr (), st') \<Longrightarrow>
   (\<forall>p. mapGet (nsOriginal st') p = (if p \<in> set paths then mapGet (nsFiles st) p else mapGet (nsOriginal st) p)) \<and>
   nsFiles st' = nsFiles st \<and> (wfMap (nsOriginal st) \<longrightarrow> wfMap (nsOriginal st')) \<and> nsSavedOnce st' = nsSavedOnce st"
proof (induction paths arbitrary: st)
  case Nil
  then show ?case by simp
next
  case (Cons path paths)
  then obtain bytes st1 where "mapGet (nsFiles st) path = Some bytes"
    "st1 = st\<lparr>nsOriginal := mapPut path bytes (nsOriginal st)\<rparr>" "forS (saveFile io) paths st1 = (Inr (), st')"
    by (auto simp: seqS_Inr nm_calls_Inr)
  then show ?case using Cons.IH [of st1] by auto
qed

text \<open>Steps of the program between saving and restoring, with any outcome of the system calls.\<close>

inductive nmStep :: "nmState \<Rightarrow> nmState \<Rightarrow> bool" where
  update: "nmStep st (snd (UpdateManagementInterfaceConfig io n dns path applyConfig st))"
| save: "nmStep st (snd (SaveOriginalNetworkConfig io st))"
| restore: "nmStep st (snd (RestoreOriginalNetworkConfig io st))"

inductive_cases nmStepE: "nmStep st st'"

lemma keeps_call [keeps_intros]: "(\<And>s. I s \<Longrightarrow> I (f s)) \<Longrightarrow> keeps I (call err f)"
  by (auto simp: call_def keeps_def split: option.splits)

lemma nm_keeps_saved:
  fixes orig :: "string gomap"
  defines "I \<equiv> \<lambda>st. nsOriginal st = orig \<and> nsSavedOnce st"
  shows "keeps I (UpdateManagementInterfaceConfig io n dns path applyConfig)"
    "keeps I (RestoreOriginalNetworkConfig io)"
  unfolding UpdateManagementInterfaceConfig_def RestoreOriginalNetworkConfig_def wipeNMConnectionProfiles_def
    removeFile_def updateBond_def updateBridge_def writeFile_def runNM_def Let_def I_def
  by (intro keeps_intros; auto intro!: keeps_intros split: prod.splits)+

lemma nmStep_saved:
  assumes "nmStep st st'" "nsSavedOnce st"
  shows "nsOriginal st' = nsOriginal st \<and> nsSavedOnce st'"
  using assms
proof (cases rule: nmStep.cases)
  case (update io n dns path applyConfig)
  then show ?thesis using assms(2) nm_keeps_saved(1) [of "nsOriginal st"] unfolding keeps_def by auto
next
  case (save io)
  then show ?thesis using assms(2) by (simp add: SaveOriginalNetworkConfig_def bindS_def)
next
  case (restore io)
  then show ?thesis using assms(2) nm_keeps_saved(2) [of "nsOriginal st"] unfolding keeps_def by auto
qed

lemma nmSteps_saved: "nmStep\<^sup>*\<^sup>* st st' \<Longrightarrow> nsSavedOnce st \<Longrightarrow> nsOriginal st' = nsOriginal st \<and> nsSavedOnce st'"
  by (induction rule: rtranclp_induct) (auto dest: nmStep_saved)

lemma save_ok:
  assumes "SaveOriginalNetworkConfig io st = (Inr (), st1)" "\<not> nsSavedOnce st" "nsOriginal st = []"
  shows "mapGet (nsOriginal st1) p = (if isProfile NMConnectionPath p then mapGet (nsFiles st) p else None)"
    "wfMap (nsOriginal st1)" "nsSavedOnce st1"
proof -
  let ?st = "st\<lparr>nsSavedOnce := True\<rparr>"
  have run: "forS (saveFile io) (globProfiles NMConnectionPath ?st) ?st = (Inr (), st1)"
    using assms by (auto simp: SaveOriginalNetworkConfig_def bindS_Inr seqS_Inr)
  have glob: "q \<in> set (globProfiles NMConnectionPath ?st) \<longleftrightarrow>
      isProfile NMConnectionPath q \<and> mapGet (nsFiles st) q \<noteq> None" for q
    by (simp add: globProfiles_set)
  show "mapGet (nsOriginal st1) p = (if isProfile NMConnectionPath p then mapGet (nsFiles st) p else None)"
    "wfMap (nsOriginal st1)" "nsSavedOnce st1"
    using forS_saves [OF run] assms(3) glob [of p] by (auto simp: mapGet_def)
qed

lemma map_of_rev: "wfMap m \<Longrightarrow> map_of (rev m) = mapGet m"
proof (induction m)
  case (Cons kv m)
  then have "map_of (rev m) = map_of m" "map_of m (fst kv) = None"
    by (auto simp: wfMap_def mapGet_def fun_eq_iff map_of_eq_None_iff)
  then show ?case by (cases kv) (auto simp: mapGet_def map_add_def fun_eq_iff split: option.splits)
qed (simp add: mapGet_def fun_eq_iff)

lemma restore_ok:
  assumes "RestoreOriginalNetworkConfig io st = (Inr (), st')" "nsOriginal st \<noteq> []" "wfMap (nsOriginal st)"
  shows "mapGet (nsFiles st') p =
    (case mapGet (nsOriginal st) p of Some v \<Rightarrow> Some v
     | None \<Rightarrow> if isProfile NMConnectionPath p then None else mapGet (nsFiles st) p)"
proof -
  obtain st1 where w: "wipeNMConnectionProfiles io NMConnectionPath st = (Inr (), st1)"
    and r0: "forS (\<lambda>(name, bytes). writeFile io name bytes) (nsOriginal st) st1 = (Inr (), st')"
    using assms(1,2) by (auto simp: RestoreOriginalNetworkConfig_def bindS_Inr seqS_Inr)
  have r: "forS (\<lambda>x. writeFile io (fst x) (snd x)) (nsOriginal st) st1 = (Inr (), st')"
    using r0 unfolding case_prod_unfold .
  have "map_of (rev (map (\<lambda>x. (fst x, snd x)) (nsOriginal st))) = mapGet (nsOriginal st)"
    using map_of_rev [OF assms(3)] by simp
  then show ?thesis using forS_writes [OF r] wipe_ok [OF w] by (simp split: option.splits)
qed

text \<open>C9: Restoring undoes every change of the profiles. Once the original profiles have been saved, whatever
  sequence of updates, saves and restores follows, with whatever failures, a successful restore brings
  back exactly the original profiles, with their contents, and leaves every other file as it is. Only
  when there was no profile at the start does it leave the later ones in place.\<close>

theorem restore_undoes_updates:
  assumes "SaveOriginalNetworkConfig io st = (Inr (), st1)" "\<not> nsSavedOnce st" "nsOriginal st = []"
    and "nmStep\<^sup>*\<^sup>* st1 st2" and "RestoreOriginalNetworkConfig io' st2 = (Inr (), st3)"
  shows "if (\<exists>p. isProfile NMConnectionPath p \<and> mapGet (nsFiles st) p \<noteq> None)
    then \<forall>p. mapGet (nsFiles st3) p =
      (if isProfile NMConnectionPath p then mapGet (nsFiles st) p else mapGet (nsFiles st2) p)
    else st3 = st2"
proof -
  note saved = save_ok [OF assms(1,2,3)]
  have orig: "nsOriginal st2 = nsOriginal st1" using nmSteps_saved [OF assms(4) saved(3)] by simp
  have empty: "nsOriginal st1 = [] \<longleftrightarrow> (\<forall>p. mapGet (nsOriginal st1) p = None)"
    by (cases "nsOriginal st1") (auto simp: mapGet_def)
  show ?thesis
  proof (cases "nsOriginal st1 = []")
    case True
    then have "st3 = st2" using assms(5) orig by (simp add: RestoreOriginalNetworkConfig_def bindS_Inr)
    moreover have "\<not> (isProfile NMConnectionPath p \<and> mapGet (nsFiles st) p \<noteq> None)" for p
      using saved(1) [of p] True by (simp add: mapGet_def split: if_splits)
    ultimately show ?thesis by auto
  next
    case False
    then obtain q where "mapGet (nsOriginal st1) q \<noteq> None" using empty by blast
    then have "isProfile NMConnectionPath q \<and> mapGet (nsFiles st) q \<noteq> None"
      using saved(1) [of q] by (simp split: if_splits)
    then have some: "\<exists>p. isProfile NMConnectionPath p \<and> mapGet (nsFiles st) p \<noteq> None" by blast
    have "mapGet (nsFiles st3) p =
        (if isProfile NMConnectionPath p then mapGet (nsFiles st) p else mapGet (nsFiles st2) p)" for p
      using restore_ok [OF assms(5), of p] False orig saved(1) [of p] saved(2)
      by (simp split: option.splits if_splits)
    then show ?thesis using some by simp
  qed
qed

section \<open>Updating the management network\<close>

text \<open>The profiles of a management network, as a list of paths and contents.\<close>

definition managementProfiles :: "string \<Rightarrow> Network \<Rightarrow> string list \<Rightarrow> string gomap" where
  "managementProfiles d n dns =
     (d @ ''/bond-mgmt.nmconnection'',
        nmBondMaster (emptyNetwork\<lparr>nwInterfaces := nwInterfaces n, nwMethod := NetworkMethodNone,
          nwBondOptions := (case nwBondOptions n of
             None \<Rightarrow> Some [(''mode'', BondModeActiveBackup), (''miimon'', ''100'')] | Some m \<Rightarrow> Some m),
          nwMTU := nwMTU n, nwVlanID := nwVlanID n\<rparr>) MgmtBondInterfaceName MgmtInterfaceName) #
     map (\<lambda>iface. (d @ ''/bond-slave-'' @ ifName iface @ ''.nmconnection'', nmBondSlave iface MgmtBondInterfaceName))
       (nwInterfaces n) @
     (d @ ''/bridge-mgmt.nmconnection'', nmBridge (bridgeNetwork n) MgmtInterfaceName
        (if needVlanInterface n then [] else dnsList dns)) #
     (if needVlanInterface n
      then [(d @ ''/vlan-mgmt.nmconnection'', nmVlan (vlanNetwork n) MgmtInterfaceName (dnsList dns))] else [])"

lemma isProfile_path: "CHR ''/'' \<notin> set b \<Longrightarrow> hasSuffix b ''nmconnection'' \<Longrightarrow> isProfile d (d @ ''/'' @ b)"
  by (simp add: isProfile_def hasPrefix_def)

lemma hasSuffix_append [simp]: "hasSuffix (a @ b) b"
  by (simp add: hasSuffix_def)

lemma managementProfiles_paths:
  assumes "\<forall>i \<in> set (nwInterfaces n). CHR ''/'' \<notin> set (ifName i)" "(p, c) \<in> set (managementProfiles d n dns)"
  shows "isProfile d p"
proof -
  have slave: "isProfile d (d @ ''/bond-slave-'' @ ifName i @ ''.nmconnection'')" if "i \<in> set (nwInterfaces n)" for i
    using isProfile_path [of "''bond-slave-'' @ ifName i @ ''.nmconnection''" d] assms(1) that
    by (simp add: hasSuffix_def)
  show ?thesis
    using assms(2) slave isProfile_path [of "''bond-mgmt.nmconnection''" d]
      isProfile_path [of "''bridge-mgmt.nmconnection''" d] isProfile_path [of "''vlan-mgmt.nmconnection''" d]
    by (auto simp: managementProfiles_def hasSuffix_def split: if_splits)
qed

lemma runNM_all: "forS (runNM io) cmds st = (Inr (), st') \<Longrightarrow> st' = st\<lparr>nsCommands := nsCommands st @ cmds\<rparr>"
proof (induction cmds arbitrary: st)
  case (Cons cmd cmds)
  then have "forS (runNM io) cmds (st\<lparr>nsCommands := nsCommands st @ [cmd]\<rparr>) = (Inr (), st')"
    by (auto simp: seqS_Inr nm_calls_Inr)
  from Cons.IH [OF this] show ?case by simp
qed simp

text \<open>The writes of an update are the list of profiles, in order.\<close>

lemma profiles_program:
  "seqS (updateBond io (emptyNetwork\<lparr>nwInterfaces := nwInterfaces n, nwMethod := NetworkMethodNone,
       nwBondOptions := nwBondOptions n, nwMTU := nwMTU n, nwVlanID := nwVlanID n\<rparr>) d)
     (updateBridge io MgmtInterfaceName n dns d) =
   forS (\<lambda>x. writeFile io (fst x) (snd x)) (managementProfiles d n dns)"
  unfolding updateBond_def updateBridge_def managementProfiles_def Let_def
  by (cases "nwBondOptions n"; cases "needVlanInterface n") (simp_all add: forS_append forS_map seqS_assoc emptyNetwork_def)

lemma update_writes:
  assumes "UpdateManagementInterfaceConfig io n dns d applyConfig st = (Inr (), st')"
  obtains st1 st2 where "wipeNMConnectionProfiles io d st = (Inr (), st1)"
    "forS (\<lambda>x. writeFile io (fst x) (snd x)) (managementProfiles d n dns) st1 = (Inr (), st2)"
    "st' = st2\<lparr>nsCommands := nsCommands st2 @ (if applyConfig then applyCommands else [])\<rparr>"
proof -
  have ok: "nwInterfaces n \<noteq> []" "nwMethod n \<in> {NetworkMethodDHCP, NetworkMethodStatic, NetworkMethodNone}"
    using assms by (auto simp: UpdateManagementInterfaceConfig_def split: if_splits)
  then have "seqS (wipeNMConnectionProfiles io d)
      (seqS (forS (\<lambda>x. writeFile io (fst x) (snd x)) (managementProfiles d n dns))
        (if applyConfig then forS (runNM io) applyCommands else retS ())) st = (Inr (), st')"
    using assms unfolding UpdateManagementInterfaceConfig_def profiles_program [symmetric]
    by (auto simp: seqS_assoc seqS_Inr call_Inr)
  then obtain st1 st2 where run: "wipeNMConnectionProfiles io d st = (Inr (), st1)"
    "forS (\<lambda>x. writeFile io (fst x) (snd x)) (managementProfiles d n dns) st1 = (Inr (), st2)"
    "(if applyConfig then forS (runNM io) applyCommands else retS ()) st2 = (Inr (), st')"
    unfolding seqS_Inr by blast
  from run(3) have "st' = st2\<lparr>nsCommands := nsCommands st2 @ (if applyConfig then applyCommands else [])\<rparr>"
    by (auto dest: runNM_all split: if_splits)
  with run(1,2) show thesis by (rule that)
qed

text \<open>C15: A successful update leaves exactly the profiles of the management network in the directory: the bond,
  one slave per interface, the bridge, and the VLAN interface when the VLAN is 2 to 4094; every other
  profile is gone, no other file changes, and the networking commands run only when asked for, in
  their order.\<close>

theorem update_profiles_exact:
  assumes "UpdateManagementInterfaceConfig io n dns d applyConfig st = (Inr (), st')"
    and "\<forall>i \<in> set (nwInterfaces n). CHR ''/'' \<notin> set (ifName i)"
  shows "(\<forall>p. mapGet (nsFiles st') p =
      (if isProfile d p then map_of (rev (managementProfiles d n dns)) p else mapGet (nsFiles st) p)) \<and>
    nsCommands st' = nsCommands st @ (if applyConfig then applyCommands else [])"
proof -
  obtain st1 st2 where st1: "wipeNMConnectionProfiles io d st = (Inr (), st1)"
    and st2: "forS (\<lambda>x. writeFile io (fst x) (snd x)) (managementProfiles d n dns) st1 = (Inr (), st2)"
    and st': "st' = st2\<lparr>nsCommands := nsCommands st2 @ (if applyConfig then applyCommands else [])\<rparr>"
    using update_writes [OF assms(1)] .
  have other: "map_of (rev (managementProfiles d n dns)) p = None" if "\<not> isProfile d p" for p
    using managementProfiles_paths [OF assms(2), of p _ d dns] that by (force simp: map_of_eq_None_iff)
  show ?thesis
    using forS_writes [OF st2] wipe_ok [OF st1] other unfolding st' by (auto split: option.splits)
qed

section \<open>Runs without system errors\<close>

definition reliableIO :: nmIO where
  "reliableIO = \<lparr>ioRemove = (\<lambda>_. None), ioRead = (\<lambda>_. None), ioWrite = (\<lambda>_. None), ioMkdirAll = (\<lambda>_. None),
     ioCommand = (\<lambda>_. None)\<rparr>"

lemma forS_total: "(\<And>x s. \<exists>s'. f x s = (Inr (), s')) \<Longrightarrow> \<exists>s'. forS f xs s = (Inr (), s')"
proof (induction xs arbitrary: s)
  case (Cons x xs)
  obtain s1 where "f x s = (Inr (), s1)" using Cons.prems by blast
  then show ?case using Cons by (simp add: bindS_run)
qed simp

lemma reliable_calls:
  "\<exists>s'. removeFile reliableIO p s = (Inr (), s')" "\<exists>s'. writeFile reliableIO p c s = (Inr (), s')"
  "\<exists>s'. runNM reliableIO cmd s = (Inr (), s')"
  by (auto simp: removeFile_def writeFile_def runNM_def call_def reliableIO_def)

lemma reliable_wipe: "\<exists>s'. wipeNMConnectionProfiles reliableIO d s = (Inr (), s')"
  using forS_total [of "removeFile reliableIO" "globProfiles d s" s] reliable_calls
  by (auto simp: wipeNMConnectionProfiles_def bindS_run)

lemma reliable_restore: "\<exists>s'. RestoreOriginalNetworkConfig reliableIO s = (Inr (), s')"
proof -
  obtain s1 where s1: "wipeNMConnectionProfiles reliableIO NMConnectionPath s = (Inr (), s1)"
    using reliable_wipe by blast
  have "\<exists>s'. forS (\<lambda>(name, bytes). writeFile reliableIO name bytes) (nsOriginal s) s1 = (Inr (), s')"
    by (rule forS_total) (auto split: prod.splits intro: reliable_calls)
  then show ?thesis using s1 by (auto simp: RestoreOriginalNetworkConfig_def bindS_run)
qed

lemma reliable_update:
  assumes "nwInterfaces n \<noteq> []" "nwMethod n \<in> {NetworkMethodDHCP, NetworkMethodStatic, NetworkMethodNone}"
  shows "\<exists>s'. UpdateManagementInterfaceConfig reliableIO n dns d applyConfig s = (Inr (), s')"
proof -
  obtain s1 where s1: "wipeNMConnectionProfiles reliableIO d s = (Inr (), s1)" using reliable_wipe by blast
  obtain s2 where s2: "forS (\<lambda>x. writeFile reliableIO (fst x) (snd x)) (managementProfiles d n dns) s1 = (Inr (), s2)"
    using forS_total reliable_calls(2) by meson
  obtain s3 where s3: "forS (runNM reliableIO) applyCommands s2 = (Inr (), s3)"
    using forS_total reliable_calls(3) by meson
  let ?rest = "if applyConfig then forS (runNM reliableIO) applyCommands else retS ()"
  have rest: "\<exists>s'. ?rest s2 = (Inr (), s')" using s3 by simp
  have "UpdateManagementInterfaceConfig reliableIO n dns d applyConfig s =
      seqS (wipeNMConnectionProfiles reliableIO d)
        (seqS (forS (\<lambda>x. writeFile reliableIO (fst x) (snd x)) (managementProfiles d n dns)) ?rest) s"
    using assms unfolding UpdateManagementInterfaceConfig_def profiles_program [symmetric]
    by (simp add: seqS_assoc call_def reliableIO_def bindS_run)
  then show ?thesis using s1 s2 rest by (simp only: seqS_Inr) blast
qed

definition sampleNetwork :: Network where
  "sampleNetwork = emptyNetwork\<lparr>nwInterfaces := [\<lparr>ifName = ''ens3'', ifHwAddr = []\<rparr>], nwMethod := NetworkMethodDHCP\<rparr>"

definition sampleProfiles :: nmState where
  "sampleProfiles = \<lparr>nsFiles = [(NMConnectionPath @ ''/eth0.nmconnection'', ''original'')], nsOriginal = [],
     nsSavedOnce = False, nsCommands = []\<rparr>"

lemma sample_update:
  obtains s' where "UpdateManagementInterfaceConfig reliableIO sampleNetwork [] NMConnectionPath True s = (Inr (), s')"
proof -
  have "\<exists>s'. UpdateManagementInterfaceConfig reliableIO sampleNetwork [] NMConnectionPath True s = (Inr (), s')"
    by (rule reliable_update) (simp_all add: sampleNetwork_def)
  then show thesis using that by blast
qed

lemma sample_profile: "isProfile NMConnectionPath (NMConnectionPath @ ''/eth0.nmconnection'')"
  by (simp add: isProfile_def hasPrefix_def hasSuffix_def)

theorem update_profiles_exact_witness:
  "\<exists>st'. UpdateManagementInterfaceConfig reliableIO sampleNetwork [] NMConnectionPath True sampleProfiles = (Inr (), st') \<and>
     mapGet (nsFiles st') (NMConnectionPath @ ''/eth0.nmconnection'') = None \<and> nsCommands st' = applyCommands"
proof -
  obtain st' where st': "UpdateManagementInterfaceConfig reliableIO sampleNetwork [] NMConnectionPath True sampleProfiles = (Inr (), st')"
    by (rule sample_update)
  have names: "\<forall>i \<in> set (nwInterfaces sampleNetwork). CHR ''/'' \<notin> set (ifName i)"
    by (simp add: sampleNetwork_def)
  have "map_of (rev (managementProfiles NMConnectionPath sampleNetwork [])) (NMConnectionPath @ ''/eth0.nmconnection'') = None"
    by (simp add: managementProfiles_def sampleNetwork_def needVlanInterface_def emptyNetwork_def)
  then show ?thesis
    using update_profiles_exact [OF st' names] st' sample_profile
    by (auto simp: sampleProfiles_def)
qed

lemma sample_save:
  obtains st1 where "SaveOriginalNetworkConfig reliableIO sampleProfiles = (Inr (), st1)"
  by (auto simp: SaveOriginalNetworkConfig_def bindS_run sampleProfiles_def globProfiles_def isProfile_def hasPrefix_def
      hasSuffix_def saveFile_def call_def reliableIO_def mapGet_def)

theorem restore_undoes_updates_witness:
  "\<exists>st1 st2 st3. SaveOriginalNetworkConfig reliableIO sampleProfiles = (Inr (), st1) \<and>
     UpdateManagementInterfaceConfig reliableIO sampleNetwork [] NMConnectionPath True st1 = (Inr (), st2) \<and>
     RestoreOriginalNetworkConfig reliableIO st2 = (Inr (), st3) \<and>
     mapGet (nsFiles st3) (NMConnectionPath @ ''/eth0.nmconnection'') = Some ''original''"
proof -
  obtain st1 where st1: "SaveOriginalNetworkConfig reliableIO sampleProfiles = (Inr (), st1)" by (rule sample_save)
  obtain st2 where st2: "UpdateManagementInterfaceConfig reliableIO sampleNetwork [] NMConnectionPath True st1 = (Inr (), st2)"
    by (rule sample_update)
  obtain st3 where st3: "RestoreOriginalNetworkConfig reliableIO st2 = (Inr (), st3)" using reliable_restore by blast
  have step: "nmStep\<^sup>*\<^sup>* st1 st2"
    using nmStep.update [of st1 reliableIO sampleNetwork "[]" NMConnectionPath True] st2 by simp
  have orig: "mapGet (nsFiles sampleProfiles) (NMConnectionPath @ ''/eth0.nmconnection'') = Some ''original''"
    by (simp add: sampleProfiles_def mapGet_def)
  have "mapGet (nsFiles st3) (NMConnectionPath @ ''/eth0.nmconnection'') = Some ''original''"
    using restore_undoes_updates [OF st1 _ _ step st3] sample_profile orig
    by (auto simp: sampleProfiles_def split: if_splits)
  then show ?thesis using st1 st2 st3 by blast
qed

end
