(* ===== verification/Host_Network.thy ===== *)
theory Host_Network
  imports Network_Profiles
begin

text \<open>
  The network of the host the installer runs on: links, iSCSI sessions and the application of
  the management network (\<^verbatim>\<open>pkg/console/network.go\<close>), and the virtual address fetched through a
  temporary macvlan link (\<^verbatim>\<open>pkg/console/vip.go\<close>). What netlink, the iSCSI tools, hostnamectl and
  the DHCP client answer are the fields of \<open>netHost\<close>, \<open>hostnameIO\<close> and \<open>vipIO\<close>.
\<close>

unbundle bit_operations_syntax

section \<open>Links\<close>

record link =
  lkName :: string
  lkType :: string
  lkEncapType :: string
  lkHwAddr :: octets
  lkRawFlags :: "32 word"

record netHost =
  nhLinkList :: "link list result"
  nhLinkByName :: "string \<Rightarrow> link option"
  nhSessions :: "string list result"
  nhInterface :: "string \<Rightarrow> string list result result"
  nhLinkSetUp :: "string \<Rightarrow> goerror option"
  nhRoutes :: "string option list result"

datatype NICState = NICStateNotFound | NICStateDown | NICStateLowerDown | NICStateUP

definition IFF_UP :: "32 word" where
  "IFF_UP = 1"

definition IFF_LOWER_UP :: "32 word" where
  "IFF_LOWER_UP = 65536"

text \<open>A route has no destination (\<^verbatim>\<open>Dst == nil\<close>) exactly when it is the default route.\<close>

definition checkDefaultRoute :: "netHost \<Rightarrow> bool result" where
  "checkDefaultRoute h = (case nhRoutes h of Inl err \<Rightarrow> Inl err | Inr routes \<Rightarrow> Inr (list_ex (\<lambda>r. r = None) routes))"

definition getNICState :: "netHost \<Rightarrow> string \<Rightarrow> NICState" where
  "getNICState h name =
     (case nhLinkByName h name of
        None \<Rightarrow> NICStateNotFound
      | Some l \<Rightarrow>
          if lkRawFlags l AND IFF_UP = 0 then NICStateDown
          else if lkRawFlags l AND IFF_LOWER_UP = 0 then NICStateLowerDown
          else NICStateUP)"

definition getManagementInterfaceName :: "Network \<Rightarrow> string" where
  "getManagementInterfaceName mgmtInterface =
     (let vlanID = nwVlanID mgmtInterface in
      if 2 \<le> vlanID \<and> vlanID \<le> 4094 then MgmtInterfaceName @ ''.'' @ showInt vlanID else MgmtInterfaceName)"

section \<open>Links in use by iSCSI\<close>

fun sessionAddress :: "string list \<Rightarrow> string list \<Rightarrow> bool result" where
  "sessionAddress sessions [] = Inr False"
| "sessionAddress sessions (address # addresses) =
     (case ParseCIDR address of
        None \<Rightarrow> Inl (Wrap ''error parsing ip address'' (Msg (''invalid CIDR address: '' @ address)))
      | Some (ip, ipMask) \<Rightarrow> if ipString ip \<in> set sessions then Inr True else sessionAddress sessions addresses)"

definition filterNIC :: "netHost \<Rightarrow> string list \<Rightarrow> link \<Rightarrow> link gomap \<Rightarrow> link gomap result" where
  "filterNIC h sessions l hwDeviceMap =
     (if getNICState h (lkName l) = NICStateUP
      then (case nhInterface h (lkName l) of
              Inl err \<Rightarrow> Inl (Wrap ''error fetching interface details'' err)
            | Inr (Inl err) \<Rightarrow> Inl (Wrap ''error fetching addresses from interface'' err)
            | Inr (Inr addresses) \<Rightarrow>
                (case sessionAddress sessions addresses of
                   Inl err \<Rightarrow> Inl err
                 | Inr used \<Rightarrow> Inr (if used then mapDel (macString (lkHwAddr l)) hwDeviceMap else hwDeviceMap)))
      else Inr hwDeviceMap)"

definition filterNICSBySession :: "netHost \<Rightarrow> string list \<Rightarrow> link list \<Rightarrow> link gomap \<Rightarrow> link gomap result" where
  "filterNICSBySession h sessions links hwDeviceMap = foldR (filterNIC h sessions) links hwDeviceMap"

definition filterISCSIInterfaces :: "netHost \<Rightarrow> link list \<Rightarrow> link list \<Rightarrow> string list \<Rightarrow> link list result" where
  "filterISCSIInterfaces h nics vlanNics sessions =
     (let hwDeviceMap = fold (\<lambda>v. mapPut (macString (lkHwAddr v)) v) nics [] in
      case filterNICSBySession h sessions nics hwDeviceMap of
        Inl err \<Rightarrow> Inl err
      | Inr m \<Rightarrow>
          (case filterNICSBySession h sessions vlanNics m of
             Inl err \<Rightarrow> Inl err
           | Inr m' \<Rightarrow> Inr (map snd m')))"

definition getNICs :: "netHost \<Rightarrow> link list result" where
  "getNICs h =
     (case nhLinkList h of
        Inl err \<Rightarrow> Inl err
      | Inr links \<Rightarrow>
          (let nics = filter (\<lambda>l. lkType l = ''device'' \<and> lkEncapType l \<noteq> ''loopback'') links;
               vlanNics = filter (\<lambda>l. lkType l = ''vlan'') links in
           case nhSessions h of
             Inl err \<Rightarrow> Inl (Wrap ''error querying iscsi sessions'' err)
           | Inr sessions \<Rightarrow> if length sessions = 0 then Inr nics else filterISCSIInterfaces h nics vlanNics sessions))"

definition upAllLinks :: "netHost \<Rightarrow> unit result" where
  "upAllLinks h =
     (case getNICs h of
        Inl err \<Rightarrow> Inl err
      | Inr nics \<Rightarrow> allR (\<lambda>nic. case nhLinkSetUp h (lkName nic) of None \<Rightarrow> Inr () | Some err \<Rightarrow> Inl err) nics)"

section \<open>Applying the management network\<close>

text \<open>
  The profiles and the host name. \<open>hiGet\<close> and \<open>hiSet\<close> give the errors of hostnamectl, an empty
  host name reads back as \<^verbatim>\<open>localhost\<close>, and \<open>hiDHCP\<close> is the name a DHCP server hands out to a host
  without one when the network comes up.
\<close>

record hostnameIO =
  hiGetBefore :: "goerror option"
  hiGetAfter :: "goerror option"
  hiSet :: "string \<Rightarrow> goerror option"
  hiDHCP :: "string option"

record netState =
  anProfiles :: nmState
  anHostname :: string

definition onProfiles :: "'a nm \<Rightarrow> (netState, 'a) prog" where
  "onProfiles m st = (case m (anProfiles st) of (r, p) \<Rightarrow> (r, st\<lparr>anProfiles := p\<rparr>))"

definition getHostname :: "goerror option \<Rightarrow> (netState, string) prog" where
  "getHostname err =
     (case err of Some e \<Rightarrow> failS e | None \<Rightarrow> getS (\<lambda>st. if anHostname st = [] then ''localhost'' else anHostname st))"

definition setHostname :: "hostnameIO \<Rightarrow> string \<Rightarrow> (netState, unit) prog" where
  "setHostname hi hostname =
     (case hiSet hi hostname of Some e \<Rightarrow> failS e | None \<Rightarrow> modS (\<lambda>st. st\<lparr>anHostname := hostname\<rparr>))"

text \<open>A failure that is only logged.\<close>

definition logged :: "('s, 'a) prog \<Rightarrow> 'a \<Rightarrow> ('s, 'a) prog" where
  "logged m x s = (case m s of (Inl e, s') \<Rightarrow> (Inr x, s') | (Inr y, s') \<Rightarrow> (Inr y, s'))"

definition dhcpHostname :: "hostnameIO \<Rightarrow> (netState, unit) prog" where
  "dhcpHostname hi =
     modS (\<lambda>st. case hiDHCP hi of
                  Some name \<Rightarrow> if anHostname st = [] then st\<lparr>anHostname := name\<rparr> else st
                | None \<Rightarrow> st)"

definition restoreHostname :: "hostnameIO \<Rightarrow> string \<Rightarrow> (netState, unit) prog" where
  "restoreHostname hi previousHostname =
     logged (bindS (getHostname (hiGetAfter hi)) (\<lambda>currentHostname.
       if currentHostname = ''localhost'' then setHostname hi previousHostname else retS ())) ()"

text \<open>\<^verbatim>\<open>upAllLinks\<close> changes links only and its error is logged, so it does not show here.\<close>

definition applyNetworks :: "nmIO \<Rightarrow> hostnameIO \<Rightarrow> Network \<Rightarrow> string \<Rightarrow> (netState, unit) prog" where
  "applyNetworks io hi network hostname =
     seqS (onProfiles (RestoreOriginalNetworkConfig io))
    (seqS (onProfiles (SaveOriginalNetworkConfig io))
    (bindS (logged (getHostname (hiGetBefore hi)) []) (\<lambda>previousHostname.
     seqS (if hostname = [] then logged (setHostname hi []) () else setHostname hi hostname)
    (seqS (onProfiles (UpdateManagementInterfaceConfig io network [] NMConnectionPath True))
    (seqS (dhcpHostname hi)
          (if hostname = [] \<and> previousHostname \<noteq> [] then restoreHostname hi previousHostname else retS ()))))))"

section \<open>A virtual address through DHCP\<close>

record vipIO =
  viParent :: "string \<Rightarrow> goerror option"
  viRandom :: "nat result"
  viLinkAdd :: "string \<Rightarrow> goerror option"
  viLinkSetUp :: "string \<Rightarrow> goerror option"
  viLinkByName :: "string \<Rightarrow> octets result"
  viLinkSetDown :: "string \<Rightarrow> goerror option"
  viLinkDel :: "string \<Rightarrow> goerror option"
  viDHCP :: "string \<Rightarrow> octets result"

record vipAddr =
  vaHwAddr :: string
  vaIPv4Addr :: string

text \<open>The state is the list of links; a wrapped error keeps its cause.\<close>

type_synonym 'a links = "(string list, 'a) prog"

definition wrapped :: "string \<Rightarrow> goerror option \<Rightarrow> ('s \<Rightarrow> 's) \<Rightarrow> ('s, unit) prog" where
  "wrapped msg err f = call (map_option (Wrap msg) err) f"

definition createMacvlan :: "vipIO \<Rightarrow> string \<Rightarrow> string \<Rightarrow> (string \<times> octets) links" where
  "createMacvlan io name hwAddr =
     seqS (wrapped (''failed to fetch '' @ name) (viParent io name) id)
    (bindS (liftS (case viRandom io of Inl err \<Rightarrow> Inl (Wrap ''failed to generate random number'' err) | Inr n \<Rightarrow> Inr n)) (\<lambda>randNum.
      let macvlanName = ''macvlan-'' @ showNat randNum in
     if hwAddr \<noteq> [] \<and> ParseMAC hwAddr = None
     then failS (Wrap (''failed to parse '' @ hwAddr) (Msg (''address '' @ hwAddr @ '': invalid MAC address'')))
     else seqS (wrapped (''failed to add '' @ macvlanName) (viLinkAdd io macvlanName) (\<lambda>links. macvlanName # links))
         (seqS (wrapped (''failed to set '' @ macvlanName @ '' up'') (viLinkSetUp io macvlanName) id)
         (bindS (liftS (viLinkByName io macvlanName)) (\<lambda>hw. retS (macvlanName, hw))))))"

definition deleteMacvlan :: "vipIO \<Rightarrow> string \<Rightarrow> unit links" where
  "deleteMacvlan io name =
     seqS (wrapped ''failed to set link down'' (viLinkSetDown io name) id)
          (wrapped (''failed to del '' @ name) (viLinkDel io name) (remove1 name))"

definition getVipThroughDHCP :: "vipIO \<Rightarrow> string \<Rightarrow> string \<Rightarrow> vipAddr links" where
  "getVipThroughDHCP io iface hwAddr =
     bindS (createMacvlan io iface hwAddr) (\<lambda>(name, hw).
     bindS (liftS (viDHCP io name)) (\<lambda>ip.
     seqS (deleteMacvlan io name)
          (retS \<lparr>vaHwAddr = macString hw, vaIPv4Addr = ipString ip\<rparr>)))"

section \<open>Which links are left\<close>

definition ofSession :: "string list \<Rightarrow> string \<Rightarrow> bool" where
  "ofSession sessions a = (case ParseCIDR a of None \<Rightarrow> False | Some (ip, m) \<Rightarrow> ipString ip \<in> set sessions)"

definition inUse :: "netHost \<Rightarrow> string list \<Rightarrow> link \<Rightarrow> bool" where
  "inUse h sessions l \<longleftrightarrow> getNICState h (lkName l) = NICStateUP \<and>
     (case nhInterface h (lkName l) of Inr (Inr addresses) \<Rightarrow> list_ex (ofSession sessions) addresses | _ \<Rightarrow> False)"

lemma sessionAddress_iff: "sessionAddress ss as = Inr b \<Longrightarrow> b = list_ex (ofSession ss) as"
proof (induction as)
  case (Cons a as)
  then show ?case by (cases "ParseCIDR a") (auto simp: ofSession_def split: if_splits)
qed simp

lemma filterNIC_eq:
  "filterNIC h ss l m = Inr m' \<Longrightarrow> m' = (if inUse h ss l then mapDel (macString (lkHwAddr l)) m else m)"
  by (auto simp: filterNIC_def inUse_def dest: sessionAddress_iff split: if_splits sum.splits)

lemma wfMap_del [simp, intro]: "wfMap m \<Longrightarrow> wfMap (mapDel k m)"
  by (simp add: wfMap_def mapDel_def distinct_delete)

lemma filterNICS_get:
  "filterNICSBySession h ss ls m = Inr m' \<Longrightarrow>
     mapGet m' k = (if \<exists>l \<in> set ls. inUse h ss l \<and> macString (lkHwAddr l) = k then None else mapGet m k)"
  "filterNICSBySession h ss ls m = Inr m' \<Longrightarrow> wfMap m \<Longrightarrow> wfMap m'"
  unfolding filterNICSBySession_def
  by (induction ls arbitrary: m) (auto dest!: filterNIC_eq split: sum.splits if_splits)

lemma nics_by_address:
  fixes f :: "link \<Rightarrow> string"
  shows "distinct (map f ns) \<Longrightarrow> mapGet (fold (\<lambda>v. mapPut (f v) v) ns []) k = Some n \<longleftrightarrow> n \<in> set ns \<and> f n = k"
proof (induction ns rule: rev_induct)
  case (snoc v ns)
  have "f n \<noteq> f v" if "n \<in> set ns"
  proof
    assume "f n = f v"
    with that have "f v \<in> f ` set ns" by (metis imageI)
    then show False using snoc.prems by simp
  qed
  with snoc show ?case by auto
qed (simp add: mapGet_def)

lemma wfMap_fold_put: "wfMap (fold (\<lambda>v. mapPut (f v) v) ns [])"
  by (induction ns rule: rev_induct) auto

lemma snd_mapGet: "wfMap m \<Longrightarrow> v \<in> set (map snd m) \<longleftrightarrow> (\<exists>k. mapGet m k = Some v)"
  by (force simp: wfMap_def mapGet_def map_of_eq_Some_iff)

text \<open>C21: with iSCSI sessions, the interfaces offered for management are exactly the hardware interfaces
  of which no link with the same hardware address, be it the interface itself or a VLAN on it, is up and
  holds the address of a session.\<close>

theorem iscsi_links_exact:
  assumes "distinct (map (\<lambda>n. macString (lkHwAddr n)) nics)"
    and "filterISCSIInterfaces h nics vlanNics sessions = Inr returned"
  shows "set returned =
    {n \<in> set nics. \<not> (\<exists>l \<in> set nics \<union> set vlanNics. inUse h sessions l \<and> macString (lkHwAddr l) = macString (lkHwAddr n))}"
proof -
  let ?m0 = "fold (\<lambda>v. mapPut (macString (lkHwAddr v)) v) nics []"
  obtain m1 m2 where m1: "filterNICSBySession h sessions nics ?m0 = Inr m1"
    and m2: "filterNICSBySession h sessions vlanNics m1 = Inr m2" and r: "returned = map snd m2"
    using assms(2) by (auto simp: filterISCSIInterfaces_def Let_def split: sum.splits)
  have "wfMap m2"
    using filterNICS_get(2) [OF m2] filterNICS_get(2) [OF m1] wfMap_fold_put [of "\<lambda>v. macString (lkHwAddr v)" nics] by simp
  then have "n \<in> set returned \<longleftrightarrow> (\<exists>k. mapGet m2 k = Some n)" for n
    unfolding r by (rule snd_mapGet)
  moreover have "mapGet m2 k = Some n \<longleftrightarrow> n \<in> set nics \<and> macString (lkHwAddr n) = k \<and>
      \<not> (\<exists>l \<in> set nics \<union> set vlanNics. inUse h sessions l \<and> macString (lkHwAddr l) = k)" for k n
    using nics_by_address [OF assms(1), of k n]
    unfolding filterNICS_get(1) [OF m2, of k] filterNICS_get(1) [OF m1, of k] by auto
  ultimately have "n \<in> set returned \<longleftrightarrow> n \<in> set nics \<and> \<not> (\<exists>l \<in> set nics \<union> set vlanNics.
      inUse h sessions l \<and> macString (lkHwAddr l) = macString (lkHwAddr n))" for n
    by simp
  then show ?thesis by (intro set_eqI) simp
qed

definition sampleLink :: "string \<Rightarrow> string \<Rightarrow> nat \<Rightarrow> link" where
  "sampleLink name t x =
     \<lparr>lkName = name, lkType = t, lkEncapType = ''ether'', lkHwAddr = [2, 0, 0, 0, 0, x], lkRawFlags = IFF_UP OR IFF_LOWER_UP\<rparr>"

definition sampleNetHost :: netHost where
  "sampleNetHost = \<lparr>nhLinkList = Inr [sampleLink ''eth0'' ''device'' 3, sampleLink ''eth1'' ''device'' 4],
     nhLinkByName = (\<lambda>name. Some (sampleLink name ''device'' 0)), nhSessions = Inr [''10.0.0.5''],
     nhInterface = (\<lambda>name. Inr (Inr (if name = ''eth0'' then [''10.0.0.5/24''] else []))), nhLinkSetUp = (\<lambda>name. None),
     nhRoutes = Inr []\<rparr>"

lemma sample_mac:
  "macString [2, 0, 0, 0, 0, 3] = ''02:00:00:00:00:03''" "macString [2, 0, 0, 0, 0, 4] = ''02:00:00:00:00:04''"
  by code_simp+

lemma sample_cidr: "sessionAddress [''10.0.0.5''] [''10.0.0.5/24''] = Inr True"
proof -
  have "ParseAddr ''10.0.0.5'' = Some (V4 [10, 0, 0, 5])" by code_simp
  moreover have "CIDRMask 24 32 \<noteq> None" by code_simp
  moreover have "ipString (v4in6 [10, 0, 0, 5]) = ''10.0.0.5''" by code_simp
  moreover have "natOfDigits 10 ''24'' = 24" by code_simp
  ultimately show ?thesis
    by (auto simp: ParseCIDR_def isDigitC_def)
qed

lemma sample_iscsi:
  "filterISCSIInterfaces sampleNetHost [sampleLink ''eth0'' ''device'' 3, sampleLink ''eth1'' ''device'' 4] [] [''10.0.0.5'']
     = Inr [sampleLink ''eth1'' ''device'' 4]"
  by (simp add: filterISCSIInterfaces_def filterNICSBySession_def filterNIC_def getNICState_def sampleNetHost_def
      sampleLink_def IFF_UP_def IFF_LOWER_UP_def sample_cidr sample_mac mapPut_def mapDel_def Let_def
      del: sessionAddress.simps(2))

theorem iscsi_links_exact_witness:
  "set [sampleLink ''eth1'' ''device'' 4] =
     {n \<in> set [sampleLink ''eth0'' ''device'' 3, sampleLink ''eth1'' ''device'' 4].
      \<not> (\<exists>l \<in> set [sampleLink ''eth0'' ''device'' 3, sampleLink ''eth1'' ''device'' 4] \<union> set [].
           inUse sampleNetHost [''10.0.0.5''] l \<and> macString (lkHwAddr l) = macString (lkHwAddr n))}"
proof -
  have "distinct (map (\<lambda>n. macString (lkHwAddr n)) [sampleLink ''eth0'' ''device'' 3, sampleLink ''eth1'' ''device'' 4])"
    by (simp add: sampleLink_def sample_mac)
  from iscsi_links_exact [OF this sample_iscsi] show ?thesis .
qed

section \<open>What is left behind\<close>

definition macvlanOf :: "vipIO \<Rightarrow> string" where
  "macvlanOf io = ''macvlan-'' @ showNat (case viRandom io of Inr n \<Rightarrow> n | Inl e \<Rightarrow> 0)"

lemma createMacvlan_links:
  assumes "createMacvlan io iface hwAddr links = (r, links')"
  shows "case r of
      Inr (name, hw) \<Rightarrow> name = macvlanOf io \<and> links' = macvlanOf io # links
    | Inl e \<Rightarrow> links' = links \<or> links' = macvlanOf io # links"
  using assms
  by (auto simp: createMacvlan_def macvlanOf_def wrapped_def call_def bindS_run Let_def
      split: option.splits sum.splits prod.splits if_splits)

text \<open>A virtual address obtained through DHCP leaves the links as they were; a failure leaves them as
  they were or leaves the temporary macvlan link behind, and always leaves it behind once it was created,
  for example when no DHCP server answers.\<close>

theorem vip_links_left:
  assumes "getVipThroughDHCP io iface hwAddr links = (r, links')"
  shows "case r of
      Inr vip \<Rightarrow> links' = links
    | Inl e \<Rightarrow> (if isOk (fst (createMacvlan io iface hwAddr links)) then links' = macvlanOf io # links
               else links' = links \<or> links' = macvlanOf io # links)"
proof -
  obtain r0 l0 where c: "createMacvlan io iface hwAddr links = (r0, l0)" by fastforce
  show ?thesis
    using assms createMacvlan_links [OF c]
    by (auto simp: getVipThroughDHCP_def c deleteMacvlan_def wrapped_def call_def bindS_run
        split: option.splits sum.splits prod.splits)
qed

definition sampleVipIO :: vipIO where
  "sampleVipIO = \<lparr>viParent = (\<lambda>n. None), viRandom = Inr 7, viLinkAdd = (\<lambda>n. None), viLinkSetUp = (\<lambda>n. None),
     viLinkByName = (\<lambda>n. Inr [2, 0, 0, 0, 0, 9]), viLinkSetDown = (\<lambda>n. None), viLinkDel = (\<lambda>n. None),
     viDHCP = (\<lambda>n. Inl (Ext ''no matching response packet received''))\<rparr>"

theorem vip_links_left_witness:
  "\<exists>e links'. getVipThroughDHCP sampleVipIO ''mgmt-br'' [] [''eth0''] = (Inl e, links') \<and> links' = macvlanOf sampleVipIO # [''eth0'']"
proof -
  have c: "isOk (fst (createMacvlan sampleVipIO ''mgmt-br'' [] [''eth0'']))"
    by (simp add: createMacvlan_def sampleVipIO_def wrapped_def call_def bindS_run Let_def)
  have "\<exists>e links'. getVipThroughDHCP sampleVipIO ''mgmt-br'' [] [''eth0''] = (Inl e, links')"
    by (simp add: getVipThroughDHCP_def createMacvlan_def sampleVipIO_def wrapped_def call_def bindS_run Let_def)
  then show ?thesis
    using vip_links_left [of sampleVipIO "''mgmt-br''" "[]" "[''eth0'']"] c by fastforce
qed

end
