(* ===== verification/Widgets.thy ===== *)
theory Widgets
  imports Disks
begin

text \<open>
  The widgets of the console (\<^verbatim>\<open>pkg/widgets\<close>): wrapping and truncating text, panels, input fields,
  selections and drop-down lists, over the part of \<^verbatim>\<open>gocui\<close> they call (views by name, the current
  view, buffers and cursors; \<^verbatim>\<open>vendor/github.com/jroimartin/gocui\<close>). Colours and key bindings are not
  modelled; the hooks \<^verbatim>\<open>PreShow\<close> and \<^verbatim>\<open>PostClose\<close> belong to the pages. The cursor of a view is its row.
\<close>

section \<open>Wrapping and truncating\<close>

abbreviation LF :: char where "LF \<equiv> CHR 0x0A"

fun lastSpaceBelow :: "string \<Rightarrow> nat \<Rightarrow> nat option" where
  "lastSpaceBelow text 0 = None"
| "lastSpaceBelow text (Suc i) = (if text ! i = CHR '' '' then Some i else lastSpaceBelow text i)"

lemma lastSpaceBelow_less: "lastSpaceBelow text n = Some i \<Longrightarrow> i < n \<and> text ! i = CHR '' ''"
  by (induction n) (auto split: if_splits)

function wrapText :: "string \<Rightarrow> nat \<Rightarrow> string \<Rightarrow> string" where
  "wrapText text columns separator =
     (if length text < columns then text
      else (case lastSpaceBelow text (min (length text) columns) of
              Some i \<Rightarrow> take i text @ separator @ wrapText (drop (i + 1) text) columns separator
            | None \<Rightarrow> text))"
  by pat_completeness auto
termination
  by (relation "measure (\<lambda>(text, columns, separator). length text)") (auto dest!: lastSpaceBelow_less)

declare wrapText.simps [simp del]

definition wrapLines :: "string \<Rightarrow> nat \<Rightarrow> string" where
  "wrapLines content maxColumns =
     strJoin [LF] (map (\<lambda>line. if length line < maxColumns then line else wrapText line maxColumns [LF])
       (splitOn LF content))"

text \<open>\<^verbatim>\<open>lastLine[:cutLastLineAt]\<close> panics when fewer than four columns are left.\<close>

definition truncateLines :: "string \<Rightarrow> nat \<Rightarrow> nat \<Rightarrow> string result" where
  "truncateLines content maxColumns maxRows =
     (let lines = splitOn LF content in
      if maxRows < length lines
      then (let lastLine = lines ! (maxRows - 1) in
            if 0 < maxColumns \<and> maxColumns < length lastLine + 4
            then (if maxColumns < 4 then Inl (Panic ''slice bounds out of range'')
                  else Inr (strJoin [LF] (take (maxRows - 1) lines @ [take (maxColumns - 4) lastLine @ '' ...''])))
            else Inr (strJoin [LF] (take (maxRows - 1) lines @ [lastLine @ '' ...''])))
      else Inr (strJoin [LF] lines))"

definition formatContent :: "string \<Rightarrow> nat \<Rightarrow> nat \<Rightarrow> bool \<Rightarrow> bool \<Rightarrow> string result" where
  "formatContent content maxColumns maxRows wrap trunc =
     (let content1 = (if wrap then wrapLines content maxColumns else content) in
      if trunc then truncateLines content1 maxColumns maxRows else Inr content1)"

section \<open>Views\<close>

record view =
  vwName :: string
  vwWidth :: int
  vwHeight :: int
  vwBuf :: string
  vwCy :: nat

record gui =
  gMaxX :: int
  gMaxY :: int
  gViews :: "view list"
  gCurrent :: "string option"

abbreviation "ErrUnknownView \<equiv> Msg ''unknown view''"

definition viewNames :: "gui \<Rightarrow> string list" where
  "viewNames g = map vwName (gViews g)"

definition guiView :: "gui \<Rightarrow> string \<Rightarrow> view option" where
  "guiView g name = find (\<lambda>v. vwName v = name) (gViews g)"

definition changeView :: "string \<Rightarrow> (view \<Rightarrow> view) \<Rightarrow> gui \<Rightarrow> gui" where
  "changeView name f g = g\<lparr>gViews := map (\<lambda>v. if vwName v = name then f v else v) (gViews g)\<rparr>"

text \<open>The second component says that the view is new (\<^verbatim>\<open>ErrUnknownView\<close>).\<close>

definition SetView :: "string \<Rightarrow> int \<Rightarrow> int \<Rightarrow> int \<Rightarrow> int \<Rightarrow> gui \<Rightarrow> (gui \<times> bool) result" where
  "SetView name x0 y0 x1 y1 g =
     (if x0 \<ge> x1 \<or> y0 \<ge> y1 then Inl (Msg ''invalid dimensions'')
      else if name = [] then Inl (Msg ''invalid name'')
      else (case guiView g name of
              Some v \<Rightarrow> Inr (changeView name (\<lambda>v. v\<lparr>vwWidth := x1 - x0 - 1, vwHeight := y1 - y0 - 1\<rparr>) g, False)
            | None \<Rightarrow> Inr (g\<lparr>gViews := gViews g @ [\<lparr>vwName = name, vwWidth = x1 - x0 - 1, vwHeight = y1 - y0 - 1,
                                                   vwBuf = [], vwCy = 0\<rparr>]\<rparr>, True)))"

definition DeleteView :: "string \<Rightarrow> gui \<Rightarrow> gui result" where
  "DeleteView name g =
     (if name \<in> set (viewNames g) then Inr (g\<lparr>gViews := remove1 (the (guiView g name)) (gViews g)\<rparr>)
      else Inl ErrUnknownView)"

definition SetCurrentView :: "string \<Rightarrow> gui \<Rightarrow> gui result" where
  "SetCurrentView name g =
     (if name \<in> set (viewNames g) then Inr (g\<lparr>gCurrent := Some name\<rparr>) else Inl ErrUnknownView)"

definition SetCursor :: "string \<Rightarrow> int \<Rightarrow> nat \<Rightarrow> gui \<Rightarrow> gui result" where
  "SetCursor name x y g =
     (case guiView g name of
        None \<Rightarrow> Inl ErrUnknownView
      | Some v \<Rightarrow>
          if x < 0 \<or> vwWidth v \<le> x \<or> vwHeight v \<le> int y then Inl (Msg ''invalid point'')
          else Inr (changeView name (\<lambda>v. v\<lparr>vwCy := y\<rparr>) g))"

definition writeView :: "string \<Rightarrow> string \<Rightarrow> gui \<Rightarrow> gui" where
  "writeView name text g = changeView name (\<lambda>v. v\<lparr>vwBuf := vwBuf v @ text\<rparr>) g"

definition clearView :: "string \<Rightarrow> gui \<Rightarrow> gui" where
  "clearView name g = changeView name (\<lambda>v. v\<lparr>vwBuf := []\<rparr>) g"

text \<open>
  \<^verbatim>\<open>BufferLines\<close>: a new line starts after each line feed; a line feed written first starts the first line.
\<close>

definition bufferLines :: "string \<Rightarrow> string list" where
  "bufferLines buf = (case buf of [] \<Rightarrow> [] | c # cs \<Rightarrow> if c = LF then splitOn LF cs else splitOn LF buf)"

section \<open>Panel\<close>

record Panel =
  pnName :: string
  pnContent :: string
  pnWrap :: bool
  pnFocus :: bool
  pnX0 :: int
  pnX1 :: int
  pnY0 :: int
  pnY1 :: int
  pnTips :: "string gomap"
  pnFirstPage :: bool

definition NewPanel :: "string \<Rightarrow> Panel" where
  "NewPanel name = \<lparr>pnName = name, pnContent = [], pnWrap = False, pnFocus = True, pnX0 = 0, pnX1 = 0, pnY0 = 0,
     pnY1 = 0, pnTips = [], pnFirstPage = False\<rparr>"

definition SetLocation :: "int \<Rightarrow> int \<Rightarrow> int \<Rightarrow> int \<Rightarrow> Panel \<Rightarrow> Panel" where
  "SetLocation x0 y0 x1 y1 p = p\<lparr>pnX0 := x0, pnY0 := y0, pnX1 := x1, pnY1 := y1\<rparr>"

definition tipsText :: "Panel \<Rightarrow> string" where
  "tipsText p =
     (let tips = (if pnFirstPage p then [] else [''Use ESC to go back to previous page'']) @
                 map (\<lambda>(key, tip). ''Use '' @ key @ '' to '' @ tip) (pnTips p)
      in if tips = [] then [] else ''<'' @ strJoin '', '' tips @ ''>'')"

definition defaultLocation :: "gui \<Rightarrow> Panel \<Rightarrow> Panel" where
  "defaultLocation g p =
     (if pnX0 p = 0 \<and> pnX1 p = 0 \<and> pnY0 p = 0 \<and> pnY1 p = 0
      then SetLocation (gMaxX g div 8) (gMaxY g div 8) (gMaxX g div 8 * 7) (gMaxY g div 8 * 7) p else p)"

definition Panel_Show :: "Panel \<Rightarrow> gui \<Rightarrow> (Panel \<times> gui) result" where
  "Panel_Show p0 g =
     (let p = defaultLocation g p0 in
      bindR (SetView (pnName p) (pnX0 p) (pnY0 p) (pnX1 p) (pnY1 p) g) (\<lambda>(g1, new).
      bindR (if new \<and> pnFocus p then SetCurrentView (pnName p) (writeView (pnName p) (pnContent p) g1)
             else Inr (if new then writeView (pnName p) (pnContent p) g1 else g1)) (\<lambda>g2.
        Inr (p, if guiView g2 ''footer'' = None then g2
                else writeView ''footer'' (tipsText p) (clearView ''footer'' g2)))))"

definition Panel_Close :: "Panel \<Rightarrow> gui \<Rightarrow> gui result" where
  "Panel_Close p g = (if guiView g (pnName p) = None then Inr g else DeleteView (pnName p) g)"

definition Panel_SetContent :: "string \<Rightarrow> Panel \<Rightarrow> gui \<Rightarrow> (Panel \<times> gui) result" where
  "Panel_SetContent content p g =
     (let panelWidth = pnX1 p - pnX0 p - 1; panelHeight = pnY1 p - pnY0 p - 1 in
      bindR (if 0 < panelWidth \<and> 0 < panelHeight
             then formatContent content (nat panelWidth) (nat panelHeight) (pnWrap p) True else Inr content) (\<lambda>text.
        Inr (p\<lparr>pnContent := text\<rparr>,
             if guiView g (pnName p) = None then g else writeView (pnName p) text (clearView (pnName p) g))))"

section \<open>Input\<close>

record Input =
  inpPanel :: Panel
  inpValue :: string
  inpMask :: bool

definition inputView :: "Input \<Rightarrow> string" where
  "inputView i = pnName (inpPanel i) @ ''-input''"

definition NewInput :: "gui \<Rightarrow> string \<Rightarrow> string \<Rightarrow> bool \<Rightarrow> Input" where
  "NewInput g name label masked =
     \<lparr>inpPanel = (NewPanel name)\<lparr>pnContent := label, pnFocus := False, pnX0 := gMaxX g div 8, pnY0 := gMaxY g div 8,
        pnX1 := gMaxX g div 8 * 7, pnY1 := gMaxY g div 8 + 3\<rparr>, inpValue = [], inpMask = masked\<rparr>"

definition Input_SetData :: "string \<Rightarrow> Input \<Rightarrow> gui \<Rightarrow> gui result" where
  "Input_SetData data i g =
     (if guiView g (inputView i) = None then Inl ErrUnknownView
      else Inr (writeView (inputView i) data (clearView (inputView i) g)))"

definition Input_Show :: "Input \<Rightarrow> gui \<Rightarrow> (Input \<times> gui) result" where
  "Input_Show i0 g =
     bindR (Panel_Show (inpPanel i0) g) (\<lambda>(p, g1).
       let i = i0\<lparr>inpPanel := p\<rparr>;
           offset = (if 20 < length (pnContent p) then int (length (pnContent p)) + 1 else 20) in
       bindR (SetView (inputView i) (pnX0 p + offset) (pnY0 p) (pnX1 p - 1) (pnY0 p + 2) g1) (\<lambda>(g2, new).
       bindR (SetCurrentView (inputView i) g2) (\<lambda>g3.
       bindR (Input_SetData (inpValue i) i g3) (\<lambda>g4. Inr (i, g4)))))"

definition Input_Close :: "Input \<Rightarrow> gui \<Rightarrow> gui result" where
  "Input_Close i g = bindR (DeleteView (inputView i) g) (Panel_Close (inpPanel i))"

definition Input_GetData :: "Input \<Rightarrow> gui \<Rightarrow> string result" where
  "Input_GetData i g =
     (case guiView g (inputView i) of
        None \<Rightarrow> Inl ErrUnknownView
      | Some v \<Rightarrow> Inr (case bufferLines (vwBuf v) of [] \<Rightarrow> [] | l # ls \<Rightarrow> l))"

section \<open>Select\<close>

record Select =
  slPanel :: Panel
  slValue :: string
  slOptions :: "Option list"
  slValues :: "string list"
  slMulti :: bool
  slSelected :: "bool list"

definition optionView :: "Select \<Rightarrow> string" where
  "optionView s = pnName (slPanel s) @ ''-options''"

text \<open>\<open>updateSelectedStatus\<close> panics on an option without an entry in \<^verbatim>\<open>selectedIndexes\<close>.\<close>

definition selectedValues :: "Select \<Rightarrow> string list" where
  "selectedValues s = map (opValue \<circ> fst) (filter snd (zip (slOptions s) (slSelected s)))"

definition updateSelectedStatus :: "Select \<Rightarrow> gui \<Rightarrow> (Select \<times> gui) result" where
  "updateSelectedStatus s g =
     (case guiView g (optionView s) of
        None \<Rightarrow> Inl ErrUnknownView
      | Some v \<Rightarrow>
          bindR (SetCursor (optionView s) 1 (vwCy v) (clearView (optionView s) g)) (\<lambda>g1.
            if length (slSelected s) < length (slOptions s) then Inl (Panic ''index out of range'')
            else Inr (s\<lparr>slValues := selectedValues s, slValue := strJoin '','' (selectedValues s)\<rparr>,
                      writeView (optionView s)
                        (concat (map (\<lambda>(opt, sel). ''['' @ (if sel then ''x'' else '' '') @ ''] '' @ opText opt @ [LF])
                           (zip (slOptions s) (slSelected s)))) g1)))"

fun optionIndex :: "string \<Rightarrow> Option list \<Rightarrow> nat option" where
  "optionIndex data [] = None"
| "optionIndex data (opt # opts) = (if opValue opt = data then Some 0 else map_option Suc (optionIndex data opts))"

definition Select_SetData :: "string \<Rightarrow> Select \<Rightarrow> gui \<Rightarrow> (Select \<times> gui) result" where
  "Select_SetData data s g =
     (if data = [] then Inr (s\<lparr>slValue := []\<rparr>, g)
      else (case optionIndex data (slOptions s) of
              None \<Rightarrow> Inl (Msg (''given data '' @ data @ '' not found in options''))
            | Some idx \<Rightarrow>
                if guiView g (optionView s) = None then Inr (s\<lparr>slValue := data\<rparr>, g)
                else bindR (SetCursor (optionView s) 0 idx g) (\<lambda>g1. Inr (s\<lparr>slValue := data\<rparr>, g1))))"

text \<open>\<open>opts\<close> is the answer of \<^verbatim>\<open>getOptionsFunc\<close>.\<close>

definition Select_Show :: "Option list result \<Rightarrow> Select \<Rightarrow> gui \<Rightarrow> (Select \<times> gui) result" where
  "Select_Show opts s0 g =
     bindR (Panel_Show (slPanel s0) g) (\<lambda>(p, g1).
     bindR opts (\<lambda>options.
       let s = s0\<lparr>slPanel := p, slOptions := options\<rparr>;
           offset = (if pnContent p = [] then 0 else int (length (splitOn LF (pnContent p))) + 1) in
       bindR (SetView (optionView s) (pnX0 p) (pnY0 p + offset) (pnX1 p) (pnY0 p + offset + int (length options) + 1) g1)
         (\<lambda>(g2, new).
       bindR (if \<not> new then Inr (s, g2)
              else bindR (if slMulti s
                          then updateSelectedStatus
                                 (if slSelected s = [] then s\<lparr>slSelected := replicate (length options) False\<rparr> else s) g2
                          else Inr (s, writeView (optionView s) (concat (map (\<lambda>opt. opText opt @ [LF]) options)) g2))
                     (\<lambda>(s1, g3). bindR (SetCurrentView (optionView s) g3) (\<lambda>g4. Inr (s1, g4))))
         (\<lambda>(s2, g5). if slMulti s2 then Inr (s2, g5) else Select_SetData (slValue s2) s2 g5))))"

definition Select_Close :: "Select \<Rightarrow> gui \<Rightarrow> gui result" where
  "Select_Close s g = bindR (DeleteView (optionView s) g) (Panel_Close (slPanel s))"

definition Select_GetData :: "Select \<Rightarrow> gui \<Rightarrow> string result" where
  "Select_GetData s g =
     (case guiView g (optionView s) of
        None \<Rightarrow> Inl ErrUnknownView
      | Some v \<Rightarrow>
          Inr (if bufferLines (vwBuf v) = [] then []
               else if vwCy v + 1 \<le> length (slOptions s) then opValue (slOptions s ! vwCy v) else []))"

definition Select_SetMulti :: "bool \<Rightarrow> Select \<Rightarrow> Select" where
  "Select_SetMulti multi s =
     s\<lparr>slMulti := multi, slPanel := (slPanel s)\<lparr>pnTips :=
         (if multi then mapPut ''SPACE'' ''select options'' (pnTips (slPanel s)) else mapDel ''SPACE'' (pnTips (slPanel s)))\<rparr>\<rparr>"

text \<open>The space key of a multiple selection.\<close>

definition Select_toggle :: "Select \<Rightarrow> gui \<Rightarrow> (Select \<times> gui) result" where
  "Select_toggle s g =
     (case guiView g (optionView s) of
        None \<Rightarrow> Inl ErrUnknownView
      | Some v \<Rightarrow>
          if vwCy v + 1 \<le> length (slOptions s)
          then (if length (slSelected s) \<le> vwCy v then Inl (Panic ''index out of range'')
                else updateSelectedStatus (s\<lparr>slSelected := (slSelected s)[vwCy v := \<not> slSelected s ! vwCy v]\<rparr>) g)
          else updateSelectedStatus s g)"

section \<open>Cursor keys\<close>

definition isAtEnd :: "view \<Rightarrow> bool" where
  "isAtEnd v = (let lines = length (bufferLines (vwBuf v)) in lines < 2 \<or> vwCy v = lines - 2)"

text \<open>
  When the cursor cannot move the origin of the view would; the origin is not part of the model, so
  the view stays as it is.
\<close>

definition ArrowUp :: "string \<Rightarrow> gui \<Rightarrow> gui" where
  "ArrowUp name g =
     (case guiView g name of
        None \<Rightarrow> g
      | Some v \<Rightarrow> if vwCy v = 0 then g
                  else (case SetCursor name 0 (vwCy v - 1) g of Inl e \<Rightarrow> g | Inr g' \<Rightarrow> g'))"

definition ArrowDown :: "string \<Rightarrow> gui \<Rightarrow> gui" where
  "ArrowDown name g =
     (case guiView g name of
        None \<Rightarrow> g
      | Some v \<Rightarrow> if isAtEnd v then g
                  else (case SetCursor name 0 (vwCy v + 1) g of Inl e \<Rightarrow> g | Inr g' \<Rightarrow> g'))"

section \<open>DropDown\<close>

record DropDown =
  ddPanel :: Panel
  ddSelect :: Select
  ddViewName :: string
  ddInputLen :: int
  ddValue :: string
  ddText :: string
  ddMulti :: bool

definition NewDropDown :: "gui \<Rightarrow> string \<Rightarrow> string \<Rightarrow> DropDown" where
  "NewDropDown g name label =
     \<lparr>ddPanel = (NewPanel name)\<lparr>pnContent := label, pnFocus := False, pnX0 := gMaxX g div 8, pnY0 := gMaxY g div 8,
        pnX1 := gMaxX g div 8 * 7, pnY1 := gMaxY g div 8 + 3, pnTips := [(''TAB'', ''choose other options'')]\<rparr>,
      ddSelect = \<lparr>slPanel = (NewPanel (name @ ''-dropdown-select''))\<lparr>pnFocus := False\<rparr>, slValue = [], slOptions = [],
        slValues = [], slMulti = False, slSelected = []\<rparr>,
      ddViewName = name @ ''-dropdown'', ddInputLen = 0, ddValue = [], ddText = [], ddMulti = False\<rparr>"

text \<open>\<^verbatim>\<open>render\<close>: the text padded or cut to the length of the field, then the arrow.\<close>

definition renderDropDown :: "int \<Rightarrow> string \<Rightarrow> string" where
  "renderDropDown inputLen text =
     (if int (length text) < inputLen
      then text @ replicate (nat (inputLen - int (length text) - 1)) (CHR '' '')
      else take (nat (inputLen - 1)) text) @ ''>''"

definition DropDown_SetData :: "string \<Rightarrow> DropDown \<Rightarrow> gui \<Rightarrow> gui" where
  "DropDown_SetData data d g =
     (if guiView g (ddViewName d) = None then g
      else (let g1 = clearView (ddViewName d) g in
            if ddMulti d then writeView (ddViewName d) (renderDropDown (ddInputLen d) (ddValue d)) g1
            else (case find (\<lambda>opt. opValue opt = data) (slOptions (ddSelect d)) of
                    None \<Rightarrow> g1
                  | Some opt \<Rightarrow> writeView (ddViewName d) (renderDropDown (ddInputLen d) (opText opt)) g1)))"

definition DropDown_Show :: "Option list result \<Rightarrow> DropDown \<Rightarrow> gui \<Rightarrow> (DropDown \<times> gui) result" where
  "DropDown_Show opts d0 g =
     bindR (Panel_Show (ddPanel d0) g) (\<lambda>(p, g1).
     bindR opts (\<lambda>options.
       let offset = (if pnContent p = [] then 0 else if 20 < length (pnContent p) then int (length (pnContent p)) + 1 else 20);
           x0 = pnX0 p + offset; x1 = pnX1 p - 1;
           d = d0\<lparr>ddPanel := p, ddSelect := (ddSelect d0)\<lparr>slOptions := options\<rparr>, ddInputLen := x1 - x0 - 1\<rparr> in
       bindR (SetView (ddViewName d) x0 (pnY0 p) x1 (pnY0 p + 2) g1) (\<lambda>(g2, new).
         let d1 = (if new \<and> ddValue d = [] \<and> ddText d = [] \<and> options \<noteq> [] \<and> \<not> ddMulti d
                   then d\<lparr>ddValue := opValue (hd options), ddText := opText (hd options)\<rparr> else d) in
         bindR (SetCurrentView (ddViewName d1) g2) (\<lambda>g3. Inr (d1, DropDown_SetData (ddValue d1) d1 g3)))))"

definition DropDown_Close :: "DropDown \<Rightarrow> gui \<Rightarrow> gui result" where
  "DropDown_Close d g = bindR (DeleteView (ddViewName d) g) (Panel_Close (ddPanel d))"

definition DropDown_GetData :: "DropDown \<Rightarrow> string" where
  "DropDown_GetData d = ddValue d"

definition DropDown_GetMultiData :: "DropDown \<Rightarrow> string list" where
  "DropDown_GetMultiData d = slValues (ddSelect d)"

definition DropDown_SetMulti :: "bool \<Rightarrow> DropDown \<Rightarrow> DropDown" where
  "DropDown_SetMulti multi d = d\<lparr>ddMulti := multi, ddSelect := Select_SetMulti True (ddSelect d)\<rparr>"

definition DropDown_Reset :: "DropDown \<Rightarrow> DropDown" where
  "DropDown_Reset d = d\<lparr>ddSelect := (ddSelect d)\<lparr>slSelected := []\<rparr>, ddValue := []\<rparr>"

text \<open>The enter key of the open list, up to the call of the handler of the page.\<close>

definition DropDown_choose :: "Option list result \<Rightarrow> DropDown \<Rightarrow> gui \<Rightarrow> (DropDown \<times> gui) result" where
  "DropDown_choose opts d g =
     (case guiView g (optionView (ddSelect d)) of
        None \<Rightarrow> Inl ErrUnknownView
      | Some v \<Rightarrow>
          if \<not> ddMulti d \<and> bufferLines (vwBuf v) = [] then Inr (d, g)
          else (let d1 = (if ddMulti d then d\<lparr>ddValue := slValue (ddSelect d), ddText := slValue (ddSelect d)\<rparr>
                          else if vwCy v + 1 \<le> length (slOptions (ddSelect d))
                          then d\<lparr>ddValue := opValue (slOptions (ddSelect d) ! vwCy v),
                                 ddText := opText (slOptions (ddSelect d) ! vwCy v)\<rparr>
                          else d) in
                bindR (Select_Close (ddSelect d1) g) (\<lambda>g1.
                bindR (DropDown_Close d1 g1) (DropDown_Show opts d1))))"

section \<open>Text on the screen\<close>

lemma splitOn_append: "splitOn c (a @ c # b) = splitOn c a @ splitOn c b"
proof (induction a)
  case (Cons x a)
  then show ?case by (cases "splitOn c a") auto
qed simp

lemma hd_splitOn: "hd (splitOn c s) = takeWhile (\<lambda>x. x \<noteq> c) s"
proof (induction s)
  case (Cons x s)
  then show ?case by (cases "splitOn c s") auto
qed simp

lemma lastSpaceBelow_None: "lastSpaceBelow text n = None \<Longrightarrow> j < n \<Longrightarrow> text ! j \<noteq> CHR '' ''"
  by (induction n) (auto simp: less_Suc_eq split: if_splits)

lemma long_first_word:
  assumes "lastSpaceBelow text n = None" "n \<le> length text"
  shows "n \<le> length (hd (splitOn (CHR '' '') text))"
proof (rule ccontr)
  let ?w = "takeWhile (\<lambda>x. x \<noteq> CHR '' '') text"
  assume "\<not> n \<le> length (hd (splitOn (CHR '' '') text))"
  then have "length ?w < n" by (simp add: hd_splitOn)
  moreover from this assms(2) have "text ! length ?w = CHR '' ''"
    using nth_length_takeWhile [of "\<lambda>x. x \<noteq> CHR '' ''" "text"] by simp
  ultimately show False using lastSpaceBelow_None [OF assms(1)] by blast
qed

definition unwrap :: "string \<Rightarrow> string" where
  "unwrap s = map (\<lambda>c. if c = LF then CHR '' '' else c) s"

lemma unwrap_id: "LF \<notin> set s \<Longrightarrow> unwrap s = s"
  by (induction s) (auto simp: unwrap_def)

text \<open>C38: a line whose words are all shorter than the panel is wrapped so that every line is shorter than
  the panel, and nothing but spaces is replaced by line breaks.\<close>

theorem wrap_text_exact:
  assumes "list_all (\<lambda>w. length w < columns) (splitOn (CHR '' '') text)" and "LF \<notin> set text"
  shows "list_all (\<lambda>l. length l < columns) (splitOn LF (wrapText text columns [LF]))
    \<and> unwrap (wrapText text columns [LF]) = text"
  using assms
proof (induction "text" columns "[LF]" rule: wrapText.induct)
  case (1 tx columns)
  show ?case
  proof (cases "length tx < columns")
    case True
    with 1 show ?thesis by (simp add: wrapText.simps splitOn_single unwrap_id)
  next
    case False
    then have n: "min (length tx) columns = columns" by simp
    show ?thesis
    proof (cases "lastSpaceBelow tx columns")
      case None
      then have "columns \<le> length (hd (splitOn (CHR '' '') tx))"
        using False by (intro long_first_word) auto
      then show ?thesis
        using "1.prems"(1) by (auto simp: list_all_iff dest!: bspec [of _ _ "hd (splitOn (CHR '' '') tx)"])
    next
      case (Some i)
      then have i: "i < columns" "tx ! i = CHR '' ''" using lastSpaceBelow_less by blast+
      then have il: "i < length tx" using False by simp
      have split: "tx = take i tx @ CHR '' '' # drop (i + 1) tx"
        using id_take_nth_drop [OF il] i(2) by simp
      have "list_all (\<lambda>w. length w < columns) (splitOn (CHR '' '') (drop (i + 1) tx))"
        using "1.prems"(1) splitOn_append [of "CHR '' ''" "take i tx" "drop (i + 1) tx"] split by simp
      moreover have "LF \<notin> set (drop (i + 1) tx)" "LF \<notin> set (take i tx)"
        using "1.prems"(2) by (auto dest: in_set_dropD in_set_takeD)
      ultimately have IH: "list_all (\<lambda>l. length l < columns) (splitOn LF (wrapText (drop (i + 1) tx) columns [LF]))"
          "unwrap (wrapText (drop (i + 1) tx) columns [LF]) = drop (i + 1) tx" and t: "LF \<notin> set (take i tx)"
        using "1.hyps" [OF False, of i] Some n by auto
      have w: "wrapText tx columns [LF] = take i tx @ LF # wrapText (drop (i + 1) tx) columns [LF]"
        using False Some n by (subst wrapText.simps) simp
      have "unwrap (take i tx) = take i tx" using t by (rule unwrap_id)
      then have "unwrap (wrapText tx columns [LF]) = take i tx @ CHR '' '' # drop (i + 1) tx"
        unfolding w using IH(2) by (simp add: unwrap_def)
      then show ?thesis
        using IH(1) i(1) t split by (simp add: w splitOn_append_sep)
    qed
  qed
qed

theorem wrap_text_exact_witness:
  "list_all (\<lambda>l. length l < 8) (splitOn LF (wrapText ''one two three'' 8 [LF])) \<and> unwrap (wrapText ''one two three'' 8 [LF]) = ''one two three''"
  using wrap_text_exact [of 8 "''one two three''"] by simp

text \<open>C39: content is cut to the number of rows of its panel, and what remains of it are its first rows.\<close>

theorem format_content_rows:
  assumes "formatContent content maxColumns maxRows wrap True = Inr out" and "0 < maxRows"
  shows "length (splitOn LF out) \<le> maxRows \<and>
    take (maxRows - 1) (splitOn LF out) =
      take (maxRows - 1) (splitOn LF (if wrap then wrapLines content maxColumns else content))"
proof -
  define ls where "ls = splitOn LF (if wrap then wrapLines content maxColumns else content)"
  have ls: "ls \<noteq> []" "\<And>l. l \<in> set ls \<Longrightarrow> LF \<notin> set l"
    using splitOn_noSep by (auto simp: ls_def)
  have split: "splitOn LF (strJoin [LF] ws) = ws" if "ws \<noteq> []" "\<forall>w \<in> set ws. LF \<notin> set w" for ws
    using that by (rule splitOn_strJoin)
  show ?thesis
  proof (cases "maxRows < length ls")
    case True
    then have l: "LF \<notin> set (ls ! (maxRows - 1))" using ls(2) by simp
    then have l4: "LF \<notin> set (take (maxColumns - 4) (ls ! (maxRows - 1)))" by (auto dest: in_set_takeD)
    obtain w where w: "out = strJoin [LF] (take (maxRows - 1) ls @ [w])" "LF \<notin> set w"
      using assms(1) True l l4 that [of "take (maxColumns - 4) (ls ! (maxRows - 1)) @ '' ...''"]
        that [of "ls ! (maxRows - 1) @ '' ...''"]
      by (auto simp: formatContent_def truncateLines_def Let_def ls_def [symmetric] split: if_splits)
    have "splitOn LF out = take (maxRows - 1) ls @ [w]"
      unfolding w(1) using w(2) ls(2) by (intro split) (auto dest: in_set_takeD)
    then show ?thesis
      using True assms(2) by (simp add: ls_def [symmetric])
  next
    case False
    then have "out = strJoin [LF] ls"
      using assms(1) by (simp add: formatContent_def truncateLines_def Let_def ls_def)
    then show ?thesis
      using False split [of ls] ls by (simp add: ls_def [symmetric])
  qed
qed

theorem format_content_rows_witness:
  "\<exists>out. formatContent [CHR ''a'', LF, CHR ''b'', LF, CHR ''c''] 20 2 True True = Inr out \<and> length (splitOn LF out) \<le> 2"
  using format_content_rows [of "[CHR ''a'', LF, CHR ''b'', LF, CHR ''c'']" 20 2 True]
  by (simp add: formatContent_def truncateLines_def wrapLines_def)

section \<open>Views after an operation\<close>

named_theorems view_simps \<open>effects of the operations on views\<close>

lemma guiView_change:
  assumes "\<And>v. vwName (f v) = vwName v"
  shows "guiView (changeView name f g) n = (if n = name then map_option f (guiView g n) else guiView g n)"
proof -
  have "find (\<lambda>v. vwName v = n) (map (\<lambda>v. if vwName v = name then f v else v) vs) =
      (if n = name then map_option f (find (\<lambda>v. vwName v = n) vs) else find (\<lambda>v. vwName v = n) vs)" for vs
    by (induction vs) (auto simp: assms)
  then show ?thesis by (simp add: guiView_def changeView_def)
qed

lemma guiView_write [simp, view_simps]:
  "guiView (writeView name s g) n = (if n = name then map_option (\<lambda>v. v\<lparr>vwBuf := vwBuf v @ s\<rparr>) (guiView g n) else guiView g n)"
  "guiView (clearView name g) n = (if n = name then map_option (\<lambda>v. v\<lparr>vwBuf := []\<rparr>) (guiView g n) else guiView g n)"
  by (simp_all add: writeView_def clearView_def guiView_change)

lemma viewNames_change: "(\<And>v. vwName (f v) = vwName v) \<Longrightarrow> viewNames (changeView name f g) = viewNames g"
  by (auto simp: viewNames_def changeView_def)

lemma viewNames_write [simp, view_simps]:
  "viewNames (writeView name s g) = viewNames g" "viewNames (clearView name g) = viewNames g"
  by (simp_all add: writeView_def clearView_def viewNames_change)

lemma viewNames_current [simp, view_simps]: "viewNames (g\<lparr>gCurrent := c\<rparr>) = viewNames g" "guiView (g\<lparr>gCurrent := c\<rparr>) n = guiView g n"
  by (simp_all add: viewNames_def guiView_def)

lemma guiView_None: "guiView g n = None \<longleftrightarrow> n \<notin> set (viewNames g)"
  by (auto simp: guiView_def viewNames_def find_None_iff)

lemma SetView_names:
  assumes "SetView name x0 y0 x1 y1 g = Inr (g', new)"
  shows "set (viewNames g') = insert name (set (viewNames g))" "new \<longleftrightarrow> name \<notin> set (viewNames g)"
    and "distinct (viewNames g) \<Longrightarrow> distinct (viewNames g')"
  using assms guiView_None [of g name]
  by (auto simp: SetView_def viewNames_change split: if_splits option.splits) (auto simp: viewNames_def)

lemma SetView_new:
  assumes "SetView name x0 y0 x1 y1 g = Inr (g', True)"
  shows "guiView g' name = Some \<lparr>vwName = name, vwWidth = x1 - x0 - 1, vwHeight = y1 - y0 - 1, vwBuf = [], vwCy = 0\<rparr>"
proof -
  have "find P (vs @ [v]) = (case find P vs of None \<Rightarrow> if P v then Some v else None | Some w \<Rightarrow> Some w)" for P vs and v :: view
    by (induction vs) auto
  then show ?thesis
    using assms by (auto simp: SetView_def guiView_def split: if_splits option.splits)
qed

lemma SetCurrentView_ok [view_simps]: "SetCurrentView name g = Inr g' \<longleftrightarrow> name \<in> set (viewNames g) \<and> g' = g\<lparr>gCurrent := Some name\<rparr>"
  by (auto simp: SetCurrentView_def)

lemma names_remove1:
  "v \<in> set vs \<Longrightarrow> distinct (map vwName vs) \<Longrightarrow> map vwName (remove1 v vs) = remove1 (vwName v) (map vwName vs)"
  by (induction vs) (auto simp: image_iff)

lemma DeleteView_names:
  assumes "DeleteView name g = Inr g'" "distinct (viewNames g)"
  shows "set (viewNames g') = set (viewNames g) - {name}" "distinct (viewNames g')" "name \<in> set (viewNames g)"
proof -
  from assms(1) have n: "name \<in> set (viewNames g)" and g': "g' = g\<lparr>gViews := remove1 (the (guiView g name)) (gViews g)\<rparr>"
    by (auto simp: DeleteView_def split: if_splits)
  then obtain v where v: "guiView g name = Some v" using guiView_None [of g name] by auto
  then have "v \<in> set (gViews g)" "vwName v = name"
    by (auto simp: guiView_def find_Some_iff)
  moreover from this have "viewNames g' = remove1 name (viewNames g)"
    using assms(2) v unfolding g' viewNames_def by (simp add: names_remove1)
  ultimately show "set (viewNames g') = set (viewNames g) - {name}" "distinct (viewNames g')" "name \<in> set (viewNames g)"
    using assms(2) n by (auto simp: distinct_remove1)
qed

section \<open>The interface Element\<close>

text \<open>
  What the pages rely on when they show and close elements by name: showing an element opens its own
  views and leaves the others, closing it removes exactly its own. \<open>owned\<close> are the views of an element.
\<close>

locale element =
  fixes owned :: "'w \<Rightarrow> string set" and show_el :: "'w \<Rightarrow> gui \<Rightarrow> ('w \<times> gui) result" and close_el :: "'w \<Rightarrow> gui \<Rightarrow> gui result"
  assumes show_names: "show_el w g = Inr (w', g') \<Longrightarrow> set (viewNames g') = set (viewNames g) \<union> owned w"
    and show_owned: "show_el w g = Inr (w', g') \<Longrightarrow> owned w' = owned w"
    and show_distinct: "show_el w g = Inr (w', g') \<Longrightarrow> distinct (viewNames g) \<Longrightarrow> distinct (viewNames g')"
    and close_names: "close_el w g = Inr g' \<Longrightarrow> distinct (viewNames g) \<Longrightarrow> set (viewNames g') = set (viewNames g) - owned w"
    and close_distinct: "close_el w g = Inr g' \<Longrightarrow> distinct (viewNames g) \<Longrightarrow> distinct (viewNames g')"
    and close_shown: "owned w \<subseteq> set (viewNames g) \<Longrightarrow> distinct (viewNames g) \<Longrightarrow> \<exists>g'. close_el w g = Inr g'"
begin

text \<open>Showing and closing leaves the views that were there before.\<close>

lemma show_then_close:
  assumes "show_el w g = Inr (w', g')" "distinct (viewNames g)"
  shows "\<exists>g''. close_el w' g' = Inr g'' \<and> set (viewNames g'') = set (viewNames g) - owned w \<and> distinct (viewNames g'')"
proof -
  note d = show_distinct [OF assms]
  have "owned w' \<subseteq> set (viewNames g')"
    using show_names [OF assms(1)] show_owned [OF assms(1)] by auto
  then obtain g'' where g'': "close_el w' g' = Inr g''"
    using close_shown d by blast
  then show ?thesis
    using close_names [OF g'' d] close_distinct [OF g'' d] show_names [OF assms(1)] show_owned [OF assms(1)] by auto
qed

lemma show_again:
  assumes "show_el w g = Inr (w', g')" "show_el w' g' = Inr (w'', g'')"
  shows "set (viewNames g'') = set (viewNames g')"
  using show_names [OF assms(1)] show_names [OF assms(2)] show_owned [OF assms(1)] by auto

end

lemma Panel_Show_ok:
  assumes "Panel_Show p g = Inr (p', g')"
  shows "set (viewNames g') = insert (pnName p) (set (viewNames g))" "pnName p' = pnName p" "pnContent p' = pnContent p"
    and "distinct (viewNames g) \<Longrightarrow> distinct (viewNames g')"
proof -
  define q where "q = defaultLocation g p"
  have n: "pnName q = pnName p" "pnContent q = pnContent p"
    by (simp_all add: q_def defaultLocation_def SetLocation_def)
  have sh: "bindR (SetView (pnName q) (pnX0 q) (pnY0 q) (pnX1 q) (pnY1 q) g) (\<lambda>(g1, new).
      bindR (if new \<and> pnFocus q then SetCurrentView (pnName q) (writeView (pnName q) (pnContent q) g1)
             else Inr (if new then writeView (pnName q) (pnContent q) g1 else g1)) (\<lambda>g2.
        Inr (q, if guiView g2 ''footer'' = None then g2
                else writeView ''footer'' (tipsText q) (clearView ''footer'' g2)))) = Inr (p', g')"
    using assms unfolding Panel_Show_def Let_def q_def .
  then obtain g1 new where sv: "SetView (pnName q) (pnX0 q) (pnY0 q) (pnX1 q) (pnY1 q) g = Inr (g1, new)"
    by (auto simp: bindR_Inr)
  obtain g2 where g2: "(if new \<and> pnFocus q then SetCurrentView (pnName q) (writeView (pnName q) (pnContent q) g1)
             else Inr (if new then writeView (pnName q) (pnContent q) g1 else g1)) = Inr g2"
    and p': "p' = q" and g': "g' = (if guiView g2 ''footer'' = None then g2
                else writeView ''footer'' (tipsText q) (clearView ''footer'' g2))"
    using sh unfolding sv bindR_simps prod.case by (auto simp only: bindR_Inr sum.inject prod.inject)
  have "viewNames g2 = viewNames g1"
    using g2 by (auto simp: view_simps split: if_splits)
  then have "viewNames g' = viewNames g1" unfolding g' by simp
  then show "set (viewNames g') = insert (pnName p) (set (viewNames g))" "pnName p' = pnName p" "pnContent p' = pnContent p"
      "distinct (viewNames g) \<Longrightarrow> distinct (viewNames g')"
    using SetView_names [OF sv] n p' by simp_all
qed

lemma Panel_Close_ok:
  assumes "distinct (viewNames g)"
  shows "\<exists>g'. Panel_Close p g = Inr g' \<and> set (viewNames g') = set (viewNames g) - {pnName p} \<and> distinct (viewNames g')"
proof (cases "pnName p \<in> set (viewNames g)")
  case True
  then obtain g' where g': "DeleteView (pnName p) g = Inr g'" by (auto simp: DeleteView_def)
  then show ?thesis
    using DeleteView_names [OF g' assms] True by (simp add: Panel_Close_def guiView_None)
qed (use assms in \<open>auto simp: Panel_Close_def guiView_None\<close>)

lemma two_views_close:
  assumes "distinct (viewNames g)"
  shows "bindR (DeleteView n g) (Panel_Close p) = Inr g' \<Longrightarrow>
      set (viewNames g') = set (viewNames g) - {n, pnName p} \<and> distinct (viewNames g')"
    and "n \<in> set (viewNames g) \<Longrightarrow> \<exists>g'. bindR (DeleteView n g) (Panel_Close p) = Inr g'"
proof -
  have "n \<in> set (viewNames g) \<Longrightarrow> \<exists>g1. DeleteView n g = Inr g1" by (simp add: DeleteView_def)
  moreover have "\<exists>g'. Panel_Close p g1 = Inr g' \<and> set (viewNames g') = set (viewNames g) - {n, pnName p} \<and> distinct (viewNames g')"
    if "DeleteView n g = Inr g1" for g1
    using Panel_Close_ok [of g1 p] DeleteView_names [OF that assms] by auto
  ultimately show "bindR (DeleteView n g) (Panel_Close p) = Inr g' \<Longrightarrow>
      set (viewNames g') = set (viewNames g) - {n, pnName p} \<and> distinct (viewNames g')"
    "n \<in> set (viewNames g) \<Longrightarrow> \<exists>g'. bindR (DeleteView n g) (Panel_Close p) = Inr g'"
    by (fastforce simp: bindR_Inr)+
qed

interpretation panel: element "\<lambda>p. {pnName p}" Panel_Show Panel_Close
proof unfold_locales
  fix p p' :: Panel and g g' :: gui
  { assume "Panel_Close p g = Inr g'" "distinct (viewNames g)"
    then show "set (viewNames g') = set (viewNames g) - {pnName p}" "distinct (viewNames g')"
      using Panel_Close_ok [of g p] by auto }
  { assume "Panel_Show p g = Inr (p', g')"
    note ok = Panel_Show_ok [OF this]
    show "set (viewNames g') = set (viewNames g) \<union> {pnName p}" "{pnName p'} = {pnName p}" using ok by auto
    { assume "distinct (viewNames g)" then show "distinct (viewNames g')" by (rule ok(4)) } }
  { assume "distinct (viewNames g)" then show "\<exists>g'. Panel_Close p g = Inr g'" using Panel_Close_ok by blast }
qed

text \<open>An element with a second view beside its panel.\<close>

lemma two_views_show:
  assumes "Panel_Show p g = Inr (p', g1)" "SetView n x0 y0 x1 y1 g1 = Inr (g2, new)" "viewNames g' = viewNames g2"
  shows "set (viewNames g') = set (viewNames g) \<union> {n, pnName p}" "distinct (viewNames g) \<Longrightarrow> distinct (viewNames g')"
  using Panel_Show_ok [OF assms(1)] SetView_names [OF assms(2)] assms(3) by auto

lemma SetCursor_names: "SetCursor name x y g = Inr g' \<Longrightarrow> viewNames g' = viewNames g"
  by (auto simp: SetCursor_def viewNames_change split: option.splits if_splits)

lemma updateSelectedStatus_names:
  assumes "updateSelectedStatus s g = Inr (s', g')"
  shows "viewNames g' = viewNames g \<and> slPanel s' = slPanel s \<and> slMulti s' = slMulti s"
  using assms by (auto simp: updateSelectedStatus_def bindR_Inr dest!: SetCursor_names split: option.splits if_splits)

lemma Select_SetData_names:
  assumes "Select_SetData data s g = Inr (s', g')"
  shows "viewNames g' = viewNames g \<and> slPanel s' = slPanel s"
  using assms by (auto simp: Select_SetData_def bindR_Inr dest!: SetCursor_names split: option.splits if_splits)

lemma Input_Show_ok:
  assumes "Input_Show i g = Inr (i', g')"
  shows "set (viewNames g') = set (viewNames g) \<union> {inputView i, pnName (inpPanel i)}"
    and "inputView i' = inputView i" "pnName (inpPanel i') = pnName (inpPanel i)"
    and "distinct (viewNames g) \<Longrightarrow> distinct (viewNames g')"
proof -
  obtain p g1 where p: "Panel_Show (inpPanel i) g = Inr (p, g1)"
    using assms by (auto simp: Input_Show_def bindR_Inr)
  have n: "inputView (i\<lparr>inpPanel := p\<rparr>) = inputView i"
    using Panel_Show_ok(2) [OF p] by (simp add: inputView_def)
  obtain x0 g2 new where v: "SetView (inputView i) x0 (pnY0 p) (pnX1 p - 1) (pnY0 p + 2) g1 = Inr (g2, new)"
    and g': "viewNames g' = viewNames g2" and i': "i' = i\<lparr>inpPanel := p\<rparr>"
    using assms unfolding Input_Show_def p bindR_simps prod.case Let_def n
    by (auto simp: bindR_Inr Input_SetData_def view_simps n split: if_splits)
  show "set (viewNames g') = set (viewNames g) \<union> {inputView i, pnName (inpPanel i)}"
      "distinct (viewNames g) \<Longrightarrow> distinct (viewNames g')"
    using two_views_show [OF p v g'] by auto
  show "inputView i' = inputView i" "pnName (inpPanel i') = pnName (inpPanel i)"
    using n Panel_Show_ok(2) [OF p] by (simp_all add: i')
qed

interpretation input: element "\<lambda>i. {inputView i, pnName (inpPanel i)}" Input_Show Input_Close
proof unfold_locales
  fix i i' :: Input and g g' :: gui
  { assume "Input_Show i g = Inr (i', g')"
    note ok = Input_Show_ok [OF this]
    show "set (viewNames g') = set (viewNames g) \<union> {inputView i, pnName (inpPanel i)}"
      "{inputView i', pnName (inpPanel i')} = {inputView i, pnName (inpPanel i)}" using ok by auto
    { assume "distinct (viewNames g)" then show "distinct (viewNames g')" by (rule ok(4)) } }
  { assume "Input_Close i g = Inr g'" "distinct (viewNames g)"
    then show "set (viewNames g') = set (viewNames g) - {inputView i, pnName (inpPanel i)}" "distinct (viewNames g')"
      using two_views_close(1) unfolding Input_Close_def by blast+ }
  { assume "{inputView i, pnName (inpPanel i)} \<subseteq> set (viewNames g)" "distinct (viewNames g)"
    then show "\<exists>g'. Input_Close i g = Inr g'" using two_views_close(2) unfolding Input_Close_def by simp }
qed

lemma Select_Show_ok:
  assumes "Select_Show opts s g = Inr (s', g')"
  shows "set (viewNames g') = set (viewNames g) \<union> {optionView s, pnName (slPanel s)}"
    and "optionView s' = optionView s" "pnName (slPanel s') = pnName (slPanel s)"
    and "distinct (viewNames g) \<Longrightarrow> distinct (viewNames g')"
proof -
  obtain p g1 options where p: "Panel_Show (slPanel s) g = Inr (p, g1)" and o: "opts = Inr options"
    using assms by (auto simp: Select_Show_def bindR_Inr)
  let ?s = "s\<lparr>slPanel := p, slOptions := options\<rparr>"
  have n: "optionView ?s = optionView s"
    using Panel_Show_ok(2) [OF p] by (simp add: optionView_def)
  obtain y0 g2 new where v: "SetView (optionView s) (pnX0 p) (pnY0 p + y0) (pnX1 p) (pnY0 p + y0 + int (length options) + 1) g1 = Inr (g2, new)"
    and rest: "bindR (if \<not> new then Inr (?s, g2)
              else bindR (if slMulti ?s
                          then updateSelectedStatus
                                 (if slSelected ?s = [] then ?s\<lparr>slSelected := replicate (length options) False\<rparr> else ?s) g2
                          else Inr (?s, writeView (optionView ?s) (concat (map (\<lambda>opt. opText opt @ [LF]) options)) g2))
                     (\<lambda>(s1, g3). bindR (SetCurrentView (optionView ?s) g3) (\<lambda>g4. Inr (s1, g4))))
         (\<lambda>(s2, g5). if slMulti s2 then Inr (s2, g5) else Select_SetData (slValue s2) s2 g5) = Inr (s', g')"
    using assms unfolding Select_Show_def p o bindR_simps prod.case Let_def n by (auto simp: bindR_Inr n)
  have "viewNames g' = viewNames g2" "slPanel s' = p"
    using rest by (auto simp: bindR_Inr view_simps dest!: updateSelectedStatus_names Select_SetData_names split: if_splits)
  then show "set (viewNames g') = set (viewNames g) \<union> {optionView s, pnName (slPanel s)}"
      "optionView s' = optionView s" "pnName (slPanel s') = pnName (slPanel s)"
      "distinct (viewNames g) \<Longrightarrow> distinct (viewNames g')"
    using two_views_show [OF p v, of g'] Panel_Show_ok(2) [OF p] by (auto simp: optionView_def)
qed

interpretation select: element "\<lambda>s. {optionView s, pnName (slPanel s)}" "Select_Show opts" Select_Close
proof unfold_locales
  fix s s' :: Select and g g' :: gui
  { assume "Select_Show opts s g = Inr (s', g')"
    note ok = Select_Show_ok [OF this]
    show "set (viewNames g') = set (viewNames g) \<union> {optionView s, pnName (slPanel s)}"
      "{optionView s', pnName (slPanel s')} = {optionView s, pnName (slPanel s)}" using ok by auto
    { assume "distinct (viewNames g)" then show "distinct (viewNames g')" by (rule ok(4)) } }
  { assume "Select_Close s g = Inr g'" "distinct (viewNames g)"
    then show "set (viewNames g') = set (viewNames g) - {optionView s, pnName (slPanel s)}" "distinct (viewNames g')"
      using two_views_close(1) unfolding Select_Close_def by blast+ }
  { assume "{optionView s, pnName (slPanel s)} \<subseteq> set (viewNames g)" "distinct (viewNames g)"
    then show "\<exists>g'. Select_Close s g = Inr g'" using two_views_close(2) unfolding Select_Close_def by simp }
qed

lemma DropDown_SetData_names: "viewNames (DropDown_SetData data d g) = viewNames g"
  by (simp add: DropDown_SetData_def Let_def split: option.splits)

lemma DropDown_Show_ok:
  assumes "DropDown_Show opts d g = Inr (d', g')"
  shows "set (viewNames g') = set (viewNames g) \<union> {ddViewName d, pnName (ddPanel d)}"
    and "ddViewName d' = ddViewName d" "pnName (ddPanel d') = pnName (ddPanel d)"
    and "distinct (viewNames g) \<Longrightarrow> distinct (viewNames g')"
proof -
  obtain p g1 options where p: "Panel_Show (ddPanel d) g = Inr (p, g1)" and o: "opts = Inr options"
    using assms by (auto simp: DropDown_Show_def bindR_Inr)
  obtain x0 g2 new where v: "SetView (ddViewName d) x0 (pnY0 p) (pnX1 p - 1) (pnY0 p + 2) g1 = Inr (g2, new)"
    and g': "viewNames g' = viewNames g2" and d': "ddViewName d' = ddViewName d" "ddPanel d' = p"
    using assms unfolding DropDown_Show_def p o bindR_simps prod.case Let_def
    by (auto simp: bindR_Inr view_simps DropDown_SetData_names split: if_splits)
  show "set (viewNames g') = set (viewNames g) \<union> {ddViewName d, pnName (ddPanel d)}"
      "ddViewName d' = ddViewName d" "pnName (ddPanel d') = pnName (ddPanel d)"
      "distinct (viewNames g) \<Longrightarrow> distinct (viewNames g')"
    using two_views_show [OF p v g'] d' Panel_Show_ok(2) [OF p] by auto
qed

interpretation dropdown: element "\<lambda>d. {ddViewName d, pnName (ddPanel d)}" "DropDown_Show opts" DropDown_Close
proof unfold_locales
  fix d d' :: DropDown and g g' :: gui
  { assume "DropDown_Show opts d g = Inr (d', g')"
    note ok = DropDown_Show_ok [OF this]
    show "set (viewNames g') = set (viewNames g) \<union> {ddViewName d, pnName (ddPanel d)}"
      "{ddViewName d', pnName (ddPanel d')} = {ddViewName d, pnName (ddPanel d)}" using ok by auto
    { assume "distinct (viewNames g)" then show "distinct (viewNames g')" by (rule ok(4)) } }
  { assume "DropDown_Close d g = Inr g'" "distinct (viewNames g)"
    then show "set (viewNames g') = set (viewNames g) - {ddViewName d, pnName (ddPanel d)}" "distinct (viewNames g')"
      using two_views_close(1) unfolding DropDown_Close_def by blast+ }
  { assume "{ddViewName d, pnName (ddPanel d)} \<subseteq> set (viewNames g)" "distinct (viewNames g)"
    then show "\<exists>g'. DropDown_Close d g = Inr g'" using two_views_close(2) unfolding DropDown_Close_def by simp }
qed

section \<open>A multiple selection\<close>

text \<open>The specification: a cursor and a set of chosen positions among \<open>n\<close>.\<close>

datatype selKey = KeyUp | KeyDown | KeySpace

fun choiceStep :: "nat \<Rightarrow> selKey \<Rightarrow> nat \<times> nat set \<Rightarrow> nat \<times> nat set" where
  "choiceStep n KeyUp (c, S) = (c - 1, S)"
| "choiceStep n KeyDown (c, S) = (if c + 1 < n then c + 1 else c, S)"
| "choiceStep n KeySpace (c, S) = (c, if c \<in> S then S - {c} else insert c S)"

definition choiceValues :: "Option list \<Rightarrow> nat set \<Rightarrow> string list" where
  "choiceValues opts S = map (\<lambda>i. opValue (opts ! i)) (filter (\<lambda>i. i \<in> S) [0..<length opts])"

text \<open>The implementation: the handlers of the three keys.\<close>

definition selStep :: "selKey \<Rightarrow> Select \<times> gui \<Rightarrow> (Select \<times> gui) result" where
  "selStep k sg =
     (case k of
        KeyUp \<Rightarrow> Inr (fst sg, ArrowUp (optionView (fst sg)) (snd sg))
      | KeyDown \<Rightarrow> Inr (fst sg, ArrowDown (optionView (fst sg)) (snd sg))
      | KeySpace \<Rightarrow> Select_toggle (fst sg) (snd sg))"

definition chosen :: "Select \<Rightarrow> nat set" where
  "chosen s = {i. i < length (slSelected s) \<and> slSelected s ! i}"

definition simulates :: "Select \<times> gui \<Rightarrow> nat \<times> nat set \<Rightarrow> bool" where
  "simulates sg cS \<longleftrightarrow>
     (\<exists>v. guiView (snd sg) (optionView (fst sg)) = Some v \<and> vwCy v = fst cS \<and> chosen (fst sg) = snd cS \<and>
        length (slSelected (fst sg)) = length (slOptions (fst sg)) \<and> fst cS < length (slOptions (fst sg)) \<and>
        1 < vwWidth v \<and> vwHeight v = int (length (slOptions (fst sg))) \<and>
        length (bufferLines (vwBuf v)) = length (slOptions (fst sg)) + 1 \<and>
        slValues (fst sg) = choiceValues (slOptions (fst sg)) (snd cS) \<and>
        slValue (fst sg) = strJoin '','' (slValues (fst sg)))"

lemma guiView_SetCursor:
  assumes "SetCursor name x y g = Inr g'"
  shows "guiView g' n = (if n = name then map_option (\<lambda>v. v\<lparr>vwCy := y\<rparr>) (guiView g n) else guiView g n)"
  using assms by (auto simp: SetCursor_def guiView_change split: option.splits if_splits)

lemma selectedValues_choice:
  assumes "length (slSelected s) = length (slOptions s)"
  shows "selectedValues s = choiceValues (slOptions s) (chosen s)"
proof -
  have "map (opValue \<circ> fst) (filter snd (zip opts sel)) =
      map (\<lambda>i. opValue (opts ! i)) (filter (\<lambda>i. i < length sel \<and> sel ! i) [0..<length opts])"
    if "length sel = length opts" for opts and sel :: "bool list"
    using that
  proof (induction opts arbitrary: sel rule: rev_induct)
    case (snoc x xs)
    then obtain sel' b where "sel = sel' @ [b]" "length sel' = length xs"
      by (metis append_butlast_last_id length_append_singleton length_butlast diff_Suc_1 list.size(3) nat.distinct(1))
    moreover from this have "map (\<lambda>i. opValue ((xs @ [x]) ! i)) (filter (\<lambda>i. i < length sel \<and> sel ! i) [0..<length xs]) =
      map (\<lambda>i. opValue (xs ! i)) (filter (\<lambda>i. i < length sel' \<and> sel' ! i) [0..<length xs])"
      by (intro map_cong filter_cong) (auto simp: nth_append)
    moreover have "map (opValue \<circ> fst) (filter snd (zip xs sel')) =
      map (\<lambda>i. opValue (xs ! i)) (filter (\<lambda>i. i < length sel' \<and> sel' ! i) [0..<length xs])"
      using calculation(2) by (rule snoc.IH)
    ultimately show ?case by (auto simp: nth_append comp_def)
  qed simp
  from this [OF assms] show ?thesis
    unfolding selectedValues_def choiceValues_def chosen_def by simp
qed

definition plainOptions :: "Option list \<Rightarrow> bool" where
  "plainOptions opts = list_all (\<lambda>o'. LF \<notin> set (opText o')) opts"

lemma splitOn_rows: "\<forall>l \<in> set ls. LF \<notin> set l \<Longrightarrow> splitOn LF (concat (map (\<lambda>l. l @ [LF]) ls)) = ls @ [[]]"
  by (induction ls) (auto simp: splitOn_append_sep)

lemma bufferLines_rows:
  assumes "\<forall>l \<in> set ls. LF \<notin> set l" "ls \<noteq> []" "hd ls \<noteq> []"
  shows "bufferLines (concat (map (\<lambda>l. l @ [LF]) ls)) = ls @ [[]]"
proof -
  obtain c cs rest where ls: "ls = (c # cs) # rest" using assms(2,3) by (cases ls; cases "hd ls") auto
  then have "c \<noteq> LF" using assms(1) by auto
  then show ?thesis
    using splitOn_rows [OF assms(1)] by (simp add: bufferLines_def ls)
qed

lemma updateSelectedStatus_sim:
  assumes v: "guiView g (optionView s) = Some v" "1 < vwWidth v" "vwHeight v = int (length (slOptions s))"
    and c: "vwCy v < length (slOptions s)" and len: "length (slSelected s) = length (slOptions s)"
    and plain: "plainOptions (slOptions s)"
  shows "\<exists>sg. updateSelectedStatus s g = Inr sg \<and> slOptions (fst sg) = slOptions s \<and> simulates sg (vwCy v, chosen s)"
proof -
  define row where "row = (\<lambda>(opt :: Option, sel). ''['' @ (if sel then ''x'' else '' '') @ ''] '' @ opText opt)"
  define rows where "rows = map row (zip (slOptions s) (slSelected s))"
  have "SetCursor (optionView s) 1 (vwCy v) (clearView (optionView s) g) \<noteq> Inl e" for e
    using v c by (simp add: SetCursor_def)
  then obtain g1 where g1: "SetCursor (optionView s) 1 (vwCy v) (clearView (optionView s) g) = Inr g1"
    by (cases "SetCursor (optionView s) 1 (vwCy v) (clearView (optionView s) g)") auto
  let ?s = "s\<lparr>slValues := selectedValues s, slValue := strJoin '','' (selectedValues s)\<rparr>"
  let ?g = "writeView (optionView s) (concat (map (\<lambda>l. l @ [LF]) rows)) g1"
  have "concat (map (\<lambda>(opt, sel). ''['' @ (if sel then ''x'' else '' '') @ ''] '' @ opText opt @ [LF])
      (zip (slOptions s) (slSelected s))) = concat (map (\<lambda>l. l @ [LF]) rows)"
    unfolding rows_def row_def map_map comp_def by (intro arg_cong [of _ _ concat] map_cong) auto
  then have up: "updateSelectedStatus s g = Inr (?s, ?g)"
    using v g1 len by (simp add: updateSelectedStatus_def)
  have "rows \<noteq> []" "length rows = length (slOptions s)"
    using c len by (auto simp: rows_def)
  moreover have "\<forall>l \<in> set rows. LF \<notin> set l \<and> l \<noteq> []"
    using plain unfolding rows_def row_def plainOptions_def list_all_iff by (auto dest: set_zip_leftD)
  ultimately have "length (bufferLines (concat (map (\<lambda>l. l @ [LF]) rows))) = length (slOptions s) + 1"
    using bufferLines_rows [of rows] by simp
  then have "simulates (?s, ?g) (vwCy v, chosen s)"
    using v c len guiView_SetCursor [OF g1, of "optionView s"] selectedValues_choice [OF len]
    by (simp add: simulates_def optionView_def chosen_def)
  then show ?thesis using up by (intro exI [of _ "(?s, ?g)"]) simp
qed

lemma chosen_toggle:
  assumes "c < length (slSelected s)"
  shows "chosen (s\<lparr>slSelected := (slSelected s)[c := \<not> slSelected s ! c]\<rparr>) =
    (if c \<in> chosen s then chosen s - {c} else insert c (chosen s))"
  using assms by (auto simp: chosen_def nth_list_update)

lemma cursor_sim:
  assumes "simulates (s, g) (c, S)" "SetCursor (optionView s) 0 c' g = Inr g'" "c' < length (slOptions s)"
  shows "simulates (s, g') (c', S)"
  using assms(1,3) guiView_SetCursor [OF assms(2), of "optionView s"] by (auto simp: simulates_def)

lemma selStep_refines:
  assumes sim: "simulates (s, g) cS" and plain: "plainOptions (slOptions s)"
  shows "\<exists>sg. selStep k (s, g) = Inr sg \<and> slOptions (fst sg) = slOptions s \<and>
    simulates sg (choiceStep (length (slOptions s)) k cS)"
proof -
  obtain c S where cS: "cS = (c, S)" by fastforce
  obtain v where v: "guiView g (optionView s) = Some v" "vwCy v = c" "c < length (slOptions s)" "1 < vwWidth v"
      "vwHeight v = int (length (slOptions s))" "length (bufferLines (vwBuf v)) = length (slOptions s) + 1"
      "length (slSelected s) = length (slOptions s)" "chosen s = S"
    using sim by (auto simp: simulates_def cS)
  have move: "\<exists>g'. SetCursor (optionView s) 0 c' g = Inr g'" if "c' < length (slOptions s)" for c'
    using v that by (simp add: SetCursor_def)
  show ?thesis
  proof (cases k)
    case KeyUp
    then show ?thesis
      using v sim cS move [of "c - 1"] cursor_sim [of s g c S "c - 1"] less_imp_diff_less [OF v(3), of 1]
      by (cases "c = 0") (auto simp: selStep_def ArrowUp_def split: sum.splits)
  next
    case KeyDown
    then show ?thesis
      using v sim cS move [of "c + 1"] cursor_sim [of s g c S "c + 1"]
      by (cases "c + 1 < length (slOptions s)") (auto simp: selStep_def ArrowDown_def isAtEnd_def split: sum.splits)
  next
    case KeySpace
    let ?s = "s\<lparr>slSelected := (slSelected s)[c := \<not> slSelected s ! c]\<rparr>"
    have "optionView ?s = optionView s" by (simp add: optionView_def)
    then obtain sg where "updateSelectedStatus ?s g = Inr sg" "slOptions (fst sg) = slOptions s" "simulates sg (c, chosen ?s)"
      using updateSelectedStatus_sim [of g ?s v] v plain by auto
    then show ?thesis
      using v cS chosen_toggle [of c s] KeySpace by (auto simp: selStep_def Select_toggle_def)
  qed
qed

lemma selRun_refines:
  assumes "simulates (s, g) cS" "plainOptions (slOptions s)"
  shows "\<exists>sg. foldR selStep ks (s, g) = Inr sg \<and> slOptions (fst sg) = slOptions s \<and>
    simulates sg (fold (choiceStep (length (slOptions s))) ks cS)"
  using assms
proof (induction ks arbitrary: s g cS)
  case (Cons k ks)
  obtain s' g' where "selStep k (s, g) = Inr (s', g')" "slOptions s' = slOptions s"
      "simulates (s', g') (choiceStep (length (slOptions s)) k cS)"
    using selStep_refines [OF Cons.prems, of k] by auto
  then show ?case using Cons.IH [of s' g'] Cons.prems(2) by auto
qed simp

lemma Select_Show_sim:
  assumes sh: "Select_Show (Inr opts) s g = Inr (s', g')" and multi: "slMulti s" and "slSelected s = []"
    and closed: "optionView s \<notin> set (viewNames g)" and opts: "opts \<noteq> []" "plainOptions opts"
  shows "simulates (s', g') (0, {})" "slOptions s' = opts"
proof -
  obtain p g1 where p: "Panel_Show (slPanel s) g = Inr (p, g1)"
    using sh by (auto simp: Select_Show_def bindR_Inr)
  let ?s = "s\<lparr>slPanel := p, slOptions := opts\<rparr>"
  let ?s1 = "?s\<lparr>slSelected := replicate (length opts) False\<rparr>"
  have n: "optionView ?s = optionView s" "optionView ?s1 = optionView s"
    using Panel_Show_ok(2) [OF p] by (simp_all add: optionView_def)
  have "optionView s \<noteq> pnName (slPanel s)" by (simp add: optionView_def)
  then have closed1: "optionView s \<notin> set (viewNames g1)"
    using closed Panel_Show_ok(1) [OF p] by simp
  obtain y0 g2 new where v: "SetView (optionView s) (pnX0 p) (pnY0 p + y0) (pnX1 p) (pnY0 p + y0 + int (length opts) + 1) g1 = Inr (g2, new)"
    and rest0: "bindR (if \<not> new then Inr (?s, g2)
              else bindR (if slMulti ?s
                          then updateSelectedStatus
                                 (if slSelected ?s = [] then ?s\<lparr>slSelected := replicate (length opts) False\<rparr> else ?s) g2
                          else Inr (?s, writeView (optionView ?s) (concat (map (\<lambda>opt. opText opt @ [LF]) opts)) g2))
                     (\<lambda>(s1, g3). bindR (SetCurrentView (optionView ?s) g3) (\<lambda>g4. Inr (s1, g4))))
         (\<lambda>(s2, g5). if slMulti s2 then Inr (s2, g5) else Select_SetData (slValue s2) s2 g5) = Inr (s', g')"
    using sh unfolding Select_Show_def p bindR_simps prod.case Let_def n by (auto simp: bindR_Inr n)
  have new: new using SetView_names(2) [OF v] closed1 by simp
  have rest: "bindR (bindR (updateSelectedStatus ?s1 g2)
                     (\<lambda>(s1, g3). bindR (SetCurrentView (optionView s) g3) (\<lambda>g4. Inr (s1, g4))))
         (\<lambda>(s2, g5). if slMulti s2 then Inr (s2, g5) else Select_SetData (slValue s2) s2 g5) = Inr (s', g')"
    using rest0 new multi assms(3) unfolding n by simp
  obtain g3 where up: "updateSelectedStatus ?s1 g2 = Inr (s', g3)" and g': "g' = g3\<lparr>gCurrent := Some (optionView s)\<rparr>"
    using rest multi by (auto simp: bindR_Inr view_simps dest: updateSelectedStatus_names split: if_splits)
  have view: "guiView g2 (optionView ?s1) = Some \<lparr>vwName = optionView s, vwWidth = pnX1 p - pnX0 p - 1,
      vwHeight = int (length opts), vwBuf = [], vwCy = 0\<rparr>"
    using SetView_new v new unfolding n by fastforce
  then have "1 < pnX1 p - pnX0 p - 1"
    using up by (auto simp: updateSelectedStatus_def SetCursor_def bindR_Inr n split: if_splits)
  moreover have none: "chosen ?s1 = {}" by (auto simp: chosen_def)
  ultimately have "\<exists>sg. updateSelectedStatus ?s1 g2 = Inr sg \<and> slOptions (fst sg) = slOptions ?s1 \<and> simulates sg (0, chosen ?s1)"
    using updateSelectedStatus_sim [OF view] opts by simp
  then have "simulates (s', g3) (0, {})" "slOptions s' = opts"
    using up none by auto
  then show "simulates (s', g') (0, {})" "slOptions s' = opts"
    by (simp_all add: g' simulates_def)
qed

text \<open>C11: a multiple selection implements a cursor and a set: after any sequence of cursor keys and space keys
  on a freshly shown list, no key fails and the values handed out are those of the chosen positions, in the
  order of the options.\<close>

theorem multi_select_refines:
  assumes "Select_Show (Inr opts) s g = Inr (s', g')" and "slMulti s" and "slSelected s = []"
    and "optionView s \<notin> set (viewNames g)" and "opts \<noteq> []" and "plainOptions opts"
  shows "\<exists>s2 g2. foldR selStep ks (s', g') = Inr (s2, g2) \<and>
    slValues s2 = choiceValues opts (snd (fold (choiceStep (length opts)) ks (0, {})))"
proof -
  note sim = Select_Show_sim [OF assms]
  obtain s2 g2 where run: "foldR selStep ks (s', g') = Inr (s2, g2)" "slOptions s2 = opts"
      "simulates (s2, g2) (fold (choiceStep (length opts)) ks (0, {}))"
    using selRun_refines [OF sim(1), of ks] sim(2) assms(6) by auto
  then show ?thesis using run by (auto simp: simulates_def)
qed

definition sampleGui :: gui where
  "sampleGui = \<lparr>gMaxX = 80, gMaxY = 24, gViews = [], gCurrent = None\<rparr>"

definition sampleSelect :: Select where
  "sampleSelect = Select_SetMulti True (ddSelect (NewDropDown sampleGui ''wipe'' ''Wipe''))"

definition sampleOptions :: "Option list" where
  "sampleOptions = [\<lparr>opValue = ''/dev/sda'', opText = ''sda''\<rparr>, \<lparr>opValue = ''/dev/sdb'', opText = ''sdb''\<rparr>]"

lemma sample_select_shown: "\<exists>s g. Select_Show (Inr sampleOptions) sampleSelect sampleGui = Inr (s, g)"
proof -
  have "isOk (Select_Show (Inr sampleOptions) sampleSelect sampleGui)" by code_simp
  then show ?thesis by (auto simp: isOk_iff)
qed

theorem multi_select_refines_witness:
  "\<exists>s g s2 g2. Select_Show (Inr sampleOptions) sampleSelect sampleGui = Inr (s, g) \<and>
     foldR selStep [KeyDown, KeyDown, KeySpace] (s, g) = Inr (s2, g2) \<and> slValues s2 = [''/dev/sdb'']"
proof -
  obtain s g where sh: "Select_Show (Inr sampleOptions) sampleSelect sampleGui = Inr (s, g)"
    using sample_select_shown by blast
  have "slMulti sampleSelect" "slSelected sampleSelect = []" "optionView sampleSelect \<notin> set (viewNames sampleGui)"
    by (simp_all add: sampleSelect_def Select_SetMulti_def NewDropDown_def sampleGui_def viewNames_def)
  from multi_select_refines [OF sh this, of "[KeyDown, KeyDown, KeySpace]"]
  show ?thesis using sh by (fastforce simp: sampleOptions_def plainOptions_def choiceValues_def)
qed

end
