(* ===== verification/Preflight.thy ===== *)
theory Preflight
  imports Util_Disk
begin

text \<open>
  The preflight checks, \<^verbatim>\<open>pkg/preflight/checks.go\<close>. A check returns a message, empty when it passed, or
  an error when it could not run. What the commands and files answer is the argument of each
  definition. \<^verbatim>\<open>fmt.Sscanf\<close> is modelled for the two formats used, on lines without newline.
\<close>

abbreviation "MinCPUTest \<equiv> (8 :: nat)"
abbreviation "MinCPUProd \<equiv> (16 :: nat)"
abbreviation "MinMemoryTest \<equiv> (32 :: nat)"
abbreviation "MinMemoryProd \<equiv> (64 :: nat)"
abbreviation "MinNetworkGbpsTest \<equiv> (1 :: nat)"
abbreviation "MinNetworkGbpsProd \<equiv> (10 :: nat)"

section \<open>Processors\<close>

text \<open>\<^verbatim>\<open>n, _ := strconv.Atoi(s)\<close>: 0 on a syntax error, the nearest value on a range error.\<close>

definition atoiOrZero :: "string \<Rightarrow> int" where
  "atoiOrZero s =
     (case atoi s of
        Inr n \<Rightarrow> n
      | Inl (NumRange f t) \<Rightarrow> (case s of c # cs \<Rightarrow> if c = CHR ''-'' then - (2 ^ 63) else 2 ^ 63 - 1 | [] \<Rightarrow> 0)
      | Inl e \<Rightarrow> 0)"

definition cpuMessage :: "int \<Rightarrow> string" where
  "cpuMessage nproc =
     (if nproc < int MinCPUTest
      then ''Only '' @ showInt nproc @ '' CPU cores detected. Harvester requires at least '' @ showNat MinCPUTest @
           '' cores for testing and '' @ showNat MinCPUProd @ '' for production use.''
      else if nproc < int MinCPUProd
      then showInt nproc @ '' CPU cores detected. Harvester requires at least '' @ showNat MinCPUProd @
           '' cores for production use.''
      else [])"

definition CPUCheck_Run :: "string result \<Rightarrow> string result" where
  "CPUCheck_Run nprocOut =
     (case nprocOut of Inl err \<Rightarrow> Inl err | Inr out \<Rightarrow> Inr (cpuMessage (atoiOrZero (trimSpace out))))"

section \<open>Memory\<close>

text \<open>Literal text of a format, and a single space of a format (at least one space, or the end of the input).\<close>

definition scanLit :: "string \<Rightarrow> string \<Rightarrow> string option" where
  "scanLit lit s = (if hasPrefix s lit then Some (drop (length lit) s) else None)"

definition scanSpace :: "string \<Rightarrow> string option" where
  "scanSpace s = (case s of [] \<Rightarrow> Some [] | c # cs \<Rightarrow> if isSpace c then Some (dropWhile isSpace cs) else None)"

text \<open>\<^verbatim>\<open>%d\<close> into an unsigned integer and \<^verbatim>\<open>%s\<close>.\<close>

definition scanUint :: "string \<Rightarrow> (u64 \<times> string) option" where
  "scanUint s =
     (let t = dropWhile isSpace s in
      case parseUint (takeWhile isDigitC t) 10 64 of
        Inl e \<Rightarrow> None | Inr n \<Rightarrow> Some (of_nat n, dropWhile isDigitC t))"

definition scanWord :: "string \<Rightarrow> string option" where
  "scanWord s = (let t = takeWhile (\<lambda>c. \<not> isSpace c) (dropWhile isSpace s) in if t = [] then None else Some t)"

definition scanRangeSize :: "string \<Rightarrow> (u64 \<times> string) option" where
  "scanRangeSize line =
     (case scanLit ''Range'' line of None \<Rightarrow> None | Some s1 \<Rightarrow>
     (case scanSpace s1 of None \<Rightarrow> None | Some s2 \<Rightarrow>
     (case scanLit ''Size:'' s2 of None \<Rightarrow> None | Some s3 \<Rightarrow>
     (case scanSpace s3 of None \<Rightarrow> None | Some s4 \<Rightarrow>
     (case scanUint s4 of None \<Rightarrow> None | Some (n, s5) \<Rightarrow>
     (case scanSpace s5 of None \<Rightarrow> None | Some s6 \<Rightarrow>
        map_option (\<lambda>u. (n, u)) (scanWord s6)))))))"

definition scanMemTotal :: "string \<Rightarrow> u64 option" where
  "scanMemTotal line =
     (case scanLit ''MemTotal:'' line of None \<Rightarrow> None | Some s1 \<Rightarrow>
     (case scanSpace s1 of None \<Rightarrow> None | Some s2 \<Rightarrow> map_option fst (scanUint s2)))"

definition rangeSizeToKiB :: "u64 \<Rightarrow> string \<Rightarrow> u64" where
  "rangeSizeToKiB rangeSize unit =
     (if unit = ''GB'' then push_bit 20 rangeSize
      else if unit = ''MB'' then push_bit 10 rangeSize
      else if unit = ''kB'' then rangeSize
      else if unit = ''bytes'' then drop_bit 10 rangeSize
      else 0)"

fun sumRanges :: "u64 \<Rightarrow> string list \<Rightarrow> u64" where
  "sumRanges memTotalKiB [] = memTotalKiB"
| "sumRanges memTotalKiB (line # ls) =
     (case scanRangeSize (trimSpace line) of
        None \<Rightarrow> sumRanges memTotalKiB ls
      | Some (rangeSize, unit) \<Rightarrow>
          if unit \<in> {''TB'', ''PB'', ''EB'', ''ZB''} then 1073741824
          else sumRanges (memTotalKiB + rangeSizeToKiB rangeSize unit) ls)"

fun firstMemTotal :: "string list \<Rightarrow> u64" where
  "firstMemTotal [] = 0"
| "firstMemTotal (line # ls) = (case scanMemTotal line of Some n \<Rightarrow> n | None \<Rightarrow> firstMemTotal ls)"

text \<open>
  The verdict on a size. \<open>wiggle\<close> is the factor as a multiple of \<open>2 ^ -24\<close>: 16777216 for 1.0 and 15099494
  for the \<^verbatim>\<open>float32\<close> 0.9. The comparison of the rounded size with 32 or 64 times the factor agrees
  with that of the exact numbers, since sizes up to \<open>2 ^ 24\<close> are exact and larger ones stay larger.
\<close>

definition memoryVerdict :: "nat \<Rightarrow> string \<Rightarrow> nat \<Rightarrow> string" where
  "memoryVerdict wiggle memReported memTotalGiB =
     (if memTotalGiB * 2 ^ 24 < MinMemoryTest * wiggle
      then ''Only '' @ memReported @ '' RAM detected. Harvester requires at least '' @ showNat MinMemoryTest @
           ''GiB for testing and '' @ showNat MinMemoryProd @ ''GiB for production use.''
      else if memTotalGiB * 2 ^ 24 < MinMemoryProd * wiggle
      then memReported @ '' RAM detected. Harvester requires at least '' @ showNat MinMemoryProd @ ''GiB for production use.''
      else [])"

definition memoryMessage :: "u64 \<Rightarrow> nat \<Rightarrow> string" where
  "memoryMessage memTotalKiB wiggle =
     (let memTotalMiB = unat memTotalKiB div 2 ^ 10; memTotalGiB = unat memTotalKiB div 2 ^ 20 in
      memoryVerdict wiggle
        (if memTotalGiB < 1 then showNat memTotalMiB @ ''MiB'' else showNat memTotalGiB @ ''GiB'') memTotalGiB)"

definition MemoryCheck_Run :: "string result \<Rightarrow> string list result \<Rightarrow> string result" where
  "MemoryCheck_Run dmidecodeOut meminfo =
     (let total = (case dmidecodeOut of Inl err \<Rightarrow> 0 | Inr out \<Rightarrow> sumRanges 0 (splitOn CHR 0x0A out)) in
      if total \<noteq> 0 then Inr (memoryMessage total 16777216)
      else (case meminfo of
              Inl err \<Rightarrow> Inl err
            | Inr ls \<Rightarrow>
                (let memTotal = firstMemTotal ls in
                 if memTotal = 0 then Inl (Msg ''unable to extract MemTotal from /proc/meminfo'')
                 else Inr (memoryMessage memTotal 15099494))))"

section \<open>Virtualization, KVM and BIOS\<close>

text \<open>The output of \<^verbatim>\<open>systemd-detect-virt\<close> and the error of its exit status.\<close>

definition VirtCheck_Run :: "string \<Rightarrow> goerror option \<Rightarrow> string result" where
  "VirtCheck_Run out err =
     (let virt = trimSpace out in
      case err of
        Some e \<Rightarrow> if virt = ''none'' then Inr [] else Inl e
      | None \<Rightarrow> Inr (''System is virtualized ('' @ virt @ '') which is not supported in production.''))"

datatype statResult = Exists | NotExist goerror | StatError goerror

definition KVMHostCheck_Run :: "statResult \<Rightarrow> string result" where
  "KVMHostCheck_Run st =
     (case st of
        Exists \<Rightarrow> Inr []
      | NotExist e \<Rightarrow> Inr ''Harvester requires hardware-assisted virtualization, but /dev/kvm does not exist.''
      | StatError e \<Rightarrow> Inl e)"

definition BIOSCheck_Run :: "bool \<Rightarrow> string result" where
  "BIOSCheck_Run isBIOS =
     Inr (if isBIOS
          then ''Support for legacy BIOS is deprecated and will be removed in a later release. If possible please '' @
               ''reconfigure the system to use UEFI prior to installation.''
          else [])"

section \<open>Network speed\<close>

text \<open>\<^verbatim>\<open>%g\<close> of a number of thousandths, for the speeds from 1000 to 9999 Mbps.\<close>

definition dropZeros :: "string \<Rightarrow> string" where
  "dropZeros s = rev (dropWhile (\<lambda>c. c = CHR ''0'') (rev s))"

definition showGbps :: "nat \<Rightarrow> string" where
  "showGbps mbps =
     (let frac = dropZeros (tl (showNat (1000 + mbps mod 1000))) in
      showNat (mbps div 1000) @ (if frac = [] then [] else ''.'' @ frac))"

definition speedMessage :: "string \<Rightarrow> nat \<Rightarrow> string" where
  "speedMessage dev speedMbps =
     (if speedMbps < MinNetworkGbpsTest * 1000
      then ''Link speed of '' @ dev @ '' is only '' @ showNat speedMbps @ ''Mpbs. Harvester requires at least '' @
           showNat MinNetworkGbpsTest @ ''Gbps for testing and '' @ showNat MinNetworkGbpsProd @ ''Gbps for production use.''
      else if speedMbps < MinNetworkGbpsProd * 1000
      then ''Link speed of '' @ dev @ '' is '' @ showGbps speedMbps @ ''Gbps. Harvester requires at least '' @
           showNat MinNetworkGbpsProd @ ''Gbps for production use.''
      else [])"

definition NetworkSpeedCheck_Run :: "string \<Rightarrow> string result \<Rightarrow> string result" where
  "NetworkSpeedCheck_Run dev speedFile =
     (case speedFile of
        Inl err \<Rightarrow> Inl err
      | Inr out \<Rightarrow>
          (let speedMbps = atoiOrZero (trimSpace out) in
           if speedMbps < 1
           then Inl (Msg (''unable to determine NIC speed from /sys/class/net/'' @ dev @ ''/speed (got '' @ showInt speedMbps @ '')''))
           else Inr (speedMessage dev (nat speedMbps))))"

section \<open>The contract of a graded check\<close>

text \<open>
  A check of an amount of hardware: it passes from a production minimum on, and below a test
  minimum the message says so.
\<close>

locale graded_check =
  fixes message :: "nat \<Rightarrow> string" and testMin prodMin :: nat
  assumes min_order: "testMin \<le> prodMin"
    and passes_iff: "message v = [] \<longleftrightarrow> prodMin \<le> v"
begin

lemma monotone: "v \<le> w \<Longrightarrow> message v = [] \<Longrightarrow> message w = []"
  using passes_iff by simp

lemma warns_below: "v < prodMin \<Longrightarrow> message v \<noteq> []"
  using passes_iff by simp

lemma test_only: "testMin \<le> v \<Longrightarrow> v < prodMin \<Longrightarrow> message v \<noteq> [] \<and> message prodMin = []"
  using passes_iff by simp

end

interpretation cpu: graded_check "\<lambda>n. cpuMessage (int n)" MinCPUTest MinCPUProd
  by unfold_locales (auto simp: cpuMessage_def showInt_def)

interpretation speed: graded_check "speedMessage dev" 1000 10000
  by unfold_locales (auto simp: speedMessage_def)

interpretation memory: graded_check "memoryVerdict 16777216 reported" MinMemoryTest MinMemoryProd
  by unfold_locales (auto simp: memoryVerdict_def)

interpretation meminfo: graded_check "memoryVerdict 15099494 reported" 29 58
  by unfold_locales (auto simp: memoryVerdict_def)

section \<open>What the checks accept\<close>

lemma div_ge_iff: "0 < d \<Longrightarrow> k \<le> n div d \<longleftrightarrow> k * d \<le> (n :: nat)"
  by (simp add: less_eq_div_iff_mult_less_eq)

lemma memoryMessage_pass:
  "memoryMessage kib 16777216 = [] \<longleftrightarrow> 64 * 2 ^ 20 \<le> unat kib"
  "memoryMessage kib 15099494 = [] \<longleftrightarrow> 58 * 2 ^ 20 \<le> unat kib"
  unfolding memoryMessage_def Let_def memory.passes_iff meminfo.passes_iff
  by (rule div_ge_iff, simp)+

definition dmidecodeTotal :: "string result \<Rightarrow> u64" where
  "dmidecodeTotal dmidecodeOut = (case dmidecodeOut of Inl err \<Rightarrow> 0 | Inr out \<Rightarrow> sumRanges 0 (splitOn CHR 0x0A out))"


text \<open>The lines of \<^verbatim>\<open>dmidecode -t 19\<close> that count, one per mapped address range.\<close>

definition rangeLine :: "nat \<Rightarrow> string" where
  "rangeLine n = CHR 0x09 # ''Range Size: '' @ showNat n @ '' GB''"

lemma digits_not_space: "isDigitC c \<Longrightarrow> \<not> isSpace c"
  by (auto simp: isDigitC_def isSpace_def)

lemma scanUint_showNat:
  assumes "n < 2 ^ 64" and "\<not> isDigitC c"
  shows "scanUint (showNat n @ c # t) = Some (of_nat n, c # t)"
proof -
  have ds: "\<And>x. x \<in> set (showNat n) \<Longrightarrow> isDigitC x"
    using showNat_digits [of n] by (simp add: list_all_iff)
  have sp: "dropWhile isSpace (showNat n @ c # t) = showNat n @ c # t"
    using showNat_head_digit [of n] digits_not_space by fastforce
  show ?thesis
    unfolding scanUint_def Let_def sp using assms ds by (simp add: takeWhile_append2 dropWhile_append2 parseUint_showNat)
qed

lemma scan_rangeLine:
  assumes "n < 2 ^ 64"
  shows "scanRangeSize (trimSpace (rangeLine n)) = Some (of_nat n, ''GB'')"
proof -
  have "trimSpace (rangeLine n) = ''Range Size: '' @ showNat n @ '' GB''"
    by (simp add: rangeLine_def trimSpace_def trimBy_def isSpace_def)
  moreover have "dropWhile isSpace (showNat n @ '' GB'') = showNat n @ '' GB''"
    using showNat_head_digit [of n] digits_not_space by fastforce
  moreover have "scanUint (showNat n @ '' GB'') = Some (of_nat n, '' GB'')"
    using assms by (intro scanUint_showNat) (simp_all add: isDigitC_def)
  ultimately show ?thesis
    by (simp add: scanRangeSize_def scanLit_def hasPrefix_def scanSpace_def scanWord_def isSpace_def)
qed

lemma sumRanges_rangeLines:
  "\<forall>n \<in> set ns. n < 2 ^ 64 \<Longrightarrow> sumRanges acc (map rangeLine ns) = acc + of_nat (sum_list ns * 2 ^ 20)"
proof (induction ns arbitrary: acc)
  case (Cons n ns)
  have "push_bit 20 (of_nat n :: u64) = of_nat (n * 2 ^ 20)"
    by (simp add: push_bit_eq_mult)
  with Cons show ?case
    by (simp add: scan_rangeLine rangeSizeToKiB_def algebra_simps)
qed simp

lemma rangeLine_no_newline: "CHR 0x0A \<notin> set (rangeLine n)"
  using showNat_digits [of n] by (auto simp: rangeLine_def list_all_iff isDigitC_def)

lemma dmidecodeTotal_rangeLines:
  assumes "ns \<noteq> []" and "sum_list ns < 2 ^ 44"
  shows "unat (dmidecodeTotal (Inr (strJoin [CHR 0x0A] (map rangeLine ns)))) = sum_list ns * 2 ^ 20"
proof -
  have small: "\<forall>n \<in> set ns. n < 2 ^ 64"
    using assms(2) member_le_sum_list [of _ ns] by fastforce
  have "splitOn CHR 0x0A (strJoin [CHR 0x0A] (map rangeLine ns)) = map rangeLine ns"
    using assms(1) by (intro splitOn_strJoin) (auto simp: rangeLine_no_newline)
  moreover have "sum_list ns * 2 ^ 20 < 2 ^ 64"
    using assms(2) by simp
  ultimately show ?thesis
    using sumRanges_rangeLines [OF small, of 0]
    by (simp only: dmidecodeTotal_def sum.case unat_of_nat) (simp add: unat_of_nat del: of_nat_mult)
qed

text \<open>For every list of address ranges in GB as dmidecode prints them, one per line, the check adds
  them up and passes exactly from 64 GiB on, whatever /proc/meminfo says.\<close>

theorem dmidecode_ranges_add_up:
  assumes "0 < sum_list ns" and "sum_list ns < 2 ^ 44"
  shows "MemoryCheck_Run (Inr (strJoin [CHR 0x0A] (map rangeLine ns))) meminfo = Inr [] \<longleftrightarrow> 64 \<le> sum_list ns"
proof -
  have "ns \<noteq> []" using assms(1) by auto
  note total = dmidecodeTotal_rangeLines [OF this assms(2)]
  moreover from this have "dmidecodeTotal (Inr (strJoin [CHR 0x0A] (map rangeLine ns))) \<noteq> 0"
    using assms(1) by (metis mult_eq_0_iff not_less_zero power_eq_0_iff unat_0 zero_neq_numeral)
  ultimately show ?thesis
    by (simp add: MemoryCheck_Run_def dmidecodeTotal_def memoryMessage_pass)
qed

theorem dmidecode_ranges_add_up_witness:
  "MemoryCheck_Run (Inr (strJoin [CHR 0x0A] (map rangeLine [2, 510]))) (Inr []) = Inr []
   \<and> MemoryCheck_Run (Inr (strJoin [CHR 0x0A] (map rangeLine [2, 61]))) (Inr []) \<noteq> Inr []"
  using dmidecode_ranges_add_up [of "[2, 510]"] dmidecode_ranges_add_up [of "[2, 61]"] by simp

text \<open>the verdicts on processors and links are graded: on a decimal number of cores the check
  passes exactly from 16 on, and on a link speed exactly from 10000 Mbps on, an unknown speed being an
  error and not a verdict.\<close>

theorem cpu_and_link_thresholds:
  assumes "n < 2 ^ 63"
  shows "(CPUCheck_Run (Inr (showNat n)) = Inr [] \<longleftrightarrow> 16 \<le> n)
    \<and> (NetworkSpeedCheck_Run dev (Inr (showNat n)) = Inr [] \<longleftrightarrow> 10000 \<le> n)
    \<and> ((\<exists>e. NetworkSpeedCheck_Run dev (Inr (showNat n)) = Inl e) \<longleftrightarrow> n = 0)"
  using assms
  by (auto simp: CPUCheck_Run_def NetworkSpeedCheck_Run_def atoiOrZero_def atoi_showNat cpu.passes_iff
      speed.passes_iff Let_def)

theorem cpu_and_link_thresholds_witness:
  "CPUCheck_Run (Inr (showNat 12)) \<noteq> Inr [] \<and> NetworkSpeedCheck_Run ''eth0'' (Inr (showNat 10000)) = Inr []"
  using cpu_and_link_thresholds [of 12] cpu_and_link_thresholds [of 10000 "''eth0''"] by simp

end
