(* ===== verification/COS.thy ===== *)
theory COS
  imports Network_Profiles
begin

text \<open>
  The cloud configuration of the installed system (\<^verbatim>\<open>pkg/config/cos.go\<close>, and
  \<^verbatim>\<open>GenerateRancherdConfig\<close> of \<^verbatim>\<open>config.go\<close>): the stages that \<^verbatim>\<open>yip\<close> runs, with their files,
  directories, commands and services. The state of the definitions is the Harvester configuration,
  which the source updates in place, and the network profiles.

  The environment \<open>cosEnv\<close> holds what is not Go code of the repository: the rendering of a YAML
  template with a configuration (the templates are data, some of them made by the build), the
  YAML decoder applied to a stage, the versions set by the linker and the machine's architecture.
\<close>

section \<open>Stages\<close>

record YipFile =
  yfPath :: string
  yfContent :: string
  yfEncoding :: string
  yfPermissions :: u32
  yfOwnerString :: string

record YipDirectory =
  ydPath :: string
  ydPermissions :: u32

record Stage =
  stName :: string
  stHostname :: string
  stCommands :: "string list"
  stFiles :: "YipFile list"
  stDirectories :: "YipDirectory list"
  stUsers :: "string gomap"
  stTimeSyncd :: "string gomap"
  stSSHKeys :: "string list gomap"
  stSysctl :: "string gomap"
  stEnvironment :: "string gomap"
  stSystemctlEnable :: "string list"

record YipConfig =
  ycName :: string
  ycStages :: "Stage list gomap"

definition emptyStage :: Stage where
  "emptyStage = \<lparr>stName = [], stHostname = [], stCommands = [], stFiles = [], stDirectories = [], stUsers = [],
     stTimeSyncd = [], stSSHKeys = [], stSysctl = [], stEnvironment = [], stSystemctlEnable = []\<rparr>"

text \<open>A file with \<^verbatim>\<open>Permissions: 0600\<close>, owned by root.\<close>

definition rootFile :: "string \<Rightarrow> string \<Rightarrow> YipFile" where
  "rootFile path content = \<lparr>yfPath = path, yfContent = content, yfEncoding = [], yfPermissions = 384,
     yfOwnerString = []\<rparr>"

definition addFile :: "YipFile \<Rightarrow> Stage \<Rightarrow> Stage" where
  "addFile f st = st\<lparr>stFiles := stFiles st @ [f]\<rparr>"

record cosVersions =
  cvRKE2Version :: string
  cvRancherVersion :: string
  cvHarvesterChartVersion :: string
  cvMonitoringChartVersion :: string
  cvLoggingChartVersion :: string
  cvKubeovnOperatorChartVersion :: string

record cosEnv =
  ceRender :: "string \<Rightarrow> HarvesterConfig \<Rightarrow> string result"
  ceReadTemplate :: "string \<Rightarrow> string result"
  ceUnmarshalStage :: "string \<Rightarrow> Stage result"
  ceVersions :: cosVersions
  ceArm64 :: bool
  ceIO :: nmIO

abbreviation "cosLoginUser \<equiv> ''rancher''"
abbreviation "ntpdService \<equiv> ''systemd-timesyncd''"
abbreviation "timeWaitSyncService \<equiv> ''systemd-time-wait-sync''"
abbreviation "rancherdBootstrapDir \<equiv> ''/etc/rancher/rancherd/config.yaml.d/''"
abbreviation "RancherdConfigFile \<equiv> ''/etc/rancher/rancherd/config.yaml''"
abbreviation "rke2Dir \<equiv> ''/etc/rancher/rke2/config.yaml.d''"

section \<open>Multipath\<close>

definition deviceText :: "string \<Rightarrow> DiskConfig \<Rightarrow> string" where
  "deviceText neg d = nl @ ''    device {'' @ nl @ ''        vendor '' @ [CHR 0x22] @ neg @ dcVendor d @ [CHR 0x22] @ nl @
     ''        product '' @ [CHR 0x22] @ neg @ dcProduct d @ [CHR 0x22] @ nl @ ''    }''"

definition wwidText :: "string \<Rightarrow> string" where
  "wwidText w = nl @ ''    wwid '' @ [CHR 0x22] @ w @ [CHR 0x22]"

definition Render1 :: "DiskConfig list \<Rightarrow> string" where
  "Render1 m = ''blacklist {'' @ concat (map (deviceText ''!'') m) @ nl @ ''}''"

definition Render2 :: "MultiPathOption2 \<Rightarrow> string" where
  "Render2 m = ''blacklist {'' @ concat (map wwidText (mpBlacklistWwids m)) @
     concat (map (deviceText []) (mpBlacklist m)) @ nl @ ''}'' @ nl @
     ''blacklist_exceptions {'' @ concat (map wwidText (mpBlacklistExceptionWwids m)) @
     concat (map (deviceText []) (mpBlacklistExceptions m)) @ nl @ ''}'' @ nl"

definition setupExternalStorage :: "HarvesterConfig \<Rightarrow> Stage \<Rightarrow> Stage result" where
  "setupExternalStorage config stage =
     (if \<not> esEnabled (osExternalStorage (hOS config)) then Inr stage
      else (let stage1 = stage\<lparr>stSystemctlEnable := stSystemctlEnable stage @ [''multipathd'']\<rparr>;
                conf = (\<lambda>content. Inr (addFile \<lparr>yfPath = ''/etc/multipath.conf'', yfContent = content,
                          yfEncoding = [], yfPermissions = 493, yfOwnerString = []\<rparr> stage1))
            in (case esMultiPathConfig (osExternalStorage (hOS config)) of
                  NoMultiPath \<Rightarrow> Inr stage1
                | Option1 m \<Rightarrow> conf (Render1 m)
                | Option2 m \<Rightarrow> conf (Render2 m)
                | Unparsed s \<Rightarrow> Inl (Panic ''interface conversion: not a MultiPathOption''))))"

text \<open>\<^verbatim>\<open>base64.StdEncoding.EncodeToString\<close>.\<close>

definition b64Char :: "nat \<Rightarrow> char" where
  "b64Char n = (if n < 26 then char_of (65 + n) else if n < 52 then char_of (71 + n)
     else if n < 62 then char_of (n - 4) else if n = 62 then CHR ''+'' else CHR ''/'')"

definition b64Group :: "nat \<Rightarrow> string" where
  "b64Group n = map b64Char [n div 262144 mod 64, n div 4096 mod 64, n div 64 mod 64, n mod 64]"

fun base64 :: "string \<Rightarrow> string" where
  "base64 [] = []"
| "base64 [a] = take 2 (b64Group (of_char a * 65536)) @ ''==''"
| "base64 [a, b] = take 3 (b64Group (of_char a * 65536 + of_char b * 256)) @ ''=''"
| "base64 (a # b # c # cs) = b64Group (of_char a * 65536 + of_char b * 256 + of_char c) @ base64 cs"

definition ignoreLonghorn :: string where
  "ignoreLonghorn = strJoin nl [''blacklist {'', ''  device {'', ''    vendor '' @ [CHR 0x22] @ ''IET'' @ [CHR 0x22],
     ''    product '' @ [CHR 0x22] @ ''VIRTUAL-DISK'' @ [CHR 0x22], ''  }'', ''}'']"

definition multipathdUnitPatch :: string where
  "multipathdUnitPatch = strJoin nl [''[Unit]'', ''Description=Device-Mapper Multipath Device Controller'',
     ''Before=lvm2-activation-early.service'',
     ''Before=local-fs-pre.target blk-availability.service shutdown.target'',
     ''Wants=systemd-udevd-kernel.socket modprobe@dm_multipath.service'',
     ''After=systemd-udevd-kernel.socket modprobe@dm_multipath.service'',
     ''After=multipathd.socket systemd-remount-fs.service'', ''Before=initrd-cleanup.service'',
     ''DefaultDependencies=no'', ''Conflicts=shutdown.target'', ''Conflicts=initrd-cleanup.service'',
     ''ConditionKernelCommandLine=!nompath'', ''ConditionVirtualization=!container'', [],
     ''[Service]'', ''Type=notify'', ''NotifyAccess=main'', ''ExecStart=/usr/sbin/multipathd -d -s'',
     ''ExecReload=/usr/sbin/multipathd reconfigure'', ''TasksMax=infinity'', ''LimitRTPRIO=10'', ''CPUWeight=1000'',
     [], ''[Install]'', ''WantedBy=sysinit.target'']"

definition disableLonghornMultipathing :: "Stage \<Rightarrow> Stage" where
  "disableLonghornMultipathing stage =
     stage\<lparr>stDirectories := stDirectories stage @ [\<lparr>ydPath = ''/etc/multipath/conf.d'', ydPermissions = 420\<rparr>],
       stFiles := stFiles stage @
         [\<lparr>yfPath = ''/etc/multipath/conf.d/99-longhorn.conf'', yfContent = base64 ignoreLonghorn,
           yfEncoding = ''base64'', yfPermissions = 420, yfOwnerString = []\<rparr>,
          \<lparr>yfPath = ''/etc/systemd/system/multipathd.service'', yfContent = base64 multipathdUnitPatch,
           yfEncoding = ''base64'', yfPermissions = 420, yfOwnerString = []\<rparr>]\<rparr>"

section \<open>Default values\<close>

definition orElse :: "string \<Rightarrow> string \<Rightarrow> string" where
  "orElse v d = (if v = [] then d else v)"

text \<open>\<^verbatim>\<open>if p != nil && *p > max { *p = max }\<close>.\<close>

definition capPtr :: "u32 \<Rightarrow> u32 option \<Rightarrow> u32 option" where
  "capPtr maxv p = (case p of Some v \<Rightarrow> if maxv < v then Some maxv else Some v | None \<Rightarrow> None)"

definition capLonghorn :: "LHDefaultSettings \<Rightarrow> LHDefaultSettings" where
  "capLonghorn s =
     \<lparr>lhGuaranteedEngineManagerCPU = capPtr 12 (lhGuaranteedEngineManagerCPU s),
      lhGuaranteedReplicaManagerCPU = capPtr 12 (lhGuaranteedReplicaManagerCPU s),
      lhGuaranteedInstanceManagerCPU = capPtr 12 (lhGuaranteedInstanceManagerCPU s),
      lhStorageReservedPercentageForDefaultDisk =
        (case lhStorageReservedPercentageForDefaultDisk s of
           Some v \<Rightarrow> capPtr 30 (Some v) | None \<Rightarrow> Some 0)\<rparr>"

definition setConfigDefaultValues :: "cosVersions \<Rightarrow> HarvesterConfig \<Rightarrow> HarvesterConfig" where
  "setConfigDefaultValues v config =
     (let c1 = config\<lparr>
            hRuntimeVersion := orElse (hRuntimeVersion config) (cvRKE2Version v),
            hRancherVersion := orElse (hRancherVersion config) (cvRancherVersion v),
            hHarvesterChartVersion := orElse (hHarvesterChartVersion config) (cvHarvesterChartVersion v),
            hMonitoringChartVersion := orElse (hMonitoringChartVersion config) (cvMonitoringChartVersion v),
            hLoggingChartVersion := orElse (hLoggingChartVersion config) (cvLoggingChartVersion v),
            hKubeovnOperatorChartVersion := orElse (hKubeovnOperatorChartVersion config) (cvKubeovnOperatorChartVersion v)\<rparr>;
          hv = inHarvester (hInstall c1);
          hv1 = hv\<lparr>hcReplicaCount := (if 3 < hcReplicaCount hv then 3 else hcReplicaCount hv),
                   hcLonghorn := capLonghorn (hcLonghorn hv)\<rparr>
      in c1\<lparr>hInstall := (hInstall c1)\<lparr>inHarvester := hv1\<rparr>\<rparr>)"

section \<open>The stages of Rancher and RKE2\<close>

type_synonym cosState = "HarvesterConfig \<times> nmState"
type_synonym 'a cos = "(cosState, 'a) prog"

definition bootstrapTemplates :: "string list" where
  "bootstrapTemplates = [''10-harvester.yaml'', ''11-monitoring-crd.yaml'', ''14-logging-crd.yaml'',
     ''20-harvester-settings.yaml'', ''15-kubeovn-operator-crd.yaml'', ''22-addons.yaml'']"

text \<open>The resources as a list of names and contents, in one of the orders a map has.\<close>

definition genBootstrapResources :: "cosEnv \<Rightarrow> HarvesterConfig \<Rightarrow> string gomap result" where
  "genBootstrapResources env config =
     bindR (mapR (\<lambda>t. bindR (ceRender env (''rancherd-'' @ t) config) (\<lambda>r. Inr (t, r))) bootstrapTemplates) (\<lambda>confs.
     bindR (ceReadTemplate env ''rancherd-12-monitoring-dashboard.yaml'') (\<lambda>dashboard.
       let confs1 = confs @ [(''12-monitoring-dashboard.yaml'', dashboard)] in
       if ceArm64 env
       then bindR (ceRender env ''rancherd-23-multus-config.yaml'' config)
              (\<lambda>r. Inr (confs1 @ [(''23-multus-config.yaml'', r)]))
       else Inr confs1))"

text \<open>The files of the stage once the defaults are set, in the order they are appended.\<close>

definition rancherdFiles :: "cosEnv \<Rightarrow> HarvesterConfig \<Rightarrow> YipFile list result" where
  "rancherdFiles env config =
     bindR (ceRender env ''rancherd-config.yaml'' config) (\<lambda>rancherdConfig.
     bindR (if inMode (hInstall config) = ModeCreate then genBootstrapResources env config else Inr []) (\<lambda>bootstrap.
     bindR (ceRender env ''rke2-90-harvester-server.yaml'' config) (\<lambda>rke2ServerConfig.
     bindR (ceRender env ''rke2-91-harvester-cdi.yaml'' config) (\<lambda>rke2DeviceOwnershipConfig.
     bindR (ceRender env ''rke2-92-harvester-kube-audit-policy.yaml'' config) (\<lambda>rke2KubeAuditConfig.
     bindR (ceRender env ''rke2-90-harvester-agent.yaml'' config) (\<lambda>rke2AgentConfig.
     bindR (if inRole (hInstall config) = RoleWitness
            then bindR (ceRender env ''rke2-99-harvester-witness.yaml'' config)
                   (\<lambda>w. Inr [rootFile (rke2Dir @ ''/99-harvester-witness.yaml'') (trimSpace w)])
            else Inr []) (\<lambda>witness.
     bindR (ceRender env ''rke2-99-z00-harvester-reserved-resources.yaml'' config) (\<lambda>reservedResourceConfig.
       Inr ([rootFile RancherdConfigFile rancherdConfig] @
            map (\<lambda>(fileName, fileContent). rootFile (rancherdBootstrapDir @ fileName) fileContent) bootstrap @
            (if hServerURL config = [] then [rootFile (rke2Dir @ ''/90-harvester-server.yaml'') rke2ServerConfig] else []) @
            [rootFile (rke2Dir @ ''/91-harvester-cdi.yaml'') rke2DeviceOwnershipConfig,
             rootFile (rke2Dir @ ''/92-harvester-kube-audit-policy.yaml'') rke2KubeAuditConfig,
             rootFile (rke2Dir @ ''/90-harvester-agent.yaml'') (trimSpace rke2AgentConfig)] @
            witness @
            [rootFile (rke2Dir @ ''/99-z00-harvester-reserved-resources.yaml'') reservedResourceConfig])))))))))"

definition initRancherdStage :: "cosEnv \<Rightarrow> Stage \<Rightarrow> Stage cos" where
  "initRancherdStage env stage =
     seqS (modS (map_prod (setConfigDefaultValues (ceVersions env)) id))
       (bindS (getS fst) (\<lambda>config.
        bindS (liftS (rancherdFiles env config)) (\<lambda>files.
          retS (stage\<lparr>stDirectories := stDirectories stage @ [\<lparr>ydPath = rke2Dir, ydPermissions = 384\<rparr>],
                       stFiles := stFiles stage @ files\<rparr>))))"

text \<open>The update of the profiles as an operation on the larger state.\<close>

definition onProfiles :: "'a nm \<Rightarrow> 'a cos" where
  "onProfiles m s = (case m (snd s) of (r, nm) \<Rightarrow> (r, (fst s, nm)))"

definition ntpStage :: "HarvesterConfig \<Rightarrow> Stage \<Rightarrow> Stage" where
  "ntpStage cfg stage =
     (if 0 < length (osNTPServers (hOS cfg))
      then stage\<lparr>stTimeSyncd := mapPut ''NTP'' (strJoin '' '' (osNTPServers (hOS cfg))) (stTimeSyncd stage),
                 stSystemctlEnable := stSystemctlEnable stage @ [ntpdService, timeWaitSyncService]\<rparr>
      else stage)"

definition GenerateRancherdConfig :: "cosEnv \<Rightarrow> YipConfig cos" where
  "GenerateRancherdConfig env =
     bindS (getS fst) (\<lambda>config.
     bindS (initRancherdStage env (ntpStage config (emptyStage\<lparr>stHostname := osHostname (hOS config)\<rparr>))) (\<lambda>stage.
     bindS (getS fst) (\<lambda>config1.
     seqS (onProfiles (UpdateManagementInterfaceConfig (ceIO env) (inManagementInterface (hInstall config1))
             (osDNSNameservers (hOS config1)) NMConnectionPath True))
       (retS \<lparr>ycName = ''RancherD Configuration'', ycStages =
          [(''live'', [stage\<lparr>stSSHKeys := mapPut cosLoginUser (osSSHAuthorizedKeys (hOS config1)) (stSSHKeys stage),
              stUsers := mapPut cosLoginUser (osPassword (hOS config1)) (stUsers stage)\<rparr>])]\<rparr>))))"

section \<open>The whole configuration\<close>

definition overwriteSSHDComponent :: "HarvesterConfig \<Rightarrow> HarvesterConfig" where
  "overwriteSSHDComponent config =
     (if osSFTP (hOS config)
      then config\<lparr>hOS := (hOS config)\<lparr>osAfterInstallChrootCommands := osAfterInstallChrootCommands (hOS config) @
             [''mkdir -p /etc/ssh/sshd_config.d'',
              ''echo '' @ [CHR 0x27] @ ''Subsystem'' @ [CHR 0x09] @ ''sftp'' @ [CHR 0x09] @ ''/usr/libexec/ssh/sftp-server'' @
                [CHR 0x27] @ '' > /etc/ssh/sshd_config.d/sftp.conf'']\<rparr>\<rparr>
      else config)"

definition overwriteAfterInstallChrootStage :: "cosEnv \<Rightarrow> HarvesterConfig \<Rightarrow> Stage result" where
  "overwriteAfterInstallChrootStage env config =
     bindR (ceRender env ''cos-after-install-chroot.yaml'' config) (ceUnmarshalStage env)"

definition overwriteRootfsStage :: "cosEnv \<Rightarrow> HarvesterConfig \<Rightarrow> Stage result" where
  "overwriteRootfsStage env config = bindR (ceRender env ''cos-rootfs.yaml'' config) (ceUnmarshalStage env)"

definition writeFileEntry :: "File \<Rightarrow> YipFile" where
  "writeFileEntry ff =
     \<lparr>yfPath = fiPath ff, yfContent = fiContent ff, yfEncoding = fiEncoding ff,
      yfPermissions = (case parseUint (fiRawFilePermissions ff) 8 32 of Inl err \<Rightarrow> 384 | Inr perm \<Rightarrow> of_nat perm),
      yfOwnerString = fiOwner ff\<rparr>"

definition baseInitramfs :: "HarvesterConfig \<Rightarrow> Stage" where
  "baseInitramfs cfg =
     emptyStage\<lparr>stUsers := [(cosLoginUser, osPassword (hOS cfg))],
       stCommands := map (\<lambda>m. ''modprobe '' @ m) (osModules (hOS cfg)) @ [''rm -f /var/lib/kubelet/cpu_manager_state''],
       stSysctl := osSysctls (hOS cfg), stEnvironment := osEnvironment (hOS cfg),
       stFiles := map writeFileEntry (osWriteFiles (hOS cfg))\<rparr>"

text \<open>The part of \<^verbatim>\<open>ConvertToCOS\<close> that the install mode skips: the finished stage and the SSH keys.\<close>

definition clusterStages :: "cosEnv \<Rightarrow> HarvesterConfig \<Rightarrow> Stage \<Rightarrow> (Stage \<times> string list gomap) cos" where
  "clusterStages env cfg initramfs =
     (if inMode (hInstall cfg) \<noteq> ModeInstall
      then bindS (initRancherdStage env initramfs) (\<lambda>st1.
           seqS (onProfiles (UpdateManagementInterfaceConfig (ceIO env) (inManagementInterface (hInstall cfg))
                   (osDNSNameservers (hOS cfg)) NMConnectionPath False))
             (retS (ntpStage cfg (st1\<lparr>stHostname := osHostname (hOS cfg)\<rparr>),
                    [(cosLoginUser, osSSHAuthorizedKeys (hOS cfg))])))
      else retS (initramfs, []))"

definition ConvertToCOS :: "cosEnv \<Rightarrow> YipConfig cos" where
  "ConvertToCOS env =
     bindS (getS fst) (\<lambda>config.
     let cfg = DeepCopy config in
     bindS (liftS (overwriteRootfsStage env config)) (\<lambda>rootfs.
     bindS (liftS (setupExternalStorage config (baseInitramfs cfg))) (\<lambda>initramfs.
     bindS (clusterStages env cfg (disableLonghornMultipathing initramfs)) (\<lambda>(initramfs1, sshKeys).
     seqS (modS (map_prod overwriteSSHDComponent id))
       (bindS (getS fst) (\<lambda>config1.
        let stages = [(''rootfs'', [rootfs]), (''initramfs'', [initramfs1]),
              (''network'', [emptyStage\<lparr>stHostname := osHostname (hOS config), stSSHKeys := sshKeys\<rparr>])] in
        if 0 < length (osAfterInstallChrootCommands (hOS config1))
        then bindS (liftS (overwriteAfterInstallChrootStage env config1)) (\<lambda>chroot.
               retS \<lparr>ycName = ''Harvester Configuration'', ycStages = stages @ [(''after-install-chroot'', [chroot])]\<rparr>)
        else retS \<lparr>ycName = ''Harvester Configuration'', ycStages = stages\<rparr>))))))"

section \<open>Defaults\<close>

lemma capPtr_eq: "capPtr m p = map_option (min m) p"
  by (auto simp: capPtr_def min_def split: option.splits)

lemma capLonghorn_idem [simp]: "capLonghorn (capLonghorn s) = capLonghorn s"
  unfolding capLonghorn_def
  by (cases "lhStorageReservedPercentageForDefaultDisk s") (simp_all add: capPtr_eq option.map_comp comp_def)

lemma orElse_idem [simp]: "orElse (orElse v d) d = orElse v d"
  by (simp add: orElse_def)

text \<open>C33: The default values bound what the user may ask of Longhorn: at most 3 replicas, at most 12 percent of
  the CPU for each manager, and a reserved percentage of the disk that is always set and at most 30.
  Setting the defaults twice changes nothing more, so the order of the two conversions that set them
  does not matter.\<close>

theorem config_defaults_bounded:
  "(let hv = inHarvester (hInstall (setConfigDefaultValues v c)); lh = hcLonghorn hv in
    hcReplicaCount hv \<le> 3 \<and>
    (\<forall>p \<in> set [lhGuaranteedEngineManagerCPU lh, lhGuaranteedReplicaManagerCPU lh, lhGuaranteedInstanceManagerCPU lh].
       p = None \<or> (\<exists>x. p = Some x \<and> x \<le> 12)) \<and>
    (\<exists>x. lhStorageReservedPercentageForDefaultDisk lh = Some x \<and> x \<le> 30)) \<and>
   setConfigDefaultValues v (setConfigDefaultValues v c) = setConfigDefaultValues v c"
proof -
  have small: "capPtr m q = None \<or> (\<exists>x. capPtr m q = Some x \<and> x \<le> m)" for q and m
    by (cases q) (simp_all add: capPtr_eq)
  have storage: "\<exists>x. lhStorageReservedPercentageForDefaultDisk (capLonghorn s) = Some x \<and> x \<le> 30" for s
    by (cases "lhStorageReservedPercentageForDefaultDisk s") (simp_all add: capLonghorn_def capPtr_eq)
  have lh: "\<forall>p \<in> set [lhGuaranteedEngineManagerCPU (capLonghorn s), lhGuaranteedReplicaManagerCPU (capLonghorn s),
      lhGuaranteedInstanceManagerCPU (capLonghorn s)]. p = None \<or> (\<exists>x. p = Some x \<and> x \<le> 12)" for s
    using small [of 12] by (simp add: capLonghorn_def)
  have idem: "setConfigDefaultValues v (setConfigDefaultValues v c) = setConfigDefaultValues v c"
    by (simp add: setConfigDefaultValues_def Let_def)
  have shape: "hcLonghorn (inHarvester (hInstall (setConfigDefaultValues v c))) =
      capLonghorn (hcLonghorn (inHarvester (hInstall c)))"
    "hcReplicaCount (inHarvester (hInstall (setConfigDefaultValues v c))) \<le> 3"
    by (simp_all add: setConfigDefaultValues_def Let_def not_less)
  show ?thesis using idem shape lh storage unfolding Let_def shape(1) by blast
qed

theorem config_defaults_bounded_witness:
  "hcReplicaCount (inHarvester (hInstall (setConfigDefaultValues
     \<lparr>cvRKE2Version = ''v1'', cvRancherVersion = [], cvHarvesterChartVersion = [], cvMonitoringChartVersion = [],
      cvLoggingChartVersion = [], cvKubeovnOperatorChartVersion = []\<rparr> NewHarvesterConfig))) \<le> 3"
  using config_defaults_bounded [of "\<lparr>cvRKE2Version = ''v1'', cvRancherVersion = [], cvHarvesterChartVersion = [], cvMonitoringChartVersion = [],
      cvLoggingChartVersion = [], cvKubeovnOperatorChartVersion = []\<rparr>" NewHarvesterConfig]
  unfolding Let_def by blast

section \<open>Files of the installed system\<close>

lemma rootFile_fields [simp]: "yfPath (rootFile p c) = p" "yfPermissions (rootFile p c) = 384"
  by (simp_all add: rootFile_def)

definition bootstrapNames :: "cosEnv \<Rightarrow> string list" where
  "bootstrapNames env = bootstrapTemplates @ [''12-monitoring-dashboard.yaml''] @
     (if ceArm64 env then [''23-multus-config.yaml''] else [])"

lemma mapR_render:
  "mapR (\<lambda>t. bindR (g t) (\<lambda>r. Inr (t, r))) ts = Inr rs \<Longrightarrow> map fst rs = ts"
  by (induction ts arbitrary: rs) (auto split: sum.splits simp: bindR_Inr)

lemma genBootstrapResources_names: "genBootstrapResources env c = Inr rs \<Longrightarrow> map fst rs = bootstrapNames env"
  by (auto simp: genBootstrapResources_def bindR_Inr bootstrapNames_def Let_def dest: mapR_render split: if_splits)

definition rancherPaths :: "cosEnv \<Rightarrow> HarvesterConfig \<Rightarrow> string list" where
  "rancherPaths env c = [RancherdConfigFile] @
     (if inMode (hInstall c) = ModeCreate then map (\<lambda>n. rancherdBootstrapDir @ n) (bootstrapNames env) else []) @
     (if hServerURL c = [] then [rke2Dir @ ''/90-harvester-server.yaml''] else []) @
     [rke2Dir @ ''/91-harvester-cdi.yaml'', rke2Dir @ ''/92-harvester-kube-audit-policy.yaml'',
      rke2Dir @ ''/90-harvester-agent.yaml''] @
     (if inRole (hInstall c) = RoleWitness then [rke2Dir @ ''/99-harvester-witness.yaml''] else []) @
     [rke2Dir @ ''/99-z00-harvester-reserved-resources.yaml'']"

lemma rancherdFiles_ok:
  assumes "rancherdFiles env c = Inr fs"
  shows "map yfPath fs = rancherPaths env c \<and> (\<forall>f \<in> set fs. yfPermissions f = 384)"
proof -
  obtain rc bs sv cdi au ag wt rr where
    bs: "(if inMode (hInstall c) = ModeCreate then genBootstrapResources env c else Inr []) = Inr bs"
    and wt: "(if inRole (hInstall c) = RoleWitness
            then bindR (ceRender env ''rke2-99-harvester-witness.yaml'' c)
                   (\<lambda>w. Inr [rootFile (rke2Dir @ ''/99-harvester-witness.yaml'') (trimSpace w)])
            else Inr []) = Inr wt"
    and fs: "fs = [rootFile RancherdConfigFile rc] @
            map (\<lambda>(n, t). rootFile (rancherdBootstrapDir @ n) t) bs @
            (if hServerURL c = [] then [rootFile (rke2Dir @ ''/90-harvester-server.yaml'') sv] else []) @
            [rootFile (rke2Dir @ ''/91-harvester-cdi.yaml'') cdi,
             rootFile (rke2Dir @ ''/92-harvester-kube-audit-policy.yaml'') au,
             rootFile (rke2Dir @ ''/90-harvester-agent.yaml'') (trimSpace ag)] @ wt @
            [rootFile (rke2Dir @ ''/99-z00-harvester-reserved-resources.yaml'') rr]"
    using assms unfolding rancherdFiles_def bindR_Inr 
    by (elim exE conjE) (rule that, assumption, assumption, erule sum.inject(2) [THEN iffD1, symmetric])
  have boot: "map fst bs = (if inMode (hInstall c) = ModeCreate then bootstrapNames env else [])"
    using bs genBootstrapResources_names by (auto split: if_splits)
  have paths: "map yfPath (map (\<lambda>(n, t). rootFile (d @ n) t) bs) = map (\<lambda>n. d @ n) (map fst bs)" for d
    by (induction bs) auto
  have wit: "map yfPath wt = (if inRole (hInstall c) = RoleWitness then [rke2Dir @ ''/99-harvester-witness.yaml''] else [])"
    "\<forall>f \<in> set wt. yfPermissions f = 384"
    using wt by (auto simp: bindR_Inr split: if_splits)
  have "map yfPath fs = rancherPaths env c"
    unfolding fs rancherPaths_def map_append paths boot wit(1) by simp
  moreover have "\<forall>f \<in> set fs. yfPermissions f = 384"
    unfolding fs using wit(2) by auto
  ultimately show ?thesis by blast
qed

lemma DeepCopy_id: "wfConfig c \<Longrightarrow> DeepCopy c = c"
  by (simp add: DeepCopy_def Merge_empty)

definition multipathFiles :: "HarvesterConfig \<Rightarrow> string list" where
  "multipathFiles c =
     (if esEnabled (osExternalStorage (hOS c)) \<and> esMultiPathConfig (osExternalStorage (hOS c)) \<noteq> NoMultiPath
      then [''/etc/multipath.conf''] else [])"

lemma setupExternalStorage_files:
  "setupExternalStorage c st = Inr st' \<Longrightarrow>
   \<exists>fs. stFiles st' = stFiles st @ fs \<and> map yfPath fs = multipathFiles c"
  by (auto simp: setupExternalStorage_def multipathFiles_def addFile_def Let_def split: if_splits multiPath.splits)

lemma initRancherdStage_files:
  assumes "initRancherdStage env st (c, nm) = (Inr st', (c', nm'))"
  shows "\<exists>fs. stFiles st' = stFiles st @ fs \<and> map yfPath fs = rancherPaths env c \<and>
    (\<forall>f \<in> set fs. yfPermissions f = 384) \<and> c' = setConfigDefaultValues (ceVersions env) c \<and> nm' = nm"
proof -
  let ?c = "setConfigDefaultValues (ceVersions env) c"
  obtain fs where fs: "rancherdFiles env ?c = Inr fs" "stFiles st' = stFiles st @ fs" "c' = ?c" "nm' = nm"
    using assms by (auto simp: initRancherdStage_def seqS_Inr bindS_Inr)
  have "rancherPaths env ?c = rancherPaths env c"
    by (simp add: rancherPaths_def setConfigDefaultValues_def Let_def)
  then show ?thesis using fs rancherdFiles_ok [OF fs(1)] by auto
qed

lemma ntpStage_files [simp]: "stFiles (ntpStage c st) = stFiles st"
  by (simp add: ntpStage_def)

lemma clusterStages_files:
  assumes "clusterStages env c st (c0, nm) = (Inr (st', keys), s')" "inMode (hInstall c) \<noteq> ModeInstall"
  shows "\<exists>fs. stFiles st' = stFiles st @ fs \<and> map yfPath fs = rancherPaths env c0 \<and>
    (\<forall>f \<in> set fs. yfPermissions f = 384)"
proof -
  obtain st1 c1 nm1 where "initRancherdStage env st (c0, nm) = (Inr st1, (c1, nm1))" "stFiles st' = stFiles st1"
    using assms by (auto simp: clusterStages_def bindS_Inr seqS_Inr)
  then show ?thesis using initRancherdStage_files by fastforce
qed

lemma ConvertToCOS_ok:
  assumes "ConvertToCOS env (config, nm) = (Inr yc, s')"
  obtains st st1 keys s1 where
    "setupExternalStorage config (baseInitramfs (DeepCopy config)) = Inr st"
    "clusterStages env (DeepCopy config) (disableLonghornMultipathing st) (config, nm) = (Inr (st1, keys), s1)"
    "mapGet (ycStages yc) ''initramfs'' = Some [st1]"
    "mapGet (ycStages yc) ''network'' = Some [emptyStage\<lparr>stHostname := osHostname (hOS config), stSSHKeys := keys\<rparr>]"
    "snd s' = snd s1"
  using assms unfolding ConvertToCOS_def Let_def
  by (auto simp: bindS_Inr seqS_Inr mapGet_def split: if_splits prod.splits)


text \<open>The install mode, which only copies the system to the disk, configures neither network nor cluster: the
  profiles on the running system stay as they are, whatever the outcome, no SSH key is set and no file
  of Rancher is written.\<close>

theorem install_mode_untouched:
  assumes "ConvertToCOS env (config, nm) = (r, s')" "inMode (hInstall config) = ModeInstall" "wfConfig config"
  shows "snd s' = nm \<and> (\<forall>yc. r = Inr yc \<longrightarrow>
    (\<exists>st. mapGet (ycStages yc) ''initramfs'' = Some [st] \<and> stDirectories st = [\<lparr>ydPath = ''/etc/multipath/conf.d'', ydPermissions = 420\<rparr>] \<and>
       length (stFiles st) = length (osWriteFiles (hOS config)) + length (multipathFiles config) + 2) \<and>
    mapGet (ycStages yc) ''network'' = Some [emptyStage\<lparr>stHostname := osHostname (hOS config)\<rparr>])"
proof -
  have copy: "DeepCopy config = config" using assms(3) by (rule DeepCopy_id)
  have skip: "clusterStages env config st = retS (st, [])" for st
    using assms(2) by (simp add: clusterStages_def)
  have frame: "snd s' = nm"
    using assms(1) unfolding ConvertToCOS_def Let_def
    by (auto simp: copy skip bindS_run split: sum.splits if_splits)
  have files: "\<exists>st. mapGet (ycStages yc) ''initramfs'' = Some [st] \<and>
      stDirectories st = [\<lparr>ydPath = ''/etc/multipath/conf.d'', ydPermissions = 420\<rparr>] \<and>
      length (stFiles st) = length (osWriteFiles (hOS config)) + length (multipathFiles config) + 2"
    "mapGet (ycStages yc) ''network'' = Some [emptyStage\<lparr>stHostname := osHostname (hOS config)\<rparr>]"
    if r: "r = Inr yc" for yc
  proof -
    obtain st st1 keys s1 where
      st: "setupExternalStorage config (baseInitramfs config) = Inr st"
      and st1: "retS (disableLonghornMultipathing st, []) (config, nm) = (Inr (st1, keys), s1)"
      and get: "mapGet (ycStages yc) ''initramfs'' = Some [st1]"
        "mapGet (ycStages yc) ''network'' = Some [emptyStage\<lparr>stHostname := osHostname (hOS config), stSSHKeys := keys\<rparr>]"
      using ConvertToCOS_ok [OF assms(1) [unfolded r]] unfolding copy skip by metis
    have "stDirectories st = []"
      using st by (auto simp: setupExternalStorage_def baseInitramfs_def emptyStage_def addFile_def Let_def
          split: if_splits multiPath.splits)
    moreover obtain mp where "stFiles st = map writeFileEntry (osWriteFiles (hOS config)) @ mp" "map yfPath mp = multipathFiles config"
      using setupExternalStorage_files [OF st] by (auto simp: baseInitramfs_def)
    moreover from this(2) have "length mp = length (multipathFiles config)" by (metis length_map)
    ultimately show "\<exists>st. mapGet (ycStages yc) ''initramfs'' = Some [st] \<and>
        stDirectories st = [\<lparr>ydPath = ''/etc/multipath/conf.d'', ydPermissions = 420\<rparr>] \<and>
        length (stFiles st) = length (osWriteFiles (hOS config)) + length (multipathFiles config) + 2"
      "mapGet (ycStages yc) ''network'' = Some [emptyStage\<lparr>stHostname := osHostname (hOS config)\<rparr>]"
      using get st1 by (auto simp: disableLonghornMultipathing_def emptyStage_def)
  qed
  show ?thesis using frame files by blast
qed

section \<open>A concrete environment\<close>

definition sampleCosEnv :: cosEnv where
  "sampleCosEnv = \<lparr>ceRender = (\<lambda>t c. Inr t), ceReadTemplate = Inr, ceUnmarshalStage = (\<lambda>_. Inr emptyStage),
     ceVersions = \<lparr>cvRKE2Version = ''v1'', cvRancherVersion = [], cvHarvesterChartVersion = [],
       cvMonitoringChartVersion = [], cvLoggingChartVersion = [], cvKubeovnOperatorChartVersion = []\<rparr>,
     ceArm64 = False, ceIO = reliableIO\<rparr>"

lemma sample_render:
  "ceRender sampleCosEnv t c = Inr t" "ceReadTemplate sampleCosEnv t = Inr t"
  "ceUnmarshalStage sampleCosEnv t = Inr emptyStage" "ceArm64 sampleCosEnv = False" "ceIO sampleCosEnv = reliableIO"
  by (simp_all add: sampleCosEnv_def)

lemma sample_rancherdFiles: "\<exists>fs. rancherdFiles sampleCosEnv c = Inr fs"
  by (simp add: rancherdFiles_def genBootstrapResources_def sample_render bootstrapTemplates_def)

lemma sample_initRancherdStage: "\<exists>st' s'. initRancherdStage sampleCosEnv st s = (Inr st', s')"
proof -
  obtain fs where "rancherdFiles sampleCosEnv (setConfigDefaultValues (ceVersions sampleCosEnv) (fst s)) = Inr fs"
    using sample_rancherdFiles by blast
  then show ?thesis by (simp add: initRancherdStage_def bindS_run case_prod_beta)
qed

lemma sample_clusterStages:
  assumes "nwInterfaces (inManagementInterface (hInstall cfg)) \<noteq> []"
    "nwMethod (inManagementInterface (hInstall cfg)) \<in> {NetworkMethodDHCP, NetworkMethodStatic, NetworkMethodNone}"
  shows "\<exists>x s'. clusterStages sampleCosEnv cfg st s = (Inr x, s')"
proof -
  obtain st1 s1 where s1: "initRancherdStage sampleCosEnv st s = (Inr st1, s1)" using sample_initRancherdStage by blast
  obtain nm where "UpdateManagementInterfaceConfig reliableIO (inManagementInterface (hInstall cfg))
      (osDNSNameservers (hOS cfg)) NMConnectionPath False (snd s1) = (Inr (), nm)"
    using reliable_update [OF assms] by blast
  then show ?thesis using s1 by (simp add: clusterStages_def bindS_run sample_render onProfiles_def)
qed

lemma sample_ConvertToCOS:
  assumes "esEnabled (osExternalStorage (hOS c)) = False" "wfConfig c"
    "nwInterfaces (inManagementInterface (hInstall c)) \<noteq> []"
    "nwMethod (inManagementInterface (hInstall c)) \<in> {NetworkMethodDHCP, NetworkMethodStatic, NetworkMethodNone}"
  shows "\<exists>yc s'. ConvertToCOS sampleCosEnv (c, nm) = (Inr yc, s')"
proof -
  obtain st1 keys s1 where "clusterStages sampleCosEnv c (disableLonghornMultipathing (baseInitramfs c)) (c, nm) = (Inr (st1, keys), s1)"
    using sample_clusterStages [OF assms(3,4)] by (metis surj_pair)
  then show ?thesis
    using assms(1,2) by (simp add: ConvertToCOS_def bindS_run DeepCopy_id overwriteRootfsStage_def sample_render
        setupExternalStorage_def overwriteAfterInstallChrootStage_def Let_def)
qed

lemma sampleConfig_fields:
  "wfConfig sampleConfig" "esEnabled (osExternalStorage (hOS sampleConfig)) = False"
  "nwInterfaces (inManagementInterface (hInstall sampleConfig)) \<noteq> []"
  "nwMethod (inManagementInterface (hInstall sampleConfig)) \<in> {NetworkMethodDHCP, NetworkMethodStatic, NetworkMethodNone}"
  "inMode (hInstall sampleConfig) \<noteq> ModeInstall"
  by (simp_all add: sampleConfig_def wfConfig_def NewHarvesterConfig_def emptyOS_def emptyInstall_def emptyNetwork_def)


definition installOnlyConfig :: HarvesterConfig where
  "installOnlyConfig = sampleConfig\<lparr>hInstall := (hInstall sampleConfig)\<lparr>inMode := ModeInstall\<rparr>\<rparr>"

theorem install_mode_untouched_witness:
  "snd (snd (ConvertToCOS sampleCosEnv (installOnlyConfig, sampleProfiles))) = sampleProfiles"
proof -
  have "wfConfig installOnlyConfig" "inMode (hInstall installOnlyConfig) = ModeInstall"
    using sampleConfig_fields(1) by (simp_all add: installOnlyConfig_def wfConfig_def)
  then show ?thesis
    using install_mode_untouched [of sampleCosEnv installOnlyConfig sampleProfiles]
    by (metis prod.collapse)
qed

end
