(* ===== verification/Webhooks.thy ===== *)
theory Webhooks
  imports Config
begin

text \<open>
  Webhooks of the installation (\<^verbatim>\<open>pkg/console/webhooks.go\<close>): preparation (validation and rendering),
  delivery with retries on time-outs, and the template context taken from the management
  interface. A request is a record; \<open>sender\<close> says how the network answers a request, given all
  requests sent before, and whether \<^verbatim>\<open>http.NewRequest\<close> refuses it. \<^verbatim>\<open>DebugOutput\<close> only logs.
\<close>

section \<open>Preparation\<close>

record RenderedWebhook =
  rwWebhook :: Webhook
  rwRenderedURL :: string
  rwRenderedPayload :: string
  rwValid :: bool

abbreviation "EventInstallStarted \<equiv> ''STARTED''"
abbreviation "EventInstallSuceeded \<equiv> ''SUCCEEDED''"
abbreviation "EventInstallFailed \<equiv> ''FAILED''"

definition IsValidEvent :: "string \<Rightarrow> bool" where
  "IsValidEvent event = StringSliceContains [EventInstallStarted, EventInstallSuceeded, EventInstallFailed] event"

definition IsValidHTTPMethod :: "string \<Rightarrow> bool" where
  "IsValidHTTPMethod meth =
     StringSliceContains [''GET'', ''HEAD'', ''POST'', ''PUT'', ''PATCH'', ''DELETE'', ''CONNECT'', ''OPTIONS'', ''TRACE''] meth"

definition dupHeaders :: "(string list option) gomap option \<Rightarrow> (string list option) gomap option" where
  "dupHeaders h =
     (case h of None \<Rightarrow> None
      | Some m \<Rightarrow> Some (foldl (\<lambda>acc (k, v). mapPut k (DupStrings v) acc) [] m))"

text \<open>\<open>render\<close> is \<^verbatim>\<open>text/template\<close> with missing keys rendered as empty.\<close>

definition prepareWebhook ::
  "(string \<Rightarrow> string gomap \<Rightarrow> string result) \<Rightarrow> Webhook \<Rightarrow> string gomap \<Rightarrow> RenderedWebhook result" where
  "prepareWebhook render h context =
     (let w = \<lparr>whEvent = whEvent h, whMethod = toUpper (whMethod h), whHeaders = dupHeaders (whHeaders h),
               whURL = whURL h, whPayload = whPayload h, whInsecure = whInsecure h,
               whBasicAuth = \<lparr>baUser = baUser (whBasicAuth h), baPassword = baPassword (whBasicAuth h)\<rparr>\<rparr>
      in if \<not> IsValidEvent (whEvent w) then Inl (Msg (''unknown install event: '' @ whEvent w))
         else if \<not> IsValidHTTPMethod (whMethod w) then Inl (Msg (''unknown HTTP method: '' @ whMethod w))
         else bindR (render (whURL w) context) (\<lambda>url.
              bindR (render (whPayload w) context) (\<lambda>payload.
                Inr \<lparr>rwWebhook = w, rwRenderedURL = url, rwRenderedPayload = payload, rwValid = False\<rparr>)))"

definition PrepareWebhooks ::
  "(string \<Rightarrow> string gomap \<Rightarrow> string result) \<Rightarrow> Webhook list \<Rightarrow> string gomap \<Rightarrow> RenderedWebhook list result" where
  "PrepareWebhooks render hooks context =
     mapR (\<lambda>h. case prepareWebhook render h context of
                 Inl err \<Rightarrow> Inl (Wrap ''fail to prepare webhook'' err)
               | Inr p \<Rightarrow> Inr (p\<lparr>rwValid := True\<rparr>)) hooks"

section \<open>Delivery\<close>

record httpRequest =
  rqMethod :: string
  rqURL :: string
  rqBody :: "string option"
  rqAuth :: "(string \<times> string) option"
  rqHeaders :: "(string \<times> string) list"
  rqInsecure :: bool

datatype sendResult = Status int | TimedOut goerror | Failed goerror

record sender =
  seNewRequest :: "string \<Rightarrow> string \<Rightarrow> goerror option"
  seDo :: "httpRequest list \<Rightarrow> httpRequest \<Rightarrow> sendResult"

abbreviation "WebhookMaxRetries \<equiv> (3 :: nat)"

definition requestOf :: "RenderedWebhook \<Rightarrow> httpRequest" where
  "requestOf p =
     (let w = rwWebhook p in
      \<lparr>rqMethod = whMethod w, rqURL = rwRenderedURL p,
       rqBody = (if rwRenderedPayload p \<noteq> [] then Some (rwRenderedPayload p) else None),
       rqAuth = (if baUser (whBasicAuth w) \<noteq> [] \<and> baPassword (whBasicAuth w) \<noteq> []
                 then Some (baUser (whBasicAuth w), baPassword (whBasicAuth w)) else None),
       rqHeaders = concat (map (\<lambda>(k, vv). map (\<lambda>v. (k, v)) (case vv of None \<Rightarrow> [] | Some vs \<Rightarrow> vs))
                     (case whHeaders w of None \<Rightarrow> [] | Some m \<Rightarrow> m)),
       rqInsecure = whInsecure w\<rparr>)"

text \<open>\<^verbatim>\<open>doHTTPReq\<close>: the outcome and the requests sent.\<close>

definition doHTTPReq :: "sender \<Rightarrow> RenderedWebhook \<Rightarrow> httpRequest list \<Rightarrow> sendResult \<times> httpRequest list" where
  "doHTTPReq s p sent =
     (case seNewRequest s (whMethod (rwWebhook p)) (rwRenderedURL p) of
        Some err \<Rightarrow> (Failed err, sent)
      | None \<Rightarrow>
          (let rq = requestOf p in
           (case seDo s sent rq of
              Status code \<Rightarrow> if code < 200 \<or> 400 \<le> code
                then Failed (Msg (''got '' @ showInt code @ '' status code from '' @ rwRenderedURL p)) else Status code
            | other \<Rightarrow> other, sent @ [rq])))"

text \<open>The loop \<^verbatim>\<open>for retries <= WebhookMaxRetries\<close>; \<open>left\<close> is the number of rounds left.\<close>

fun handleLoop ::
  "sender \<Rightarrow> RenderedWebhook \<Rightarrow> nat \<Rightarrow> unit result \<Rightarrow> httpRequest list \<Rightarrow> unit result \<times> httpRequest list" where
  "handleLoop s p 0 retryErr sent = (retryErr, sent)"
| "handleLoop s p (Suc left) retryErr sent =
     (case doHTTPReq s p sent of
        (TimedOut err, sent') \<Rightarrow> handleLoop s p left (Inl err) sent'
      | (Failed err, sent') \<Rightarrow> (Inl err, sent')
      | (Status code, sent') \<Rightarrow> (Inr (), sent'))"

definition HandleWebhook :: "sender \<Rightarrow> RenderedWebhook \<Rightarrow> (httpRequest list, unit) prog" where
  "HandleWebhook s p sent = handleLoop s p (WebhookMaxRetries + 1) (Inr ()) sent"

text \<open>\<^verbatim>\<open>RendererWebhooks.Handle\<close>: the first failure ends the round; the caller gets no error.\<close>

fun HandleEvent :: "sender \<Rightarrow> RenderedWebhook list \<Rightarrow> string \<Rightarrow> httpRequest list \<Rightarrow> httpRequest list" where
  "HandleEvent s [] event sent = sent"
| "HandleEvent s (h # hooks) event sent =
     (if event \<noteq> whEvent (rwWebhook h) then HandleEvent s hooks event sent
      else (case HandleWebhook s h sent of
              (Inl err, sent') \<Rightarrow> sent'
            | (Inr u, sent') \<Rightarrow> HandleEvent s hooks event sent'))"

section \<open>Context\<close>

fun getIPAddr :: "octets list \<Rightarrow> bool \<Rightarrow> string" where
  "getIPAddr [] v6 = []"
| "getIPAddr (ip # ips) v6 =
     (if length ip = 16
      then (case To4 ip of
              Some r \<Rightarrow> if \<not> v6 then ipString r else getIPAddr ips v6
            | None \<Rightarrow> if v6 then ipString ip else getIPAddr ips v6)
      else getIPAddr ips v6)"

text \<open>
  \<open>mgmt\<close> is the management interface, if the host has it: its hardware address and its addresses
  (empty when they cannot be read).
\<close>

definition getWebhookContext :: "HarvesterConfig \<Rightarrow> (octets \<times> octets list) option \<Rightarrow> string gomap" where
  "getWebhookContext cfg mgmt =
     (''Hostname'', osHostname (hOS cfg)) #
     (case mgmt of None \<Rightarrow> []
      | Some (hw, addrs) \<Rightarrow> [(''MACAddr'', macString hw), (''IPAddrV4'', getIPAddr addrs False),
                             (''IPAddrV6'', getIPAddr addrs True)])"

section \<open>What delivery guarantees\<close>

lemma doHTTPReq_sent: "doHTTPReq s p sent = (r, sent') \<Longrightarrow> \<exists>n \<le> 1. sent' = sent @ replicate n (requestOf p)"
  by (auto simp: doHTTPReq_def Let_def split: option.splits sendResult.splits intro: exI [of _ 0] exI [of _ 1])

lemma doHTTPReq_Status:
  "doHTTPReq s p sent = (Status code, sent') \<Longrightarrow>
   sent' = sent @ [requestOf p] \<and> seDo s sent (requestOf p) = Status code \<and> 200 \<le> code \<and> code < 400"
  by (auto simp: doHTTPReq_def Let_def split: option.splits sendResult.splits if_splits)

lemma handleLoop_sent:
  "handleLoop s p left e sent = (r, sent') \<Longrightarrow> \<exists>n \<le> left. sent' = sent @ replicate n (requestOf p)"
proof (induction left arbitrary: e sent)
  case 0
  then show ?case by simp
next
  case (Suc left)
  obtain d sent1 where d: "doHTTPReq s p sent = (d, sent1)" by (cases "doHTTPReq s p sent")
  obtain m where m: "m \<le> 1" "sent1 = sent @ replicate m (requestOf p)" using doHTTPReq_sent [OF d] by blast
  show ?case
  proof (cases d)
    case (TimedOut err)
    then obtain n where "n \<le> left" "sent' = sent1 @ replicate n (requestOf p)"
      using Suc d by auto
    then show ?thesis using m by (intro exI [of _ "m + n"]) (simp add: replicate_add)
  qed (use Suc.prems d m in \<open>auto intro!: exI [of _ m]\<close>)
qed

lemma handleLoop_ok:
  "handleLoop s p left (Inl e) sent = (Inr (), sent') \<Longrightarrow>
   \<exists>before code. sent' = before @ [requestOf p] \<and> seDo s before (requestOf p) = Status code \<and> 200 \<le> code \<and> code < 400"
proof (induction left arbitrary: e sent)
  case 0
  then show ?case by simp
next
  case (Suc left)
  obtain d sent1 where d: "doHTTPReq s p sent = (d, sent1)" by (cases "doHTTPReq s p sent")
  show ?case
  proof (cases d)
    case (Status code)
    then show ?thesis using Suc.prems d doHTTPReq_Status [of s p sent code sent1] by auto
  next
    case (TimedOut err)
    then show ?thesis using Suc d by auto
  next
    case (Failed err)
    then show ?thesis using Suc.prems d by simp
  qed
qed

text \<open>C31: Delivery of a webhook is bounded and honest: at most four copies of one and the same request are sent,
  and success is reported only when the last of them was answered with a status from 200 to 399.\<close>

theorem webhook_delivery:
  "\<exists>n \<le> 4. snd (HandleWebhook s p sent) = sent @ replicate n (requestOf p) \<and>
     (fst (HandleWebhook s p sent) = Inr () \<longrightarrow>
        (\<exists>before code. snd (HandleWebhook s p sent) = before @ [requestOf p] \<and>
           seDo s before (requestOf p) = Status code \<and> 200 \<le> code \<and> code < 400))"
proof -
  obtain r sent' where run: "HandleWebhook s p sent = (r, sent')" by (cases "HandleWebhook s p sent")
  have loop4: "handleLoop s p 4 (Inr ()) sent = (r, sent')" using run by (simp add: HandleWebhook_def)
  obtain n where n: "n \<le> 4" "sent' = sent @ replicate n (requestOf p)"
    using handleLoop_sent [OF loop4] by blast
  have "\<exists>before code. sent' = before @ [requestOf p] \<and> seDo s before (requestOf p) = Status code \<and> 200 \<le> code \<and> code < 400"
    if "r = Inr ()"
  proof -
    obtain d sent1 where d: "doHTTPReq s p sent = (d, sent1)" by (cases "doHTTPReq s p sent")
    have "handleLoop s p (Suc 3) (Inr ()) sent = (Inr (), sent')"
      using run that by (simp add: HandleWebhook_def)
    note loop = this [unfolded handleLoop.simps d prod.case]
    show ?thesis
    proof (cases d)
      case (Status code)
      then show ?thesis using loop doHTTPReq_Status [of s p sent code sent1] d by auto
    next
      case (TimedOut err)
      then show ?thesis using loop d by (intro handleLoop_ok [of s p 3 err sent1]) simp
    next
      case (Failed err)
      then show ?thesis using loop d by simp
    qed
  qed
  then show ?thesis using run n by auto
qed

theorem webhook_delivery_witness:
  "\<exists>n \<le> 4. snd (HandleWebhook \<lparr>seNewRequest = (\<lambda>_ _. None), seDo = (\<lambda>sent rq. if length sent < 2 then TimedOut (Ext ''t'') else Status 200)\<rparr>
     \<lparr>rwWebhook = \<lparr>whEvent = ''STARTED'', whMethod = ''GET'', whHeaders = None, whURL = ''u'', whPayload = [], whInsecure = False,
        whBasicAuth = \<lparr>baUser = [], baPassword = []\<rparr>\<rparr>, rwRenderedURL = ''u'', rwRenderedPayload = [], rwValid = True\<rparr> []) =
     replicate n (requestOf \<lparr>rwWebhook = \<lparr>whEvent = ''STARTED'', whMethod = ''GET'', whHeaders = None, whURL = ''u'', whPayload = [], whInsecure = False,
        whBasicAuth = \<lparr>baUser = [], baPassword = []\<rparr>\<rparr>, rwRenderedURL = ''u'', rwRenderedPayload = [], rwValid = True\<rparr>)"
  using webhook_delivery
    [of "\<lparr>seNewRequest = (\<lambda>_ _. None), seDo = (\<lambda>sent rq. if length sent < 2 then TimedOut (Ext ''t'') else Status 200)\<rparr>"
      "\<lparr>rwWebhook = \<lparr>whEvent = ''STARTED'', whMethod = ''GET'', whHeaders = None, whURL = ''u'', whPayload = [], whInsecure = False,
        whBasicAuth = \<lparr>baUser = [], baPassword = []\<rparr>\<rparr>, rwRenderedURL = ''u'', rwRenderedPayload = [], rwValid = True\<rparr>" "[]"]
  unfolding append_Nil by blast

end
