(* ===== verification/Install_Flow.thy ===== *)
theory Install_Flow
  imports COS Webhooks
begin

text \<open>
  The installation itself (\<^verbatim>\<open>pkg/console/util.go\<close>): role labels, system settings, the environment of
  the install script, wiping of disks, \<^verbatim>\<open>doInstall\<close>, the configuration of an installed node, and the
  retry loop.

  Every action on the outside world is an \<open>effect\<close>. The state keeps the trace of the effects with
  their outcome; the environment decides the outcome of each effect from the trace so far, so
  that every sequence of successes and failures is covered.
\<close>

section \<open>Effects\<close>

datatype effect =
    Hook string
  | Print string
  | SaveCos YipConfig
  | SaveHvst HarvesterConfig
  | SaveElemental "ElementalInstallSpec"
  | Run "string list" "string list"
  | BindCtrlC
  | RemoveTemp string

record instState =
  isCfg :: HarvesterConfig
  isNM :: nmState
  isCache :: DiskOptionsCache
  isTrace :: "(effect \<times> bool) list"

text \<open>
  \<open>ieOutcome\<close> gives the error of an effect, \<open>ieTempPath\<close> the name of the next temporary file,
  \<open>ieToEnv\<close> is \<^verbatim>\<open>ToEnv("HARVESTER_", _)\<close>, which encodes the install section through the mapper library;
  \<open>ieRand\<close> is \<^verbatim>\<open>rand.String(5)\<close>.
\<close>

record instEnv =
  ieCos :: cosEnv
  ieOutcome :: "(effect \<times> bool) list \<Rightarrow> effect \<Rightarrow> goerror option"
  ieTempPath :: "string \<Rightarrow> nat \<Rightarrow> string"
  ieEvalSymlinks :: "string \<Rightarrow> string result"
  ieLsblk :: "string \<Rightarrow> string result"
  ieToEnv :: "Install \<Rightarrow> string list result"
  ieEnviron :: "string list"
  ieInstallModeOnly :: bool
  ieRand :: string

type_synonym 'a inst = "(instState, 'a) prog"

definition perform :: "instEnv \<Rightarrow> effect \<Rightarrow> unit inst" where
  "perform env e st =
     (case ieOutcome env (isTrace st) e of
        Some err \<Rightarrow> (Inl err, st\<lparr>isTrace := isTrace st @ [(e, False)]\<rparr>)
      | None \<Rightarrow> (Inr (), st\<lparr>isTrace := isTrace st @ [(e, True)]\<rparr>))"

text \<open>An action whose failure nobody looks at.\<close>

definition emit :: "effect \<Rightarrow> unit inst" where
  "emit e = modS (\<lambda>st. st\<lparr>isTrace := isTrace st @ [(e, True)]\<rparr>)"

definition modCfg :: "(HarvesterConfig \<Rightarrow> HarvesterConfig) \<Rightarrow> unit inst" where
  "modCfg f = modS (\<lambda>st. st\<lparr>isCfg := f (isCfg st)\<rparr>)"

definition onCos :: "'a cos \<Rightarrow> 'a inst" where
  "onCos m st = (case m (isCfg st, isNM st) of (r, (c, nm)) \<Rightarrow> (r, st\<lparr>isCfg := c, isNM := nm\<rparr>))"

definition saveTemp :: "instEnv \<Rightarrow> effect \<Rightarrow> string \<Rightarrow> string inst" where
  "saveTemp env e prefix =
     bindS (getS (\<lambda>st. length (isTrace st))) (\<lambda>n. seqS (perform env e) (retS (ieTempPath env prefix n)))"

section \<open>Settings and labels\<close>

text \<open>\<^verbatim>\<open>json.Marshal\<close> of a string (ASCII): quotes, backslashes, control characters and the three HTML characters are escaped.\<close>

definition hex4 :: "nat \<Rightarrow> string" where
  "hex4 n = hexByte (n div 256) @ hexByte (n mod 256)"

definition jsonChar :: "char \<Rightarrow> string" where
  "jsonChar c =
     (let n = of_char c :: nat in
      if c = CHR 0x22 \<or> c = CHR 0x5C then [CHR 0x5C, c]
      else if n = 8 then [CHR 0x5C, CHR ''b''] else if n = 12 then [CHR 0x5C, CHR ''f'']
      else if n = 10 then [CHR 0x5C, CHR ''n''] else if n = 13 then [CHR 0x5C, CHR ''r'']
      else if n = 9 then [CHR 0x5C, CHR ''t'']
      else if n < 32 \<or> c \<in> {CHR ''<'', CHR ''>'', CHR ''&''} then [CHR 0x5C, CHR ''u''] @ hex4 n
      else [c])"

definition jsonString :: "string \<Rightarrow> string" where
  "jsonString s = [CHR 0x22] @ concat (map jsonChar s) @ [CHR 0x22]"

definition ntpSettingsJSON :: "string list \<Rightarrow> string" where
  "ntpSettingsJSON servers =
     (if servers = [] then ''{}''
      else ''{'' @ jsonString ''ntpServers'' @ '':['' @ strJoin '','' (map jsonString servers) @ '']}'')"

definition updateSystemSettings :: "HarvesterConfig \<Rightarrow> HarvesterConfig" where
  "updateSystemSettings harvConfig =
     (if length (osNTPServers (hOS harvConfig)) = 0 then harvConfig
      else harvConfig\<lparr>hSystemSettings :=
             mapPut ''ntp-servers'' (ntpSettingsJSON (osNTPServers (hOS harvConfig))) (hSystemSettings harvConfig)\<rparr>)"

abbreviation "HarvesterNodeRoleLabelPrefix \<equiv> ''node-role.harvesterhci.io/''"

definition setLabel :: "string \<Rightarrow> HarvesterConfig \<Rightarrow> HarvesterConfig" where
  "setLabel key c = c\<lparr>hOS := (hOS c)\<lparr>osLabels := mapPut key ''true'' (osLabels (hOS c))\<rparr>\<rparr>"

definition roleSetup :: "unit inst" where
  "roleSetup =
     bindS (getS (\<lambda>st. inRole (hInstall (isCfg st)))) (\<lambda>role.
       if role = [] then retS ()
       else if role = RoleMgmt then modCfg (setLabel (HarvesterNodeRoleLabelPrefix @ ''management''))
       else if role = RoleWorker then modCfg (setLabel (HarvesterNodeRoleLabelPrefix @ ''worker''))
       else if role = RoleWitness then modCfg (setLabel (HarvesterNodeRoleLabelPrefix @ ''witness''))
       else if role = RoleDefault then retS ()
       else failS (Msg (''unknown role '' @ role @ '', please correct it'')))"

section \<open>The install script\<close>

definition setConfigURL :: "string \<Rightarrow> HarvesterConfig \<Rightarrow> HarvesterConfig" where
  "setConfigURL url c = c\<lparr>hInstall := (hInstall c)\<lparr>inConfigURL := url\<rparr>\<rparr>"

text \<open>A pointer that may be nil is an option; a failing \<^verbatim>\<open>ToCosInstallEnv\<close> gives nil without an error.\<close>

definition generateEnvAndConfig :: "instEnv \<Rightarrow> (string list \<times> ElementalInstallSpec option) inst" where
  "generateEnvAndConfig env st0 =
     (case onCos (ConvertToCOS (ieCos env)) st0 of
        (Inl err, st1) \<Rightarrow> seqS (emit (Print (errText err))) (failS err) st1
      | (Inr cosConfig, st1) \<Rightarrow>
          bindS (saveTemp env (SaveCos cosConfig) ''cos'') (\<lambda>cosConfigFile.
          bindS (getS isCfg) (\<lambda>cfg.
          bindS (saveTemp env (SaveHvst cfg) ''harvester'') (\<lambda>hvstConfigFile.
          seqS (modCfg (setConfigURL cosConfigFile))
          (bindS (getS isCfg) (\<lambda>cfg1.
           bindS (liftS (ConvertToElementalConfig (ieEvalSymlinks env) cfg1)) (\<lambda>elementalConfig.
             case ieToEnv env (hInstall cfg1) of
               Inl err \<Rightarrow> retS ([], None)
             | Inr ev \<Rightarrow>
                 retS (ieEnviron env @ ev @ [''HARVESTER_CONFIG='' @ hvstConfigFile,
                         ''HARVESTER_INSTALLATION_LOG=/var/log/console.log'',
                         ''HARVESTER_STREAMDISK_CLOUDINIT_URL='' @ inConfigURL (hInstall cfg)],
                       Some elementalConfig)))))) ) st1)"

definition executeWipeDisks :: "instEnv \<Rightarrow> string \<Rightarrow> unit inst" where
  "executeWipeDisks env name =
     seqS (perform env (Run [''/usr/sbin/sgdisk'', ''-Z'', name] []))
       (perform env (Run [''/usr/sbin/partprobe'', ''-s'', name] []))"

definition wrapErr :: "string \<Rightarrow> unit inst \<Rightarrow> unit inst" where
  "wrapErr msg m st = (case m st of (Inl err, st') \<Rightarrow> (Inl (Wrap msg err), st') | (Inr u, st') \<Rightarrow> (Inr u, st'))"

definition streamImageToDisk :: "instEnv \<Rightarrow> string list \<Rightarrow> HarvesterConfig \<Rightarrow> unit inst" where
  "streamImageToDisk env envv cfg =
     seqS (emit (Print (''streaming disk image '' @ inRawDiskImagePath (hInstall cfg) @ '' to device '' @ inDevice (hInstall cfg))))
       (\<lambda>st. case perform env (Run [''/usr/sbin/stream-disk''] envv) st of
               (Inl err, st1) \<Rightarrow> seqS (emit (Print (''stream to disk failed '' @ errText err))) (failS err) st1
             | (Inr u, st1) \<Rightarrow> perform env (Run [''/usr/sbin/cos-installer-shutdown''] envv) st1)"

text \<open>The two layouts on a pointer that may be nil.\<close>

definition layoutStep :: "instEnv \<Rightarrow> ElementalInstallSpec option \<Rightarrow> HarvesterConfig \<Rightarrow> ElementalInstallSpec result" where
  "layoutStep env elementalConfig cfg =
     (if ShouldCreateDataPartitionOnOsDisk cfg
      then (case elementalConfig of
              Some e \<Rightarrow> CreateRootPartitioningLayoutSharedDataDisk (ieLsblk env) e cfg
            | None \<Rightarrow> bindR (CreateRootPartitioningLayoutSharedDataDisk (ieLsblk env) NewElementalConfig cfg)
                        (\<lambda>e. Inl (Panic ''nil pointer dereference'')))
      else (case elementalConfig of
              Some e \<Rightarrow> Inr (CreateRootPartitioningLayoutSeparateDataDisk e)
            | None \<Rightarrow> Inl (Panic ''nil pointer dereference'')))"

definition diskAndKernelEnv :: "HarvesterConfig \<Rightarrow> string list" where
  "diskAndKernelEnv cfg =
     (if inDataDisk (hInstall cfg) \<noteq> [] then [''HARVESTER_DATA_DISK='' @ inDataDisk (hInstall cfg)] else []) @
     (if \<not> esEnabled (osExternalStorage (hOS cfg)) then [''HARVESTER_ADDITIONAL_KERNEL_ARGUMENTS=multipath=off''] else []) @
     (if osAdditionalKernelArguments (hOS cfg) \<noteq> []
      then [''HARVESTER_ADDITIONAL_KERNEL_ARGUMENTS='' @ osAdditionalKernelArguments (hOS cfg)] else [])"

definition addWipeDisks :: "DiskOptionsCache \<Rightarrow> HarvesterConfig \<Rightarrow> HarvesterConfig" where
  "addWipeDisks cache cfg =
     (if inWipeAllDisks (hInstall cfg)
      then cfg\<lparr>hInstall := (hInstall cfg)\<lparr>inWipeDisksList :=
             inWipeDisksList (hInstall cfg) @ map opValue (getWipeDisksOptions cache cfg)\<rparr>\<rparr>
      else cfg)"

abbreviation "ElementalConfigDir \<equiv> ''/tmp/elemental''"
abbreviation "elementalConfigFile \<equiv> ''/tmp/elemental/config.yaml''"

definition installFailureMessage :: "string \<Rightarrow> string" where
  "installFailureMessage log = nl @ unlinesNL [''** Installation Failed **'', ''You can see the full installation log by:'',
     ''  - Press CTRL + ALT + F2 to switch to a different TTY console.'',
     ''  - Login with user '' @ [CHR 0x22] @ ''rancher'' @ [CHR 0x22] @ '' (password is '' @ [CHR 0x22] @ ''rancher'' @ [CHR 0x22] @ '').'',
     ''  - Run the command: sudo less '' @ log @ ''.'']"

definition reportFailure :: "instEnv \<Rightarrow> HarvesterConfig \<Rightarrow> goerror \<Rightarrow> unit inst" where
  "reportFailure env cfg err =
     seqS (emit (Hook EventInstallFailed))
    (seqS (emit (Print (installFailureMessage ''/var/log/console.log'')))
    (seqS (if inDebug (hInstall cfg)
           then seqS (emit (Print ''support config is being generated as running in debug mode, this can take a few minutes...''))
               (\<lambda>st. let suffix = ''harvester_'' @ ieRand env in
                  (case perform env (Run [''/sbin/supportconfig'', ''-Q'', ''-B'', suffix] []) st of
                     (Inl scErr, st1) \<Rightarrow> seqS (emit (Print (''support config collection failed '' @ errText err)))
                        (emit (Print (''support config is available at /var/log/scc_'' @ suffix @ ''.txz''))) st1
                   | (Inr u, st1) \<Rightarrow> emit (Print (''support config is available at /var/log/scc_'' @ suffix @ ''.txz'')) st1))
           else retS ())
      (failS err)))"

text \<open>The part of \<^verbatim>\<open>doInstall\<close> after the elemental configuration is saved.\<close>

definition runInstaller :: "instEnv \<Rightarrow> string list \<Rightarrow> unit inst" where
  "runInstaller env envv =
     seqS (if ieInstallModeOnly env
           then (\<lambda>st. case perform env (Run [''/usr/sbin/harv-dummy-iface''] []) st of
                   (Inl err, st1) \<Rightarrow> seqS (emit (Print (''error applying a fake default route during installOnlyMode: '' @ errText err)))
                                       (failS err) st1
                 | (Inr u, st1) \<Rightarrow> (Inr (), st1))
           else retS ())
    (\<lambda>st. case perform env (Run [''/usr/sbin/harv-install''] envv) st of
        (Inl err, st1) \<Rightarrow> reportFailure env (isCfg st1) err st1
      | (Inr u, st1) \<Rightarrow>
          seqS (emit (Hook EventInstallSuceeded))
         (seqS (perform env BindCtrlC)
          (\<lambda>st2. case perform env (Run [''/usr/sbin/cos-installer-shutdown''] envv) st2 of
             (Inl err, st3) \<Rightarrow> seqS (emit (Hook EventInstallFailed)) (failS err) st3
           | (Inr u, st3) \<Rightarrow> (Inr (), st3))) st1)"

definition wipeAndInstall :: "instEnv \<Rightarrow> string list \<Rightarrow> ElementalInstallSpec \<Rightarrow> unit inst" where
  "wipeAndInstall env envv elementalConfig =
     bindS (getS isCfg) (\<lambda>cfg.
     let env1 = envv @ diskAndKernelEnv cfg in
     bindS (getS isCache) (\<lambda>cache.
     seqS (modCfg (addWipeDisks cache))
    (bindS (getS (\<lambda>st. inWipeDisksList (hInstall (isCfg st)))) (\<lambda>wipeDisks.
     seqS (forS (\<lambda>disk. wrapErr (''error wiping disk '' @ disk) (executeWipeDisks env disk)) wipeDisks)
     (\<lambda>st. case perform env (SaveElemental elementalConfig) st of
        (Inl err, st1) \<Rightarrow> (Inr (), st1)
      | (Inr u, st1) \<Rightarrow>
          runInstaller env (env1 @ [''ELEMENTAL_CONFIG='' @ elementalConfigFile, ''ELEMENTAL_CONFIG_DIR='' @ ElementalConfigDir]) st1)))))"

definition doInstall :: "instEnv \<Rightarrow> unit inst" where
  "doInstall env =
     seqS (emit (Hook EventInstallStarted))
    (seqS (modCfg updateSystemSettings)
    (seqS roleSetup
    (bindS (generateEnvAndConfig env) (\<lambda>(envv, elementalConfig).
     bindS (getS isCfg) (\<lambda>cfg.
       if inAutomatic (hInstall cfg) \<and> inMode (hInstall cfg) = ModeInstall \<and> inRawDiskImagePath (hInstall cfg) \<noteq> []
       then streamImageToDisk env envv cfg
       else bindS (liftS (layoutStep env elementalConfig cfg)) (wipeAndInstall env envv))))))"

section \<open>Configuring an installed node\<close>

definition generateTempConfigFiles :: "instEnv \<Rightarrow> (YipConfig \<times> string \<times> string) inst" where
  "generateTempConfigFiles env =
     bindS (onCos (ConvertToCOS (ieCos env))) (\<lambda>cosConfig.
     bindS (saveTemp env (SaveCos cosConfig) ''cos'') (\<lambda>cosConfigFile.
     bindS (getS isCfg) (\<lambda>cfg.
     bindS (saveTemp env (SaveHvst cfg) ''harvester'') (\<lambda>hvstConfigFile.
       retS (cosConfig, cosConfigFile, hvstConfigFile)))))"

definition appendStages :: "string \<Rightarrow> Stage list \<Rightarrow> YipConfig \<Rightarrow> YipConfig" where
  "appendStages name sts yc =
     yc\<lparr>ycStages := mapPut name ((case mapGet (ycStages yc) name of None \<Rightarrow> [] | Some xs \<Rightarrow> xs) @ sts) (ycStages yc)\<rparr>"

definition apply_yip :: "instEnv \<Rightarrow> string \<Rightarrow> string \<Rightarrow> unit inst" where
  "apply_yip env configFile stage = perform env (Run [''/usr/bin/yip'', ''-s'', stage, configFile] (ieEnviron env))"

definition applyRancherdConfig :: "instEnv \<Rightarrow> YipConfig \<Rightarrow> unit inst" where
  "applyRancherdConfig env cosConfig =
     bindS (onCos (GenerateRancherdConfig (ieCos env))) (\<lambda>conf.
     let live = (case mapGet (ycStages conf) ''live'' of None \<Rightarrow> [] | Some xs \<Rightarrow> xs);
         cosConfig1 = appendStages ''initramfs'' live cosConfig in
     bindS (saveTemp env (SaveCos cosConfig1) ''cos'') (\<lambda>cosConfigFile.
     bindS (getS isCfg) (\<lambda>cfg.
     bindS (saveTemp env (SaveHvst cfg) ''hvst'') (\<lambda>hvstConfigFile.
     let copyFiles = emptyStage\<lparr>stName := ''copy files'', stCommands :=
           [''cp '' @ cosConfigFile @ '' /oem/99_custom.yaml'', ''cp '' @ hvstConfigFile @ '' /oem/harvester.config'']\<rparr> in
     bindS (saveTemp env (SaveCos (appendStages ''finalise'' [copyFiles] conf)) ''live'') (\<lambda>liveCosConfig.
     seqS (apply_yip env liveCosConfig ''live'') (apply_yip env liveCosConfig ''finalise''))))))"

definition configureInstalledNode :: "instEnv \<Rightarrow> unit inst" where
  "configureInstalledNode env =
     seqS (emit (Hook EventInstallStarted))
    (seqS roleSetup
    (\<lambda>st. case generateTempConfigFiles env st of
        (Inl err, st1) \<Rightarrow> seqS (emit (Print (errText err))) (failS err) st1
      | (Inr (cosConfig, cosConfigFile, hvstConfigFile), st1) \<Rightarrow>
          (case (\<lambda>st2. case applyRancherdConfig env cosConfig st2 of
                   (Inl err, st3) \<Rightarrow> seqS (emit (Print (''error applying rancherd config :'' @ errText err))) (failS err) st3
                 | (Inr u, st3) \<Rightarrow>
                     (case perform env (Run [''/usr/sbin/harv-restart-services''] []) st3 of
                        (Inl err, st4) \<Rightarrow> emit (Print (''error restarting core services: '' @ errText err)) st4
                      | (Inr u, st4) \<Rightarrow> (Inr (), st4))) st1 of
             (r, st5) \<Rightarrow> (r, snd (seqS (emit (RemoveTemp hvstConfigFile)) (emit (RemoveTemp cosConfigFile)) st5)))))"

section \<open>Retrying\<close>

text \<open>
  \<^verbatim>\<open>retryOnError\<close>; the number of retries is a natural number, as in both calls (3 and 30). The pause
  between two attempts is not modelled.
\<close>

fun retryOnError :: "nat \<Rightarrow> ('s, unit) prog \<Rightarrow> ('s, unit) prog" where
  "retryOnError retryNum process s =
     (case process s of
        (Inl err, s') \<Rightarrow> (case retryNum of 0 \<Rightarrow> (Inl err, s') | Suc n \<Rightarrow> retryOnError n process s')
      | (Inr u, s') \<Rightarrow> (Inr (), s'))"

declare retryOnError.simps [simp del]

section \<open>Output of commands\<close>

definition dropCR :: "string \<Rightarrow> string" where
  "dropCR data = (if 0 < length data \<and> last data = CHR 0x0D then butlast data else data)"

text \<open>\<^verbatim>\<open>bytes.IndexByte\<close>.\<close>

fun indexByte :: "char \<Rightarrow> string \<Rightarrow> nat option" where
  "indexByte c [] = None"
| "indexByte c (x # xs) = (if x = c then Some 0 else map_option Suc (indexByte c xs))"

definition ScanLines :: "string \<Rightarrow> bool \<Rightarrow> nat \<times> string option" where
  "ScanLines data atEOF =
     (if atEOF \<and> length data = 0 then (0, None)
      else (case indexByte (CHR 0x0D) data of
              Some i \<Rightarrow> (i + 1, Some (dropCR (take i data)))
            | None \<Rightarrow>
                (case indexByte (CHR 0x0A) data of
                   Some i \<Rightarrow> (i + 1, Some (dropCR (take i data)))
                 | None \<Rightarrow> if atEOF then (length data, Some (dropCR data)) else (0, None))))"

section \<open>What a successful installation means\<close>

definition hasRun :: "string \<Rightarrow> instState \<Rightarrow> bool" where
  "hasRun prog st \<longleftrightarrow> (\<exists>envv. (Run [prog] envv, True) \<in> set (isTrace st))"

lemma perform_cases:
  obtains err where "perform env e st = (Inl err, st\<lparr>isTrace := isTrace st @ [(e, False)]\<rparr>)"
  | "perform env e st = (Inr (), st\<lparr>isTrace := isTrace st @ [(e, True)]\<rparr>)"
  by (cases "ieOutcome env (isTrace st) e") (auto simp: perform_def)

lemma perform_Inr: "perform env e st = (Inr (), st') \<longleftrightarrow>
    ieOutcome env (isTrace st) e = None \<and> st' = st\<lparr>isTrace := isTrace st @ [(e, True)]\<rparr>"
  by (auto simp: perform_def split: option.splits)

lemma perform_Inl: "perform env e st = (Inl err, st') \<longleftrightarrow>
    ieOutcome env (isTrace st) e = Some err \<and> st' = st\<lparr>isTrace := isTrace st @ [(e, False)]\<rparr>"
  by (auto simp: perform_def split: option.splits)

lemma emit_run [simp]: "emit e st = (Inr (), st\<lparr>isTrace := isTrace st @ [(e, True)]\<rparr>)"
  by (simp add: emit_def)

lemmas perform_simps = perform_Inr perform_Inl

lemma seqS_Inl: "seqS m n s = (r, t) \<longleftrightarrow>
    (\<exists>e. m s = (Inl e, t) \<and> r = Inl e) \<or> (\<exists>s'. m s = (Inr (), s') \<and> n s' = (r, t))"
  by (auto simp: bindS_run split: prod.splits sum.splits)

lemma reportFailure_err: "fst (reportFailure env cfg err st) = Inl err"
  by (auto simp: reportFailure_def bindS_run Let_def split: prod.splits sum.splits)

lemma runInstaller_ok:
  assumes "runInstaller env envv st = (Inr (), st')"
  shows "hasRun ''/usr/sbin/harv-install'' st' \<and> hasRun ''/usr/sbin/cos-installer-shutdown'' st'"
proof -
  obtain st1 where step: "(case perform env (Run [''/usr/sbin/harv-install''] envv) st1 of
        (Inl err, st1) \<Rightarrow> reportFailure env (isCfg st1) err st1
      | (Inr u, st1) \<Rightarrow> seqS (emit (Hook EventInstallSuceeded)) (seqS (perform env BindCtrlC)
          (\<lambda>st2. case perform env (Run [''/usr/sbin/cos-installer-shutdown''] envv) st2 of
             (Inl err, st3) \<Rightarrow> seqS (emit (Hook EventInstallFailed)) (failS err) st3
           | (Inr u, st3) \<Rightarrow> (Inr (), st3))) st1) = (Inr (), st')"
    using assms unfolding runInstaller_def seqS_Inr by blast
  show ?thesis
  proof (cases rule: perform_cases [of env "Run [''/usr/sbin/harv-install''] envv" st1])
    case (1 err)
    then show ?thesis using step reportFailure_err by (auto dest!: arg_cong [where f = fst])
  next
    case 2
    then show ?thesis
      using step by (fastforce simp: seqS_Inr perform_simps hasRun_def bindS_run split: sum.splits prod.splits)
  qed
qed

lemma streamImageToDisk_ok:
  assumes "streamImageToDisk env envv cfg st = (Inr (), st')"
  shows "hasRun ''/usr/sbin/stream-disk'' st' \<and> hasRun ''/usr/sbin/cos-installer-shutdown'' st'"
  using assms unfolding streamImageToDisk_def
  by (auto simp: seqS_Inr perform_simps hasRun_def bindS_run split: sum.splits prod.splits)

lemma wipeAndInstall_ok:
  assumes "wipeAndInstall env envv e st = (Inr (), st')"
  shows "hasRun ''/usr/sbin/harv-install'' st' \<and> hasRun ''/usr/sbin/cos-installer-shutdown'' st' \<or>
    (SaveElemental e, False) \<in> set (isTrace st')"
proof -
  obtain st1 envv' where "(case perform env (SaveElemental e) st1 of (Inl err, st1) \<Rightarrow> (Inr (), st1)
      | (Inr u, st1) \<Rightarrow> runInstaller env envv' st1) = (Inr (), st')"
    using assms unfolding wipeAndInstall_def Let_def bindS_Inr seqS_Inr by blast
  note run = this
  show ?thesis
  proof (cases rule: perform_cases [of env "SaveElemental e" st1])
    case (1 err)
    then show ?thesis using run by auto
  next
    case 2
    then show ?thesis using run runInstaller_ok by auto
  qed
qed

text \<open>C8: When the installation reports success, the system was installed and the machine shut down: either the
  install script and then the shutdown script succeeded, or a raw image was streamed to the disk. The
  one other way to success is a failure to save the configuration of elemental, which is not reported.\<close>

theorem install_success_means:
  assumes "doInstall env st = (Inr (), st')"
  shows "(hasRun ''/usr/sbin/harv-install'' st' \<and> hasRun ''/usr/sbin/cos-installer-shutdown'' st') \<or>
    (hasRun ''/usr/sbin/stream-disk'' st' \<and> hasRun ''/usr/sbin/cos-installer-shutdown'' st') \<or>
    (\<exists>e. (SaveElemental e, False) \<in> set (isTrace st'))"
  using assms unfolding doInstall_def seqS_Inr bindS_Inr
  by (auto simp: bindS_Inr split: if_splits dest!: streamImageToDisk_ok wipeAndInstall_ok)

section \<open>What the conversions keep of the configuration\<close>

definition sameConfig :: "HarvesterConfig \<Rightarrow> HarvesterConfig \<Rightarrow> bool" where
  "sameConfig c0 c \<longleftrightarrow>
     (hInstall c)\<lparr>inHarvester := inHarvester emptyInstall, inConfigURL := []\<rparr> =
       (hInstall c0)\<lparr>inHarvester := inHarvester emptyInstall, inConfigURL := []\<rparr> \<and>
     (hOS c)\<lparr>osAfterInstallChrootCommands := [], osLabels := []\<rparr> = (hOS c0)\<lparr>osAfterInstallChrootCommands := [], osLabels := []\<rparr>"

lemma sameConfig_refl [simp]: "sameConfig c c"
  by (simp add: sameConfig_def)

lemma sameConfig_fields:
  assumes "sameConfig c0 c"
  shows "inDevice (hInstall c) = inDevice (hInstall c0)" "inDataDisk (hInstall c) = inDataDisk (hInstall c0)"
    "inWipeDisksList (hInstall c) = inWipeDisksList (hInstall c0)" "inMode (hInstall c) = inMode (hInstall c0)"
    "inRole (hInstall c) = inRole (hInstall c0)" "inForceMBR (hInstall c) = inForceMBR (hInstall c0)"
    "inWipeAllDisks (hInstall c) = inWipeAllDisks (hInstall c0)" "osExternalStorage (hOS c) = osExternalStorage (hOS c0)"
    "osAdditionalKernelArguments (hOS c) = osAdditionalKernelArguments (hOS c0)"
  using arg_cong [where f = inDevice, OF conjunct1 [OF assms [unfolded sameConfig_def]]]
    arg_cong [where f = inDataDisk, OF conjunct1 [OF assms [unfolded sameConfig_def]]]
    arg_cong [where f = inWipeDisksList, OF conjunct1 [OF assms [unfolded sameConfig_def]]]
    arg_cong [where f = inMode, OF conjunct1 [OF assms [unfolded sameConfig_def]]]
    arg_cong [where f = inRole, OF conjunct1 [OF assms [unfolded sameConfig_def]]]
    arg_cong [where f = inForceMBR, OF conjunct1 [OF assms [unfolded sameConfig_def]]]
    arg_cong [where f = inWipeAllDisks, OF conjunct1 [OF assms [unfolded sameConfig_def]]]
    arg_cong [where f = osExternalStorage, OF conjunct2 [OF assms [unfolded sameConfig_def]]]
    arg_cong [where f = osAdditionalKernelArguments, OF conjunct2 [OF assms [unfolded sameConfig_def]]]
  by simp_all

lemma sameConfig_steps [intro]:
  "sameConfig c0 c \<Longrightarrow> sameConfig c0 (setConfigDefaultValues v c)"
  "sameConfig c0 c \<Longrightarrow> sameConfig c0 (overwriteSSHDComponent c)"
  "sameConfig c0 c \<Longrightarrow> sameConfig c0 (setConfigURL u c)"
  "sameConfig c0 c \<Longrightarrow> sameConfig c0 (updateSystemSettings c)"
  "sameConfig c0 c \<Longrightarrow> sameConfig c0 (setLabel k c)"
  by (simp_all add: sameConfig_def setConfigDefaultValues_def Let_def overwriteSSHDComponent_def setConfigURL_def
      updateSystemSettings_def setLabel_def)

lemma keeps_onProfiles: "keeps (\<lambda>s. P (fst s)) (onProfiles m)"
  by (simp add: keeps_def onProfiles_def split: prod.splits)

lemma keeps_case_prod: "(\<And>a b. keeps I (k a b)) \<Longrightarrow> keeps I (case x of (a, b) \<Rightarrow> k a b)"
  by (cases x) simp

lemma keeps_initRancherdStage: "keeps (\<lambda>s. sameConfig c0 (fst s)) (initRancherdStage env stage)"
  unfolding initRancherdStage_def by (intro keeps_intros) auto

lemma keeps_ConvertToCOS: "keeps (\<lambda>s. sameConfig c0 (fst s)) (ConvertToCOS env)"
  unfolding ConvertToCOS_def clusterStages_def Let_def
  by (intro keeps_intros keeps_case_prod keeps_initRancherdStage keeps_onProfiles) auto

lemma keeps_GenerateRancherdConfig: "keeps (\<lambda>s. sameConfig c0 (fst s)) (GenerateRancherdConfig env)"
  unfolding GenerateRancherdConfig_def by (intro keeps_intros keeps_initRancherdStage keeps_onProfiles)

section \<open>Wiping\<close>

text \<open>The disks that were zapped.\<close>

fun wipedDisk :: "effect \<times> bool \<Rightarrow> string list" where
  "wipedDisk (Run argv envv, ok) =
     (case argv of [p, z, d] \<Rightarrow> if p = ''/usr/sbin/sgdisk'' then [d] else [] | _ \<Rightarrow> [])"
| "wipedDisk e = []"

definition wipedDisks :: "instState \<Rightarrow> string list" where
  "wipedDisks st = concat (map wipedDisk (isTrace st))"

definition wipeInv :: "HarvesterConfig \<Rightarrow> DiskOptionsCache \<Rightarrow> string set \<Rightarrow> instState \<Rightarrow> bool" where
  "wipeInv c0 cache W st \<longleftrightarrow> sameConfig c0 (isCfg st) \<and> isCache st = cache \<and> set (wipedDisks st) \<subseteq> W"

lemma wipedDisks_append [simp]:
  "wipedDisks (st\<lparr>isTrace := isTrace st @ [e]\<rparr>) = wipedDisks st @ wipedDisk e"
  by (simp add: wipedDisks_def)

lemma keeps_perform:
  "set (wipedDisk (e, True)) \<subseteq> W \<Longrightarrow> set (wipedDisk (e, False)) \<subseteq> W \<Longrightarrow> keeps (wipeInv c0 cache W) (perform env e)"
  by (auto simp: keeps_def wipeInv_def perform_def split: option.splits)

lemma keeps_emit: "wipedDisk (e, True) = [] \<Longrightarrow> keeps (wipeInv c0 cache W) (emit e)"
  by (auto simp: keeps_def wipeInv_def)

lemma keeps_catch:
  "keeps I m \<Longrightarrow> (\<And>e. keeps I (f e)) \<Longrightarrow> (\<And>u. keeps I (g u)) \<Longrightarrow>
   keeps I (\<lambda>st. case m st of (Inl e, st') \<Rightarrow> f e st' | (Inr u, st') \<Rightarrow> g u st')"
  by (auto simp: keeps_def split: prod.splits sum.splits)

lemma keeps_modCfg: "(\<And>c. sameConfig c0 c \<Longrightarrow> sameConfig c0 (f c)) \<Longrightarrow> keeps (wipeInv c0 cache W) (modCfg f)"
  unfolding modCfg_def by (intro keeps_intros) (auto simp: wipeInv_def wipedDisks_def)

lemma keeps_onCos:
  "keeps (\<lambda>s. sameConfig c0 (fst s)) m \<Longrightarrow> keeps (wipeInv c0 cache W) (onCos m)"
  unfolding keeps_def onCos_def wipeInv_def
  by (auto simp: wipedDisks_def split: prod.splits) (metis fst_conv snd_conv)+

lemmas keeps_wipe = keeps_intros keeps_emit keeps_modCfg keeps_onCos keeps_catch

lemma keeps_saveTemp: "wipedDisk (e, True) = [] \<Longrightarrow> wipedDisk (e, False) = [] \<Longrightarrow>
    keeps (wipeInv c0 cache W) (saveTemp env e prefix)"
  unfolding saveTemp_def by (intro keeps_intros keeps_perform) auto

lemma keeps_roleSetup: "keeps (wipeInv c0 cache W) roleSetup"
  unfolding roleSetup_def by (intro keeps_wipe) auto

lemma keeps_generateEnvAndConfig: "keeps (wipeInv c0 cache W) (generateEnvAndConfig env)"
proof -
  have tail: "keeps (wipeInv c0 cache W) (case r of Inl err \<Rightarrow> retS x | Inr ev \<Rightarrow> retS (y ev))"
    for r :: "string list result" and x :: "string list \<times> ElementalInstallSpec option" and y
    by (cases r) (auto intro: keeps_intros)
  show ?thesis
    unfolding generateEnvAndConfig_def
    by (intro keeps_catch keeps_onCos keeps_ConvertToCOS keeps_intros keeps_emit keeps_saveTemp keeps_modCfg tail
        sameConfig_steps) simp_all
qed

lemma keeps_reportFailure: "keeps (wipeInv c0 cache W) (reportFailure env cfg err)"
  unfolding reportFailure_def Let_def
  by (intro keeps_intros keeps_emit keeps_catch keeps_perform) auto

lemma keeps_runInstaller: "keeps (wipeInv c0 cache W) (runInstaller env envv)"
proof -
  have report: "keeps (wipeInv c0 cache W) (\<lambda>st. reportFailure env (isCfg st) err st)" for err
    using keeps_reportFailure unfolding keeps_def by blast
  show ?thesis
    unfolding runInstaller_def
    by (intro keeps_intros keeps_emit keeps_catch keeps_perform report) (auto simp: keeps_def)
qed

lemma keeps_streamImageToDisk: "keeps (wipeInv c0 cache W) (streamImageToDisk env envv cfg)"
  unfolding streamImageToDisk_def by (intro keeps_intros keeps_emit keeps_catch keeps_perform) auto

lemma keeps_wipes:
  assumes "set disks \<subseteq> W"
  shows "keeps (wipeInv c0 cache W)
    (forS (\<lambda>disk. wrapErr (''error wiping disk '' @ disk) (executeWipeDisks env disk)) disks)"
proof (rule keeps_forS)
  fix disk
  assume "disk \<in> set disks"
  then have "keeps (wipeInv c0 cache W) (executeWipeDisks env disk)"
    using assms unfolding executeWipeDisks_def by (intro keeps_intros keeps_perform) auto
  then show "keeps (wipeInv c0 cache W) (wrapErr (''error wiping disk '' @ disk) (executeWipeDisks env disk))"
    unfolding wrapErr_def by (auto simp: keeps_def split: prod.splits sum.splits)
qed

definition wipeTargets :: "HarvesterConfig \<Rightarrow> DiskOptionsCache \<Rightarrow> string set" where
  "wipeTargets c cache = set (inWipeDisksList (hInstall c)) \<union>
     (opValue ` set (doHvstInstalledDiskOptions cache) - {inDevice (hInstall c), inDataDisk (hInstall c)})"

lemma addWipeDisks_targets: "set (inWipeDisksList (hInstall (addWipeDisks cache c))) \<subseteq> wipeTargets c cache"
  by (auto simp: addWipeDisks_def getWipeDisksOptions_def wipeTargets_def)

lemma wipeAndInstall_targets:
  assumes "set (wipedDisks st) \<subseteq> wipeTargets (isCfg st) (isCache st)"
  shows "set (wipedDisks (snd (wipeAndInstall env envv e st))) \<subseteq> wipeTargets (isCfg st) (isCache st)"
proof -
  define W where "W = wipeTargets (isCfg st) (isCache st)"
  define c1 where "c1 = addWipeDisks (isCache st) (isCfg st)"
  define st1 where "st1 = st\<lparr>isCfg := c1\<rparr>"
  define envv' where "envv' = (envv @ diskAndKernelEnv (isCfg st)) @
    [''ELEMENTAL_CONFIG='' @ elementalConfigFile, ''ELEMENTAL_CONFIG_DIR='' @ ElementalConfigDir]"
  define rest where "rest = seqS (forS (\<lambda>disk. wrapErr (''error wiping disk '' @ disk) (executeWipeDisks env disk))
      (inWipeDisksList (hInstall c1)))
    (\<lambda>st. case perform env (SaveElemental e) st of (Inl err, st1) \<Rightarrow> (Inr (), st1)
      | (Inr u, st1) \<Rightarrow> runInstaller env envv' st1)"
  have run: "wipeAndInstall env envv e st = rest st1"
    unfolding wipeAndInstall_def rest_def st1_def c1_def envv'_def Let_def by (simp add: bindS_run modCfg_def)
  have inv: "wipeInv c1 (isCache st) W st1"
    using assms by (simp add: wipeInv_def st1_def W_def wipedDisks_def)
  have save: "keeps (wipeInv c1 (isCache st) W) (\<lambda>st. case perform env (SaveElemental e) st of
      (Inl err, st1) \<Rightarrow> (Inr (), st1) | (Inr u, st1) \<Rightarrow> runInstaller env envv' st1)"
    by (intro keeps_catch keeps_perform keeps_runInstaller) (auto simp: keeps_def)
  have "keeps (wipeInv c1 (isCache st) W) rest"
    unfolding rest_def
    by (intro keeps_seqS keeps_wipes save) (simp add: W_def c1_def addWipeDisks_targets)
  with inv show ?thesis unfolding run keeps_def W_def wipeInv_def by blast
qed

text \<open>The installation in two parts: the preparation, and what is done to the disks afterwards.\<close>

definition installStart :: "unit inst" where
  "installStart = seqS (emit (Hook EventInstallStarted)) (seqS (modCfg updateSystemSettings) roleSetup)"

definition installTail :: "instEnv \<Rightarrow> string list \<times> ElementalInstallSpec option \<Rightarrow> unit inst" where
  "installTail env = (\<lambda>(envv, elementalConfig). bindS (getS isCfg) (\<lambda>cfg.
     if inAutomatic (hInstall cfg) \<and> inMode (hInstall cfg) = ModeInstall \<and> inRawDiskImagePath (hInstall cfg) \<noteq> []
     then streamImageToDisk env envv cfg
     else bindS (liftS (layoutStep env elementalConfig cfg)) (wipeAndInstall env envv)))"

lemma doInstall_parts: "doInstall env = seqS installStart (bindS (generateEnvAndConfig env) (installTail env))"
  by (simp add: doInstall_def seqS_assoc installTail_def installStart_def)

lemma installStart_keeps: "keeps (wipeInv cfg cache {}) installStart"
  unfolding installStart_def by (intro keeps_seqS keeps_emit keeps_modCfg keeps_roleSetup sameConfig_steps) simp_all

lemma installTail_targets:
  assumes "wipeInv cfg cache {} s"
  shows "set (wipedDisks (snd (installTail env x s))) \<subseteq> wipeTargets cfg cache"
proof -
  have "wipeTargets (isCfg s) (isCache s) = wipeTargets cfg cache"
    using assms sameConfig_fields(1-3) by (auto simp: wipeInv_def wipeTargets_def)
  then have finish: "set (wipedDisks (snd (wipeAndInstall env envv e s))) \<subseteq> wipeTargets cfg cache" for envv e
    using assms wipeAndInstall_targets [of s env envv e] by (auto simp: wipeInv_def)
  have "wipeInv cfg cache {} (snd (streamImageToDisk env envv c s))" for envv c
    using keeps_streamImageToDisk assms unfolding keeps_def by blast
  then have "set (wipedDisks (snd (streamImageToDisk env envv c s))) \<subseteq> wipeTargets cfg cache" for envv c
    by (auto simp: wipeInv_def)
  moreover have "set (wipedDisks s) \<subseteq> wipeTargets cfg cache" using assms by (auto simp: wipeInv_def)
  ultimately show ?thesis
    using finish by (auto simp: installTail_def bindS_run split: prod.splits sum.splits)
qed


section \<open>Concrete runs\<close>

definition sampleInstEnv :: "(effect \<Rightarrow> goerror option) \<Rightarrow> instEnv" where
  "sampleInstEnv f = \<lparr>ieCos = sampleCosEnv, ieOutcome = (\<lambda>_ e. f e), ieTempPath = (\<lambda>p n. ''/tmp/'' @ p),
     ieEvalSymlinks = Inr, ieLsblk = (\<lambda>_. Inr (showNat (300 * 2 ^ 30))), ieToEnv = (\<lambda>_. Inr []), ieEnviron = [],
     ieInstallModeOnly = False, ieRand = ''abcde''\<rparr>"

definition sampleInstall :: instState where
  "sampleInstall = \<lparr>isCfg = sampleConfig\<lparr>hInstall := (hInstall sampleConfig)\<lparr>inDataDisk := ''/dev/sdb''\<rparr>\<rparr>,
     isNM = sampleProfiles, isCache = sampleCache, isTrace = []\<rparr>"

lemma sampleInstEnv_fields:
  "ieCos (sampleInstEnv f) = sampleCosEnv" "ieOutcome (sampleInstEnv f) t e = f e" "ieEvalSymlinks (sampleInstEnv f) = Inr"
  "ieToEnv (sampleInstEnv f) i = Inr []" "ieInstallModeOnly (sampleInstEnv f) = False" "ieRand (sampleInstEnv f) = ''abcde''"
  by (simp_all add: sampleInstEnv_def)

lemma sampleInstall_cfg:
  "wfConfig (isCfg sampleInstall)" "\<not> esEnabled (osExternalStorage (hOS (isCfg sampleInstall)))"
  "nwInterfaces (inManagementInterface (hInstall (isCfg sampleInstall))) \<noteq> []"
  "nwMethod (inManagementInterface (hInstall (isCfg sampleInstall))) \<in> {NetworkMethodDHCP, NetworkMethodStatic, NetworkMethodNone}"
  "inRole (hInstall (isCfg sampleInstall)) = []" "osNTPServers (hOS (isCfg sampleInstall)) = []"
  "inMode (hInstall (isCfg sampleInstall)) = ModeCreate" "inDataDisk (hInstall (isCfg sampleInstall)) = ''/dev/sdb''"
  "inWipeDisksList (hInstall (isCfg sampleInstall)) = []" "\<not> inWipeAllDisks (hInstall (isCfg sampleInstall))"
  using sampleConfig_fields
  by (simp_all add: sampleInstall_def wfConfig_def sampleConfig_def emptyInstall_def emptyOS_def)

text \<open>The run up to the wiping, when the temporary files can be written.\<close>

lemma sample_generate:
  assumes "\<And>yc. f (SaveCos yc) = None" "\<And>c. f (SaveHvst c) = None" "isCfg s = isCfg sampleInstall"
  shows "\<exists>envv e s1. generateEnvAndConfig (sampleInstEnv f) s = (Inr (envv, Some e), s1) \<and>
    sameConfig (isCfg sampleInstall) (isCfg s1) \<and>
    (\<exists>yc c. isTrace s1 = isTrace s @ [(SaveCos yc, True), (SaveHvst c, True)])"
proof -
  have s: "sameConfig (isCfg sampleInstall) (isCfg s)" using assms(3) by simp
  obtain yc c nm where conv: "ConvertToCOS sampleCosEnv (isCfg s, isNM s) = (Inr yc, (c, nm))"
    using sample_ConvertToCOS [of "isCfg s" "isNM s"] sampleInstall_cfg unfolding assms(3) by (metis surj_pair)
  have same: "sameConfig (isCfg sampleInstall) c"
    using keepsD [OF keeps_ConvertToCOS _ conv] s by simp
  have "sameConfig (isCfg sampleInstall) (setConfigURL u c)" for u using same by blast
  moreover obtain e where "ConvertToElementalConfig Inr
      (setConfigURL (ieTempPath (sampleInstEnv f) ''cos'' (length (isTrace s))) c) = Inr e"
    by (simp add: ConvertToElementalConfig_def Let_def)
  ultimately show ?thesis
    using conv assms(1,2)
    by (simp add: generateEnvAndConfig_def onCos_def sampleInstEnv_fields saveTemp_def bindS_run perform_def modCfg_def)
qed

lemma sample_doInstall:
  assumes "\<And>yc. f (SaveCos yc) = None" "\<And>c. f (SaveHvst c) = None"
  shows "\<exists>envv e s1. doInstall (sampleInstEnv f) sampleInstall = wipeAndInstall (sampleInstEnv f) envv e s1 \<and>
    sameConfig (isCfg sampleInstall) (isCfg s1) \<and> (\<forall>argv v b. (Run argv v, b) \<notin> set (isTrace s1))"
proof -
  let ?s = "sampleInstall\<lparr>isTrace := [(Hook EventInstallStarted, True)]\<rparr>"
  have upd: "updateSystemSettings (isCfg sampleInstall) = isCfg sampleInstall"
    using sampleInstall_cfg(6) by (simp add: updateSystemSettings_def)
  have tr: "isTrace sampleInstall = []" by (simp add: sampleInstall_def)
  obtain envv e s1 yc c where gen: "generateEnvAndConfig (sampleInstEnv f) ?s = (Inr (envv, Some e), s1)"
    "sameConfig (isCfg sampleInstall) (isCfg s1)" "isTrace s1 = isTrace ?s @ [(SaveCos yc, True), (SaveHvst c, True)]"
    using sample_generate [of f ?s, OF assms] by auto
  note fields = sameConfig_fields [OF gen(2)]
  have layout: "layoutStep (sampleInstEnv f) (Some e) (isCfg s1) = Inr (CreateRootPartitioningLayoutSeparateDataDisk e)"
    using fields sampleInstall_cfg by (simp add: layoutStep_def ShouldCreateDataPartitionOnOsDisk_def)
  have cfg: "sampleInstall\<lparr>isTrace := t, isCfg := isCfg sampleInstall\<rparr> = sampleInstall\<lparr>isTrace := t\<rparr>" for t
    by (cases sampleInstall) simp
  have "doInstall (sampleInstEnv f) sampleInstall =
      wipeAndInstall (sampleInstEnv f) envv (CreateRootPartitioningLayoutSeparateDataDisk e) s1"
    using gen(1) fields(4) sampleInstall_cfg(5,7) layout
    by (simp add: doInstall_def bindS_run modCfg_def roleSetup_def upd tr cfg)
  moreover have "\<forall>argv v b. (Run argv v, b) \<notin> set (isTrace s1)" using gen(3) by auto
  ultimately show ?thesis using gen(2) by blast
qed

lemma sample_wipe:
  assumes "sameConfig (isCfg sampleInstall) (isCfg s)"
  shows "\<exists>envv'. wipeAndInstall (sampleInstEnv f) envv e s =
    (case perform (sampleInstEnv f) (SaveElemental e) s of
       (Inl err, s1) \<Rightarrow> (Inr (), s1) | (Inr u, s1) \<Rightarrow> runInstaller (sampleInstEnv f) envv' s1)"
proof -
  note fields = sameConfig_fields [OF assms]
  have "addWipeDisks cache (isCfg s) = isCfg s" "inWipeDisksList (hInstall (isCfg s)) = []" for cache
    using fields sampleInstall_cfg by (simp_all add: addWipeDisks_def)
  moreover have "s\<lparr>isCfg := isCfg s\<rparr> = s" by (cases s) simp
  ultimately show ?thesis
    by (auto simp: wipeAndInstall_def bindS_run Let_def modCfg_def)
qed

theorem install_success_means_witness:
  "\<exists>st'. doInstall (sampleInstEnv (\<lambda>_. None)) sampleInstall = (Inr (), st') \<and>
     (hasRun ''/usr/sbin/cos-installer-shutdown'' st' \<or> (\<exists>e. (SaveElemental e, False) \<in> set (isTrace st')))"
proof -
  obtain envv e s1 where run: "doInstall (sampleInstEnv (\<lambda>_. None)) sampleInstall = wipeAndInstall (sampleInstEnv (\<lambda>_. None)) envv e s1"
    "sameConfig (isCfg sampleInstall) (isCfg s1)" using sample_doInstall [of "\<lambda>_. None"] by auto
  obtain st' where "wipeAndInstall (sampleInstEnv (\<lambda>_. None)) envv e s1 = (Inr (), st')"
    using sample_wipe [OF run(2), of "\<lambda>_. None" envv e]
    by (auto simp: perform_def sampleInstEnv_fields runInstaller_def bindS_run)
  then have ok: "doInstall (sampleInstEnv (\<lambda>_. None)) sampleInstall = (Inr (), st')" using run by simp
  from install_success_means [OF this] ok show ?thesis by blast
qed



section \<open>The environment of the install script\<close>

text \<open>The value a process sees for a variable: \<^verbatim>\<open>os/exec\<close> keeps the last of several entries.\<close>

definition envEntry :: "string \<Rightarrow> string \<times> string" where
  "envEntry kv = (case splitN2 CHR ''='' kv of (k, v) \<Rightarrow> (k, case v of None \<Rightarrow> [] | Some x \<Rightarrow> x))"

definition envValue :: "string \<Rightarrow> string list \<Rightarrow> string option" where
  "envValue k envv = map_of (rev (map envEntry envv)) k"

lemma envEntry_assign: "CHR ''='' \<notin> set k \<Longrightarrow> envEntry (k @ ''='' @ v) = (k, v)"
  by (simp add: envEntry_def splitN2_first)

text \<open>The kernel arguments of the installed system: without external storage the script is told to switch
  multipath off, but only when the user gives no kernel arguments of his own. When he does, his
  arguments replace the switch instead of joining it, because both are assigned to one variable.\<close>

theorem kernel_arguments_override:
  assumes "\<not> esEnabled (osExternalStorage (hOS cfg))"
  shows "envValue ''HARVESTER_ADDITIONAL_KERNEL_ARGUMENTS'' ((envv @ diskAndKernelEnv cfg) @
      [''ELEMENTAL_CONFIG='' @ elementalConfigFile, ''ELEMENTAL_CONFIG_DIR='' @ ElementalConfigDir]) =
    Some (if osAdditionalKernelArguments (hOS cfg) = [] then ''multipath=off'' else osAdditionalKernelArguments (hOS cfg))"
proof -
  let ?k = "''HARVESTER_ADDITIONAL_KERNEL_ARGUMENTS''"
  have arg: "envEntry (?k @ ''='' @ v) = (?k, v)" for v by (rule envEntry_assign) simp
  have other: "fst (envEntry (''ELEMENTAL_CONFIG='' @ v)) \<noteq> ?k" "fst (envEntry (''ELEMENTAL_CONFIG_DIR='' @ v)) \<noteq> ?k" for v
    using envEntry_assign [of "''ELEMENTAL_CONFIG''" v] envEntry_assign [of "''ELEMENTAL_CONFIG_DIR''" v] by simp_all
  have step: "envValue ?k (es @ [x]) = (if fst (envEntry x) = ?k then Some (snd (envEntry x)) else envValue ?k es)" for es x
    by (cases "envEntry x") (simp add: envValue_def)
  have rest: "envValue ?k (es @ [''ELEMENTAL_CONFIG='' @ a, ''ELEMENTAL_CONFIG_DIR='' @ b]) = envValue ?k es" for es a b
    using other step [of "es @ [''ELEMENTAL_CONFIG='' @ a]"] step [of es] by simp
  obtain pre where "diskAndKernelEnv cfg = pre @ [?k @ ''='' @ (if osAdditionalKernelArguments (hOS cfg) = []
      then ''multipath=off'' else osAdditionalKernelArguments (hOS cfg))]"
    using assms by (cases "osAdditionalKernelArguments (hOS cfg) = []") (auto simp: diskAndKernelEnv_def)
  then have "envv @ diskAndKernelEnv cfg = (envv @ pre) @ [?k @ ''='' @ (if osAdditionalKernelArguments (hOS cfg) = []
      then ''multipath=off'' else osAdditionalKernelArguments (hOS cfg))]" by simp
  then show ?thesis unfolding rest by (simp only: step arg fst_conv snd_conv if_True simp_thms)
qed

theorem kernel_arguments_override_witness:
  "envValue ''HARVESTER_ADDITIONAL_KERNEL_ARGUMENTS''
     (([] @ diskAndKernelEnv (sampleConfig\<lparr>hOS := (hOS sampleConfig)\<lparr>osAdditionalKernelArguments := ''quiet''\<rparr>\<rparr>)) @
      [''ELEMENTAL_CONFIG='' @ elementalConfigFile, ''ELEMENTAL_CONFIG_DIR='' @ ElementalConfigDir]) = Some ''quiet''"
  using kernel_arguments_override [of "sampleConfig\<lparr>hOS := (hOS sampleConfig)\<lparr>osAdditionalKernelArguments := ''quiet''\<rparr>\<rparr>" "[]"]
    sampleConfig_fields(2) by simp

section \<open>Retries\<close>

text \<open>C34: A process with \<open>n\<close> retries is run until it succeeds, at most \<open>n + 1\<close> times: there is a number \<open>k\<close> of failed runs,
  at most \<open>n\<close>, after which the result and the state are those of the next run, and an error is returned
  only when all retries are used up.\<close>

theorem retry_runs:
  "\<exists>k \<le> n. retryOnError n p s = p (((\<lambda>s. snd (p s)) ^^ k) s) \<and>
     (\<forall>j < k. \<not> isOk (fst (p (((\<lambda>s. snd (p s)) ^^ j) s)))) \<and> (isOk (fst (retryOnError n p s)) \<or> k = n)"
proof (induction n arbitrary: s)
  case 0
  show ?case by (subst (1 2) retryOnError.simps) (auto split: prod.splits sum.splits)
next
  case (Suc n)
  obtain r s1 where run: "p s = (r, s1)" by (cases "p s")
  show ?case
  proof (cases r)
    case (Inr u)
    then have "retryOnError (Suc n) p s = p s" using run by (simp add: retryOnError.simps)
    then show ?thesis using Inr run by (intro exI [of _ 0]) simp
  next
    case (Inl err)
    then have retry: "retryOnError (Suc n) p s = retryOnError n p s1" using run by (simp add: retryOnError.simps)
    obtain k where k: "k \<le> n" "retryOnError n p s1 = p (((\<lambda>s. snd (p s)) ^^ k) s1)"
      "\<forall>j < k. \<not> isOk (fst (p (((\<lambda>s. snd (p s)) ^^ j) s1)))" "isOk (fst (retryOnError n p s1)) \<or> k = n"
      using Suc.IH by blast
    have shift: "((\<lambda>s. snd (p s)) ^^ Suc j) s = ((\<lambda>s. snd (p s)) ^^ j) s1" for j
      using funpow_swap1 [of "\<lambda>s. snd (p s)" j s] run by simp
    have "\<not> isOk (fst (p (((\<lambda>s. snd (p s)) ^^ j) s)))" if "j < Suc k" for j
      using that k(3) run Inl shift by (cases j) (auto simp del: funpow.simps(2))
    then show ?thesis
      using k retry shift [of k] by (intro exI [of _ "Suc k"]) (simp del: funpow.simps(2))
  qed
qed

theorem retry_runs_witness:
  "\<exists>k \<le> 3. retryOnError 3 (\<lambda>s :: nat. (if s < 2 then Inl (Ext ''t'') else Inr (), Suc s)) 0 =
     (\<lambda>s. (if s < 2 then Inl (Ext ''t'') else Inr (), Suc s)) (((\<lambda>s. snd ((\<lambda>s :: nat. (if s < 2 then Inl (Ext ''t'') else Inr (), Suc s)) s)) ^^ k) 0)"
  using retry_runs [of 3 "\<lambda>s :: nat. (if s < 2 then Inl (Ext ''t'') else Inr (), Suc s)" 0] by blast

end
