(* ===== verification/Remote.thy ===== *)
theory Remote
  imports Install_Flow
begin

text \<open>
  What the installer asks of other machines (\<^verbatim>\<open>pkg/console/util.go\<close>): documents fetched over HTTP, the
  check of the management address, SSH keys, a remote configuration, time and name servers. How
  the outside answers is the record \<open>remote\<close>; the state keeps what was requested and which
  commands ran.
\<close>

section \<open>Addresses with ports\<close>

definition lastIndexByte :: "char \<Rightarrow> string \<Rightarrow> nat option" where
  "lastIndexByte c s = map_option (\<lambda>i. length s - 1 - i) (indexByte c (rev s))"

text \<open>\<^verbatim>\<open>net.SplitHostPort\<close>; the error is the text of the \<^verbatim>\<open>AddrError\<close>.\<close>

definition SplitHostPort :: "string \<Rightarrow> string + string \<times> string" where
  "SplitHostPort hostport =
     (case lastIndexByte CHR '':'' hostport of
        None \<Rightarrow> Inl ''missing port in address''
      | Some i \<Rightarrow>
          (let rest = (\<lambda>host j k.
                 if CHR ''['' \<in> set (drop j hostport) then Inl (''unexpected '' @ [CHR 0x27] @ ''['' @ [CHR 0x27] @ '' in address'')
                 else if CHR '']'' \<in> set (drop k hostport) then Inl (''unexpected '' @ [CHR 0x27] @ '']'' @ [CHR 0x27] @ '' in address'')
                 else Inr (host, drop (i + 1) hostport)) in
           if hd hostport = CHR ''[''
           then (case indexByte CHR '']'' hostport of
                   None \<Rightarrow> Inl (''missing '' @ [CHR 0x27] @ '']'' @ [CHR 0x27] @ '' in address'')
                 | Some e \<Rightarrow>
                     if e + 1 = length hostport then Inl ''missing port in address''
                     else if e + 1 = i then rest (drop 1 (take e hostport)) 1 (e + 1)
                     else if hostport ! (e + 1) = CHR '':'' then Inl ''too many colons in address''
                     else Inl ''missing port in address'')
           else let host = take i hostport in
                if CHR '':'' \<in> set host then Inl ''too many colons in address'' else rest host 0 0))"

definition JoinHostPort :: "string \<Rightarrow> string \<Rightarrow> string" where
  "JoinHostPort host port =
     (if CHR '':'' \<in> set host \<or> CHR ''%'' \<in> set host then ''['' @ host @ '']:'' @ port else host @ '':'' @ port)"

section \<open>URLs\<close>

text \<open>
  The part of \<^verbatim>\<open>net/url\<close> behind \<^verbatim>\<open>ParseRequestURI\<close> for texts that start with \<^verbatim>\<open>https://\<close>. A query that is
  present but empty (\<^verbatim>\<open>ForceQuery\<close>) is \<open>Some []\<close>.
\<close>

record URL =
  urUser :: "(string \<times> string option) option"
  urHost :: string
  urPath :: string
  urRawQuery :: "string option"

fun unescape :: "(char \<Rightarrow> char \<Rightarrow> bool) \<Rightarrow> (char \<Rightarrow> bool) \<Rightarrow> string \<Rightarrow> string option" where
  "unescape esc plain [] = Some []"
| "unescape esc plain (c # cs) =
     (if c = CHR ''%''
      then (case cs of
              a # b # rest \<Rightarrow>
                if isHexC a \<and> isHexC b \<and> esc a b
                then map_option ((#) (char_of (16 * hexVal a + hexVal b))) (unescape esc plain rest) else None
            | _ \<Rightarrow> None)
      else if plain c then map_option ((#) c) (unescape esc plain cs) else None)"

definition isASCII :: "char \<Rightarrow> bool" where
  "isASCII c = ((of_char c :: nat) < 128)"

definition unreservedC :: "char \<Rightarrow> bool" where
  "unreservedC c \<longleftrightarrow> isAlnum c \<or> c \<in> set ''-_.~''"

definition hostC :: "char \<Rightarrow> bool" where
  "hostC c \<longleftrightarrow> unreservedC c \<or> c \<in> set ''!$&()*+,;=:[]<>'' \<or> c = CHR 0x27 \<or> c = CHR 0x22"

definition unescapeHost :: "string \<Rightarrow> string option" where
  "unescapeHost = unescape (\<lambda>a b. 8 \<le> hexVal a \<or> a = CHR ''2'' \<and> b = CHR ''5'') (\<lambda>c. \<not> isASCII c \<or> hostC c)"

definition unescapeZone :: "string \<Rightarrow> string option" where
  "unescapeZone = unescape (\<lambda>a b. a = CHR ''2'' \<and> (b = CHR ''5'' \<or> b = CHR ''0'') \<or> hostC (char_of (16 * hexVal a + hexVal b)))
                    (\<lambda>c. \<not> isASCII c \<or> hostC c)"

definition unescapeAny :: "string \<Rightarrow> string option" where
  "unescapeAny = unescape (\<lambda>a b. True) (\<lambda>c. True)"

definition validOptionalPort :: "string \<Rightarrow> bool" where
  "validOptionalPort port = (case port of [] \<Rightarrow> True | c # cs \<Rightarrow> c = CHR '':'' \<and> list_all isDigitC cs)"

fun indexOf :: "string \<Rightarrow> string \<Rightarrow> nat option" where
  "indexOf sub [] = (if sub = [] then Some 0 else None)"
| "indexOf sub (c # cs) = (if hasPrefix (c # cs) sub then Some 0 else map_option Suc (indexOf sub cs))"

definition parseHost :: "string \<Rightarrow> string option" where
  "parseHost host =
     (if hasPrefix host ''[''
      then (case lastIndexByte CHR '']'' host of
              None \<Rightarrow> None
            | Some i \<Rightarrow>
                if \<not> validOptionalPort (drop (i + 1) host) then None
                else (case indexOf ''%25'' (take i host) of
                        Some zone \<Rightarrow>
                          (case (unescapeHost (take zone host), unescapeZone (drop zone (take i host)), unescapeHost (drop i host)) of
                             (Some host1, Some host2, Some host3) \<Rightarrow> Some (host1 @ host2 @ host3)
                           | _ \<Rightarrow> None)
                      | None \<Rightarrow> unescapeHost host))
      else (case lastIndexByte CHR '':'' host of
              Some i \<Rightarrow> if \<not> validOptionalPort (drop i host) then None else unescapeHost host
            | None \<Rightarrow> unescapeHost host))"

definition validUserinfo :: "string \<Rightarrow> bool" where
  "validUserinfo s = list_all (\<lambda>c. isAlnum c \<or> c \<in> set ''-._:~!$&()*+,;=%@'' \<or> c = CHR 0x27) s"

definition parseUser :: "string \<Rightarrow> (string \<times> string option) option" where
  "parseUser userinfo =
     (if \<not> validUserinfo userinfo then None
      else case splitN2 CHR '':'' userinfo of
             (u, None) \<Rightarrow> map_option (\<lambda>u. (u, None)) (unescapeAny u)
           | (u, Some p) \<Rightarrow>
               (case (unescapeAny u, unescapeAny p) of (Some u, Some p) \<Rightarrow> Some (u, Some p) | _ \<Rightarrow> None))"

definition parseAuthority :: "string \<Rightarrow> ((string \<times> string option) option \<times> string) option" where
  "parseAuthority authority =
     (case lastIndexByte CHR ''@'' authority of
        None \<Rightarrow> map_option (\<lambda>host. (None, host)) (parseHost authority)
      | Some i \<Rightarrow>
          (case (parseHost (drop (i + 1) authority), parseUser (take i authority)) of
             (Some host, Some user) \<Rightarrow> Some (Some user, host)
           | _ \<Rightarrow> None))"

abbreviation "https \<equiv> ''https://''"

definition isCTL :: "char \<Rightarrow> bool" where
  "isCTL c \<longleftrightarrow> c < CHR '' '' \<or> c = CHR 0x7F"

definition ParseRequestURI :: "string \<Rightarrow> URL option" where
  "ParseRequestURI raw =
     (if list_ex isCTL raw then None
      else let (rest, query) = splitN2 CHR ''?'' (drop (length https) raw);
               (authority, path0) = splitN2 CHR ''/'' rest;
               path = (case path0 of None \<Rightarrow> [] | Some p \<Rightarrow> CHR ''/'' # p) in
           case (parseAuthority authority, unescapeAny path) of
             (Some (user, host), Some path) \<Rightarrow>
               Some \<lparr>urUser = user, urHost = host, urPath = path, urRawQuery = query\<rparr>
           | _ \<Rightarrow> None)"

text \<open>\<^verbatim>\<open>Hostname\<close> and \<^verbatim>\<open>Port\<close>.\<close>

definition splitPort :: "string \<Rightarrow> string \<times> string" where
  "splitPort hostPort =
     (let (host, port) = (case lastIndexByte CHR '':'' hostPort of
            Some i \<Rightarrow> if validOptionalPort (drop i hostPort) then (take i hostPort, drop (i + 1) hostPort) else (hostPort, [])
          | None \<Rightarrow> (hostPort, [])) in
      (if hasPrefix host ''['' \<and> hasSuffix host '']'' then drop 1 (take (length host - 1) host) else host, port))"

definition upperHex :: "nat \<Rightarrow> char" where
  "upperHex n = (if n < 10 then char_of (48 + n) else char_of (55 + n))"

definition escapeBy :: "(char \<Rightarrow> bool) \<Rightarrow> string \<Rightarrow> string" where
  "escapeBy keep s =
     concat (map (\<lambda>c. if keep c then [c]
                      else [CHR ''%'', upperHex (of_char c div 16), upperHex (of_char c mod 16)]) s)"

definition userString :: "(string \<times> string option) \<Rightarrow> string" where
  "userString user =
     (let esc = escapeBy (\<lambda>c. unreservedC c \<or> c \<in> set ''$&+,;='') in
      case user of (u, p) \<Rightarrow> esc u @ (case p of None \<Rightarrow> [] | Some p \<Rightarrow> '':'' @ esc p))"

definition urlString :: "URL \<Rightarrow> string" where
  "urlString u =
     https @ (case urUser u of None \<Rightarrow> [] | Some user \<Rightarrow> userString user @ ''@'') @ escapeBy hostC (urHost u) @
     urPath u @ (case urRawQuery u of None \<Rightarrow> [] | Some q \<Rightarrow> ''?'' @ q)"

definition getFormattedServerURL :: "string \<Rightarrow> string result" where
  "getFormattedServerURL addr0 =
     (if addr0 = [] then Inl (Msg ''management address cannot be empty'')
      else let addr = trimSpace addr0;
               realAddr = (if \<not> hasPrefix addr https then https @ addr else addr) in
           case ParseRequestURI realAddr of
             None \<Rightarrow> Inl (Msg (addr @ '' is invalid''))
           | Some parsedURL \<Rightarrow>
               (let (host, port) = splitPort (urHost parsedURL) in
                if checkIP host \<noteq> Inr () \<and> checkDomain host \<noteq> Inr ()
                then Inl (Msg (addr @ '' is not a valid ip/domain''))
                else if urPath parsedURL \<noteq> []
                then Inl (Msg (''path is not allowed in management address: '' @ urPath parsedURL))
                else if port = [] then Inr (urlString (parsedURL\<lparr>urHost := urHost parsedURL @ '':443''\<rparr>))
                else if port \<noteq> ''443'' then Inl (Msg ''currently non-443 port are not allowed'')
                else Inr (urlString parsedURL)))"

section \<open>Requests and commands\<close>

text \<open>
  \<open>reGet\<close> is a GET request, given the requests before it: the status code and the body. \<open>reNTP\<close> is the
  exchange with a time server at an address (dial, send, receive), \<open>reLoadIni\<close> and \<open>reSaveIni\<close> the
  \<^verbatim>\<open>ini\<close> library on \<^verbatim>\<open>timesyncd.conf\<close>, \<open>reParseKey\<close> is \<^verbatim>\<open>ssh.ParseAuthorizedKey\<close>, \<open>reLoadConfig\<close>
  \<^verbatim>\<open>config.LoadHarvesterConfig\<close>, which decodes YAML through the mapper library.
\<close>

record remote =
  reGet :: "string list \<Rightarrow> string \<Rightarrow> (int \<times> string result) result"
  reLookupIP :: "string \<Rightarrow> octets list result"
  reNTP :: "string \<Rightarrow> goerror option"
  reLoadIni :: "goerror option"
  reSaveIni :: "string \<Rightarrow> goerror option"
  reCommand :: "string list list \<Rightarrow> string list \<Rightarrow> goerror option"
  reParseKey :: "string \<Rightarrow> bool"
  reLoadConfig :: "string \<Rightarrow> HarvesterConfig result"

text \<open>\<open>rsNTP\<close> is the entry \<^verbatim>\<open>NTP\<close> of \<^verbatim>\<open>timesyncd.conf\<close>; \<open>rsPrinted\<close> is what the retries print on the install panel.\<close>

record remoteState =
  rsRequests :: "string list"
  rsCommands :: "string list list"
  rsNTP :: "string option"
  rsPrinted :: "string list"

type_synonym 'a rem = "(remoteState, 'a) prog"

definition getURL :: "remote \<Rightarrow> string \<Rightarrow> string rem" where
  "getURL re url st =
     (case reGet re (rsRequests st) url of
        Inl err \<Rightarrow> Inl err
      | Inr (code, Inl err) \<Rightarrow> Inl err
      | Inr (code, Inr body) \<Rightarrow>
          if code < 200 \<or> 400 \<le> code
          then Inl (Msg (''got '' @ showInt code @ '' status code from '' @ url @ '', body: '' @ body)) else Inr body,
      st\<lparr>rsRequests := rsRequests st @ [url]\<rparr>)"

definition validatePingServerURL :: "remote \<Rightarrow> string \<Rightarrow> unit rem" where
  "validatePingServerURL re url = retryOnError 3 (bindS (getURL re url) (\<lambda>b. retS ()))"

definition runCommand :: "remote \<Rightarrow> string list \<Rightarrow> unit rem" where
  "runCommand re cmd st =
     (case reCommand re (rsCommands st) cmd of None \<Rightarrow> Inr () | Some err \<Rightarrow> Inl err,
      st\<lparr>rsCommands := rsCommands st @ [cmd]\<rparr>)"

text \<open>\<open>err\<close> is the last error; the first address that answers ends the loop.\<close>

fun tryAddresses :: "remote \<Rightarrow> string \<Rightarrow> goerror \<Rightarrow> octets list \<Rightarrow> unit result" where
  "tryAddresses re port err [] = Inl err"
| "tryAddresses re port err (ip # ips) =
     (case reNTP re (JoinHostPort (ipString ip) port) of Some e \<Rightarrow> tryAddresses re port e ips | None \<Rightarrow> Inr ())"

definition validateNTPServer :: "remote \<Rightarrow> string \<Rightarrow> unit result" where
  "validateNTPServer re ntpServer =
     (case (case SplitHostPort ntpServer of
              Inr hp \<Rightarrow> Inr hp
            | Inl e \<Rightarrow> if e = ''missing port in address'' then Inr (ntpServer, ''123'')
                       else Inl (Msg (''address '' @ ntpServer @ '': '' @ e))) of
        Inl err \<Rightarrow> Inl err
      | Inr (host, port) \<Rightarrow>
          (case reLookupIP re host of
             Inl err \<Rightarrow> Inl err
           | Inr ips \<Rightarrow>
               (case tryAddresses re port (Msg ''%!w(<nil>)'') ips of
                  Inl err \<Rightarrow> Inl (Wrap (''fail to validate NTP servers: ['' @ strJoin '' '' (map ipString ips) @ ''], err'') err)
                | Inr u \<Rightarrow> Inr ())))"

definition validateNTPServers :: "remote \<Rightarrow> string list \<Rightarrow> unit result" where
  "validateNTPServers re ntpServerList = allR (validateNTPServer re) ntpServerList"

definition enableNTPServers :: "remote \<Rightarrow> string list \<Rightarrow> unit rem" where
  "enableNTPServers re ntpServerList =
     (if length ntpServerList = 0 then retS ()
      else let servers = strJoin '' '' ntpServerList in
           seqS (call (reLoadIni re) id)
          (seqS (call (reSaveIni re servers) (\<lambda>st. st\<lparr>rsNTP := Some servers\<rparr>))
          (seqS (runCommand re [''timedatectl'', ''set-ntp'', ''false''])
                (runCommand re [''timedatectl'', ''set-ntp'', ''true'']))))"

definition updateDNSServersAndReloadNetConfig :: "remote \<Rightarrow> string list \<Rightarrow> int \<Rightarrow> unit rem" where
  "updateDNSServersAndReloadNetConfig re dnsServerList vlanId =
     (let connection = (if 1 < vlanId then ''vlan-mgmt'' else ''bridge-mgmt'');
          device = (if 1 < vlanId then MgmtInterfaceName @ ''.'' @ showInt vlanId else MgmtInterfaceName) in
      seqS (runCommand re [''nmcli'', ''con'', ''modify'', connection, ''ipv4.dns'', strJoin '','' dnsServerList])
           (runCommand re [''nmcli'', ''device'', ''reapply'', device]))"

fun parseKeys :: "remote \<Rightarrow> nat \<Rightarrow> string list \<Rightarrow> string list result" where
  "parseKeys re i [] = Inr []"
| "parseKeys re i (line # ls) =
     (if line = [] then parseKeys re (Suc i) ls
      else if \<not> reParseKey re line then Inl (Msg (''fail to parse on line '' @ showNat (i + 1) @ '': '' @ line))
      else bindR (parseKeys re (Suc i) ls) (\<lambda>keys. Inr (line # keys)))"

definition getRemoteSSHKeys :: "remote \<Rightarrow> string \<Rightarrow> string list rem" where
  "getRemoteSSHKeys re url =
     bindS (getURL re url) (\<lambda>b.
     bindS (liftS (parseKeys re 0 (splitOn CHR 0x0A b))) (\<lambda>keys.
       if length keys = 0 then failS (Msg ''no key found'') else retS keys))"

definition getRemoteConfig :: "remote \<Rightarrow> string \<Rightarrow> HarvesterConfig rem" where
  "getRemoteConfig re configURL = bindS (getURL re configURL) (\<lambda>b. liftS (reLoadConfig re b))"

text \<open>The closure of \<^verbatim>\<open>retryRemoteConfig\<close> with its two variables: the retries it announces and the document.\<close>

definition fetchConfig :: "remote \<Rightarrow> string \<Rightarrow> (remoteState \<times> int \<times> string, unit) prog" where
  "fetchConfig re configURL = (\<lambda>(st, retries, confData).
     (case getURL re configURL st of
        (Inr b, st1) \<Rightarrow> (Inr (), st1, retries, b)
      | (Inl e, st1) \<Rightarrow>
          (Inl e, st1\<lparr>rsPrinted := rsPrinted st1 @ [errText e,
             ''Retry after 10 seconds (Remaining: '' @ showInt retries @ '')...'']\<rparr>, retries - 1, [])))"

definition retryRemoteConfig :: "remote \<Rightarrow> string \<Rightarrow> HarvesterConfig rem" where
  "retryRemoteConfig re configURL st =
     (case retryOnError 30 (fetchConfig re configURL) (st, 30, []) of
        (Inl err, st1, retries, confData) \<Rightarrow> (Inl (Wrap ''fail to fetch config'' err), st1)
      | (Inr u, st1, retries, confData) \<Rightarrow>
          (case reLoadConfig re confData of
             Inl err \<Rightarrow> (Inl (Wrap ''fail to load config'' err), st1)
           | Inr harvestCfg \<Rightarrow> (Inr harvestCfg, st1)))"

definition needToGetVIPFromDHCP :: "string \<Rightarrow> string \<Rightarrow> string \<Rightarrow> bool" where
  "needToGetVIPFromDHCP mode vip hwAddr \<longleftrightarrow> toLower mode = NetworkMethodDHCP \<and> (vip = [] \<or> hwAddr = [])"

section \<open>The management address\<close>

text \<open>The characters of a domain name or of a dotted address are taken over as they are.\<close>

definition nameChar :: "char \<Rightarrow> bool" where
  "nameChar c \<longleftrightarrow> isLowerAlnum c \<or> c = CHR ''-'' \<or> c = CHR ''.''"

lemma nameChar_bounds: "nameChar c \<Longrightarrow> (45 :: nat) \<le> of_char c \<and> (of_char c :: nat) \<le> 122"
  by (auto simp: nameChar_def isLowerAlnum_def isLowerC_def isDigitC_def less_eq_char_def)

lemma nameChar_props:
  assumes "nameChar c"
  shows "hostC c \<and> \<not> isCTL c \<and> c \<notin> set ''?/@:[%'' \<and> \<not> isSpace c"
proof -
  have "hostC c"
    using assms by (auto simp: nameChar_def hostC_def unreservedC_def isAlnum_def isLowerAlnum_def)
  moreover have "\<not> isCTL c" "\<not> isSpace c"
    using nameChar_bounds [OF assms] by (auto simp: isCTL_def isSpace_def less_char_def)
  moreover have "\<not> nameChar d" if "d \<in> set ''?/@:[%''" for d
    using that by (auto simp: nameChar_def isLowerAlnum_def isLowerC_def isDigitC_def less_eq_char_def)
  ultimately show ?thesis using assms by blast
qed

lemma indexByte_None [simp]: "c \<notin> set s \<Longrightarrow> indexByte c s = None"
  by (induction s) auto

lemma indexByte_append: "c \<notin> set a \<Longrightarrow> indexByte c (a @ c # b) = Some (length a)"
  by (induction a) auto

lemma lastIndexByte_None: "c \<notin> set s \<Longrightarrow> lastIndexByte c s = None"
  by (simp add: lastIndexByte_def)

lemma lastIndexByte_append: "c \<notin> set b \<Longrightarrow> lastIndexByte c (a @ c # b) = Some (length a)"
  by (simp add: lastIndexByte_def indexByte_append)

lemma splitN2_none: "c \<notin> set s \<Longrightarrow> splitN2 c s = (s, None)"
  by (induction s) auto

lemma hostC_percent [simp]: "\<not> hostC CHR ''%''"
  by (simp add: hostC_def unreservedC_def isAlnum_def isLowerC_def isUpperC_def isDigitC_def less_eq_char_def)

lemma unescapeHost_id: "list_all hostC s \<Longrightarrow> unescapeHost s = Some s"
  unfolding unescapeHost_def by (induction s) auto

lemma escapeBy_id: "list_all keep s \<Longrightarrow> escapeBy keep s = s"
  unfolding escapeBy_def by (induction s) auto

text \<open>A text of these characters and colons that ends in a valid port is the host of the URL.\<close>

definition addrText :: "string \<Rightarrow> bool" where
  "addrText w = list_all (\<lambda>c. nameChar c \<or> c = CHR '':'') w"

lemma addrText_props:
  assumes "addrText w"
  shows "list_all hostC w" "\<not> list_ex isCTL w" "CHR ''?'' \<notin> set w" "CHR ''/'' \<notin> set w" "CHR ''@'' \<notin> set w"
    "\<not> hasPrefix w ''[''" "\<forall>c \<in> set w. \<not> isSpace c"
proof -
  have c: "hostC c \<and> \<not> isCTL c \<and> c \<notin> set ''?/@[%'' \<and> \<not> isSpace c" if "c \<in> set w" for c
  proof (cases "nameChar c")
    case True
    then show ?thesis using nameChar_props [of c] by auto
  next
    case False
    with assms that have "c = CHR '':''" by (auto simp: addrText_def list_all_iff)
    then show ?thesis
      by (auto simp: hostC_def isCTL_def isSpace_def less_char_def less_eq_char_def)
  qed
  show "list_all hostC w" "\<not> list_ex isCTL w" "CHR ''?'' \<notin> set w" "CHR ''/'' \<notin> set w" "CHR ''@'' \<notin> set w"
    "\<forall>c \<in> set w. \<not> isSpace c"
    using c by (auto simp: list_all_iff list_ex_iff)
  show "\<not> hasPrefix w ''[''" using c by (cases w) (auto simp: hasPrefix_def)
qed

lemma ParseRequestURI_addr:
  assumes "addrText w" "\<forall>i. lastIndexByte CHR '':'' w = Some i \<longrightarrow> validOptionalPort (drop i w)"
  shows "ParseRequestURI (https @ w) = Some \<lparr>urUser = None, urHost = w, urPath = [], urRawQuery = None\<rparr>"
proof -
  note w = addrText_props [OF assms(1)]
  have "parseHost w = Some w"
    using assms(2) w by (auto simp: parseHost_def unescapeHost_id split: option.splits)
  then have "parseAuthority w = Some (None, w)"
    using w by (simp add: parseAuthority_def lastIndexByte_None)
  moreover have "\<not> list_ex isCTL https" by (simp add: isCTL_def less_char_def)
  ultimately show ?thesis
    using w by (simp add: ParseRequestURI_def splitN2_none unescapeAny_def)
qed

lemma formatted_addr:
  assumes "addrText w" "w \<noteq> []" "\<forall>i. lastIndexByte CHR '':'' w = Some i \<longrightarrow> validOptionalPort (drop i w)"
    and "splitPort w = (host, port)" and addr: "addr = w \<or> addr = https @ w"
  shows "getFormattedServerURL addr =
     (if checkIP host \<noteq> Inr () \<and> checkDomain host \<noteq> Inr () then Inl (Msg (addr @ '' is not a valid ip/domain''))
      else if port = [] then Inr (https @ w @ '':443'')
      else if port \<noteq> ''443'' then Inl (Msg ''currently non-443 port are not allowed'')
      else Inr (https @ w))"
proof -
  note w = addrText_props [OF assms(1)]
  have "\<forall>c \<in> set https. \<not> isSpace c" by (simp add: isSpace_def)
  with w(7) addr have "\<forall>c \<in> set addr. \<not> isSpace c" by auto
  then have "trimSpace addr = addr" unfolding trimSpace_def by (rule trimBy_none)
  moreover have "\<not> hasPrefix w https"
  proof
    assume "hasPrefix w https"
    then obtain u where "w = https @ u" by (auto simp only: hasPrefix_append)
    then show False using w(4) by simp
  qed
  then have "(if \<not> hasPrefix addr https then https @ addr else addr) = https @ w"
    using addr by (auto simp: hasPrefix_def)
  moreover have "addr \<noteq> []" using addr assms(2) by auto
  moreover have "list_all hostC (w @ '':443'')"
    using w by (auto simp: hostC_def unreservedC_def isAlnum_def isDigitC_def less_eq_char_def)
  ultimately show ?thesis
    using ParseRequestURI_addr [OF assms(1,3)] assms(4) w(1)
    by (simp add: getFormattedServerURL_def urlString_def escapeBy_id Let_def)
qed

lemma splitOn_chars: "set h \<subseteq> insert c (\<Union> (set ` set (splitOn c h)))"
proof (induction h)
  case (Cons x h)
  then show ?case by (cases "splitOn c h") auto
qed simp

lemma domain_nameChars: "IsDNS1123Subdomain h = [] \<Longrightarrow> h \<noteq> [] \<and> list_all nameChar h"
proof
  assume "IsDNS1123Subdomain h = []"
  then have d: "dns1123Subdomain h" by (simp add: IsDNS1123Subdomain_Nil)
  then show "h \<noteq> []" by (rule dns1123_nonempty)
  have "nameChar c" if "w \<in> set (splitOn CHR ''.'' h)" "c \<in> set w" for w c
    using d that by (auto simp: dns1123Subdomain_def dns1123Label_def nameChar_def list_all_iff)
  moreover have "nameChar CHR ''.''" by (simp add: nameChar_def)
  ultimately show "list_all nameChar h"
    using splitOn_chars [of h "CHR ''.''"] by (fastforce simp: list_all_iff)
qed

lemma digits_443 [simp]: "isDigitC CHR ''4''" "isDigitC CHR ''3''"
  by (simp_all add: isDigitC_def less_eq_char_def)

text \<open>The four forms in which a name \<open>h\<close> occurs, with the parts \<^verbatim>\<open>Hostname\<close> and \<^verbatim>\<open>Port\<close> find.\<close>

lemma name_forms:
  assumes "list_all nameChar h" "h \<noteq> []"
    and "(suffix, host, port) \<in> {([], h, []), ('':443'', h, ''443''), ('':'', h, []), (''::443'', h @ '':'', ''443'')}"
  shows "addrText (h @ suffix)"
    "\<forall>i. lastIndexByte CHR '':'' (h @ suffix) = Some i \<longrightarrow> validOptionalPort (drop i (h @ suffix))"
    "splitPort (h @ suffix) = (host, port)"
proof -
  have d: "nameChar CHR ''4''" "nameChar CHR ''3''" by (simp_all add: nameChar_def isLowerAlnum_def)
  have h: "\<forall>c \<in> set h. nameChar c" and c: "CHR '':'' \<notin> set h"
    using assms(1) nameChar_props by (auto simp: list_all_iff)
  show "addrText (h @ suffix)" using assms(3) d h by (auto simp: addrText_def list_all_iff)
  have n: "\<not> hasPrefix h ''[''" "\<not> hasPrefix (h @ '':'') ''[''"
    using addrText_props(6) h by (simp_all add: addrText_def list_all_iff)
  have two: "lastIndexByte CHR '':'' (h @ ''::443'') = Some (Suc (length h))"
    using lastIndexByte_append [of "CHR '':''" "''443''" "h @ '':''"] by simp
  note idx = lastIndexByte_append lastIndexByte_None validOptionalPort_def
  show "\<forall>i. lastIndexByte CHR '':'' (h @ suffix) = Some i \<longrightarrow> validOptionalPort (drop i (h @ suffix))"
    using assms(3) c two by (auto simp: idx)
  show "splitPort (h @ suffix) = (host, port)"
    using assms(3) c n two by (auto simp: splitPort_def idx)
qed

text \<open>A colon at the end of a name makes it no address.\<close>

lemma parseIPv4_colon: "CHR '':'' \<in> set s \<Longrightarrow> parseIPv4 s = None"
proof -
  assume "CHR '':'' \<in> set s"
  then obtain w where w: "w \<in> set (splitOn CHR ''.'' s)" "CHR '':'' \<in> set w"
    using splitOn_chars [of s "CHR ''.''"] by fastforce
  moreover have "\<not> isDigitC CHR '':''" by (simp add: isDigitC_def less_eq_char_def)
  ultimately have "v4Field w = None" unfolding v4Field_def list_all_iff by metis
  moreover have "optAll (map v4Field ws) = None" if "v4Field w = None" "w \<in> set ws" for ws
    using that
  proof (induction ws)
    case (Cons v ws)
    then show ?case by (cases "v4Field v") auto
  qed simp
  ultimately show "parseIPv4 s = None" using w by (simp add: parseIPv4_def Let_def)
qed

lemma v6loop_colon:
  assumes "CHR '':'' \<notin> set h" "CHR ''.'' \<notin> set h"
  shows "v6loop (Suc k) (h @ '':'') acc ell = None"
proof (cases "list_all isHexC h")
  case True
  have "\<not> isHexC CHR '':''" by (simp add: isHexC_def isDigitC_def less_eq_char_def)
  with True have "takeWhile isHexC (h @ '':'') = h" "dropWhile isHexC (h @ '':'') = '':''"
    by (auto simp: list_all_iff takeWhile_append2 dropWhile_append2)
  then show ?thesis by (simp add: Let_def)
next
  case False
  then obtain c r where "dropWhile isHexC h = c # r" by (cases "dropWhile isHexC h") (auto simp: list_all_iff)
  moreover from this have "c \<in> set h" by (metis list.set_intros(1) set_dropWhileD)
  moreover from calculation have "dropWhile isHexC (h @ '':'') = c # r @ '':''"
    by (metis append_Cons dropWhile_append dropWhile_eq_Nil_conv list.distinct(1))
  ultimately show ?thesis
    using assms by (auto simp: Let_def)
qed

lemma checkIP_colon:
  assumes "list_all nameChar h" "h \<noteq> []"
  shows "checkIP (h @ '':'') \<noteq> Inr ()"
proof -
  have c: "CHR '':'' \<notin> set h" "CHR ''%'' \<notin> set h"
    using assms nameChar_props by (auto simp: list_all_iff)
  then have p: "\<not> hasPrefix (h @ '':'') ''::''" using assms(2) by (cases h) (auto simp: hasPrefix_def)
  have "ParseAddr (h @ '':'') = None"
  proof (cases "CHR ''.'' \<in> set h")
    case True
    then obtain a b where "h = a @ CHR ''.'' # b" "CHR ''.'' \<notin> set a" by (meson split_list_first)
    moreover from this have "dropWhile (\<lambda>c. c \<notin> {CHR ''.'', CHR '':'', CHR ''%''}) a = []"
      using c by (auto simp: dropWhile_eq_Nil_conv)
    ultimately show ?thesis
      using c by (simp add: ParseAddr_def parseIPv4_colon dropWhile_append)
  next
    case False
    have "v6loop 8 (h @ '':'') [] None = None" using v6loop_colon [OF c(1) False, of 7] by simp
    then have "parseIPv6 (h @ '':'') = None" using p by (simp add: parseIPv6_def)
    moreover have "dropWhile (\<lambda>c. c \<notin> {CHR ''.'', CHR '':'', CHR ''%''}) (h @ '':'') = '':''"
      using c False by (auto simp: dropWhile_append)
    ultimately show ?thesis using c by (simp add: ParseAddr_def splitN2_none)
  qed
  then show ?thesis by (simp add: checkIP_def ParseIP_def)
qed

text \<open>C20: Whatever way a management node is named by its domain name or dotted address, with or without
  the scheme and the port 443, \<^verbatim>\<open>getFormattedServerURL\<close> returns the same URL, and formatting that URL again
  returns it unchanged, so the address stored by the page survives the second formatting before the
  installation. A name followed by a lone colon is the exception: it is accepted, gets a second
  colon, and the result is refused when it is formatted again.\<close>
theorem server_url_stable:
  assumes "IsDNS1123Subdomain h = []"
  shows "(\<forall>addr \<in> {h, h @ '':443'', https @ h, https @ h @ '':443''}. getFormattedServerURL addr = Inr (https @ h @ '':443'')) \<and>
    getFormattedServerURL (h @ '':'') = Inr (https @ h @ ''::443'') \<and>
    \<not> isOk (getFormattedServerURL (https @ h @ ''::443''))"
proof -
  note h = domain_nameChars [OF assms]
  have d: "checkDomain h = Inr ()" using assms by (simp add: checkDomain_def)
  have "checkDomain (h @ '':'') \<noteq> Inr ()"
    using domain_nameChars [of "h @ '':''"] nameChar_props by (auto simp: checkDomain_def)
  note colon = this checkIP_colon [OF conjunct2 [OF h] conjunct1 [OF h]]
  have form: "getFormattedServerURL addr =
      (if checkIP host \<noteq> Inr () \<and> checkDomain host \<noteq> Inr () then Inl (Msg (addr @ '' is not a valid ip/domain''))
       else if port = [] then Inr (https @ (h @ suffix) @ '':443'')
       else if port \<noteq> ''443'' then Inl (Msg ''currently non-443 port are not allowed'')
       else Inr (https @ h @ suffix))"
    if "(suffix, host, port) \<in> {([], h, []), ('':443'', h, ''443''), ('':'', h, []), (''::443'', h @ '':'', ''443'')}"
      "addr = h @ suffix \<or> addr = https @ h @ suffix" for suffix host port addr
    using formatted_addr [OF name_forms(1) [OF _ _ that(1)] _ name_forms(2,3) [OF _ _ that(1)] that(2)] h by simp
  show ?thesis
    using form [of "[]" h "[]"] form [of "'':443''" h "''443''"] form [of "'':''" h "[]" "h @ '':''"]
      form [of "''::443''" "h @ '':''" "''443''"] d colon
    by simp
qed

theorem server_url_stable_witness:
  "getFormattedServerURL ''https://harvester.lan'' = Inr ''https://harvester.lan:443'' \<and>
   getFormattedServerURL ''harvester.lan:'' = Inr ''https://harvester.lan::443''"
proof -
  have "IsDNS1123Subdomain ''harvester.lan'' = []" by code_simp
  from server_url_stable [OF this] show ?thesis by simp
qed

end
