(* ===== verification/Console.thy ===== *)
theory Console
  imports Host_Network Widgets Preflight Remote
begin

text \<open>
  The console the pages of the installer run on: its state (the globals of \<^verbatim>\<open>install_panels.go\<close>, the
  configuration, and what is on the screen), elements by name (\<^verbatim>\<open>console.go\<close>), \<^verbatim>\<open>showNext\<close>
  (\<^verbatim>\<open>util.go\<close>), and the options, hooks and element kinds of every page.

  The screen is taken at the level that the contract \<open>element\<close> of \<^theory_text>\<open>Widgets\<close> gives: an element is
  open or closed, has a content or a value, and may hold the focus. Drawing is assumed to succeed;
  in the program a failure of \<^verbatim>\<open>gocui\<close> ends the main loop. Goroutines are tasks that are finished by a
  later event, so that every interleaving with keys is covered; the closing call of \<^verbatim>\<open>g.Update\<close> is part of
  that event.
\<close>

section \<open>State\<close>

record UserInputData =
  uiServerURL :: string
  uiSSHKeyURL :: string
  uiPassword :: string
  uiPasswordConfirm :: string
  uiAddress :: string
  uiAddrMask :: string
  uiDNSServers :: string
  uiNTPServers :: string
  uiHasCheckedNTPServers :: bool

datatype task =
    CheckServerURL string
  | FetchSSHKeys string
  | FetchConfig string
  | ApplyNetwork string
  | RequestVip string string
  | CheckNTP string
  | SetupDNS string
  | Installation
  | Upgrade

record con =
  cnConfig :: HarvesterConfig
  cnUser :: UserInputData
  cnMgmt :: Network
  cnAlreadyInstalled :: bool
  cnInstallModeOnly :: bool
  cnDiskConfirmed :: bool
  cnPreflightWarnings :: "string list"
  cnPreflightAck :: bool
  cnCache :: DiskOptionsCache
  cnNet :: netState
  cnLinks :: "string list"
  cnRemote :: remoteState
  cnEnviron :: "string gomap"
  cnOpen :: "string list"
  cnFocus :: string
  cnContent :: "string gomap"
  cnData :: "string gomap"
  cnValue :: "string gomap"
  cnMulti :: "string list gomap"
  cnTasks :: "task list"
  cnRebooting :: bool
  cnTrace :: "(effect \<times> bool) list"

type_synonym 'a ui = "(con, 'a) prog"

text \<open>
  What the outside answers during one event. \<open>evEncrypt\<close> hashes a password, \<open>evUserExists\<close>, \<open>evPasswordFile\<close>
  and \<open>evYip\<close> are the look-up of the login user, the file for \<^verbatim>\<open>yip\<close> and its run; \<open>evSpeed\<close> reads the speed of
  a link, \<open>evConsoles\<close> the active consoles of the kernel, \<open>evMyTTY\<close> is the variable \<^verbatim>\<open>TTY\<close>, \<open>evVersion\<close> the version of the build; \<open>evMgmtIface\<close> is what
  the host knows of the management interface; \<open>evInst\<close> is the outside of the installation, given
  \<^verbatim>\<open>installModeOnly\<close>; \<open>evReadConfig\<close> and \<open>evUserData\<close> are \<^verbatim>\<open>config.ReadConfig\<close> and \<^verbatim>\<open>config.ReadUserDataConfig\<close>.
\<close>

record env =
  evHost :: host
  evNet :: netHost
  evNM :: nmIO
  evHostname :: hostnameIO
  evVip :: vipIO
  evOSHostname :: "string result"
  evRandomName :: string
  evDHCP :: "string \<Rightarrow> octets result"
  evRemote :: remote
  evEncrypt :: "string \<Rightarrow> string result"
  evUserExists :: bool
  evPasswordFile :: "goerror option"
  evYip :: "string \<times> goerror option"
  evPrintInstall :: "Install \<Rightarrow> string result"
  evSpeed :: "string \<Rightarrow> string result"
  evConsoles :: "string result"
  evArm64 :: bool
  evMyTTY :: string
  evVersion :: string
  evRender :: "string \<Rightarrow> string gomap \<Rightarrow> string result"
  evMgmtIface :: "(octets \<times> octets list) option"
  evInst :: "bool \<Rightarrow> instEnv"
  evReadConfig :: "HarvesterConfig result"
  evUserData :: "HarvesterConfig result"

definition modInstall :: "(Install \<Rightarrow> Install) \<Rightarrow> unit ui" where
  "modInstall f = modS (\<lambda>c. c\<lparr>cnConfig := (cnConfig c)\<lparr>hInstall := f (hInstall (cnConfig c))\<rparr>\<rparr>)"

definition modOS :: "(OS \<Rightarrow> OS) \<Rightarrow> unit ui" where
  "modOS f = modS (\<lambda>c. c\<lparr>cnConfig := (cnConfig c)\<lparr>hOS := f (hOS (cnConfig c))\<rparr>\<rparr>)"

definition modUser :: "(UserInputData \<Rightarrow> UserInputData) \<Rightarrow> unit ui" where
  "modUser f = modS (\<lambda>c. c\<lparr>cnUser := f (cnUser c)\<rparr>)"

definition modMgmt :: "(Network \<Rightarrow> Network) \<Rightarrow> unit ui" where
  "modMgmt f = modS (\<lambda>c. c\<lparr>cnMgmt := f (cnMgmt c)\<rparr>)"

definition install :: "con \<Rightarrow> Install" where
  "install c = hInstall (cnConfig c)"

definition whenS :: "bool \<Rightarrow> ('s, unit) prog \<Rightarrow> ('s, unit) prog" where
  "whenS b m = (if b then m else retS ())"

definition lookupStr :: "string gomap \<Rightarrow> string \<Rightarrow> string" where
  "lookupStr m k = (case mapGet m k of None \<Rightarrow> [] | Some v \<Rightarrow> v)"

section \<open>Elements\<close>

datatype kind = KPanel bool | KInput | KDropDown | KSelect

text \<open>The element added under each name; the argument of a panel is \<^verbatim>\<open>Focus\<close> at the time it is shown.\<close>

definition inputNames :: "string list" where
  "inputNames = [''persistentSize'', ''serverUrl'', ''osPassword'', ''osPasswordConfirm'', ''sshKey'', ''token'', ''proxy'',
     ''cloudInit'', ''hostname'', ''askVlanID'', ''address'', ''mask'', ''gateway'', ''mtu'', ''dnsServers'', ''ntpServersPanel'',
     ''podCIDRPanel'', ''serviceCIDRPanel'', ''clusterDNSPanel'', ''vipHwAddrPanel'', ''vipPanel'']"

definition dropDownNames :: "string list" where
  "dropDownNames = [''disk'', ''dataDisk'', ''wipeDisksPanel'', ''askForceMBR'', ''askInterface'', ''askBondMode'',
     ''askNetworkMethod'', ''askVipMethodPanel'']"

definition selectNames :: "string list" where
  "selectNames = [''preflightCheck'', ''askCreate'', ''askRolePanel'', ''confirmInstall'', ''confirmUpgrade'']"

definition focusPanels :: "string list" where
  "focusPanels = [''diskFatal'', ''wipeDisksTitlePanel'', ''askForceMBRTitle'', ''diskNote'', ''spinner'', ''install'', ''upgrade'']"

definition multiNames :: "string list" where
  "multiNames = [''wipeDisksPanel'', ''askInterface'']"

definition kindOf :: "string \<Rightarrow> kind" where
  "kindOf name =
     (if name \<in> set inputNames then KInput
      else if name \<in> set dropDownNames then KDropDown
      else if name \<in> set selectNames then KSelect
      else KPanel (name \<in> set focusPanels))"

subsection \<open>Panels without hooks\<close>

definition showPanel :: "string \<Rightarrow> unit ui" where
  "showPanel name =
     modS (\<lambda>c. if name \<in> set (cnOpen c) then c
               else c\<lparr>cnOpen := cnOpen c @ [name],
                      cnFocus := (if kindOf name = KPanel True then name else cnFocus c)\<rparr>)"

definition closePanel :: "string \<Rightarrow> unit ui" where
  "closePanel name = modS (\<lambda>c. c\<lparr>cnOpen := removeAll name (cnOpen c)\<rparr>)"

definition setContent :: "string \<Rightarrow> string \<Rightarrow> unit ui" where
  "setContent name content = modS (\<lambda>c. c\<lparr>cnContent := mapPut name content (cnContent c)\<rparr>)"

definition setContentByName :: "string \<Rightarrow> string \<Rightarrow> unit ui" where
  "setContentByName name content =
     (if content = [] then closePanel name else seqS (showPanel name) (setContent name content))"

subsection \<open>Options\<close>

definition yesNo :: "string \<Rightarrow> Option list" where
  "yesNo noText = [\<lparr>opValue = ''yes'', opText = ''Yes''\<rparr>, \<lparr>opValue = ''no'', opText = noText\<rparr>]"

definition askForceMBROptions :: "Option list" where
  "askForceMBROptions = [\<lparr>opValue = ''no'', opText = ''No''\<rparr>, \<lparr>opValue = ''yes'', opText = ''Yes''\<rparr>]"

definition getBondModeOptions :: "Option list" where
  "getBondModeOptions = map (\<lambda>m. \<lparr>opValue = m, opText = m\<rparr>)
     [''balance-rr'', BondModeActiveBackup, ''balance-xor'', ''broadcast'', ''802.3ad'', ''balance-tlb'', ''balance-alb'']"

definition getNetworkMethodOptions :: "Option list" where
  "getNetworkMethodOptions = [\<lparr>opValue = NetworkMethodDHCP, opText = ''Automatic (DHCP)''\<rparr>,
                              \<lparr>opValue = NetworkMethodStatic, opText = ''Static''\<rparr>]"

text \<open>The state of the link in the text of an option is left out.\<close>

definition getNetworkInterfaceOptions :: "netHost \<Rightarrow> Option list result" where
  "getNetworkInterfaceOptions h =
     (case getNICs h of
        Inl err \<Rightarrow> Inl err
      | Inr nics \<Rightarrow> Inr (map (\<lambda>nic. \<lparr>opValue = lkName nic,
                                   opText = lkName nic @ ''('' @ macString (lkHwAddr nic) @ '')''\<rparr>) nics))"

definition askCreateOptions :: "bool \<Rightarrow> Option list" where
  "askCreateOptions alreadyInstalled =
     [\<lparr>opValue = ModeCreate, opText = ''Create a new Harvester cluster''\<rparr>,
      \<lparr>opValue = ModeJoin, opText = ''Join an existing Harvester cluster''\<rparr>] @
     (if \<not> alreadyInstalled then [\<lparr>opValue = ModeInstall, opText = ''Install Harvester binaries only''\<rparr>] else [])"

definition askRoleOptions :: "Option list" where
  "askRoleOptions =
     [\<lparr>opValue = RoleDefault, opText = ''Default Role (Management or Worker)''\<rparr>,
      \<lparr>opValue = RoleMgmt, opText = ''Management Role''\<rparr>,
      \<lparr>opValue = RoleWitness, opText = ''Witness Role''\<rparr>, \<lparr>opValue = RoleWorker, opText = ''Worker Role''\<rparr>]"

definition optionsOf :: "env \<Rightarrow> con \<Rightarrow> string \<Rightarrow> Option list result" where
  "optionsOf ev c name =
     (if name = ''disk'' then Inr (getAllValidDiskOptions (cnCache c))
      else if name = ''dataDisk'' then getDataDiskOptions (cnCache c) (cnConfig c)
      else if name = ''wipeDisksPanel'' then Inr (getWipeDisksOptions (cnCache c) (cnConfig c))
      else if name = ''askForceMBR'' then Inr askForceMBROptions
      else if name = ''askInterface'' then getNetworkInterfaceOptions (evNet ev)
      else if name = ''askBondMode'' then Inr getBondModeOptions
      else if name \<in> {''askNetworkMethod'', ''askVipMethodPanel''} then Inr getNetworkMethodOptions
      else if name = ''askCreate'' then Inr (askCreateOptions (cnAlreadyInstalled c))
      else if name = ''askRolePanel'' then Inr askRoleOptions
      else if name \<in> {''preflightCheck'', ''confirmUpgrade''} then Inr (yesNo ''No'')
      else if name = ''confirmInstall'' then Inr (yesNo ''No (Reboot)'')
      else Inr [])"

subsection \<open>Widgets on the screen\<close>

definition putData :: "string \<Rightarrow> string \<Rightarrow> unit ui" where
  "putData name v = modS (\<lambda>c. c\<lparr>cnData := mapPut name v (cnData c)\<rparr>)"

definition openNew :: "string \<Rightarrow> unit ui" where
  "openNew name = modS (\<lambda>c. c\<lparr>cnOpen := (if name \<in> set (cnOpen c) then cnOpen c else cnOpen c @ [name]), cnFocus := name\<rparr>)"

text \<open>
  \<open>cnValue\<close> is the field \<^verbatim>\<open>Value\<close> of an input or a selection, which \<^verbatim>\<open>Show\<close> copies to the screen; \<open>cnData\<close> is
  what \<^verbatim>\<open>GetData\<close> returns: the text of an input, the value of a drop-down list, the option under the
  cursor of a selection.
\<close>

definition openElement :: "env \<Rightarrow> string \<Rightarrow> unit ui" where
  "openElement ev name =
     (case kindOf name of
        KPanel f \<Rightarrow> showPanel name
      | KInput \<Rightarrow> bindS (getS (\<lambda>c. lookupStr (cnValue c) name)) (\<lambda>v. seqS (openNew name) (putData name v))
      | KDropDown \<Rightarrow>
          bindS (getS id) (\<lambda>c. bindS (liftS (optionsOf ev c name)) (\<lambda>opts.
            seqS (whenS (name \<notin> set (cnOpen c) \<and> lookupStr (cnData c) name = [] \<and> opts \<noteq> [] \<and> name \<notin> set multiNames)
                    (putData name (opValue (hd opts))))
                 (openNew name)))
      | KSelect \<Rightarrow>
          bindS (getS id) (\<lambda>c. bindS (liftS (optionsOf ev c name)) (\<lambda>opts.
            let v = lookupStr (cnValue c) name in
            seqS (whenS (name \<notin> set (cnOpen c))
                    (seqS (putData name (if opts = [] then [] else opValue (hd opts))) (openNew name)))
                 (if v = [] then retS ()
                  else if v \<notin> opValue ` set opts then failS (Msg (''given data '' @ v @ '' not found in options''))
                  else putData name v))))"

definition getData :: "string \<Rightarrow> string ui" where
  "getData name =
     bindS (getS id) (\<lambda>c.
       if kindOf name \<in> {KInput, KSelect} \<and> name \<notin> set (cnOpen c) then failS ErrUnknownView
       else retS (lookupStr (cnData c) name))"

definition getMultiData :: "string \<Rightarrow> string list ui" where
  "getMultiData name = getS (\<lambda>c. case mapGet (cnMulti c) name of None \<Rightarrow> [] | Some vs \<Rightarrow> vs)"

definition sshKeyV_PostClose :: "unit ui" where
  "sshKeyV_PostClose = seqS (setContentByName ''note'' []) (closePanel ''spinner'')"

definition ntpServersV_PostClose :: "unit ui" where
  "ntpServersV_PostClose = seqS (setContentByName ''note'' []) (closePanel ''spinner'')"

definition dnsServersV_PostClose :: "unit ui" where
  "dnsServersV_PostClose = seqS (setContentByName ''note'' []) (closePanel ''spinner'')"

definition serverURLV_PostClose :: "unit ui" where
  "serverURLV_PostClose = closePanel ''spinner''"

definition cloudInitV_PostClose :: "unit ui" where
  "cloudInitV_PostClose = closePanel ''spinner''"

lemmas post_hooks = sshKeyV_PostClose_def ntpServersV_PostClose_def dnsServersV_PostClose_def serverURLV_PostClose_def
  cloudInitV_PostClose_def

definition postClose :: "string \<Rightarrow> unit ui" where
  "postClose name =
     (if name = ''sshKey'' then sshKeyV_PostClose
      else if name = ''ntpServersPanel'' then ntpServersV_PostClose
      else if name = ''dnsServers'' then dnsServersV_PostClose
      else if name = ''serverUrl'' then serverURLV_PostClose
      else if name = ''cloudInit'' then cloudInitV_PostClose
      else retS ())"

text \<open>\<^verbatim>\<open>Close\<close> of an element: only a panel may be closed twice.\<close>

definition closeEl :: "string \<Rightarrow> unit ui" where
  "closeEl name =
     bindS (getS cnOpen) (\<lambda>open'.
       if name \<in> set open' then seqS (closePanel name) (postClose name)
       else if kindOf name \<in> {KInput, KDropDown, KSelect} then failS ErrUnknownView else retS ())"

definition CloseElement :: "string \<Rightarrow> unit ui" where
  "CloseElement name = logged (closeEl name) ()"

definition CloseElements :: "string list \<Rightarrow> unit ui" where
  "CloseElements names = forS CloseElement names"

definition setValue :: "string \<Rightarrow> string \<Rightarrow> unit ui" where
  "setValue name v = modS (\<lambda>c. c\<lparr>cnValue := mapPut name v (cnValue c)\<rparr>)"

definition setTitle :: "string \<Rightarrow> unit ui" where
  "setTitle t = setContentByName ''title'' t"

definition startTask :: "task \<Rightarrow> unit ui" where
  "startTask t = modS (\<lambda>c. c\<lparr>cnTasks := cnTasks c @ [t]\<rparr>)"

text \<open>A check running on a panel; its end writes a message there.\<close>

definition withSpinner :: "string \<Rightarrow> task \<Rightarrow> unit ui" where
  "withSpinner name t = seqS (setContent name ''...'') (startTask t)"

text \<open>A sequence of statements, and code that runs on a part of the state.\<close>

definition seqs :: "unit ui list \<Rightarrow> unit ui" where
  "seqs ms = foldr seqS ms (retS ())"

definition onNet :: "(netState, 'a) prog \<Rightarrow> 'a ui" where
  "onNet m c = (case m (cnNet c) of (r, n) \<Rightarrow> (r, c\<lparr>cnNet := n\<rparr>))"

definition onLinks :: "'a links \<Rightarrow> 'a ui" where
  "onLinks m c = (case m (cnLinks c) of (r, l) \<Rightarrow> (r, c\<lparr>cnLinks := l\<rparr>))"

definition onRemote :: "'a rem \<Rightarrow> 'a ui" where
  "onRemote m c = (case m (cnRemote c) of (r, s) \<Rightarrow> (r, c\<lparr>cnRemote := s\<rparr>))"

text \<open>The installation reads and writes the configuration, the profiles, the disk options and the trace.\<close>

definition onInst :: "'a inst \<Rightarrow> 'a ui" where
  "onInst m c =
     (case m \<lparr>isCfg = cnConfig c, isNM = anProfiles (cnNet c), isCache = cnCache c, isTrace = cnTrace c\<rparr> of
        (r, st) \<Rightarrow> (r, c\<lparr>cnConfig := isCfg st, cnNet := (cnNet c)\<lparr>anProfiles := isNM st\<rparr>, cnCache := isCache st,
                        cnTrace := isTrace st\<rparr>))"

text \<open>Code that looks at the error of a call and goes on.\<close>

definition tryS :: "('s, 'a) prog \<Rightarrow> (goerror \<Rightarrow> ('s, 'b) prog) \<Rightarrow> ('a \<Rightarrow> ('s, 'b) prog) \<Rightarrow> ('s, 'b) prog" where
  "tryS m h k s = (case m s of (Inl err, s') \<Rightarrow> h err s' | (Inr x, s') \<Rightarrow> k x s')"

text \<open>\<^verbatim>\<open>SetData\<close> of an input, and the message a spinner leaves on its panel.\<close>

definition inputSetData :: "string \<Rightarrow> string \<Rightarrow> unit ui" where
  "inputSetData name v =
     bindS (getS cnOpen) (\<lambda>open'. if name \<in> set open' then putData name v else failS ErrUnknownView)"

definition spinnerStop :: "string \<Rightarrow> string \<Rightarrow> unit ui" where
  "spinnerStop name msg = bindS (getS cnOpen) (\<lambda>open'. whenS (name \<in> set open') (setContent name msg))"

section \<open>Consoles of the kernel\<close>

definition getFirstConsoleTTY :: "bool \<Rightarrow> string result \<Rightarrow> string" where
  "getFirstConsoleTTY arm64 active =
     (case active of
        Inl err \<Rightarrow> []
      | Inr b \<Rightarrow>
          (let ttys = splitOn CHR '' '' (trimRight CHR 0x0A b) in
           if arm64 \<and> indexOf ''AMA0'' (hd ttys) \<noteq> None \<and> 1 < length ttys then ttys ! 1 else hd ttys))"

definition isFirstConsoleTTY :: "bool \<Rightarrow> string result \<Rightarrow> string \<Rightarrow> bool" where
  "isFirstConsoleTTY arm64 active tty \<longleftrightarrow>
     tty \<noteq> [] \<and> trimPrefix tty ''/dev/'' = getFirstConsoleTTY arm64 active"

end
