(* ===== verification/Pages.thy ===== *)
theory Pages
  imports Console
begin

text \<open>
  What every element of the installer does when it is shown (the \<^verbatim>\<open>PreShow\<close> hooks of
  \<^verbatim>\<open>install_panels.go\<close>), \<^verbatim>\<open>showNext\<close> (\<^verbatim>\<open>util.go\<close>) and the functions that show a whole page.
\<close>

section \<open>Hooks\<close>

subsection \<open>Disks\<close>

definition setPageTitle :: "unit ui" where
  "setPageTitle =
     bindS (getS install) (\<lambda>i.
       if inRole i = RoleWitness then setTitle ''Choose installation target. Device will be formatted''
       else setTitle ''Choose installation target and data disk. Device will be formatted'')"

text \<open>The field \<^verbatim>\<open>Value\<close> of the input is the only trace of an earlier visit to the page.\<close>

definition preShowPersistentSize :: "env \<Rightarrow> unit ui" where
  "preShowPersistentSize ev =
     bindS (getS id) (\<lambda>c.
       let device = inDevice (install c);
           setDefault = bindS (liftS (calculateDefaultPersistentSize (hoLsblk (evHost ev)) device)) (setValue ''persistentSize'') in
       if lookupStr (cnValue c) ''persistentSize'' \<noteq> []
       then (if inPersistentPartitionSize (install c) \<noteq> []
             then setValue ''persistentSize'' (inPersistentPartitionSize (install c))
             else setDefault)
       else setDefault)"

subsection \<open>Network\<close>

definition activeBackup :: "string gomap" where
  "activeBackup = [(''mode'', BondModeActiveBackup), (''miimon'', ''100'')]"

definition preShowBondMode :: "unit ui" where
  "preShowBondMode =
     bindS (getS (\<lambda>c. nwBondOptions (cnMgmt c))) (\<lambda>opts.
       whenS (opts = None)
         (seqS (putData ''askBondMode'' BondModeActiveBackup)
               (modMgmt (\<lambda>n. n\<lparr>nwBondOptions := Some activeBackup\<rparr>))))"

definition numberOrBlank :: "int \<Rightarrow> string" where
  "numberOrBlank n = (if n = 0 then [] else showInt n)"

definition checkDHCPHostname :: "env \<Rightarrow> bool \<Rightarrow> unit ui" where
  "checkDHCPHostname ev generate =
     bindS (getS (\<lambda>c. osHostname (hOS (cnConfig c)))) (\<lambda>name.
       whenS (name = [])
         (let hostname = (case evOSHostname ev of Inl err \<Rightarrow> [] | Inr h \<Rightarrow> h) in
          if hostname \<noteq> ''rancher'' \<and> hostname \<noteq> [] then modOS (\<lambda>os. os\<lparr>osHostname := hostname\<rparr>)
          else whenS generate (modOS (\<lambda>os. os\<lparr>osHostname := ''harvester-'' @ evRandomName ev\<rparr>))))"

subsection \<open>Confirmation\<close>

definition optionLine :: "string \<Rightarrow> string \<Rightarrow> string" where
  "optionLine label v = label @ '': '' @ v @ nl"

definition confirmOptions :: "con \<Rightarrow> string \<Rightarrow> string" where
  "confirmOptions c installBytes =
     optionLine ''install mode'' (inMode (install c)) @
     (if \<not> cnInstallModeOnly c then optionLine ''install role'' (inRole (install c)) else []) @
     optionLine ''hostname'' (osHostname (hOS (cnConfig c))) @
     (if uiDNSServers (cnUser c) \<noteq> [] then optionLine ''dns servers'' (uiDNSServers (cnUser c)) else []) @
     (if uiNTPServers (cnUser c) \<noteq> [] then optionLine ''ntp servers'' (uiNTPServers (cnUser c)) else []) @
     (let proxy = lookupStr (cnEnviron c) ''HTTP_PROXY'' in if proxy \<noteq> [] then optionLine ''proxy address'' proxy else []) @
     (if uiSSHKeyURL (cnUser c) \<noteq> [] then optionLine ''ssh key url'' (uiSSHKeyURL (cnUser c)) else []) @
     installBytes"

definition preShowConfirmInstall :: "env \<Rightarrow> unit ui" where
  "preShowConfirmInstall ev =
     bindS (getS id) (\<lambda>c.
     bindS (liftS (evPrintInstall ev (install c))) (\<lambda>installBytes.
     seqS (whenS (\<not> inSilent (install c))
       (setContent ''confirmInstall'' (confirmOptions c installBytes @
         (if cnAlreadyInstalled c then nl @ ''Harvester is already installed. It will be configured with the above configuration. Continue?'' @ nl
          else if cnInstallModeOnly c then nl @ ''Harvester will be copied to local disk. No configuration will be performed. Continue?'' @ nl
          else nl @ ''Your disk will be formatted and Harvester will be installed with the above configuration. Continue?'' @ nl))))
       (setTitle ''Confirm installation options'')))"

subsection \<open>The hook of each element\<close>

definition noteAndTitle :: "string \<Rightarrow> string \<Rightarrow> unit ui" where
  "noteAndTitle note title = seqS (setTitle title) (setContentByName ''note'' note)"

definition fromUser :: "string \<Rightarrow> (UserInputData \<Rightarrow> string) \<Rightarrow> unit ui" where
  "fromUser name f = bindS (getS (\<lambda>c. f (cnUser c))) (setValue name)"

definition fromMgmt :: "string \<Rightarrow> (Network \<Rightarrow> string) \<Rightarrow> unit ui" where
  "fromMgmt name f = bindS (getS (\<lambda>c. f (cnMgmt c))) (setValue name)"

definition fromInstall :: "string \<Rightarrow> (Install \<Rightarrow> string) \<Rightarrow> unit ui" where
  "fromInstall name f = bindS (getS (\<lambda>c. f (install c))) (setValue name)"

definition preShowToken :: "unit ui" where
  "preShowToken =
     bindS (getS id) (\<lambda>c. seqs
       [setValue ''token'' (hToken (cnConfig c)),
        setContentByName ''note'' (if inMode (install c) = ModeCreate
          then ''Note: The token is used for adding nodes to the cluster'' else ''Note: Input the token of the existing cluster''),
        setTitle ''Configure cluster token''])"

definition preShowAskCreate :: "unit ui" where
  "preShowAskCreate =
     seqs [modS (\<lambda>c. c\<lparr>cnPreflightAck := True\<rparr>),
           fromInstall ''askCreate'' inMode,
           bindS (getS cnAlreadyInstalled) (\<lambda>already.
             if already then setTitle ''Harvester already installed. Choose configuration mode''
             else setTitle ''Choose installation mode'')]"

definition preShowPreflight :: "unit ui" where
  "preShowPreflight =
     bindS (getS cnPreflightWarnings) (\<lambda>ws.
       seqS (setContent ''preflightCheck'' (concat (map (\<lambda>w. w @ nl) ws) @ nl @ ''Do you wish to proceed?'' @ nl))
            (setTitle ''Hardware Checks''))"

definition diskFatalV_PreShow :: "unit ui" where
  "diskFatalV_PreShow =
     seqS (setContent ''diskFatal'' ''No disk detected. Harvester requires at least one disk.'') setPageTitle"

definition diskV_PreShow :: "unit ui" where
  "diskV_PreShow =
     seqS (setContentByName ''diskNote'' []) setPageTitle"

definition askRoleV_PreShow :: "unit ui" where
  "askRoleV_PreShow =
     seqS (fromInstall ''askRolePanel'' inRole) (setTitle ''Choose installation role'')"

definition serverURLV_PreShow :: "unit ui" where
  "serverURLV_PreShow =
     seqS (fromUser ''serverUrl'' uiServerURL)
       (noteAndTitle ''Note: Input VIP/domain name of the management node'' ''Configure management address'')"

definition passwordV_PreShow :: "unit ui" where
  "passwordV_PreShow =
     fromUser ''osPassword'' uiPassword"

definition passwordConfirmV_PreShow :: "unit ui" where
  "passwordConfirmV_PreShow =
     seqs [fromUser ''osPasswordConfirm'' uiPasswordConfirm, setContentByName ''note'' [],
       setTitle ''Password change: set the default login password'']"

definition sshKeyV_PreShow :: "unit ui" where
  "sshKeyV_PreShow =
     seqS (fromUser ''sshKey'' uiSSHKeyURL)
       (noteAndTitle ''For example: https://github.com/<username>.keys'' ''Optional: import SSH keys'')"

definition hostnameV_PreShow :: "env \<Rightarrow> unit ui" where
  "hostnameV_PreShow ev =
     seqs [checkDHCPHostname ev False, bindS (getS (\<lambda>c. osHostname (hOS (cnConfig c)))) (setValue ''hostname''),
       setTitle ''Configure hostname for this instance'']"

definition askVlanIDV_PreShow :: "unit ui" where
  "askVlanIDV_PreShow =
     fromMgmt ''askVlanID'' (\<lambda>n. numberOrBlank (nwVlanID n))"

definition addressV_PreShow :: "unit ui" where
  "addressV_PreShow =
     fromUser ''address'' uiAddress"

definition addrMaskV_PreShow :: "unit ui" where
  "addrMaskV_PreShow =
     fromMgmt ''mask'' nwSubnetMask"

definition gatewayV_PreShow :: "unit ui" where
  "gatewayV_PreShow =
     fromMgmt ''gateway'' nwGateway"

definition mtuV_PreShow :: "unit ui" where
  "mtuV_PreShow =
     fromMgmt ''mtu'' (\<lambda>n. numberOrBlank (nwMTU n))"

definition podCIDRInput_PreShow :: "unit ui" where
  "podCIDRInput_PreShow =
     seqs [fromInstall ''podCIDRPanel'' inClusterPodCIDR, setTitle ''Configure cluster network'',
       setContentByName ''clusterNetworkNotePanel'' ''Note: Leave blank to use the default pod CIDR 10.52.0.0/16, service CIDR 10.53.0.0/16 and cluster DNS 10.53.0.10. If the service CIDR is changed, the DNS IP must be updated to be within the service CIDR.'',
       setContentByName ''clusterNetworkValidatorPanel'' []]"

definition serviceCIDRInput_PreShow :: "unit ui" where
  "serviceCIDRInput_PreShow =
     fromInstall ''serviceCIDRPanel'' inClusterServiceCIDR"

definition dnsInput_PreShow :: "unit ui" where
  "dnsInput_PreShow =
     fromInstall ''clusterDNSPanel'' inClusterDNS"

definition proxyV_PreShow :: "unit ui" where
  "proxyV_PreShow =
     seqS (bindS (getS (\<lambda>c. lookupStr (cnEnviron c) ''HTTP_PROXY'')) (setValue ''proxy''))
       (noteAndTitle (''Note: In the form of '' @ [CHR 0x22] @ ''http://[[user][:pass]@]host[:port]/'' @ [CHR 0x22] @ ''.'') ''Optional: configure proxy'')"

definition cloudInitV_PreShow :: "unit ui" where
  "cloudInitV_PreShow =
     seqS (fromInstall ''cloudInit'' inConfigURL) (setTitle ''Optional: remote Harvester config'')"

definition confirmUpgrade_PreShow :: "env \<Rightarrow> unit ui" where
  "confirmUpgrade_PreShow ev =
     setTitle (''Confirm upgrading Harvester to '' @ evVersion ev @ ''?'')"

definition installV_PreShow :: "unit ui" where
  "installV_PreShow =
     seqS (startTask Installation) (setContentByName ''footer'' [])"

definition upgradeV_PreShow :: "unit ui" where
  "upgradeV_PreShow =
     seqS (startTask Upgrade) (setContentByName ''footer'' [])"

definition askVipMethodV_PreShow :: "unit ui" where
  "askVipMethodV_PreShow =
     seqS (setContent ''vipTextPanel'' []) (setTitle ''Configure VIP'')"

definition ntpServersV_PreShow :: "unit ui" where
  "ntpServersV_PreShow =
     seqS (fromUser ''ntpServersPanel'' uiNTPServers)
       (noteAndTitle (''Note: It'' @ [CHR 0x27] @ ''s recommended to configure NTP servers to make sure the time is synced among all nodes. You can use comma to add more NTP servers.'') ''Configure NTP Servers'')"

definition dnsServersV_PreShow :: "unit ui" where
  "dnsServersV_PreShow =
     seqS (fromUser ''dnsServers'' uiDNSServers)
       (noteAndTitle ''Note: You can use comma to add more DNS servers. Leave blank to use default DNS.'' ''Configure DNS Servers'')"

lemmas hooks = diskFatalV_PreShow_def diskV_PreShow_def askRoleV_PreShow_def serverURLV_PreShow_def
  passwordV_PreShow_def passwordConfirmV_PreShow_def sshKeyV_PreShow_def hostnameV_PreShow_def askVlanIDV_PreShow_def
  addressV_PreShow_def addrMaskV_PreShow_def gatewayV_PreShow_def mtuV_PreShow_def podCIDRInput_PreShow_def
  serviceCIDRInput_PreShow_def dnsInput_PreShow_def proxyV_PreShow_def cloudInitV_PreShow_def
  confirmUpgrade_PreShow_def installV_PreShow_def upgradeV_PreShow_def askVipMethodV_PreShow_def
  ntpServersV_PreShow_def dnsServersV_PreShow_def

text \<open>The element called \<open>name\<close> and its hook.\<close>

definition preShow :: "env \<Rightarrow> string \<Rightarrow> unit ui" where
  "preShow ev name =
     (if name = ''diskFatal'' then diskFatalV_PreShow
      else if name = ''disk'' then diskV_PreShow
      else if name = ''persistentSize'' then preShowPersistentSize ev
      else if name = ''preflightCheck'' then preShowPreflight
      else if name = ''askCreate'' then preShowAskCreate
      else if name = ''askRolePanel'' then askRoleV_PreShow
      else if name = ''serverUrl'' then serverURLV_PreShow
      else if name = ''osPassword'' then passwordV_PreShow
      else if name = ''osPasswordConfirm'' then passwordConfirmV_PreShow
      else if name = ''sshKey'' then sshKeyV_PreShow
      else if name = ''token'' then preShowToken
      else if name = ''hostname'' then hostnameV_PreShow ev
      else if name = ''askInterface'' then setTitle ''Configure network''
      else if name = ''askVlanID'' then askVlanIDV_PreShow
      else if name = ''askBondMode'' then preShowBondMode
      else if name = ''address'' then addressV_PreShow
      else if name = ''mask'' then addrMaskV_PreShow
      else if name = ''gateway'' then gatewayV_PreShow
      else if name = ''mtu'' then mtuV_PreShow
      else if name = ''podCIDRPanel'' then podCIDRInput_PreShow
      else if name = ''serviceCIDRPanel'' then serviceCIDRInput_PreShow
      else if name = ''clusterDNSPanel'' then dnsInput_PreShow
      else if name = ''proxy'' then proxyV_PreShow
      else if name = ''cloudInit'' then cloudInitV_PreShow
      else if name = ''confirmInstall'' then preShowConfirmInstall ev
      else if name = ''confirmUpgrade'' then confirmUpgrade_PreShow ev
      else if name = ''install'' then installV_PreShow
      else if name = ''upgrade'' then upgradeV_PreShow
      else if name = ''askVipMethodPanel'' then askVipMethodV_PreShow
      else if name = ''ntpServersPanel'' then ntpServersV_PreShow
      else if name = ''dnsServers'' then dnsServersV_PreShow
      else retS ())"

section \<open>Showing\<close>

definition ShowElement :: "env \<Rightarrow> string \<Rightarrow> unit ui" where
  "ShowElement ev name = seqS (preShow ev name) (openElement ev name)"

definition showNext :: "env \<Rightarrow> string list \<Rightarrow> unit ui" where
  "showNext ev names = seqS (forS (ShowElement ev) names) (closeEl ''validator'')"

definition showPasswordPage :: "env \<Rightarrow> unit ui" where
  "showPasswordPage ev = showNext ev [''osPasswordConfirm'', ''osPassword'']"

text \<open>The locations of the elements on the screen are not part of the state.\<close>

definition showRolePage :: "env \<Rightarrow> unit ui" where
  "showRolePage ev = showNext ev [''askRolePanel'']"

definition showHostnamePage :: "env \<Rightarrow> unit ui" where
  "showHostnamePage ev = showNext ev [''hostname'']"

definition showNetworkPage :: "env \<Rightarrow> unit ui" where
  "showNetworkPage ev =
     bindS (getS (\<lambda>c. nwMethod (cnMgmt c))) (\<lambda>meth.
       if meth \<noteq> NetworkMethodStatic
       then showNext ev [''askVlanID'', ''askBondMode'', ''askNetworkMethod'', ''askInterface'']
       else showNext ev [''askVlanID'', ''askBondMode'', ''askNetworkMethod'', ''address'', ''mask'', ''gateway'', ''mtu'',
              ''askInterface''])"

definition showClusterNetworkPage :: "env \<Rightarrow> unit ui" where
  "showClusterNetworkPage ev =
     showNext ev [''serviceCIDRPanel'', ''clusterDNSPanel'', ''clusterNetworkNotePanel'', ''clusterNetworkValidatorPanel'', ''podCIDRPanel'']"

definition refreshDisks :: "env \<Rightarrow> unit ui" where
  "refreshDisks ev =
     bindS (getS cnCache) (\<lambda>d.
     bindS (liftS (refresh (hoUnmarshal (evHost ev)) (hoLsblkJSON (evHost ev)) d)) (\<lambda>d'. modS (\<lambda>c. c\<lparr>cnCache := d'\<rparr>)))"

definition showDiskPage :: "env \<Rightarrow> unit ui" where
  "showDiskPage ev =
     seqs
       [modS (\<lambda>c. c\<lparr>cnDiskConfirmed := False\<rparr>),
        refreshDisks ev,
        modS (\<lambda>c. c\<lparr>cnConfig := presetConfigDisks (cnConfig c) (getAllValidDiskOptions (cnCache c))\<rparr>),
        bindS (getS id) (\<lambda>c.
          let diskOptions = getAllValidDiskOptions (cnCache c); i = install c in
          if length diskOptions = 0 then showNext ev [''diskFatal'']
          else let showPersistentSizeOption =
                     inRole i \<noteq> RoleWitness \<and> (length diskOptions = 1 \<or> inDataDisk i = inDevice i);
                   data = (if inRole i \<noteq> RoleWitness \<and> 1 < length diskOptions then [''dataDisk''] else []);
                   mbr = (if hoSystemIsBIOS (evHost ev) then [''askForceMBRTitle'', ''askForceMBR''] else []);
                   size = (if showPersistentSizeOption then [''persistentSize''] else []) in
               showNext ev (size @ mbr @ data @ [''disk'']))]"

end
