(* ===== verification/Pages_Setup.thy ===== *)
theory Pages_Setup
  imports Pages
begin

text \<open>
  The first pages: the hardware warnings, the mode, the role and the password of the login user
  (\<^verbatim>\<open>install_panels.go\<close>, \<^verbatim>\<open>helper.go\<close>). A handler is named after the page and the key.
\<close>

datatype key = KEnter | KEsc | KUp | KDown

section \<open>Hardware warnings\<close>

text \<open>Both confirmations end in a reboot on \<^verbatim>\<open>no\<close>.\<close>

definition haltInstallation :: "string \<Rightarrow> unit ui" where
  "haltInstallation name =
     seqs [closeEl name, setTitle [], setContentByName ''footer'' [],
           modS (\<lambda>c. c\<lparr>cnRebooting := True\<rparr>),
           setContentByName ''note'' ''Installation halted. Rebooting system in 5 seconds'']"

definition preflightEnter :: "env \<Rightarrow> unit ui" where
  "preflightEnter ev =
     bindS (getData ''preflightCheck'') (\<lambda>proceed.
       if proceed = ''no'' then haltInstallation ''preflightCheck''
       else seqS (closeEl ''preflightCheck'') (showNext ev [''askCreate'']))"

section \<open>Mode and role\<close>

definition askCreateEnter :: "env \<Rightarrow> unit ui" where
  "askCreateEnter ev =
     bindS (getData ''askCreate'') (\<lambda>selected. seqs
       [modInstall (\<lambda>i. i\<lparr>inMode := selected\<rparr>),
        modS (\<lambda>c. c\<lparr>cnInstallModeOnly := (selected = ModeInstall)\<rparr>),
        whenS (selected = ModeCreate) (modInstall (\<lambda>i. i\<lparr>inRole := RoleDefault\<rparr>)),
        closeEl ''askCreate'',
        whenS (selected = ModeCreate)
          (seqS (modS (\<lambda>c. c\<lparr>cnConfig := (cnConfig c)\<lparr>hServerURL := []\<rparr>\<rparr>)) (modUser (\<lambda>u. u\<lparr>uiServerURL := []\<rparr>))),
        bindS (getS cnAlreadyInstalled) (\<lambda>already.
          if selected = ModeUpgrade then showNext ev [''confirmUpgrade'']
          else if selected = ModeJoin then showRolePage ev
          else if already then showNetworkPage ev
          else showPasswordPage ev)])"

definition askRoleEnter :: "env \<Rightarrow> unit ui" where
  "askRoleEnter ev =
     bindS (getData ''askRolePanel'') (\<lambda>selected. seqs
       [modInstall (\<lambda>i. i\<lparr>inRole := selected\<rparr>),
        closeEl ''askRolePanel'',
        bindS (getS cnAlreadyInstalled) (\<lambda>already. if already then showNetworkPage ev else showPasswordPage ev)])"

definition askRoleEsc :: "env \<Rightarrow> unit ui" where
  "askRoleEsc ev = seqS (CloseElements [''askRolePanel'']) (showNext ev [''askCreate''])"

section \<open>Password\<close>

definition passwordVConfirmKeyBinding :: "env \<Rightarrow> unit ui" where
  "passwordVConfirmKeyBinding ev =
     bindS (getData ''osPassword'') (\<lambda>password.
       seqS (modUser (\<lambda>u. u\<lparr>uiPassword := password\<rparr>))
            (if password = [] then setContentByName ''validator'' ''Password is required''
             else showNext ev [''osPasswordConfirm'']))"

definition closePassword :: "unit ui" where
  "closePassword = seqS (closeEl ''osPassword'') (closeEl ''osPasswordConfirm'')"

text \<open>The handlers of both inputs for the escape key are the same code.\<close>

definition passwordVEscapeKeyBinding :: "env \<Rightarrow> unit ui" where
  "passwordVEscapeKeyBinding ev =
     seqs [closePassword, setContentByName ''note'' [],
           bindS (getS (\<lambda>c. inMode (install c))) (\<lambda>mode.
             if mode = ModeJoin then showNext ev [''askRolePanel''] else showNext ev [''askCreate''])]"

definition passwordConfirmVArrowUpKeyBinding :: "env \<Rightarrow> unit ui" where
  "passwordConfirmVArrowUpKeyBinding ev =
     bindS (getData ''osPasswordConfirm'') (\<lambda>p.
       seqS (modUser (\<lambda>u. u\<lparr>uiPasswordConfirm := p\<rparr>)) (showNext ev [''osPassword'']))"

definition applyPassword :: "env \<Rightarrow> string \<Rightarrow> string \<Rightarrow> string \<times> goerror option" where
  "applyPassword ev username passwordHash =
     (if \<not> evUserExists ev
      then (''user '' @ username @ '' doesn'' @ [CHR 0x27] @ ''t exist.. skip password configuration'', None)
      else case evPasswordFile ev of Some err \<Rightarrow> ([], Some err) | None \<Rightarrow> evYip ev)"

definition passwordConfirmVKeyEnter :: "env \<Rightarrow> unit ui" where
  "passwordConfirmVKeyEnter ev =
     bindS (getData ''osPasswordConfirm'') (\<lambda>p.
     seqS (modUser (\<lambda>u. u\<lparr>uiPasswordConfirm := p\<rparr>))
    (bindS (getS cnUser) (\<lambda>u.
       if uiPassword u \<noteq> uiPasswordConfirm u then setContentByName ''validator'' ''Password mismatching''
       else seqS closePassword
           (bindS (liftS (evEncrypt ev (uiPassword u))) (\<lambda>encrypted.
            seqS (modOS (\<lambda>os. os\<lparr>osPassword := encrypted\<rparr>))
                 (case applyPassword ev ''rancher'' encrypted of
                    (out, Some err) \<Rightarrow> failS (Msg (errText err @ '': '' @ out))
                  | (out, None) \<Rightarrow> showDiskPage ev))))))"

section \<open>Keys\<close>

definition setupKeys :: "env \<Rightarrow> string \<Rightarrow> key \<Rightarrow> unit ui" where
  "setupKeys ev name k =
     (if name = ''preflightCheck'' then (if k = KEnter then preflightEnter ev else retS ())
      else if name = ''askCreate'' then (if k = KEnter then askCreateEnter ev else retS ())
      else if name = ''askRolePanel''
      then (case k of KEnter \<Rightarrow> askRoleEnter ev | KEsc \<Rightarrow> askRoleEsc ev | _ \<Rightarrow> retS ())
      else if name = ''osPassword''
      then (case k of KUp \<Rightarrow> retS () | KEsc \<Rightarrow> passwordVEscapeKeyBinding ev | _ \<Rightarrow> passwordVConfirmKeyBinding ev)
      else if name = ''osPasswordConfirm''
      then (case k of KUp \<Rightarrow> passwordConfirmVArrowUpKeyBinding ev | KEnter \<Rightarrow> passwordConfirmVKeyEnter ev
            | KEsc \<Rightarrow> passwordVEscapeKeyBinding ev | KDown \<Rightarrow> retS ())
      else retS ())"

end
