(* ===== verification/Pages_Disk.thy ===== *)
theory Pages_Disk
  imports Pages_Setup
begin

text \<open>
  The disk page (\<^verbatim>\<open>addDiskPanel\<close> in \<^verbatim>\<open>install_panels.go\<close>): installation disk, data disk, size of the
  persistent partition, disks to wipe, and the partitioning scheme.
\<close>

section \<open>Helpers\<close>

definition closeDiskPage :: "unit ui" where
  "closeDiskPage =
     CloseElements [''diskFatal'', ''disk'', ''dataDisk'', ''askForceMBR'', ''diskValidator'', ''diskNote'', ''askForceMBRTitle'',
       ''persistentSize'', ''wipeDisksTitlePanel'', ''wipeDisksPanel'']"

definition diskPrevPage :: "env \<Rightarrow> unit ui" where
  "diskPrevPage ev = seqs [closeDiskPage, modS (\<lambda>c. c\<lparr>cnDiskConfirmed := False\<rparr>), showPasswordPage ev]"

definition updateDiskMessage :: "string \<Rightarrow> unit ui" where
  "updateDiskMessage msg = setContentByName ''diskValidator'' msg"

text \<open>A failed check is shown and answered with \<open>False\<close>.\<close>

definition showDiskError :: "unit result \<Rightarrow> bool ui \<Rightarrow> bool ui" where
  "showDiskError r next' = (case r of Inl err \<Rightarrow> seqS (updateDiskMessage (errText err)) (retS False) | Inr u \<Rightarrow> next')"

definition validateAllDiskSizes :: "env \<Rightarrow> bool ui" where
  "validateAllDiskSizes ev =
     bindS (getS install) (\<lambda>i.
       let installDisk = inDevice i; dataDisk = inDataDisk i; lsblk = hoLsblk (evHost ev) in
       if inSkipChecks i then retS True
       else if inRole i = RoleWitness then showDiskError (validateDiskSize lsblk installDisk False) (retS True)
       else if dataDisk = [] \<or> installDisk = dataDisk
       then showDiskError (validateDiskSize lsblk installDisk True) (retS True)
       else showDiskError (validateDiskSize lsblk installDisk False)
              (showDiskError (validateDataDiskSize lsblk dataDisk) (retS True)))"

definition validatePersistentPartitionSize :: "env \<Rightarrow> string \<Rightarrow> bool ui" where
  "validatePersistentPartitionSize ev persistentSize =
     bindS (getS install) (\<lambda>i.
       if inDataDisk i = [] \<or> inDevice i = inDataDisk i
       then bindS (liftS (GetDiskSizeBytes (hoLsblk (evHost ev)) (inDevice i))) (\<lambda>diskSize.
              case ParsePartitionSize diskSize persistentSize (inSkipChecks i) of
                Inl err \<Rightarrow> seqS (updateDiskMessage (errText err)) (retS False)
              | Inr b \<Rightarrow> retS True)
       else retS True)"

text \<open>The page is left only after \<open>diskConfirmed\<close> was set by an earlier key.\<close>

definition leaveDiskPage :: "env \<Rightarrow> unit ui" where
  "leaveDiskPage ev =
     bindS (getS cnDiskConfirmed) (\<lambda>confirmed.
       if \<not> confirmed then modS (\<lambda>c. c\<lparr>cnDiskConfirmed := True\<rparr>)
       else seqS closeDiskPage
           (bindS (getS cnInstallModeOnly) (\<lambda>only.
              if only then showNext ev [''confirmInstall''] else showNetworkPage ev)))"

definition diskNextPage :: "env \<Rightarrow> unit ui" where
  "diskNextPage ev =
     bindS (validateAllDiskSizes ev) (\<lambda>valid.
       if \<not> valid then retS ()
       else bindS (getS install) (\<lambda>i.
         if inRole i = RoleWitness
         then seqS (modInstall (\<lambda>i. i\<lparr>inDataDisk := []\<rparr>)) (leaveDiskPage ev)
         else bindS (validatePersistentPartitionSize ev (inPersistentPartitionSize i)) (\<lambda>valid.
                if \<not> valid then retS () else leaveDiskPage ev)))"

definition forceMBRNote :: string where
  "forceMBRNote = ''Note: GPT is used by default. You can use MBR if you encountered compatibility issues.''"

definition persistentSizeNote :: string where
  "persistentSizeNote = ''Note: persistent partition stores data like system package and container images, not the VM data. '' @ nl @
     ''You can specify a size like 200Gi or 153600Mi. '' @ nl @ ''Leave it blank to use the default value.''"

text \<open>On a system without UEFI the partitioning scheme is asked for last.\<close>

definition askMBROrNextPage :: "env \<Rightarrow> unit ui" where
  "askMBROrNextPage ev =
     (if hoSystemIsBIOS (evHost ev)
      then seqS (setContentByName ''diskNote'' forceMBRNote) (showNext ev [''askForceMBR''])
      else diskNextPage ev)"

definition isWipeDisksPanelNeeded :: "env \<Rightarrow> unit ui" where
  "isWipeDisksPanelNeeded ev =
     bindS (getS id) (\<lambda>c.
       let i = install c in
       if length (getWipeDisksOptions (cnCache c) (cnConfig c)) \<noteq> 0
       then seqS (whenS (inDevice i \<in> set (inWipeDisksList i) \<or> inDataDisk i \<in> set (inWipeDisksList i))
                    (seqs [modInstall (\<lambda>i. i\<lparr>inWipeDisksList := []\<rparr>), putData ''wipeDisksPanel'' []]))
                 (showNext ev [''wipeDisksTitlePanel'', ''wipeDisksPanel''])
       else seqS (CloseElements [''wipeDisksTitlePanel'', ''wipeDisksPanel'']) (askMBROrNextPage ev))"

section \<open>Handlers\<close>

definition diskConfirm :: "env \<Rightarrow> unit ui" where
  "diskConfirm ev =
     bindS (getData ''disk'') (\<lambda>device.
     bindS (getData ''dataDisk'') (\<lambda>dataDisk.
     seqS (updateDiskMessage [])
    (seqS (modInstall (\<lambda>i. i\<lparr>inDevice := device\<rparr>))
    (bindS (getS id) (\<lambda>c.
       let witness = (inRole (install c) = RoleWitness) in
       if 1 < length (getAllValidDiskOptions (cnCache c))
       then bindS (validateAllDiskSizes ev) (\<lambda>valid.
              if witness then isWipeDisksPanelNeeded ev
              else if device = dataDisk then showNext ev [''persistentSize'', ''dataDisk'']
              else seqS (CloseElements [''persistentSize'']) (showNext ev [''dataDisk'']))
       else seqS (whenS (\<not> witness) (setContentByName ''diskNote'' persistentSizeNote))
           (bindS (validateAllDiskSizes ev) (\<lambda>valid.
              if witness then seqS (modS (\<lambda>c. c\<lparr>cnDiskConfirmed := valid\<rparr>)) (isWipeDisksPanelNeeded ev)
              else showNext ev [''persistentSize''])))))))"

definition dataDiskConfirm :: "env \<Rightarrow> unit ui" where
  "dataDiskConfirm ev =
     bindS (getData ''dataDisk'') (\<lambda>dataDisk.
     seqS (updateDiskMessage [])
    (seqS (modInstall (\<lambda>i. i\<lparr>inDataDisk := dataDisk\<rparr>))
    (bindS (getData ''disk'') (\<lambda>installDisk.
       if installDisk = dataDisk
       then seqS (setContentByName ''diskNote'' persistentSizeNote)
           (bindS (validateAllDiskSizes ev) (\<lambda>valid. showNext ev [''persistentSize'']))
       else seqS (CloseElements [''persistentSize''])
           (bindS (validateAllDiskSizes ev) (\<lambda>valid.
            seqS (modS (\<lambda>c. c\<lparr>cnDiskConfirmed := True\<rparr>)) (isWipeDisksPanelNeeded ev)))))))"

definition dataDiskUp :: "env \<Rightarrow> unit ui" where
  "dataDiskUp ev = seqs [updateDiskMessage [], modS (\<lambda>c. c\<lparr>cnDiskConfirmed := False\<rparr>), showNext ev [''disk'']]"

definition persistentSizeConfirm :: "env \<Rightarrow> unit ui" where
  "persistentSizeConfirm ev =
     bindS (getData ''persistentSize'') (\<lambda>persistentSize.
     seqS (updateDiskMessage [])
    (bindS (validatePersistentPartitionSize ev persistentSize) (\<lambda>valid.
       if \<not> valid then retS ()
       else seqs [modInstall (\<lambda>i. i\<lparr>inPersistentPartitionSize := persistentSize\<rparr>),
                  modS (\<lambda>c. c\<lparr>cnDiskConfirmed := True\<rparr>), isWipeDisksPanelNeeded ev])))"

definition persistentSizeUp :: "env \<Rightarrow> unit ui" where
  "persistentSizeUp ev =
     seqs [modS (\<lambda>c. c\<lparr>cnDiskConfirmed := False\<rparr>), updateDiskMessage [], setContentByName ''diskNote'' [],
           bindS (getS (\<lambda>c. length (getAllValidDiskOptions (cnCache c)))) (\<lambda>n.
             if 1 < n then showNext ev [''dataDisk''] else showNext ev [''disk''])]"

definition wipeDisksConfirm :: "env \<Rightarrow> unit ui" where
  "wipeDisksConfirm ev =
     bindS (getMultiData ''wipeDisksPanel'') (\<lambda>disks.
       seqS (modInstall (\<lambda>i. i\<lparr>inWipeDisksList := disks\<rparr>)) (askMBROrNextPage ev))"

text \<open>The way up from the disks to wipe and from the partitioning scheme is the same code.\<close>

definition backToDisks :: "env \<Rightarrow> unit ui" where
  "backToDisks ev =
     seqS (modS (\<lambda>c. c\<lparr>cnDiskConfirmed := False\<rparr>))
    (bindS (getData ''disk'') (\<lambda>disk.
     bindS (getData ''dataDisk'') (\<lambda>dataDisk.
     bindS (getS id) (\<lambda>c.
       if inRole (install c) = RoleWitness then showNext ev [''disk'']
       else if 1 < length (getAllValidDiskOptions (cnCache c)) \<and> disk \<noteq> dataDisk then showNext ev [''dataDisk'']
       else seqS (setContentByName ''diskNote'' persistentSizeNote) (showNext ev [''persistentSize''])))))"

definition mbrConfirm :: "env \<Rightarrow> unit ui" where
  "mbrConfirm ev =
     bindS (getData ''askForceMBR'') (\<lambda>forceMBR.
     bindS (getS install) (\<lambda>i.
     bindS (if forceMBR = ''yes'' then liftS (diskExceedsMBRLimit (hoLsblk (evHost ev)) (inDevice i)) else retS False) (\<lambda>tooLarge.
       if tooLarge then updateDiskMessage ''Disk too large for MBR. Must be less than 2TiB''
       else if inForceMBR i \<noteq> (forceMBR = ''yes'') then modInstall (\<lambda>i. i\<lparr>inForceMBR := (forceMBR = ''yes'')\<rparr>)
       else diskNextPage ev)))"

definition diskV_KeyBindings :: "env \<Rightarrow> key \<Rightarrow> unit ui" where
  "diskV_KeyBindings ev k = (case k of KEsc \<Rightarrow> diskPrevPage ev | KUp \<Rightarrow> updateDiskMessage [] | _ \<Rightarrow> diskConfirm ev)"

definition dataDiskV_KeyBindings :: "env \<Rightarrow> key \<Rightarrow> unit ui" where
  "dataDiskV_KeyBindings ev k = (case k of KEsc \<Rightarrow> diskPrevPage ev | KUp \<Rightarrow> dataDiskUp ev | _ \<Rightarrow> dataDiskConfirm ev)"

definition persistentSizeV_KeyBindings :: "env \<Rightarrow> key \<Rightarrow> unit ui" where
  "persistentSizeV_KeyBindings ev k =
     (case k of KEsc \<Rightarrow> diskPrevPage ev | KUp \<Rightarrow> persistentSizeUp ev | _ \<Rightarrow> persistentSizeConfirm ev)"

definition wipeDisksV_KeyBindings :: "env \<Rightarrow> key \<Rightarrow> unit ui" where
  "wipeDisksV_KeyBindings ev k = (case k of KEsc \<Rightarrow> diskPrevPage ev | KUp \<Rightarrow> backToDisks ev | _ \<Rightarrow> wipeDisksConfirm ev)"

definition askForceMBRV_KeyBindings :: "env \<Rightarrow> key \<Rightarrow> unit ui" where
  "askForceMBRV_KeyBindings ev k = (case k of KEsc \<Rightarrow> diskPrevPage ev | KUp \<Rightarrow> backToDisks ev | _ \<Rightarrow> mbrConfirm ev)"

lemmas disk_tables = diskV_KeyBindings_def dataDiskV_KeyBindings_def persistentSizeV_KeyBindings_def
  wipeDisksV_KeyBindings_def askForceMBRV_KeyBindings_def

definition diskKeys :: "env \<Rightarrow> string \<Rightarrow> key \<Rightarrow> unit ui" where
  "diskKeys ev name k =
     (if name = ''disk'' then diskV_KeyBindings ev k
      else if name = ''dataDisk'' then dataDiskV_KeyBindings ev k
      else if name = ''persistentSize'' then persistentSizeV_KeyBindings ev k
      else if name = ''wipeDisksPanel'' then wipeDisksV_KeyBindings ev k
      else if name = ''askForceMBR'' then askForceMBRV_KeyBindings ev k
      else if k = KEsc then diskPrevPage ev
      else retS ())"

definition diskPageNames :: "string list" where
  "diskPageNames = [''diskFatal'', ''disk'', ''dataDisk'', ''persistentSize'', ''wipeDisksPanel'', ''askForceMBR'']"

end
