(* ===== verification/Pages_Network.thy ===== *)
theory Pages_Network
  imports Pages_Disk
begin

text \<open>
  The pages of the network (\<^verbatim>\<open>install_panels.go\<close>): the management network, the cluster network and
  the host name. A check returns the message for the user, empty when there is none.
\<close>

section \<open>Management network\<close>

definition doNetworkSpeedCheck :: "env \<Rightarrow> NetworkInterface list \<Rightarrow> string list" where
  "doNetworkSpeedCheck ev interfaces =
     concat (map (\<lambda>iface. case NetworkSpeedCheck_Run (ifName iface) (evSpeed ev (ifName iface)) of
                            Inl err \<Rightarrow> []
                          | Inr msg \<Rightarrow> if 0 < length msg then [msg] else []) interfaces)"

definition bondNote :: string where
  "bondNote = ''Note: Select one or more NICs for the Management NIC.'' @ nl @
     ''Use the default value for the Bond Mode if only one NIC is selected.''"

definition showBondNote :: "env \<Rightarrow> unit ui" where
  "showBondNote ev =
     seqs [closeEl ''networkValidator'', closeEl ''bondNote'',
           bindS (getS (\<lambda>c. nwInterfaces (cnMgmt c))) (\<lambda>ifs.
             setContentByName ''bondNote'' (bondNote @ concat (map (\<lambda>w. nl @ w) (doNetworkSpeedCheck ev ifs))))]"

definition updateNetworkMessage :: "string \<Rightarrow> unit ui" where
  "updateNetworkMessage msg =
     seqs [closeEl ''networkValidator'', closeEl ''bondNote'', setContentByName ''networkValidator'' msg]"

definition gotoNextPanel :: "env \<Rightarrow> string list \<Rightarrow> string ui \<Rightarrow> unit ui" where
  "gotoNextPanel ev names hook =
     seqS (CloseElement ''networkValidator'')
    (bindS hook (\<lambda>msg.
       if msg \<noteq> [] then updateNetworkMessage msg
       else seqS (showBondNote ev) (showNext ev names)))"

definition closeNetworkPage :: "unit ui" where
  "closeNetworkPage =
     CloseElements [''askInterface'', ''askVlanID'', ''askBondMode'', ''askNetworkMethod'', ''address'', ''mask'', ''gateway'', ''mtu'',
       ''networkValidator'', ''bondNote'']"

subsection \<open>Applying it\<close>

abbreviation "ErrMsgNoDefaultRoute \<equiv> ''No default route found. Please check the router setting on the DHCP server.''"

definition checkRoute :: "env \<Rightarrow> string ui" where
  "checkRoute ev =
     bindS (getS (\<lambda>c. nwMethod (cnMgmt c))) (\<lambda>meth.
       retS (case checkDefaultRoute (evNet ev) of
               Inl err \<Rightarrow> ''Failed to check default route: '' @ errText err @ ''.''
             | Inr isDefaultRouteExist \<Rightarrow>
                 if \<not> isDefaultRouteExist \<and> meth = NetworkMethodDHCP then ErrMsgNoDefaultRoute else []))"

definition preGotoNextPage :: "env \<Rightarrow> string ui" where
  "preGotoNextPage ev =
     bindS (getS id) (\<lambda>c.
     tryS (onNet (applyNetworks (evNM ev) (evHostname ev) (cnMgmt c) (osHostname (hOS (cnConfig c)))))
       (\<lambda>err. retS (''Configure network failed: '' @ errText err))
       (\<lambda>u. seqS (modInstall (\<lambda>i. i\<lparr>inManagementInterface := cnMgmt c\<rparr>))
              (if nwMethod (cnMgmt c) = NetworkMethodDHCP
               then (case evDHCP ev (getManagementInterfaceName (cnMgmt c)) of
                       Inl err \<Rightarrow> retS (''Requesting IP through DHCP failed: '' @ errText err)
                     | Inr addr \<Rightarrow>
                         seqS (modUser (\<lambda>u. u\<lparr>uiAddress := []\<rparr>))
                        (seqS (modMgmt (\<lambda>n. n\<lparr>nwIP := [], nwSubnetMask := [], nwGateway := [], nwMTU := 0\<rparr>))
                              (checkRoute ev)))
               else checkRoute ev)))"

text \<open>The focus spinner takes the focus, so that no key reaches the page while the task runs.\<close>

definition focusOn :: "string \<Rightarrow> unit ui" where
  "focusOn name = modS (\<lambda>c. c\<lparr>cnFocus := name\<rparr>)"

definition networkNextPage :: "string \<Rightarrow> unit ui" where
  "networkNextPage fromPanel =
     seqs [showPanel ''networkValidator'', focusOn ''networkValidator'',
           withSpinner ''networkValidator'' (ApplyNetwork fromPanel)]"

definition applyNetworkTask :: "env \<Rightarrow> string \<Rightarrow> unit ui" where
  "applyNetworkTask ev fromPanel =
     bindS (preGotoNextPage ev) (\<lambda>msg.
     seqS (spinnerStop ''networkValidator'' msg)
       (if msg \<noteq> [] then showNext ev [fromPanel]
        else seqS closeNetworkPage
            (bindS (getS (\<lambda>c. inMode (install c))) (\<lambda>mode.
               if mode = ModeCreate then showClusterNetworkPage ev else showHostnamePage ev))))"

definition networkPrevPage :: "env \<Rightarrow> unit ui" where
  "networkPrevPage ev =
     seqS closeNetworkPage
    (bindS (getS id) (\<lambda>c.
       if cnAlreadyInstalled c
       then (if inMode (install c) = ModeJoin then showNext ev [''askRolePanel''] else showNext ev [''askCreate''])
       else showDiskPage ev))"

subsection \<open>Checks\<close>

text \<open>The loop over the chosen interfaces: the message, or the interfaces with their hardware addresses.\<close>

fun chosenInterfaces :: "env \<Rightarrow> string list \<Rightarrow> (string + NetworkInterface list) result" where
  "chosenInterfaces ev [] = Inr (Inr [])"
| "chosenInterfaces ev (iface # ifs) =
     (case getNICState (evNet ev) iface of
        NICStateNotFound \<Rightarrow> Inr (Inl (''NIC '' @ iface @ '' not found''))
      | NICStateDown \<Rightarrow> Inr (Inl (''NIC '' @ iface @ '' is down''))
      | NICStateLowerDown \<Rightarrow> Inr (Inl (''NIC '' @ iface @ '' is down'' @ nl @ ''Network cable isn'' @ [CHR 0x27] @ ''t plugged in''))
      | NICStateUP \<Rightarrow>
          bindR (FindNetworkInterfaceHwAddr (hoInterfaces (evHost ev)) \<lparr>ifName = iface, ifHwAddr = []\<rparr>) (\<lambda>n.
          bindR (chosenInterfaces ev ifs) (\<lambda>r.
            Inr (case r of Inl msg \<Rightarrow> Inl msg | Inr ns \<Rightarrow> Inr (n # ns)))))"

definition validateInterface :: "env \<Rightarrow> string ui" where
  "validateInterface ev =
     bindS (getMultiData ''askInterface'') (\<lambda>ifaces.
       if length ifaces = 0 then retS ''Must select at least one interface''
       else bindS (liftS (chosenInterfaces ev ifaces)) (\<lambda>r.
              case r of
                Inl msg \<Rightarrow> retS msg
              | Inr interfaces \<Rightarrow> seqS (modMgmt (\<lambda>n. n\<lparr>nwInterfaces := interfaces\<rparr>)) (retS [])))"

definition validateVlanID :: "string ui" where
  "validateVlanID =
     bindS (getData ''askVlanID'') (\<lambda>vlanIDStr.
       if vlanIDStr = [] then seqS (modMgmt (\<lambda>n. n\<lparr>nwVlanID := 0\<rparr>)) (retS [])
       else case atoi vlanIDStr of
              Inl err \<Rightarrow> retS ErrMsgVLANShouldBeANumberInRange
            | Inr vlanID \<Rightarrow>
                if vlanID < 0 \<or> 4094 < vlanID then retS ErrMsgVLANShouldBeANumberInRange
                else seqS (modMgmt (\<lambda>n. n\<lparr>nwVlanID := vlanID\<rparr>)) (retS []))"

text \<open>\<^verbatim>\<open>if err = check; err != nil { return err.Error(), nil }\<close>.\<close>

definition orMessage :: "unit result \<Rightarrow> string ui \<Rightarrow> string ui" where
  "orMessage r k = (case r of Inl err \<Rightarrow> retS (errText err) | Inr u \<Rightarrow> k)"

definition setAddress :: "octets \<Rightarrow> octets option \<Rightarrow> string ui" where
  "setAddress ip net =
     seqS (modMgmt (\<lambda>n. n\<lparr>nwIP := ipString ip\<rparr>))
    (case net of
       None \<Rightarrow> retS []
     | Some m \<Rightarrow> seqS (modUser (\<lambda>u. u\<lparr>uiAddrMask := maskString m\<rparr>))
                (seqS (modMgmt (\<lambda>n. n\<lparr>nwSubnetMask := dotted (take 4 m)\<rparr>)) (retS [])))"

definition validateAddress :: "string ui" where
  "validateAddress =
     bindS (getData ''address'') (\<lambda>address.
     orMessage (checkStaticRequiredString ''address'' address)
    (seqS (modUser (\<lambda>u. u\<lparr>uiAddress := address\<rparr>))
       (case ParseCIDR address of
          Some (ip, m) \<Rightarrow> setAddress ip (Some m)
        | None \<Rightarrow> (case ParseIP address of
                     None \<Rightarrow> retS (address @ '' is not a valid IP address'')
                   | Some ip \<Rightarrow> setAddress ip None))))"

definition validateAddrMask :: "string ui" where
  "validateAddrMask =
     bindS (getData ''mask'') (\<lambda>addrMask.
     orMessage (checkStaticRequiredString ''mask'' addrMask)
       (case ParseMask addrMask of
          Inl err \<Rightarrow> retS (errText err)
        | Inr ipMask \<Rightarrow> seqS (modUser (\<lambda>u. u\<lparr>uiAddrMask := maskString ipMask\<rparr>))
                       (seqS (modMgmt (\<lambda>n. n\<lparr>nwSubnetMask := dotted ipMask\<rparr>)) (retS []))))"

definition validateGateway :: "string ui" where
  "validateGateway =
     bindS (getData ''gateway'') (\<lambda>gateway.
     orMessage (checkStaticRequiredString ''gateway'' gateway)
    (orMessage (checkIP gateway)
    (seqS (modMgmt (\<lambda>n. n\<lparr>nwGateway := gateway\<rparr>)) (retS []))))"

definition validateMTU :: "string ui" where
  "validateMTU =
     bindS (getData ''mtu'') (\<lambda>mtuStr.
       case (if mtuStr = [] then Inr 0 else atoi mtuStr) of
         Inl err \<Rightarrow> retS ''MTU should be a number.''
       | Inr mtu \<Rightarrow> orMessage (checkMTU mtu) (seqS (modMgmt (\<lambda>n. n\<lparr>nwMTU := mtu\<rparr>)) (retS [])))"

subsection \<open>Handlers\<close>

definition askBondModeConfirm :: "env \<Rightarrow> unit ui" where
  "askBondModeConfirm ev =
     bindS (getData ''askBondMode'') (\<lambda>mode.
     seqS (modMgmt (\<lambda>n. n\<lparr>nwBondOptions := Some [(''mode'', mode), (''miimon'', ''100'')]\<rparr>))
    (seqS (showBondNote ev)
    (bindS (getS (\<lambda>c. nwMethod (cnMgmt c))) (\<lambda>meth.
       if meth \<noteq> NetworkMethodStatic then showNext ev [''askNetworkMethod'']
       else showNext ev [''mtu'', ''gateway'', ''address'', ''askNetworkMethod'']))))"

definition askNetworkMethodConfirm :: "env \<Rightarrow> unit ui" where
  "askNetworkMethodConfirm ev =
     bindS (getData ''askNetworkMethod'') (\<lambda>selected.
     seqS (modMgmt (\<lambda>n. n\<lparr>nwMethod := selected\<rparr>))
       (if selected = NetworkMethodStatic then showNext ev [''mtu'', ''gateway'', ''mask'', ''address'']
        else seqS (CloseElements [''mtu'', ''gateway'', ''mask'', ''address'']) (networkNextPage ''askNetworkMethod'')))"

definition mtuConfirm :: "env \<Rightarrow> unit ui" where
  "mtuConfirm ev =
     bindS validateMTU (\<lambda>msg. if msg \<noteq> [] then updateNetworkMessage msg else networkNextPage ''mtu'')"

text \<open>The way up from a field keeps what was typed, without a check.\<close>

definition keepTyped :: "string \<Rightarrow> (string \<Rightarrow> unit ui) \<Rightarrow> string ui" where
  "keepTyped name f = bindS (getData name) (\<lambda>v. seqS (f v) (retS []))"

definition askInterfaceV_KeyBindings :: "env \<Rightarrow> key \<Rightarrow> unit ui" where
  "askInterfaceV_KeyBindings ev k =
     (if k = KEsc then networkPrevPage ev
      else if k = KUp then networkPrevPage ev else gotoNextPanel ev [''askVlanID''] (validateInterface ev))"

definition askVlanIDV_KeyBindings :: "env \<Rightarrow> key \<Rightarrow> unit ui" where
  "askVlanIDV_KeyBindings ev k =
     (if k = KEsc then networkPrevPage ev
      else gotoNextPanel ev [if k = KUp then ''askInterface'' else ''askBondMode''] validateVlanID)"

definition askBondModeV_KeyBindings :: "env \<Rightarrow> key \<Rightarrow> unit ui" where
  "askBondModeV_KeyBindings ev k =
     (if k = KEsc then networkPrevPage ev
      else if k = KUp then gotoNextPanel ev [''askVlanID''] (retS []) else askBondModeConfirm ev)"

definition askNetworkMethodV_KeyBindings :: "env \<Rightarrow> key \<Rightarrow> unit ui" where
  "askNetworkMethodV_KeyBindings ev k =
     (if k = KEsc then networkPrevPage ev
      else if k = KUp then gotoNextPanel ev [''askBondMode''] (retS []) else askNetworkMethodConfirm ev)"

definition addressV_KeyBindings :: "env \<Rightarrow> key \<Rightarrow> unit ui" where
  "addressV_KeyBindings ev k =
     (if k = KEsc then networkPrevPage ev
      else if k = KUp then gotoNextPanel ev [''askNetworkMethod''] (keepTyped ''address'' (\<lambda>v. modUser (\<lambda>u. u\<lparr>uiAddress := v\<rparr>)))
      else gotoNextPanel ev [''mask''] validateAddress)"

definition addrMaskV_KeyBindings :: "env \<Rightarrow> key \<Rightarrow> unit ui" where
  "addrMaskV_KeyBindings ev k =
     (if k = KEsc then networkPrevPage ev
      else if k = KUp then gotoNextPanel ev [''address''] (keepTyped ''mask'' (\<lambda>v. modUser (\<lambda>u. u\<lparr>uiAddrMask := v\<rparr>)))
      else gotoNextPanel ev [''gateway''] validateAddrMask)"

definition gatewayV_KeyBindings :: "env \<Rightarrow> key \<Rightarrow> unit ui" where
  "gatewayV_KeyBindings ev k =
     (if k = KEsc then networkPrevPage ev
      else if k = KUp then gotoNextPanel ev [''mask''] (keepTyped ''gateway'' (\<lambda>v. modMgmt (\<lambda>n. n\<lparr>nwGateway := v\<rparr>)))
      else gotoNextPanel ev [''mtu''] validateGateway)"

definition mtuV_KeyBindings :: "env \<Rightarrow> key \<Rightarrow> unit ui" where
  "mtuV_KeyBindings ev k =
     (if k = KEsc then networkPrevPage ev
      else if k = KUp then gotoNextPanel ev [''gateway''] validateMTU else mtuConfirm ev)"

lemmas network_tables = askInterfaceV_KeyBindings_def askVlanIDV_KeyBindings_def askBondModeV_KeyBindings_def
  askNetworkMethodV_KeyBindings_def addressV_KeyBindings_def addrMaskV_KeyBindings_def gatewayV_KeyBindings_def
  mtuV_KeyBindings_def

definition networkKeys :: "env \<Rightarrow> string \<Rightarrow> key \<Rightarrow> unit ui" where
  "networkKeys ev name k =
     (if name = ''askInterface'' then askInterfaceV_KeyBindings ev k
      else if name = ''askVlanID'' then askVlanIDV_KeyBindings ev k
      else if name = ''askBondMode'' then askBondModeV_KeyBindings ev k
      else if name = ''askNetworkMethod'' then askNetworkMethodV_KeyBindings ev k
      else if name = ''address'' then addressV_KeyBindings ev k
      else if name = ''mask'' then addrMaskV_KeyBindings ev k
      else if name = ''gateway'' then gatewayV_KeyBindings ev k
      else if name = ''mtu'' then mtuV_KeyBindings ev k
      else retS ())"

section \<open>Cluster network\<close>

text \<open>\<^verbatim>\<open>netip.ParsePrefix\<close> and \<^verbatim>\<open>Prefix.Contains\<close>: address and length; the octets as one number.\<close>

definition prefixError :: "string \<Rightarrow> string \<Rightarrow> goerror" where
  "prefixError s msg = Msg (''netip.ParsePrefix('' @ [CHR 0x22] @ s @ [CHR 0x22] @ ''): '' @ msg)"

definition ParsePrefix :: "string \<Rightarrow> (addr \<times> nat) result" where
  "ParsePrefix s =
     (case lastIndexByte CHR ''/'' s of
        None \<Rightarrow> Inl (prefixError s (''no '' @ [CHR 0x27] @ ''/'' @ [CHR 0x27]))
      | Some i \<Rightarrow>
          (let bitsStr = drop (i + 1) s in
           case ParseAddr (take i s) of
             None \<Rightarrow> Inl (prefixError s ''unable to parse IP'')
           | Some ip \<Rightarrow>
               (let maxBits = (case ip of V4 os \<Rightarrow> 32 | V6 os zone \<Rightarrow> 128) in
                if (case ip of V6 os zone \<Rightarrow> zone \<noteq> [] | V4 os \<Rightarrow> False)
                then Inl (prefixError s ''IPv6 zones cannot be present in a prefix'')
                else if 1 < length bitsStr \<and> (hd bitsStr < CHR ''1'' \<or> CHR ''9'' < hd bitsStr)
                then Inl (prefixError s ''bad bits after slash'')
                else case atoi bitsStr of
                       Inl err \<Rightarrow> Inl (prefixError s ''bad bits after slash'')
                     | Inr bits \<Rightarrow> if bits < 0 \<or> int maxBits < bits then Inl (prefixError s ''prefix length out of range'')
                                  else Inr (ip, nat bits))))"

definition ipNumber :: "octets \<Rightarrow> nat" where
  "ipNumber os = foldl (\<lambda>n o'. 256 * n + o') 0 os"

definition prefixContains :: "addr \<times> nat \<Rightarrow> addr \<Rightarrow> bool" where
  "prefixContains p ip =
     (case (p, ip) of
        ((V4 a, bits), V4 b) \<Rightarrow> ipNumber a div 2 ^ (32 - bits) = ipNumber b div 2 ^ (32 - bits)
      | ((V6 a z, bits), V6 b zone) \<Rightarrow> zone = [] \<and> ipNumber a div 2 ^ (128 - bits) = ipNumber b div 2 ^ (128 - bits)
      | _ \<Rightarrow> False)"

definition validateCIDR :: "string \<Rightarrow> unit result" where
  "validateCIDR cidr0 =
     (let cidr = trimSpace cidr0 in
      if cidr = [] then Inr () else bindR (ParsePrefix cidr) (\<lambda>p. Inr ()))"

definition validateDNSIP :: "string \<Rightarrow> string \<Rightarrow> unit result" where
  "validateDNSIP ip0 serviceCIDR =
     (let ip = trimSpace ip0 in
      if ip = [] \<and> serviceCIDR = [] then Inr ()
      else case ParseAddr ip of
             None \<Rightarrow> Inl (Wrap ''invalid cluster DNS IP'' (Msg (''ParseAddr('' @ [CHR 0x22] @ ip @ [CHR 0x22] @ ''): unable to parse IP'')))
           | Some ipAddr \<Rightarrow>
               (case ParsePrefix serviceCIDR of
                  Inl err \<Rightarrow> Inl (Wrap ''to override the cluster DNS IP, the service CIDR must be valid'' err)
                | Inr svcNet \<Rightarrow>
                    if \<not> prefixContains svcNet ipAddr
                    then Inl (Msg (''invalid cluster DNS IP: '' @ ip @ '' is not in the service CIDR '' @ serviceCIDR))
                    else Inr ()))"

definition closeClusterPage :: "unit ui" where
  "closeClusterPage =
     CloseElements [''podCIDRPanel'', ''serviceCIDRPanel'', ''clusterDNSPanel'', ''clusterNetworkNotePanel'', ''clusterNetworkValidatorPanel'']"

definition clusterPrevPage :: "env \<Rightarrow> unit ui" where
  "clusterPrevPage ev = seqS closeClusterPage (showNetworkPage ev)"

text \<open>A check with its message, then the new value, then the next step.\<close>

definition clusterConfirm :: "string \<Rightarrow> unit result \<Rightarrow> (Install \<Rightarrow> Install) \<Rightarrow> unit ui \<Rightarrow> unit ui" where
  "clusterConfirm label check f next' =
     (case check of
        Inl err \<Rightarrow> setContentByName ''clusterNetworkValidatorPanel'' (label @ errText err)
      | Inr u \<Rightarrow> seqs [modInstall f, setContentByName ''clusterNetworkValidatorPanel'' [], next'])"

definition podCIDRConfirm :: "env \<Rightarrow> unit ui" where
  "podCIDRConfirm ev =
     bindS (getData ''podCIDRPanel'') (\<lambda>podCIDR.
       clusterConfirm ''Invalid pod CIDR: '' (validateCIDR podCIDR) (\<lambda>i. i\<lparr>inClusterPodCIDR := podCIDR\<rparr>)
         (showNext ev [''serviceCIDRPanel'']))"

definition serviceCIDRConfirm :: "env \<Rightarrow> unit ui" where
  "serviceCIDRConfirm ev =
     bindS (getData ''serviceCIDRPanel'') (\<lambda>serviceCIDR.
       clusterConfirm ''Invalid service CIDR: '' (validateCIDR serviceCIDR) (\<lambda>i. i\<lparr>inClusterServiceCIDR := serviceCIDR\<rparr>)
         (showNext ev [''clusterDNSPanel'']))"

definition clusterDNSConfirm :: "env \<Rightarrow> unit ui" where
  "clusterDNSConfirm ev =
     bindS (getData ''clusterDNSPanel'') (\<lambda>dns.
     bindS (tryS (getData ''serviceCIDRPanel'') (\<lambda>err. retS (Inl err)) (\<lambda>serviceCIDR. retS (validateDNSIP dns serviceCIDR))) (\<lambda>check.
       clusterConfirm [] check (\<lambda>i. i\<lparr>inClusterDNS := dns\<rparr>)
         (seqS closeClusterPage (showHostnamePage ev))))"

definition podCIDRInput_KeyBindings :: "env \<Rightarrow> key \<Rightarrow> unit ui" where
  "podCIDRInput_KeyBindings ev k =
     (if k = KEsc then clusterPrevPage ev
      else if k = KUp then clusterPrevPage ev else podCIDRConfirm ev)"

definition serviceCIDRInput_KeyBindings :: "env \<Rightarrow> key \<Rightarrow> unit ui" where
  "serviceCIDRInput_KeyBindings ev k =
     (if k = KEsc then clusterPrevPage ev
      else if k = KUp then showNext ev [''podCIDRPanel''] else serviceCIDRConfirm ev)"

definition dnsInput_KeyBindings :: "env \<Rightarrow> key \<Rightarrow> unit ui" where
  "dnsInput_KeyBindings ev k =
     (if k = KEsc then clusterPrevPage ev
      else if k = KUp then showNext ev [''serviceCIDRPanel''] else clusterDNSConfirm ev)"

lemmas cluster_tables = podCIDRInput_KeyBindings_def serviceCIDRInput_KeyBindings_def dnsInput_KeyBindings_def

definition clusterKeys :: "env \<Rightarrow> string \<Rightarrow> key \<Rightarrow> unit ui" where
  "clusterKeys ev name k =
     (if name = ''podCIDRPanel'' then podCIDRInput_KeyBindings ev k
      else if name = ''serviceCIDRPanel'' then serviceCIDRInput_KeyBindings ev k
      else if name = ''clusterDNSPanel'' then dnsInput_KeyBindings ev k
      else retS ())"

section \<open>Host name\<close>

definition validateHostname :: "string ui" where
  "validateHostname =
     bindS (getData ''hostname'') (\<lambda>hostname.
       if hostname = [] then retS ''Must specify hostname.''
       else if 0 < length (IsDNS1123Subdomain hostname)
       then retS (''Invalid hostname. A lowercase RFC 1123 subdomain must consist of lower case alphanumeric characters, '' @
              [CHR 0x27] @ ''-'' @ [CHR 0x27] @ '' or '' @ [CHR 0x27] @ ''.'' @ [CHR 0x27] @ ''.'')
       else seqS (modOS (\<lambda>os. os\<lparr>osHostname := hostname\<rparr>)) (retS []))"

definition closeHostnamePage :: "unit ui" where
  "closeHostnamePage = CloseElements [''hostname'', ''hostnameValidator'']"

definition hostnamePrev :: "env \<Rightarrow> unit ui" where
  "hostnamePrev ev =
     seqS closeHostnamePage
    (bindS (getS (\<lambda>c. inMode (install c))) (\<lambda>mode.
       if mode = ModeCreate then showClusterNetworkPage ev else showNetworkPage ev))"

definition hostnameEnter :: "env \<Rightarrow> unit ui" where
  "hostnameEnter ev =
     bindS validateHostname (\<lambda>message.
       if message \<noteq> [] then setContentByName ''hostnameValidator'' message
       else seqS closeHostnamePage (showNext ev [''dnsServers'']))"

definition hostnameKeys :: "env \<Rightarrow> key \<Rightarrow> unit ui" where
  "hostnameKeys ev k = (case k of KEnter \<Rightarrow> hostnameEnter ev | KDown \<Rightarrow> retS () | _ \<Rightarrow> hostnamePrev ev)"

definition networkPageNames :: "string list" where
  "networkPageNames = [''askInterface'', ''askVlanID'', ''askBondMode'', ''askNetworkMethod'', ''address'', ''mask'', ''gateway'', ''mtu'']"

definition clusterPageNames :: "string list" where
  "clusterPageNames = [''podCIDRPanel'', ''serviceCIDRPanel'', ''clusterDNSPanel'']"

end
