(* ===== verification/Pages_Services.thy ===== *)
theory Pages_Services
  imports Pages_Network
begin

text \<open>
  The pages between the network and the confirmation (\<^verbatim>\<open>install_panels.go\<close>): name servers, virtual
  address, management address, token, time servers, proxy, SSH keys and remote configuration.
  Each check on the outside is a task; \<open>...Task\<close> is the body of its goroutine with the closing
  \<^verbatim>\<open>g.Update\<close>.
\<close>

text \<open>The spinner panel takes the focus, so that no key reaches the page while the task runs.\<close>

definition spin :: "task \<Rightarrow> unit ui" where
  "spin t = seqs [showPanel ''spinner'', withSpinner ''spinner'' t]"

definition spinnerError :: "env \<Rightarrow> string \<Rightarrow> string \<Rightarrow> unit ui" where
  "spinnerError ev name msg = seqS (spinnerStop ''spinner'' msg) (showNext ev [name])"

definition closeWithNote :: "string \<Rightarrow> unit ui" where
  "closeWithNote name = seqS (CloseElement ''note'') (closeEl name)"

section \<open>Name servers\<close>

definition dnsEnter :: "unit ui" where
  "dnsEnter =
     seqS (closeEl ''spinner'')
    (bindS (getData ''dnsServers'') (\<lambda>dnsServers0.
       let dnsServers = trimSpace dnsServers0 in
       seqS (modUser (\<lambda>u. u\<lparr>uiDNSServers := dnsServers\<rparr>)) (spin (SetupDNS dnsServers))))"

definition dnsNextPage :: "env \<Rightarrow> unit ui" where
  "dnsNextPage ev =
     seqS (closeWithNote ''dnsServers'')
    (bindS (getS (\<lambda>c. inMode (install c))) (\<lambda>mode.
       if mode = ModeCreate then showNext ev [''vipTextPanel'', ''askVipMethodPanel''] else showNext ev [''serverUrl'']))"

definition dnsTask :: "env \<Rightarrow> string \<Rightarrow> unit ui" where
  "dnsTask ev dnsServers =
     bindS (getS cnMgmt) (\<lambda>mgmt.
     let failed = (\<lambda>msg. spinnerError ev ''dnsServers'' msg); done = seqS (spinnerStop ''spinner'' []) (dnsNextPage ev) in
     if nwMethod mgmt = NetworkMethodStatic \<and> dnsServers = [] then failed ''DNS servers are required for static IP address''
     else if dnsServers \<noteq> []
     then (let dnsServerList = splitOn CHR '','' dnsServers in
           case checkIPList dnsServerList of
             Inl err \<Rightarrow> failed (errText err)
           | Inr u \<Rightarrow>
               tryS (onRemote (updateDNSServersAndReloadNetConfig (evRemote ev) dnsServerList (nwVlanID mgmt)))
                 (\<lambda>err. failed (''Failed to update DNS servers: '' @ errText err @ ''.''))
                 (\<lambda>u. seqS (modOS (\<lambda>os. os\<lparr>osDNSNameservers := dnsServerList\<rparr>)) done))
     else done)"

definition dnsEsc :: "env \<Rightarrow> unit ui" where
  "dnsEsc ev = seqS (closeWithNote ''dnsServers'') (showHostnamePage ev)"

section \<open>Virtual address\<close>

definition closeVipPage :: "unit ui" where
  "closeVipPage = CloseElements [''askVipMethodPanel'', ''vipHwAddrPanel'', ''vipHwAddrNotePanel'', ''vipPanel'', ''vipTextPanel'']"

definition vipPrevPage :: "env \<Rightarrow> unit ui" where
  "vipPrevPage ev = seqS closeVipPage (showNext ev [''dnsServers''])"

definition vipNextPage :: "env \<Rightarrow> unit ui" where
  "vipNextPage ev = seqS closeVipPage (showNext ev [''token''])"

text \<open>This spinner does not take the focus: the page stays usable while the address is requested.\<close>

definition gotoVipPanel :: "env \<Rightarrow> unit ui" where
  "gotoVipPanel ev =
     bindS (getData ''askVipMethodPanel'') (\<lambda>selected.
     bindS (getData ''vipHwAddrPanel'') (\<lambda>hwAddr.
       if selected = NetworkMethodDHCP
       then seqS (withSpinner ''vipTextPanel'' (RequestVip selected hwAddr)) (showNext ev [''vipPanel''])
       else seqs [setContent ''vipTextPanel'' [], modInstall (\<lambda>i. i\<lparr>inVipMode := NetworkMethodStatic\<rparr>),
                  showNext ev [''vipPanel''], inputSetData ''vipPanel'' []]))"

definition vipTask :: "env \<Rightarrow> string \<Rightarrow> string \<Rightarrow> unit ui" where
  "vipTask ev selected hwAddr =
     bindS (getS (\<lambda>c. getManagementInterfaceName (inManagementInterface (install c)))) (\<lambda>iface.
     tryS (onLinks (getVipThroughDHCP (evVip ev) iface hwAddr))
       (\<lambda>err. seqS (spinnerStop ''vipTextPanel'' (errText err)) (showNext ev [''askVipMethodPanel'']))
       (\<lambda>vip. seqs [spinnerStop ''vipTextPanel'' [],
                   modInstall (\<lambda>i. i\<lparr>inVip := vaIPv4Addr vip, inVipMode := selected, inVipHwAddr := vaHwAddr vip\<rparr>),
                   inputSetData ''vipHwAddrPanel'' (vaHwAddr vip),
                   inputSetData ''vipPanel'' (vaIPv4Addr vip)]))"

definition gotoVerifyIP :: "env \<Rightarrow> unit ui" where
  "gotoVerifyIP ev =
     bindS (getData ''vipPanel'') (\<lambda>vip.
     bindS (getS id) (\<lambda>c.
       if inVipMode (install c) = NetworkMethodDHCP
       then (if vip \<noteq> inVip (install c) then setContent ''vipTextPanel'' ''Forbid to modify the VIP obtained through DHCP''
             else vipNextPage ev)
       else if ParseIP vip = None then setContent ''vipTextPanel'' (''Invalid VIP: '' @ vip)
       else if vip \<noteq> [] \<and> vip = nwIP (cnMgmt c)
       then setContent ''vipTextPanel'' (''VIP must not be the same as management NIC'' @ [CHR 0x27] @ ''s IP'')
       else seqS (modInstall (\<lambda>i. i\<lparr>inVip := vip, inVipHwAddr := [],
                    inVipMode := (if inVipMode i = [] then NetworkMethodStatic else inVipMode i)\<rparr>)) (vipNextPage ev)))"

definition confirmAskVipMethod :: "env \<Rightarrow> unit ui" where
  "confirmAskVipMethod ev =
     bindS (getData ''askVipMethodPanel'') (\<lambda>meth.
       if meth = NetworkMethodDHCP
       then seqS (setContent ''vipHwAddrNotePanel'' (''Note: If DHCP MAC/IP address binding is configured on the DHCP server, '' @
                    ''enter the MAC address to fetch the static VIP. Otherwise, leave it blank.''))
                 (showNext ev [''vipPanel'', ''vipHwAddrNotePanel'', ''vipHwAddrPanel''])
       else seqS (CloseElements [''vipHwAddrPanel'', ''vipHwAddrNotePanel'']) (showNext ev [''vipPanel'']))"

definition gotoVipParentPanel :: "env \<Rightarrow> unit ui" where
  "gotoVipParentPanel ev =
     bindS (getData ''askVipMethodPanel'') (\<lambda>meth.
       if meth = NetworkMethodDHCP
       then seqS (showNext ev [''vipHwAddrPanel''])
                 (bindS (getS (\<lambda>c. inVipHwAddr (install c))) (inputSetData ''vipHwAddrPanel''))
       else showNext ev [''askVipMethodPanel''])"

definition vipKeys :: "env \<Rightarrow> string \<Rightarrow> key \<Rightarrow> unit ui" where
  "vipKeys ev name k =
     (if k = KEsc then vipPrevPage ev
      else if name = ''askVipMethodPanel'' then (if k = KUp then retS () else confirmAskVipMethod ev)
      else if name = ''vipHwAddrPanel'' then (if k = KUp then showNext ev [''askVipMethodPanel''] else gotoVipPanel ev)
      else if name = ''vipPanel'' then (if k = KUp then gotoVipParentPanel ev else gotoVerifyIP ev)
      else retS ())"

section \<open>Management address and token\<close>

definition serverURLEnter :: "env \<Rightarrow> unit ui" where
  "serverURLEnter ev =
     seqS (closeEl ''spinner'')
    (bindS (getData ''serverUrl'') (\<lambda>url.
     seqS (modUser (\<lambda>u. u\<lparr>uiServerURL := url\<rparr>))
       (if url = [] then setContentByName ''validator'' ''Management address is required''
        else case getFormattedServerURL url of
               Inl err \<Rightarrow> setContentByName ''validator'' (errText err)
             | Inr fmtServerURL \<Rightarrow> seqS (CloseElement ''validator'') (spin (CheckServerURL fmtServerURL)))))"

definition serverURLTask :: "env \<Rightarrow> string \<Rightarrow> unit ui" where
  "serverURLTask ev fmtServerURL =
     tryS (onRemote (validatePingServerURL (evRemote ev) (fmtServerURL @ ''/ping'')))
       (\<lambda>err. spinnerError ev ''serverUrl'' (errText err))
       (\<lambda>u. seqs [spinnerStop ''spinner'' [], modS (\<lambda>c. c\<lparr>cnConfig := (cnConfig c)\<lparr>hServerURL := fmtServerURL\<rparr>\<rparr>),
                 closeEl ''serverUrl'', showNext ev [''token'']])"

definition serverURLEsc :: "env \<Rightarrow> unit ui" where
  "serverURLEsc ev = seqS (closeEl ''serverUrl'') (showNext ev [''dnsServers''])"

definition tokenEnter :: "env \<Rightarrow> unit ui" where
  "tokenEnter ev =
     bindS (getData ''token'') (\<lambda>token.
       if token = [] then setContentByName ''validator'' ''Cluster token is required''
       else case checkToken token of
              Inl err \<Rightarrow> setContentByName ''validator'' (errText err)
            | Inr u \<Rightarrow> seqs [modS (\<lambda>c. c\<lparr>cnConfig := (cnConfig c)\<lparr>hToken := token\<rparr>\<rparr>),
                            closeWithNote ''token'', showNext ev [''ntpServersPanel'']])"

definition tokenEsc :: "env \<Rightarrow> unit ui" where
  "tokenEsc ev =
     seqS (closeWithNote ''token'')
    (bindS (getS (\<lambda>c. inMode (install c))) (\<lambda>mode.
       if mode = ModeCreate then showNext ev [''vipTextPanel'', ''askVipMethodPanel''] else showNext ev [''serverUrl'']))"

section \<open>Time servers\<close>

definition ntpNextPage :: "env \<Rightarrow> unit ui" where
  "ntpNextPage ev =
     seqs [modUser (\<lambda>u. u\<lparr>uiHasCheckedNTPServers := False\<rparr>), closeWithNote ''ntpServersPanel'', showNext ev [''proxy'']]"

definition ntpEsc :: "env \<Rightarrow> unit ui" where
  "ntpEsc ev =
     seqs [modUser (\<lambda>u. u\<lparr>uiHasCheckedNTPServers := False\<rparr>), closeWithNote ''ntpServersPanel'', showNext ev [''token'']]"

definition ntpEnter :: "env \<Rightarrow> unit ui" where
  "ntpEnter ev =
     bindS (getData ''ntpServersPanel'') (\<lambda>ntpServers.
     bindS (getS cnUser) (\<lambda>u.
       if uiNTPServers u = ntpServers \<and> uiHasCheckedNTPServers u then ntpNextPage ev
       else seqs [modUser (\<lambda>u. u\<lparr>uiHasCheckedNTPServers := False\<rparr>), closeEl ''spinner'', spin (CheckNTP ntpServers)]))"

definition ntpTask :: "env \<Rightarrow> string \<Rightarrow> unit ui" where
  "ntpTask ev ntpServers =
     (let failed = spinnerError ev ''ntpServersPanel''; ntpServerList = splitOn CHR '','' ntpServers in
      if trimSpace ntpServers \<noteq> ntpServers then failed ''There is space in input.''
      else seqS (modUser (\<lambda>u. u\<lparr>uiHasCheckedNTPServers := True, uiNTPServers := ntpServers\<rparr>))
          (seqS (modOS (\<lambda>os. os\<lparr>osNTPServers := ntpServerList\<rparr>))
             (if ntpServers = []
              then failed ''Empty NTP Server is not recommended. Press Enter again to use current configuration anyway.''
              else case validateNTPServers (evRemote ev) ntpServerList of
                     Inl err \<Rightarrow> failed (''Failed to reach NTP servers: '' @ errText err @
                       ''. Press Enter again to use current configuration anyway, or change the value to revalidate.'')
                   | Inr u \<Rightarrow>
                       tryS (onRemote (enableNTPServers (evRemote ev) ntpServerList))
                         (\<lambda>err. failed (''Failed to enable NTP servers: '' @ errText err @ ''. Press Enter to proceed.''))
                         (\<lambda>u. seqS (spinnerStop ''spinner'' []) (ntpNextPage ev)))))"

section \<open>Proxy\<close>

definition setenv :: "string \<Rightarrow> string \<Rightarrow> unit ui" where
  "setenv k v = modS (\<lambda>c. c\<lparr>cnEnviron := mapPut k v (cnEnviron c)\<rparr>)"

definition unsetenv :: "string \<Rightarrow> unit ui" where
  "unsetenv k = modS (\<lambda>c. c\<lparr>cnEnviron := mapDel k (cnEnviron c)\<rparr>)"

text \<open>The second variable is set under a name with a trailing blank, as in the source.\<close>

definition proxyEnter :: "env \<Rightarrow> unit ui" where
  "proxyEnter ev =
     bindS (getData ''proxy'') (\<lambda>proxy. seqs
       [if proxy \<noteq> [] then seqS (setenv ''HTTP_PROXY'' proxy) (setenv ''HTTPS_PROXY '' proxy)
        else seqS (unsetenv ''HTTP_PROXY'') (unsetenv ''HTTPS_PROXY''),
        closeEl ''proxy'', closeEl ''note'', showNext ev [''sshKey'']])"

definition proxyEsc :: "env \<Rightarrow> unit ui" where
  "proxyEsc ev = seqs [closeEl ''proxy'', CloseElement ''note'', showNext ev [''ntpServersPanel'']]"

section \<open>SSH keys and remote configuration\<close>

definition sshNextPage :: "env \<Rightarrow> unit ui" where
  "sshNextPage ev = seqS (closeWithNote ''sshKey'') (showNext ev [''cloudInit''])"

definition sshEnter :: "env \<Rightarrow> unit ui" where
  "sshEnter ev =
     bindS (getData ''sshKey'') (\<lambda>url. seqs
       [modUser (\<lambda>u. u\<lparr>uiSSHKeyURL := url\<rparr>), modOS (\<lambda>os. os\<lparr>osSSHAuthorizedKeys := []\<rparr>),
        if url \<noteq> [] then seqS (closeEl ''spinner'') (spin (FetchSSHKeys url)) else sshNextPage ev])"

definition sshTask :: "env \<Rightarrow> string \<Rightarrow> unit ui" where
  "sshTask ev url =
     tryS (onRemote (getRemoteSSHKeys (evRemote ev) url))
       (\<lambda>err. spinnerError ev ''sshKey'' (errText err))
       (\<lambda>pubKeys. seqs [spinnerStop ''spinner'' [], modOS (\<lambda>os. os\<lparr>osSSHAuthorizedKeys := pubKeys\<rparr>), sshNextPage ev])"

definition sshEsc :: "env \<Rightarrow> unit ui" where
  "sshEsc ev = seqS (closeWithNote ''sshKey'') (showNext ev [''proxy''])"

definition cloudInitNextPage :: "env \<Rightarrow> unit ui" where
  "cloudInitNextPage ev = seqS (closeEl ''cloudInit'') (showNext ev [''confirmInstall''])"

definition cloudInitEnter :: "env \<Rightarrow> unit ui" where
  "cloudInitEnter ev =
     bindS (getData ''cloudInit'') (\<lambda>configURL. seqs
       [modInstall (\<lambda>i. i\<lparr>inConfigURL := configURL\<rparr>),
        if configURL \<noteq> [] then seqS (closeEl ''spinner'') (spin (FetchConfig configURL)) else cloudInitNextPage ev])"

definition cloudInitTask :: "env \<Rightarrow> string \<Rightarrow> unit ui" where
  "cloudInitTask ev configURL =
     tryS (onRemote (getRemoteConfig (evRemote ev) configURL))
       (\<lambda>err. spinnerError ev ''cloudInit'' (errText err))
       (\<lambda>cfg. seqS (spinnerStop ''spinner'' []) (cloudInitNextPage ev))"

definition cloudInitEsc :: "env \<Rightarrow> unit ui" where
  "cloudInitEsc ev = seqS (closeEl ''cloudInit'') (showNext ev [''sshKey''])"

section \<open>Keys\<close>

definition enterEsc :: "key \<Rightarrow> unit ui \<Rightarrow> unit ui \<Rightarrow> unit ui" where
  "enterEsc k enter esc = (case k of KEnter \<Rightarrow> enter | KEsc \<Rightarrow> esc | _ \<Rightarrow> retS ())"

definition serviceKeys :: "env \<Rightarrow> string \<Rightarrow> key \<Rightarrow> unit ui" where
  "serviceKeys ev name k =
     (if name = ''dnsServers'' then enterEsc k dnsEnter (dnsEsc ev)
      else if name = ''serverUrl'' then enterEsc k (serverURLEnter ev) (serverURLEsc ev)
      else if name = ''token'' then enterEsc k (tokenEnter ev) (tokenEsc ev)
      else if name = ''ntpServersPanel'' then enterEsc k (ntpEnter ev) (ntpEsc ev)
      else if name = ''proxy'' then enterEsc k (proxyEnter ev) (proxyEsc ev)
      else if name = ''sshKey'' then enterEsc k (sshEnter ev) (sshEsc ev)
      else if name = ''cloudInit'' then enterEsc k (cloudInitEnter ev) (cloudInitEsc ev)
      else vipKeys ev name k)"

definition vipPageNames :: "string list" where
  "vipPageNames = [''askVipMethodPanel'', ''vipHwAddrPanel'', ''vipPanel'']"

definition servicePageNames :: "string list" where
  "servicePageNames = [''dnsServers'', ''serverUrl'', ''token'', ''ntpServersPanel'', ''proxy'', ''sshKey'', ''cloudInit''] @ vipPageNames"

end
