(* ===== verification/Pages_Install.thy ===== *)
theory Pages_Install
  imports Pages_Services
begin

text \<open>
  The confirmation pages and the task behind the install panel (\<^verbatim>\<open>addInstallPanel\<close> in
  \<^verbatim>\<open>install_panels.go\<close>), in the order of the source: remote configuration, interfaces, network and
  virtual address of an automatic installation, host name, warnings, default route, validation,
  webhooks, and the installation itself.
\<close>

section \<open>Confirmation\<close>

definition confirmInstallEnter :: "env \<Rightarrow> unit ui" where
  "confirmInstallEnter ev =
     bindS (getData ''confirmInstall'') (\<lambda>confirmed.
       if confirmed = ''no'' then haltInstallation ''confirmInstall''
       else seqS (closeEl ''confirmInstall'') (showNext ev [''install'']))"

definition confirmInstallEsc :: "env \<Rightarrow> unit ui" where
  "confirmInstallEsc ev =
     seqS (closeEl ''confirmInstall'')
    (bindS (getS cnInstallModeOnly) (\<lambda>only. if only then showDiskPage ev else showNext ev [''cloudInit'']))"

definition confirmUpgradeEnter :: "env \<Rightarrow> unit ui" where
  "confirmUpgradeEnter ev =
     bindS (getData ''confirmUpgrade'') (\<lambda>confirmed.
       seqS (closeEl ''confirmUpgrade'')
            (if confirmed = ''no'' then showNext ev [''askCreate''] else showNext ev [''upgrade'']))"

definition confirmUpgradeEsc :: "env \<Rightarrow> unit ui" where
  "confirmUpgradeEsc ev = seqS (closeEl ''confirmUpgrade'') (showNext ev [''askCreate''])"

definition confirmKeys :: "env \<Rightarrow> string \<Rightarrow> key \<Rightarrow> unit ui" where
  "confirmKeys ev name k =
     (if name = ''confirmInstall'' then enterEsc k (confirmInstallEnter ev) (confirmInstallEsc ev)
      else if name = ''confirmUpgrade'' then enterEsc k (confirmUpgradeEnter ev) (confirmUpgradeEsc ev)
      else retS ())"

section \<open>The installation task\<close>

definition printToPanel :: "string \<Rightarrow> unit ui" where
  "printToPanel message =
     bindS (getS cnOpen) (\<lambda>open'.
       if ''install'' \<in> set open'
       then modS (\<lambda>c. c\<lparr>cnContent := mapPut ''install'' (lookupStr (cnContent c) ''install'' @ message @ nl) (cnContent c)\<rparr>)
       else failS ErrUnknownView)"

text \<open>A step answers whether the task goes on; one that stops it has printed the reason.\<close>

definition stopWith :: "string \<Rightarrow> bool ui" where
  "stopWith message = seqS (printToPanel message) (retS False)"

fun steps :: "bool ui list \<Rightarrow> bool ui" where
  "steps [] = retS True"
| "steps (m # ms) = bindS m (\<lambda>go. if go then steps ms else retS False)"

definition goOn :: "unit ui \<Rightarrow> bool ui" where
  "goOn m = seqS m (retS True)"

definition setVip :: "vipAddr \<Rightarrow> unit ui" where
  "setVip vip = modInstall (\<lambda>i. i\<lparr>inVip := vaIPv4Addr vip, inVipHwAddr := vaHwAddr vip\<rparr>)"

definition vipOfConfig :: "env \<Rightarrow> vipAddr ui" where
  "vipOfConfig ev =
     bindS (getS (\<lambda>c. getManagementInterfaceName (inManagementInterface (install c)))) (\<lambda>iface.
       onLinks (getVipThroughDHCP (evVip ev) iface []))"

definition configureInstallModeDHCP :: "env \<Rightarrow> unit ui" where
  "configureInstallModeDHCP ev =
     bindS (getS (\<lambda>c. inManagementInterface (install c))) (\<lambda>netDef.
     seqS (modMgmt (\<lambda>n. n\<lparr>nwInterfaces := nwInterfaces netDef,
             nwBondOptions := (case nwBondOptions netDef of None \<Rightarrow> Some activeBackup | Some o' \<Rightarrow> Some o'),
             nwMethod := nwMethod netDef, nwVlanID := nwVlanID netDef\<rparr>))
    (bindS (getS id) (\<lambda>c.
     seqS (tryS (onNet (applyNetworks (evNM ev) (evHostname ev) (cnMgmt c) (osHostname (hOS (cnConfig c)))))
             (\<lambda>err. printToPanel (''error applying network configuration: '' @ errText err)) (\<lambda>u. retS ()))
    (seqS (case evDHCP ev (getManagementInterfaceName netDef) of
             Inl err \<Rightarrow> printToPanel (''error getting DHCP address: '' @ errText err) | Inr addr \<Rightarrow> retS ())
          (whenS (inVipMode (install c) = NetworkMethodDHCP)
             (tryS (vipOfConfig ev) (\<lambda>err. printToPanel (''fail to get vip: '' @ errText err)) setVip))))))"

definition mergeRemoteConfig :: "env \<Rightarrow> bool ui" where
  "mergeRemoteConfig ev =
     bindS (getS (\<lambda>c. inConfigURL (install c))) (\<lambda>url.
       if url = [] then retS True
       else seqS (printToPanel (''Fetching '' @ url @ ''...''))
           (tryS (onRemote (retryRemoteConfig (evRemote ev) url))
              (\<lambda>err. stopWith (errText err))
              (\<lambda>remoteConfig. goOn (modS (\<lambda>c. c\<lparr>cnConfig := Merge (cnConfig c) remoteConfig\<rparr>)))))"

definition lowerMethods :: "unit ui" where
  "lowerMethods =
     modInstall (\<lambda>i. i\<lparr>inManagementInterface := (inManagementInterface i)\<lparr>nwMethod := toLower (nwMethod (inManagementInterface i))\<rparr>,
                      inVipMode := toLower (inVipMode i)\<rparr>)"

fun lookupInterfaces :: "hostIface list result \<Rightarrow> NetworkInterface list \<Rightarrow> unit result \<times> NetworkInterface list" where
  "lookupInterfaces hs [] = (Inr (), [])"
| "lookupInterfaces hs (n # ns) =
     (case FindNetworkInterfaceNameAndHwAddr hs n of
        Inl err \<Rightarrow> (Inl err, n # ns)
      | Inr n' \<Rightarrow> (case lookupInterfaces hs ns of (r, ns') \<Rightarrow> (r, n' # ns')))"

definition findInterfaces :: "env \<Rightarrow> bool ui" where
  "findInterfaces ev =
     bindS (getS (\<lambda>c. nwInterfaces (inManagementInterface (install c)))) (\<lambda>ns.
       case lookupInterfaces (hoInterfaces (evHost ev)) ns of
         (r, ns') \<Rightarrow>
           seqS (modInstall (\<lambda>i. i\<lparr>inManagementInterface := (inManagementInterface i)\<lparr>nwInterfaces := ns'\<rparr>\<rparr>))
                (case r of Inl err \<Rightarrow> stopWith (errText err) | Inr u \<Rightarrow> retS True))"

definition automaticNetwork :: "env \<Rightarrow> bool ui" where
  "automaticNetwork ev =
     bindS (getS id) (\<lambda>c.
       let i = install c in
       if inAutomatic i \<and> nwMethod (inManagementInterface i) = NetworkMethodDHCP
       then seqS (printToPanel ''Configuring network...'')
           (tryS (onNet (applyNetworks (evNM ev) (evHostname ev) (inManagementInterface i) (osHostname (hOS (cnConfig c)))))
              (\<lambda>err. stopWith ((''Can'' @ [CHR 0x27] @ ''t apply networks: '') @ errText err)) (\<lambda>u. retS True))
       else retS True)"

definition automaticVip :: "env \<Rightarrow> bool ui" where
  "automaticVip ev =
     bindS (getS install) (\<lambda>i.
       if needToGetVIPFromDHCP (inVipMode i) (inVip i) (inVipHwAddr i)
       then tryS (vipOfConfig ev) (\<lambda>err. stopWith (''fail to get vip: '' @ errText err)) (\<lambda>vip. goOn (setVip vip))
       else retS True)"

definition chooseTTY :: "env \<Rightarrow> unit ui" where
  "chooseTTY ev =
     modInstall (\<lambda>i. if inTTY i = [] then i\<lparr>inTTY := getFirstConsoleTTY (evArm64 ev) (evConsoles ev)\<rparr> else i)"

definition formatServerURL :: "bool ui" where
  "formatServerURL =
     bindS (getS (\<lambda>c. hServerURL (cnConfig c))) (\<lambda>url.
       if url = [] then retS True
       else case getFormattedServerURL url of
              Inl err \<Rightarrow> stopWith (''server url invalid: '' @ errText err)
            | Inr formatted \<Rightarrow> goOn (modS (\<lambda>c. c\<lparr>cnConfig := (cnConfig c)\<lparr>hServerURL := formatted\<rparr>\<rparr>)))"

definition checkWarnings :: "env \<Rightarrow> bool ui" where
  "checkWarnings ev =
     bindS (getS cnAlreadyInstalled) (\<lambda>already.
       if already then retS True
       else seqS (modS (\<lambda>c. c\<lparr>cnPreflightWarnings := cnPreflightWarnings c @
                          doNetworkSpeedCheck ev (nwInterfaces (inManagementInterface (install c)))\<rparr>))
           (bindS (getS id) (\<lambda>c.
              if cnPreflightWarnings c = [] \<or> inSkipChecks (install c) \<or> cnPreflightAck c then retS True
              else seqS (forS printToPanel (cnPreflightWarnings c)) (retS False))))"

definition installRoute :: "env \<Rightarrow> bool ui" where
  "installRoute ev =
     bindS (getS id) (\<lambda>c.
       case checkDefaultRoute (evNet ev) of
         Inl err \<Rightarrow> stopWith ''Failed to check default route.''
       | Inr isDefaultRouteExist \<Rightarrow>
           if \<not> cnInstallModeOnly c \<and> \<not> isDefaultRouteExist \<and>
              nwMethod (inManagementInterface (install c)) = NetworkMethodDHCP
           then stopWith ErrMsgNoDefaultRoute else retS True)"

definition finishDisks :: "unit ui" where
  "finishDisks =
     modInstall (\<lambda>i. i\<lparr>inForceGPT := \<not> inForceMBR i, inDataDisk := (if inDataDisk i = inDevice i then [] else inDataDisk i)\<rparr>)"

definition validateStep :: "env \<Rightarrow> bool ui" where
  "validateStep ev =
     bindS (getS id) (\<lambda>c.
       case validateConfig Validate ((evHost ev)\<lparr>hoAlreadyInstalled := cnAlreadyInstalled c\<rparr>) (cnCache c) (cnConfig c) of
         (r, cache) \<Rightarrow>
           seqS (modS (\<lambda>c. c\<lparr>cnCache := cache\<rparr>))
                (case r of Inl err \<Rightarrow> stopWith (''Invalid configuration: '' @ errText err) | Inr u \<Rightarrow> retS True))"

text \<open>A failure to prepare the webhooks is printed and the installation goes on.\<close>

definition prepareStep :: "env \<Rightarrow> unit ui" where
  "prepareStep ev =
     bindS (getS cnConfig) (\<lambda>cfg.
       case PrepareWebhooks (evRender ev) (inWebhooks (hInstall cfg)) (getWebhookContext cfg (evMgmtIface ev)) of
         Inl err \<Rightarrow> printToPanel (''Invalid webhook: '' @ errText err)
       | Inr hooks \<Rightarrow> retS ())"

definition runInstallation :: "env \<Rightarrow> unit ui" where
  "runInstallation ev =
     bindS (getS id) (\<lambda>c.
     tryS (if cnAlreadyInstalled c then onInst (configureInstalledNode (evInst ev (cnInstallModeOnly c)))
           else onInst (doInstall (evInst ev (cnInstallModeOnly c))))
       (\<lambda>err. printToPanel (''Install failed: '' @ errText err)) (\<lambda>u. retS ()))"

definition prepareInstallation :: "env \<Rightarrow> bool ui" where
  "prepareInstallation ev =
     steps
       [goOn (bindS (getS id) (\<lambda>c.
          whenS (cnAlreadyInstalled c \<and> inAutomatic (install c) \<and> nwMethod (inManagementInterface (install c)) = ''dhcp'')
            (configureInstallModeDHCP ev))),
        mergeRemoteConfig ev,
        goOn lowerMethods,
        findInterfaces ev,
        automaticNetwork ev,
        automaticVip ev,
        goOn (checkDHCPHostname ev True),
        goOn (chooseTTY ev),
        formatServerURL,
        checkWarnings ev,
        installRoute ev,
        goOn finishDisks,
        validateStep ev]"

definition installTask :: "env \<Rightarrow> unit ui" where
  "installTask ev =
     bindS (prepareInstallation ev) (\<lambda>go. whenS go (seqS (prepareStep ev) (runInstallation ev)))"

end
