(* ===== verification/Wizard.thy ===== *)
theory Wizard
  imports Pages_Install
begin

text \<open>
  The installer as a machine: its start (\<^verbatim>\<open>doRun\<close> in \<^verbatim>\<open>console.go\<close>, \<^verbatim>\<open>layoutInstall\<close> in \<^verbatim>\<open>install_panels.go\<close>),
  the events of its main loop (keys, text typed into a field, choices, tasks that end) and the
  relation between two states of a run.
\<close>

section \<open>Start\<close>

text \<open>
  \<open>suDashboard\<close> is the variable \<^verbatim>\<open>HARVESTER_DASHBOARD\<close>, \<open>suStored\<close> the configuration of an installed system
  (\<open>None\<close>: there is no file); the other fields are what the hardware checks read.
\<close>

record startEnv =
  suDashboard :: bool
  suStored :: "HarvesterConfig option result"
  suNproc :: "string result"
  suDmidecode :: "string result"
  suMeminfo :: "string list result"
  suVirt :: "string \<times> goerror option"
  suKVM :: statResult

definition runChecks :: "startEnv \<Rightarrow> env \<Rightarrow> string list" where
  "runChecks su ev =
     concat (map (\<lambda>r. case r of Inl err \<Rightarrow> [] | Inr msg \<Rightarrow> if 0 < length msg then [msg] else [])
       [BIOSCheck_Run (hoSystemIsBIOS (evHost ev)), CPUCheck_Run (suNproc su),
        MemoryCheck_Run (suDmidecode su) (suMeminfo su), VirtCheck_Run (fst (suVirt su)) (snd (suVirt su)),
        KVMHostCheck_Run (suKVM su)])"

definition getHarvesterConfig :: "startEnv \<Rightarrow> unit ui" where
  "getHarvesterConfig su =
     (case suStored su of
        Inl err \<Rightarrow> failS err
      | Inr None \<Rightarrow> retS ()
      | Inr (Some conf) \<Rightarrow> modS (\<lambda>c. c\<lparr>cnConfig := conf\<rparr>))"

text \<open>The answer is whether the installer runs; otherwise it is the dashboard.\<close>

definition doRun :: "startEnv \<Rightarrow> env \<Rightarrow> bool ui" where
  "doRun su ev =
     seqS (whenS (suDashboard su) (getHarvesterConfig su))
    (bindS (getS install) (\<lambda>i.
       if suDashboard su \<and> (inMode i = ModeCreate \<or> inMode i = ModeJoin) then retS False
       else seqS (if inMode i = ModeInstall
                  then seqS (modS (\<lambda>c. c\<lparr>cnAlreadyInstalled := True\<rparr>)) (modInstall (\<lambda>i. i\<lparr>inMode := []\<rparr>))
                  else modS (\<lambda>c. c\<lparr>cnPreflightWarnings := cnPreflightWarnings c @ runChecks su ev\<rparr>))
                 (retS True)))"

definition mergeCloudInit :: "env \<Rightarrow> unit ui" where
  "mergeCloudInit ev =
     bindS (liftS (evUserData ev)) (\<lambda>cloudConfig.
       whenS (inAutomatic (hInstall cloudConfig))
         (seqs [modS (\<lambda>c. c\<lparr>cnConfig := Merge (cnConfig c) cloudConfig\<rparr>),
                whenS (osHostname (hOS cloudConfig) \<noteq> []) (modOS (\<lambda>os. os\<lparr>osHostname := osHostname (hOS cloudConfig)\<rparr>)),
                whenS (osPassword (hOS cloudConfig) \<noteq> []) (modOS (\<lambda>os. os\<lparr>osPassword := osPassword (hOS cloudConfig)\<rparr>))]))"

text \<open>\<open>initPanel\<close> is the page shown first: the installation itself when it is automatic.\<close>

definition layoutInstall :: "env \<Rightarrow> unit ui" where
  "layoutInstall ev =
     bindS (getS (\<lambda>c. if cnPreflightWarnings c \<noteq> [] then ''preflightCheck'' else ''askCreate'')) (\<lambda>panel0.
     seqS (modOS (\<lambda>os. os\<lparr>osModules := [''kvm'', ''vhost_net'']\<rparr>))
    (seqS (bindS (getS cnAlreadyInstalled) (\<lambda>already. whenS already (logged (mergeCloudInit ev) ())))
    (bindS (getS (\<lambda>c. if cnAlreadyInstalled c \<and> inAutomatic (install c) then ''install'' else panel0)) (\<lambda>panel1.
     bindS (case evReadConfig ev of
              Inl err \<Rightarrow> retS panel1
            | Inr cfg \<Rightarrow>
                seqS (modS (\<lambda>c. c\<lparr>cnConfig := Merge (cnConfig c) cfg\<rparr>))
                  (if inAutomatic (hInstall cfg) \<and> isFirstConsoleTTY (evArm64 ev) (evConsoles ev) (evMyTTY ev)
                   then seqS (modS (\<lambda>c. if inMode (install c) = ModeInstall \<and> \<not> cnAlreadyInstalled c
                                       then c\<lparr>cnInstallModeOnly := True\<rparr> else c)) (retS ''install'')
                   else retS panel1)) (\<lambda>initPanel.
     seqS (modS (\<lambda>c. if \<not> inAutomatic (install c) then c\<lparr>cnConfig := (cnConfig c)\<lparr>hSchemeVersion := SchemeVersion\<rparr>\<rparr> else c))
          (forS (ShowElement ev) [''title'', ''validator'', ''note'', ''footer'', initPanel]))))))"

section \<open>Events\<close>

definition setupPageNames :: "string list" where
  "setupPageNames = [''preflightCheck'', ''askCreate'', ''askRolePanel'', ''osPassword'', ''osPasswordConfirm'']"

definition keyHandler :: "env \<Rightarrow> string \<Rightarrow> key \<Rightarrow> unit ui" where
  "keyHandler ev name k =
     (if name \<in> set setupPageNames then setupKeys ev name k
      else if name \<in> set diskPageNames then diskKeys ev name k
      else if name \<in> set networkPageNames then networkKeys ev name k
      else if name \<in> set clusterPageNames then clusterKeys ev name k
      else if name = ''hostname'' then hostnameKeys ev k
      else if name \<in> set servicePageNames then serviceKeys ev name k
      else confirmKeys ev name k)"

definition runTask :: "env \<Rightarrow> task \<Rightarrow> unit ui" where
  "runTask ev t =
     (case t of
        CheckServerURL url \<Rightarrow> serverURLTask ev url
      | FetchSSHKeys url \<Rightarrow> sshTask ev url
      | FetchConfig url \<Rightarrow> cloudInitTask ev url
      | ApplyNetwork from \<Rightarrow> applyNetworkTask ev from
      | RequestVip selected hwAddr \<Rightarrow> vipTask ev selected hwAddr
      | CheckNTP servers \<Rightarrow> ntpTask ev servers
      | SetupDNS servers \<Rightarrow> dnsTask ev servers
      | Installation \<Rightarrow> installTask ev
      | Upgrade \<Rightarrow> retS ())"

text \<open>
  \<open>Press\<close>: a key on the element with the focus. \<open>Edit\<close>: text typed into an input. \<open>Move\<close>: the cursor of
  a selection. \<open>Mark\<close>: options marked in the list of a drop-down that allows several. \<open>Pick\<close> and \<open>Drop\<close>: the
  list of a drop-down closed with the enter key on an option, and with escape. \<open>Finish\<close>: a task ends.
\<close>

datatype event = Press key | Edit string | Move nat | Mark "bool list" | Pick nat | Drop | Finish nat

definition onFocus :: "(string \<Rightarrow> unit ui) \<Rightarrow> unit ui" where
  "onFocus f = bindS (getS id) (\<lambda>c. whenS (cnFocus c \<in> set (cnOpen c)) (f (cnFocus c)))"

definition focusOptions :: "env \<Rightarrow> string \<Rightarrow> (Option list \<Rightarrow> unit ui) \<Rightarrow> unit ui" where
  "focusOptions ev name f = bindS (getS (\<lambda>c. optionsOf ev c name)) (\<lambda>r. bindS (liftS r) f)"

definition reopen :: "env \<Rightarrow> string \<Rightarrow> unit ui" where
  "reopen ev name = seqS (closeEl name) (ShowElement ev name)"

definition pick :: "env \<Rightarrow> nat \<Rightarrow> string \<Rightarrow> unit ui" where
  "pick ev n name =
     whenS (kindOf name = KDropDown)
       (focusOptions ev name (\<lambda>opts.
          seqS (if name \<in> set multiNames
                then bindS (getMultiData name) (\<lambda>vs. putData name (strJoin '','' vs))
                else whenS (n < length opts) (putData name (opValue (opts ! n))))
              (seqS (reopen ev name) (keyHandler ev name KEnter))))"

definition handle :: "env \<Rightarrow> event \<Rightarrow> unit ui" where
  "handle ev e =
     (case e of
        Press k \<Rightarrow> onFocus (\<lambda>name. keyHandler ev name k)
      | Edit txt \<Rightarrow> onFocus (\<lambda>name. whenS (kindOf name = KInput) (putData name txt))
      | Move n \<Rightarrow> onFocus (\<lambda>name. whenS (kindOf name = KSelect)
                    (focusOptions ev name (\<lambda>opts. whenS (n < length opts) (putData name (opValue (opts ! n))))))
      | Mark marks \<Rightarrow> onFocus (\<lambda>name. whenS (name \<in> set multiNames)
                    (focusOptions ev name (\<lambda>opts.
                       modS (\<lambda>c. c\<lparr>cnMulti := mapPut name (map (opValue \<circ> fst) (filter snd (zip opts marks))) (cnMulti c)\<rparr>))))
      | Pick n \<Rightarrow> onFocus (pick ev n)
      | Drop \<Rightarrow> onFocus (\<lambda>name. whenS (kindOf name = KDropDown) (reopen ev name))
      | Finish n \<Rightarrow>
          bindS (getS cnTasks) (\<lambda>ts.
            whenS (n < length ts)
              (seqS (modS (\<lambda>c. c\<lparr>cnTasks := take n (cnTasks c) @ drop (Suc n) (cnTasks c)\<rparr>)) (runTask ev (ts ! n)))))"

text \<open>
  The states of a run. An event whose handler returns an error ends the main loop, so a run goes
  on only from a success. The outside may answer differently at every event.
\<close>

inductive run :: "con \<Rightarrow> con \<Rightarrow> bool" for c0 :: con where
  start: "run c0 c0"
| event: "run c0 c \<Longrightarrow> handle ev e c = (Inr (), c') \<Longrightarrow> run c0 c'"

fun events :: "(env \<times> event) list \<Rightarrow> unit ui" where
  "events [] = retS ()"
| "events ((ev, e) # es) = seqS (handle ev e) (events es)"

lemma run_trans: "run c0 c1 \<Longrightarrow> run c1 c2 \<Longrightarrow> run c0 c2"
  by (rotate_tac, induction rule: run.induct) (auto intro: run.event)

lemma run_events: "events es c = (Inr (), c') \<Longrightarrow> run c c'"
proof (induction es arbitrary: c)
  case Nil
  then show ?case by (auto intro: run.start)
next
  case (Cons x es)
  obtain ev e where x: "x = (ev, e)" by fastforce
  with Cons.prems obtain c1 where "handle ev e c = (Inr (), c1)" "events es c1 = (Inr (), c')"
    by (auto simp: seqS_Inr)
  then show ?case by (meson Cons.IH run.event run.start run_trans)
qed

end
