(* ===== verification/Wizard_Safety.thy ===== *)
theory Wizard_Safety
  imports Wizard
begin

text \<open>
  What holds in every state of a run. A step of a handler is \<^emph>\<open>calm\<close> when it starts no task, runs no
  installation, moves the focus to panels without keys only, and keeps the facts that earlier
  pages have established. The handlers consist of calm steps, of \<open>showNext\<close> and of the start of
  tasks; the locale \<open>page_invariant\<close> carries an invariant of these three through all pages.
\<close>

section \<open>Facts established by the pages\<close>

datatype fact = FToken | FHost | FMgmt | FNet

fun holds :: "fact \<Rightarrow> con \<Rightarrow> bool" where
  "holds FToken c = (checkToken (hToken (cnConfig c)) = Inr ())"
| "holds FHost c = (IsDNS1123Subdomain (osHostname (hOS (cnConfig c))) = [])"
| "holds FMgmt c = (cnAlreadyInstalled c \<or> nwInterfaces (cnMgmt c) \<noteq> [])"
| "holds FNet c = (cnAlreadyInstalled c \<or> nwInterfaces (inManagementInterface (install c)) \<noteq> [])"

text \<open>The facts are finitely many, so a statement about all of them is a conjunction that computes.\<close>

instantiation fact :: enum
begin

definition enum_fact :: "fact list" where
  "enum_fact = [FToken, FHost, FMgmt, FNet]"

definition enum_all_fact :: "(fact \<Rightarrow> bool) \<Rightarrow> bool" where
  "enum_all_fact P \<longleftrightarrow> P FToken \<and> P FHost \<and> P FMgmt \<and> P FNet"

definition enum_ex_fact :: "(fact \<Rightarrow> bool) \<Rightarrow> bool" where
  "enum_ex_fact P \<longleftrightarrow> P FToken \<or> P FHost \<or> P FMgmt \<or> P FNet"

instance
proof
  show univ: "(UNIV :: fact set) = set enum_class.enum" by (auto simp: enum_fact_def intro: fact.exhaust)
  show "distinct (enum_class.enum :: fact list)" by (simp add: enum_fact_def)
  show "enum_class.enum_all P \<longleftrightarrow> Ball UNIV P" "enum_class.enum_ex P \<longleftrightarrow> Bex UNIV P" for P :: "fact \<Rightarrow> bool"
    unfolding univ by (simp_all add: enum_all_fact_def enum_ex_fact_def enum_fact_def)
qed

end

definition keyless :: "string \<Rightarrow> bool" where
  "keyless name \<longleftrightarrow> name \<in> set (''networkValidator'' # focusPanels)"

definition calm :: "string set \<Rightarrow> con \<Rightarrow> con \<Rightarrow> bool" where
  "calm S c c' \<longleftrightarrow> cnTasks c' = cnTasks c \<and> cnTrace c' = cnTrace c \<and> cnAlreadyInstalled c' = cnAlreadyInstalled c \<and>
     cnInstallModeOnly c' = cnInstallModeOnly c \<and> (cnFocus c' = cnFocus c \<or> keyless (cnFocus c') \<or> cnFocus c' \<in> S) \<and>
     (\<forall>f. holds f c \<longrightarrow> holds f c')"

definition calmS :: "string set \<Rightarrow> 'a ui \<Rightarrow> bool" where
  "calmS S m \<longleftrightarrow> (\<forall>c. calm S c (snd (m c)))"

named_theorems calm_intros \<open>composition of calm steps\<close>
named_theorems calm_defs \<open>definitions made of calm steps\<close>

lemma calm_refl [simp]: "calm S c c"
  by (simp add: calm_def)

lemma calm_trans: "calm S c c1 \<Longrightarrow> calm S c1 c2 \<Longrightarrow> calm S c c2"
  by (auto simp: calm_def)

lemma calm_mono: "calm S c c' \<Longrightarrow> S \<subseteq> S' \<Longrightarrow> calm S' c c'"
  by (auto simp: calm_def)

lemma calmS_mono: "calmS {} m \<Longrightarrow> calmS S m"
  by (auto simp: calmS_def intro: calm_mono)

lemma calmS_run: "calmS S m \<Longrightarrow> m c = (r, c') \<Longrightarrow> calm S c c'"
  by (metis calmS_def snd_conv)

lemma calmS_basic [calm_intros]:
  "calmS S (retS x)" "calmS S (failS e)" "calmS S (liftS r)" "calmS S (getS g)"
  "(\<And>c. calm S c (f c)) \<Longrightarrow> calmS S (modS f)"
  by (simp_all add: calmS_def)

lemma calmS_tryS [calm_intros]:
  "calmS S m \<Longrightarrow> (\<And>e. calmS S (h e)) \<Longrightarrow> (\<And>x. calmS S (k x)) \<Longrightarrow> calmS S (tryS m h k)"
  unfolding calmS_def tryS_def by (auto split: prod.splits sum.splits) (metis calm_trans snd_conv)+

lemma bindS_tryS: "bindS m k = tryS m (\<lambda>e. failS e) k"
  by (rule ext) (auto simp: bindS_def tryS_def split: prod.splits sum.splits)

lemma logged_tryS: "logged m x = tryS m (\<lambda>e. retS x) retS"
  by (rule ext) (auto simp: logged_def tryS_def split: prod.splits sum.splits)

lemma calmS_bindS [calm_intros]: "calmS S m \<Longrightarrow> (\<And>x. calmS S (k x)) \<Longrightarrow> calmS S (bindS m k)"
  unfolding bindS_tryS by (intro calm_intros)

lemma calmS_logged [calm_intros]: "calmS S m \<Longrightarrow> calmS S (logged m x)"
  unfolding logged_tryS by (intro calm_intros)

lemma calmS_seqS [calm_intros]: "calmS S m \<Longrightarrow> calmS S n \<Longrightarrow> calmS S (seqS m n)"
  unfolding seqS_def by (intro calm_intros)

lemma calmS_forS [calm_intros]: "(\<And>x. x \<in> set xs \<Longrightarrow> calmS S (f x)) \<Longrightarrow> calmS S (forS f xs)"
  by (induction xs) (auto intro: calm_intros)

lemma seqs_simps [simp]: "seqs [] = retS ()" "seqs (m # ms) = seqS m (seqs ms)"
  by (simp_all add: seqs_def)

lemma calmS_branch [calm_intros]:
  "(b \<Longrightarrow> calmS S m) \<Longrightarrow> (\<not> b \<Longrightarrow> calmS S n) \<Longrightarrow> calmS S (if b then m else n)"
  "(b \<Longrightarrow> calmS S u) \<Longrightarrow> calmS S (whenS b u)"
  "(\<And>e. calmS S (f e)) \<Longrightarrow> (\<And>x. calmS S (g x)) \<Longrightarrow> calmS S (case r of Inl e \<Rightarrow> f e | Inr x \<Rightarrow> g x)"
  "calmS S f0 \<Longrightarrow> (\<And>x. calmS S (g0 x)) \<Longrightarrow> calmS S (case o' of None \<Rightarrow> f0 | Some x \<Rightarrow> g0 x)"
  "(\<And>a b. calmS S (h a b)) \<Longrightarrow> calmS S (case p of (a, b) \<Rightarrow> h a b)"
  by (auto simp: whenS_def intro: calm_intros split: sum.splits option.splits prod.splits)

lemma all_fact: "(\<forall>f. P f) \<longleftrightarrow> P FToken \<and> P FHost \<and> P FMgmt \<and> P FNet"
  unfolding enum_all_fact_def [symmetric] enum_all_UNIV by simp

lemma calm_update:
  assumes "cnTasks c' = cnTasks c" "cnTrace c' = cnTrace c" "cnAlreadyInstalled c' = cnAlreadyInstalled c"
    "cnInstallModeOnly c' = cnInstallModeOnly c" "cnFocus c' = cnFocus c \<or> keyless (cnFocus c') \<or> cnFocus c' \<in> S"
    "cnConfig c' = cnConfig c" "cnMgmt c' = cnMgmt c"
  shows "calm S c c'"
  using assms by (auto simp: calm_def all_fact install_def)

lemma calmS_parts [calm_intros]: "calmS S (onNet a)" "calmS S (onLinks b)" "calmS S (onRemote r)"
  by (auto simp: calmS_def onNet_def onLinks_def onRemote_def split: prod.splits intro: calm_update)

section \<open>Calm operations\<close>

subsection \<open>The configuration\<close>

lemma calmS_config [calm_intros]:
  "calmS S (modUser u)"
  "(\<And>n. nwInterfaces (m n) = nwInterfaces n) \<Longrightarrow> calmS S (modMgmt m)"
  "(\<And>i. nwInterfaces (inManagementInterface (f i)) = nwInterfaces (inManagementInterface i)) \<Longrightarrow> calmS S (modInstall f)"
  "(\<And>os. osHostname (g os) = osHostname os) \<Longrightarrow> calmS S (modOS g)"
  by (auto simp: modUser_def modMgmt_def modInstall_def modOS_def calmS_def calm_def all_fact install_def)

lemma calm_Merge: "calm S c (c\<lparr>cnConfig := Merge (cnConfig c) cfg\<rparr>)"
proof -
  have "hToken (cnConfig c) \<noteq> []" if "holds FToken c" using that by (auto simp: checkToken_def)
  moreover have "osHostname (hOS (cnConfig c)) \<noteq> []" if "holds FHost c"
    using that dns1123_nonempty by (auto simp: IsDNS1123Subdomain_Nil)
  ultimately show ?thesis
    by (auto simp: calm_def all_fact install_def Merge_def mergeOS_def mergeInstall_def mergeNetwork_def mStr_def split: if_splits)
qed

lemma calmS_checkDHCPHostname [calm_intros]: "calmS S (checkDHCPHostname ev b)"
proof -
  have "IsDNS1123Subdomain [] \<noteq> []" using dns1123_nonempty by (auto simp: IsDNS1123Subdomain_Nil)
  then show ?thesis
    by (auto simp: calmS_def checkDHCPHostname_def bindS_run whenS_def modOS_def Let_def calm_def all_fact install_def)
qed

subsection \<open>The screen\<close>

lemma calmS_screen [calm_intros]:
  "calmS S (putData n v)" "calmS S (setValue n v)" "calmS S (setContent n v)" "calmS S (closePanel n)"
  "calmS S (setenv k v)" "calmS S (unsetenv k)"
  by (auto simp: putData_def setValue_def setContent_def closePanel_def setenv_def unsetenv_def intro!: calm_intros calm_update)

lemma calmS_showPanel [calm_intros]: "calmS S (showPanel n)"
  by (auto simp: showPanel_def kindOf_def keyless_def intro!: calm_intros calm_update split: if_splits)

lemmas [calm_defs] = setContentByName_def setTitle_def postClose_def post_hooks closeEl_def CloseElement_def CloseElements_def
  getData_def getMultiData_def inputSetData_def spinnerStop_def Let_def

lemma calmS_widgets [calm_intros]:
  "calmS S (setContentByName n t)" "calmS S (setTitle t)" "calmS S (closeEl n)" "calmS S (CloseElement n)"
  "calmS S (CloseElements ns)" "calmS S (getData n)" "calmS S (getMultiData n)" "calmS S (inputSetData n v)"
  "calmS S (spinnerStop n msg)"
  unfolding calm_defs by (intro calm_intros)+

subsection \<open>Hooks and elements\<close>

lemmas hook_defs = setPageTitle_def preShowPersistentSize_def preShowBondMode_def preShowConfirmInstall_def noteAndTitle_def
  fromUser_def fromMgmt_def fromInstall_def preShowToken_def preShowAskCreate_def preShowPreflight_def Let_def seqs_simps

lemma calmS_hooks [calm_intros]:
  "calmS S setPageTitle" "calmS S (preShowPersistentSize ev)" "calmS S preShowBondMode" "calmS S (preShowConfirmInstall ev)"
  "calmS S (noteAndTitle n t)" "calmS S (fromUser n f)" "calmS S (fromMgmt n g)" "calmS S (fromInstall n h)"
  "calmS S preShowToken" "calmS S preShowPreflight"
  unfolding hook_defs by (intro calm_intros; simp)+

lemma calmS_preShowAskCreate [calm_intros]: "calmS S preShowAskCreate"
  unfolding hook_defs by (intro calm_intros calm_update; simp)

lemma calmS_preShow: "name \<noteq> ''install'' \<Longrightarrow> name \<noteq> ''upgrade'' \<Longrightarrow> calmS S (preShow ev name)"
  unfolding preShow_def hooks by (simp only: if_False seqs_simps) (intro calm_intros)

lemma calmS_openElement: "calmS {name} (openElement ev name)"
proof -
  have new: "calmS {name} (openNew name)"
    by (auto simp: openNew_def intro!: calm_intros calm_update)
  show ?thesis
    unfolding openElement_def Let_def
    by (cases "kindOf name") (auto intro!: calm_intros new)
qed

text \<open>Showing elements moves the focus to one of them, and to the last one if it always takes it.\<close>

definition starting :: "string list \<Rightarrow> bool" where
  "starting names \<longleftrightarrow> ''install'' \<in> set names \<or> ''upgrade'' \<in> set names"

lemma calmS_ShowElement: "\<not> starting [name] \<Longrightarrow> calmS {name} (ShowElement ev name)"
  unfolding ShowElement_def starting_def
  by (intro calmS_seqS calmS_preShow calmS_openElement) auto

lemma calmS_forS_show: "\<not> starting names \<Longrightarrow> calmS (set names) (forS (ShowElement ev) names)"
proof (rule calmS_forS)
  fix name assume "\<not> starting names" "name \<in> set names"
  then have "\<not> starting [name]" "{name} \<subseteq> set names" by (auto simp: starting_def)
  then show "calmS (set names) (ShowElement ev name)"
    using calmS_ShowElement [of name ev] by (auto simp: calmS_def intro: calm_mono)
qed

definition takesFocus :: "string \<Rightarrow> bool" where
  "takesFocus name \<longleftrightarrow> kindOf name = KInput \<or> kindOf name = KDropDown"

lemma openElement_focus:
  "takesFocus name \<Longrightarrow> openElement ev name c = (Inr (), c') \<Longrightarrow> cnFocus c' = name"
  by (auto simp: takesFocus_def openElement_def openNew_def putData_def whenS_def bindS_run
      split: kind.splits sum.splits prod.splits if_splits)

lemma closeEl_focus: "closeEl ''validator'' c = (r, c') \<Longrightarrow> cnFocus c' = cnFocus c"
  by (auto simp: closeEl_def closePanel_def postClose_def post_hooks bindS_run kindOf_def inputNames_def dropDownNames_def selectNames_def
      split: if_splits)

text \<open>
  The last element decides, if it takes the focus; a single selection may already be open, and then the
  focus stays.
\<close>

lemma showNext_calm:
  assumes "showNext ev names c = (Inr (), c')" "\<not> starting names" "names = [n] \<or> takesFocus n \<and> last names = n \<and> names \<noteq> []"
  shows "calm {n} c c'"
proof -
  from assms(1) obtain c1 where c1: "forS (ShowElement ev) names c = (Inr (), c1)" "closeEl ''validator'' c1 = (Inr (), c')"
    by (auto simp: showNext_def seqS_Inr)
  have all: "calm (set names) c c1"
    using calmS_run [OF calmS_forS_show [OF assms(2)] c1(1)] .
  have same: "cnFocus c' = cnFocus c1" using closeEl_focus [OF c1(2)] .
  have "calm {} c1 c'" using calmS_run [OF calmS_widgets(3) c1(2)] .
  then have "calm (set names) c1 c'" by (rule calm_mono) simp
  then have both: "calm (set names) c c'" using all calm_trans by blast
  show ?thesis
  proof (cases "names = [n]")
    case True
    then show ?thesis using both by simp
  next
    case False
    with assms(3) obtain ns where ns: "names = ns @ [n]" "takesFocus n" by (metis append_butlast_last_id)
    then obtain c2 where "ShowElement ev n c2 = (Inr (), c1)"
      using c1(1) by (auto simp: forS_append seqS_Inr)
    then obtain c3 where "openElement ev n c3 = (Inr (), c1)" by (auto simp: ShowElement_def seqS_Inr)
    then have "cnFocus c1 = n" using ns(2) openElement_focus by blast
    then show ?thesis using both same by (auto simp: calm_def)
  qed
qed

section \<open>Invariants of the pages\<close>

text \<open>\<open>I\<close> still holds whenever the program returns without an error.\<close>

definition safeS :: "(con \<Rightarrow> bool) \<Rightarrow> 'a ui \<Rightarrow> bool" where
  "safeS I m \<longleftrightarrow> (\<forall>c x c'. I c \<longrightarrow> m c = (Inr x, c') \<longrightarrow> I c')"

named_theorems safe_intros \<open>composition of programs that keep an invariant\<close>

lemma safeS_I: "(\<And>c x c'. I c \<Longrightarrow> m c = (Inr x, c') \<Longrightarrow> I c') \<Longrightarrow> safeS I m"
  by (simp add: safeS_def)

lemma safeS_D: "safeS I m \<Longrightarrow> I c \<Longrightarrow> m c = (Inr x, c') \<Longrightarrow> I c'"
  by (simp add: safeS_def)

lemma safeS_bindS [safe_intros]:
  assumes "safeS I m" "\<And>x. safeS I (k x)"
  shows "safeS I (bindS m k)"
proof (rule safeS_I)
  fix c y c' assume "I c" "bindS m k c = (Inr y, c')"
  then obtain x c1 where "m c = (Inr x, c1)" "k x c1 = (Inr y, c')" by (auto simp: bindS_Inr)
  then show "I c'" using \<open>I c\<close> assms safeS_D by metis
qed

lemma safeS_get:
  assumes "\<And>c. I c \<Longrightarrow> safeS I (k (g c))"
  shows "safeS I (bindS (getS g) k)"
proof (rule safeS_I)
  fix c y c' assume "I c" "bindS (getS g) k c = (Inr y, c')"
  then show "I c'" using assms [of c] safeS_D [of I "k (g c)" c y c'] by (simp add: bindS_Inr)
qed

lemma safeS_seqS [safe_intros]: "safeS I m \<Longrightarrow> safeS I n \<Longrightarrow> safeS I (seqS m n)"
  unfolding seqS_def by (intro safe_intros)

lemma safeS_retS [safe_intros]: "safeS I (retS x)" "safeS I (failS e)"
  by (auto simp: safeS_def)

lemma safeS_if [safe_intros]:
  "(b \<Longrightarrow> safeS I m) \<Longrightarrow> (\<not> b \<Longrightarrow> safeS I n) \<Longrightarrow> safeS I (if b then m else n)"
  "(b \<Longrightarrow> safeS I u) \<Longrightarrow> safeS I (whenS b u)"
  by (simp_all add: whenS_def safeS_retS)

lemma safeS_sum [safe_intros]:
  "(\<And>e. safeS I (f e)) \<Longrightarrow> (\<And>x. safeS I (g x)) \<Longrightarrow> safeS I (case r of Inl e \<Rightarrow> f e | Inr x \<Rightarrow> g x)"
  by (cases r) simp_all

lemma safeS_option [safe_intros]:
  "safeS I f \<Longrightarrow> (\<And>x. safeS I (g x)) \<Longrightarrow> safeS I (case o' of None \<Rightarrow> f | Some x \<Rightarrow> g x)"
  by (cases o') simp_all

lemma safeS_prod [safe_intros]: "(\<And>a b. safeS I (h a b)) \<Longrightarrow> safeS I (case p of (a, b) \<Rightarrow> h a b)"
  by (cases p) simp

text \<open>The lists of elements that are shown together.\<close>

definition networkTargets :: "string list list" where
  "networkTargets = [[''askVlanID'', ''askBondMode'', ''askNetworkMethod'', ''askInterface''],
     [''askVlanID'', ''askBondMode'', ''askNetworkMethod'', ''address'', ''mask'', ''gateway'', ''mtu'', ''askInterface'']]"

definition diskTargets :: "string list list" where
  "diskTargets = [''diskFatal''] #
     [ps @ mbr @ data @ [''disk'']. ps \<leftarrow> [[], [''persistentSize'']],
        mbr \<leftarrow> [[], [''askForceMBRTitle'', ''askForceMBR'']], data \<leftarrow> [[], [''dataDisk'']]]"

definition passwordTargets :: "string list list" where
  "passwordTargets = [[''osPasswordConfirm'', ''osPassword'']]"

definition setupTargets :: "string list list" where
  "setupTargets = [[''askCreate''], [''askRolePanel''], [''confirmUpgrade''], [''osPasswordConfirm''], [''osPassword'']] @
     passwordTargets @ diskTargets @ networkTargets"

definition networkFields :: "string list list" where
  "networkFields = [[''askInterface''], [''askVlanID''], [''askBondMode''], [''askNetworkMethod''], [''address''], [''mask''],
     [''gateway''], [''mtu''], [''mtu'', ''gateway'', ''address'', ''askNetworkMethod''], [''mtu'', ''gateway'', ''mask'', ''address'']]"

definition networkPrevTargets :: "string list list" where
  "networkPrevTargets = [[''askRolePanel''], [''askCreate'']] @ diskTargets"

definition clusterTargets :: "string list list" where
  "clusterTargets = [[''serviceCIDRPanel'', ''clusterDNSPanel'', ''clusterNetworkNotePanel'', ''clusterNetworkValidatorPanel'', ''podCIDRPanel'']]"

definition clusterFields :: "string list list" where
  "clusterFields = [[''podCIDRPanel''], [''serviceCIDRPanel''], [''clusterDNSPanel''], [''hostname'']]"

definition vipTargets :: "string list list" where
  "vipTargets = [[''vipTextPanel'', ''askVipMethodPanel''], [''askVipMethodPanel''], [''vipPanel''],
     [''vipPanel'', ''vipHwAddrNotePanel'', ''vipHwAddrPanel''], [''vipHwAddrPanel''], [''dnsServers''], [''token''], [''serverUrl'']]"

definition diskFields :: "string list list" where
  "diskFields = [[''disk''], [''dataDisk''], [''persistentSize''], [''persistentSize'', ''dataDisk''],
     [''wipeDisksTitlePanel'', ''wipeDisksPanel''], [''askForceMBR'']] @ passwordTargets"

lemma chosenInterfaces_length: "chosenInterfaces ev ifs = Inr (Inr ns) \<Longrightarrow> length ns = length ifs"
proof (induction ifs arbitrary: ns)
  case (Cons a ifs)
  then obtain n r where "chosenInterfaces ev ifs = Inr r" "(case r of Inl msg \<Rightarrow> Inl msg | Inr ms \<Rightarrow> Inr (n # ms)) = Inr ns"
    by (auto simp: bindR_Inr split: NICState.splits)
  then show ?case using Cons.IH by (cases r) auto
qed simp

lemma calmS_validateInterface: "calmS {} (validateInterface ev)"
proof -
  have "calm {} c (c\<lparr>cnMgmt := (cnMgmt c)\<lparr>nwInterfaces := ns\<rparr>\<rparr>)" if "length ns = length ifs" "ifs \<noteq> []"
    for c ns and ifs :: "string list"
    using that by (auto simp: calm_def all_fact install_def)
  then show ?thesis
    by (auto simp: calmS_def validateInterface_def getMultiData_def modMgmt_def bindS_run dest!: chosenInterfaces_length
        split: sum.splits option.splits)
qed

locale page_invariant =
  fixes I :: "con \<Rightarrow> bool" and shown :: "string list \<Rightarrow> bool" and starts :: "task \<Rightarrow> bool"
  assumes calm_I: "I c \<Longrightarrow> calm {} c c' \<Longrightarrow> I c'"
    and show_I: "shown names \<Longrightarrow> I c \<Longrightarrow> showNext ev names c = (Inr (), c') \<Longrightarrow> I c'"
    and start_I: "starts t \<Longrightarrow> I c \<Longrightarrow> I (c\<lparr>cnTasks := cnTasks c @ [t]\<rparr>)"
begin

lemma safe_calm: "calmS {} m \<Longrightarrow> safeS I m"
  by (rule safeS_I) (erule calm_I, erule calmS_run, assumption)

lemma safe_tryS:
  assumes "calmS {} m" "\<And>e. safeS I (h e)" "\<And>x. safeS I (k x)"
  shows "safeS I (tryS m h k)"
proof (rule safeS_I)
  fix c y c' assume c: "I c" "tryS m h k c = (Inr y, c')"
  obtain r c1 where m: "m c = (r, c1)" by fastforce
  then have "I c1" using assms(1) c(1) calm_I calmS_run by metis
  then show "I c'"
    using c(2) m assms(2,3) [THEN safeS_D, of c1 _ y c'] by (cases r) (auto simp: tryS_def)
qed

lemma safe_show: "shown names \<Longrightarrow> safeS I (showNext ev names)"
  unfolding safeS_def using show_I by auto

lemma safe_start: "starts t \<Longrightarrow> safeS I (startTask t)"
  unfolding safeS_def startTask_def using start_I by auto

lemmas safe = safe_intros safe_tryS safe_show safe_start safe_calm [OF calmS_config(1)] safe_calm [OF calmS_config(2)]
  safe_calm [OF calmS_config(3)] safe_calm [OF calmS_config(4)] calmS_widgets [THEN safe_calm] calmS_screen [THEN safe_calm]
  calmS_showPanel [THEN safe_calm] calmS_basic(3) [THEN safe_calm] calmS_basic(4) [THEN safe_calm]

lemma safe_showPages:
  "\<forall>names \<in> set passwordTargets. shown names \<Longrightarrow> safeS I (showPasswordPage ev)"
  "\<forall>names \<in> set networkTargets. shown names \<Longrightarrow> safeS I (showNetworkPage ev)"
  by (auto simp: showPasswordPage_def passwordTargets_def showNetworkPage_def networkTargets_def intro!: safe)

lemma safe_modS: "(\<And>c. calm {} c (f c)) \<Longrightarrow> safeS I (modS f)"
  by (intro safe_calm calm_intros)

lemma safe_fields:
  "safeS I (modS (\<lambda>c. c\<lparr>cnDiskConfirmed := b\<rparr>))" "safeS I (modS (\<lambda>c. c\<lparr>cnRebooting := b\<rparr>))"
  "safeS I (modS (\<lambda>c. c\<lparr>cnConfig := (cnConfig c)\<lparr>hServerURL := url\<rparr>\<rparr>))" "safeS I (modS (\<lambda>c. c\<lparr>cnCache := d\<rparr>))"
  by (rule safe_modS, auto simp: calm_def all_fact install_def)+

lemma safe_showDiskPage:
  assumes "\<forall>names \<in> set diskTargets. shown names"
  shows "safeS I (showDiskPage ev)"
proof -
  have preset: "safeS I (modS (\<lambda>c. c\<lparr>cnConfig := presetConfigDisks (cnConfig c) (getAllValidDiskOptions (cnCache c))\<rparr>))"
    by (rule safe_modS) (auto simp: presetConfigDisks_def calm_def all_fact install_def Let_def split: list.splits)
  show ?thesis
    unfolding showDiskPage_def refreshDisks_def seqs_simps Let_def
    by (intro safe preset safe_fields; use assms in \<open>simp add: diskTargets_def\<close>)
qed

lemma safe_setup:
  assumes "\<forall>names \<in> set setupTargets. shown names" and only: "\<And>c b. I c \<Longrightarrow> I (c\<lparr>cnInstallModeOnly := b\<rparr>)"
  shows "safeS I (setupKeys ev name k)"
proof -
  have t: "shown [''askCreate'']" "shown [''askRolePanel'']" "shown [''confirmUpgrade'']" "shown [''osPasswordConfirm'']"
    "shown [''osPassword'']"
    "\<forall>names \<in> set passwordTargets. shown names" "\<forall>names \<in> set networkTargets. shown names" "\<forall>names \<in> set diskTargets. shown names"
    using assms(1) by (auto simp: setupTargets_def)
  have m: "safeS I (modS (\<lambda>c. c\<lparr>cnInstallModeOnly := b\<rparr>))" for b using only by (auto simp: safeS_def)
  note pages = safe_showPages(1) [OF t(6)] safe_showPages(2) [OF t(7)] safe_showDiskPage [OF t(8)]
  have "safeS I (preflightEnter ev)"
    unfolding preflightEnter_def haltInstallation_def seqs_simps by (intro safe safe_fields t)
  moreover have "safeS I (askCreateEnter ev)"
    unfolding askCreateEnter_def showRolePage_def seqs_simps by (intro safe safe_fields m t pages; simp)
  moreover have "safeS I (askRoleEnter ev)" "safeS I (askRoleEsc ev)"
    unfolding askRoleEnter_def askRoleEsc_def seqs_simps by (intro safe safe_fields t pages; simp)+
  moreover have "safeS I (passwordVConfirmKeyBinding ev)" "safeS I (passwordVEscapeKeyBinding ev)"
    "safeS I (passwordConfirmVArrowUpKeyBinding ev)" "safeS I (passwordConfirmVKeyEnter ev)"
    unfolding passwordVConfirmKeyBinding_def passwordVEscapeKeyBinding_def passwordConfirmVArrowUpKeyBinding_def
      passwordConfirmVKeyEnter_def closePassword_def seqs_simps
    by (intro safe t pages; simp)+
  ultimately show ?thesis
    unfolding setupKeys_def by (cases k) (auto intro: safe_intros)
qed

lemma safe_disk:
  assumes "\<forall>names \<in> set diskFields. shown names" "\<And>c. I c \<Longrightarrow> cnInstallModeOnly c \<Longrightarrow> shown [''confirmInstall'']"
    "\<And>c. I c \<Longrightarrow> \<not> cnInstallModeOnly c \<Longrightarrow> \<forall>names \<in> set networkTargets. shown names"
  shows "safeS I (diskKeys ev name k)"
proof -
  have t: "shown [''disk'']" "shown [''dataDisk'']" "shown [''persistentSize'']" "shown [''persistentSize'', ''dataDisk'']"
     "shown [''wipeDisksTitlePanel'', ''wipeDisksPanel'']" "shown [''askForceMBR'']" "\<forall>names \<in> set passwordTargets. shown names"
    using assms(1) by (auto simp: diskFields_def)
  have v: "safeS I (validateAllDiskSizes ev)" "safeS I (validatePersistentPartitionSize ev s)" for s
    unfolding validateAllDiskSizes_def validatePersistentPartitionSize_def showDiskError_def updateDiskMessage_def Let_def
    by (intro safe)+
  have leave: "safeS I (leaveDiskPage ev)"
    unfolding leaveDiskPage_def closeDiskPage_def
    by (intro safe_intros safeS_get safe safe_fields safe_showPages(2)) (use assms(2,3) in auto)
  have next': "safeS I (diskNextPage ev)"
    unfolding diskNextPage_def by (intro safe leave v; simp)
  have mbr: "safeS I (askMBROrNextPage ev)"
    unfolding askMBROrNextPage_def by (intro safe next' t)
  have wipe: "safeS I (isWipeDisksPanelNeeded ev)"
    unfolding isWipeDisksPanelNeeded_def seqs_simps Let_def by (intro safe mbr t; simp)
  have "safeS I (diskPrevPage ev)" "safeS I (diskConfirm ev)" "safeS I (dataDiskConfirm ev)" "safeS I (dataDiskUp ev)"
    "safeS I (persistentSizeConfirm ev)" "safeS I (persistentSizeUp ev)" "safeS I (wipeDisksConfirm ev)" "safeS I (backToDisks ev)"
    "safeS I (mbrConfirm ev)" "safeS I (updateDiskMessage [])"
    unfolding diskPrevPage_def closeDiskPage_def diskConfirm_def dataDiskConfirm_def dataDiskUp_def persistentSizeConfirm_def
      persistentSizeUp_def wipeDisksConfirm_def backToDisks_def mbrConfirm_def updateDiskMessage_def seqs_simps Let_def
    by (intro safe safe_fields t v next' mbr wipe safe_showPages; simp)+
  then show ?thesis unfolding diskKeys_def disk_tables by (cases k) (auto intro: safe_intros)
qed

lemma calm_checks:
  "calmS {} validateVlanID" "calmS {} validateAddress" "calmS {} validateAddrMask" "calmS {} validateGateway" "calmS {} validateMTU"
  "calmS {} (showBondNote ev)" "calmS {} (updateNetworkMessage msg)" "calmS {} closeNetworkPage"
  unfolding validateVlanID_def validateAddress_def setAddress_def validateAddrMask_def validateGateway_def validateMTU_def
    orMessage_def showBondNote_def updateNetworkMessage_def closeNetworkPage_def seqs_simps
  by (intro calm_intros; simp)+

lemma safe_gotoNextPanel: "safeS I hook \<Longrightarrow> shown names \<Longrightarrow> safeS I (gotoNextPanel ev names hook)"
  unfolding gotoNextPanel_def by (intro safe safe_calm [OF calm_checks(6)] safe_calm [OF calm_checks(7)])

lemma safe_networkNextPage: "starts (ApplyNetwork from) \<Longrightarrow> safeS I (networkNextPage from)"
proof -
  assume "starts (ApplyNetwork from)"
  moreover have "safeS I (focusOn ''networkValidator'')"
    unfolding focusOn_def by (rule safe_modS) (auto intro: calm_update simp: keyless_def)
  ultimately show ?thesis
    unfolding networkNextPage_def withSpinner_def seqs_simps by (intro safe)
qed

lemma safe_networkPrevPage:
  assumes "\<forall>names \<in> set networkPrevTargets. shown names"
  shows "safeS I (networkPrevPage ev)"
  unfolding networkPrevPage_def
  by (intro safe safe_calm [OF calm_checks(8)] safe_showDiskPage) (use assms in \<open>auto simp: networkPrevTargets_def\<close>)

lemma safe_network:
  assumes "\<forall>names \<in> set networkPrevTargets. shown names" "\<forall>names \<in> set networkFields. shown names"
    "starts (ApplyNetwork ''mtu'')" "starts (ApplyNetwork ''askNetworkMethod'')"
  shows "safeS I (networkKeys ev name k)"
proof -
  have f: "shown [''askInterface'']" "shown [''askVlanID'']" "shown [''askBondMode'']" "shown [''askNetworkMethod'']"
    "shown [''address'']" "shown [''mask'']" "shown [''gateway'']" "shown [''mtu'']"
    "shown [''mtu'', ''gateway'', ''address'', ''askNetworkMethod'']" "shown [''mtu'', ''gateway'', ''mask'', ''address'']"
    using assms(2) by (simp_all add: networkFields_def)
  note checks = calmS_validateInterface [THEN safe_calm] calm_checks [THEN safe_calm]
  have "safeS I (askBondModeConfirm ev)" "safeS I (askNetworkMethodConfirm ev)" "safeS I (mtuConfirm ev)"
    unfolding askBondModeConfirm_def askNetworkMethodConfirm_def mtuConfirm_def
    by (intro safe checks f safe_networkNextPage assms; simp)+
  moreover have "safeS I (keepTyped n (\<lambda>v. modUser (g v)))"
    "(\<And>v m. nwInterfaces (h v m) = nwInterfaces m) \<Longrightarrow> safeS I (keepTyped n (\<lambda>v. modMgmt (h v)))" for n g h
    unfolding keepTyped_def by (intro safe; simp)+
  ultimately show ?thesis
    unfolding networkKeys_def network_tables
    by (intro safe_intros safe_gotoNextPanel checks safe_networkPrevPage assms; simp add: f)
qed

lemma safe_applyNetwork:
  assumes "safeS I (preGotoNextPage ev)" "shown [from]" "\<forall>names \<in> set clusterTargets. shown names" "shown [''hostname'']"
  shows "safeS I (applyNetworkTask ev from)"
  unfolding applyNetworkTask_def showClusterNetworkPage_def showHostnamePage_def
  by (intro safe assms safe_calm [OF calm_checks(8)]) (use assms(3) in \<open>simp add: clusterTargets_def\<close>)

lemma safe_cluster:
  assumes "\<forall>names \<in> set networkTargets. shown names" "\<forall>names \<in> set clusterFields. shown names"
  shows "safeS I (clusterKeys ev name k)"
proof -
  have f: "shown [''podCIDRPanel'']" "shown [''serviceCIDRPanel'']" "shown [''clusterDNSPanel'']" "shown [''hostname'']"
    using assms(2) by (simp_all add: clusterFields_def)
  show ?thesis
    unfolding clusterKeys_def cluster_tables clusterPrevPage_def closeClusterPage_def podCIDRConfirm_def serviceCIDRConfirm_def clusterDNSConfirm_def
      clusterConfirm_def showHostnamePage_def seqs_simps
    by (intro safe safe_showPages(2) assms(1) f calm_intros; simp)
qed

lemma safe_hostnamePrev:
  assumes "\<forall>names \<in> set networkTargets. shown names" "\<forall>names \<in> set clusterTargets. shown names"
  shows "safeS I (hostnamePrev ev)"
  unfolding hostnamePrev_def closeHostnamePage_def showClusterNetworkPage_def
  by (intro safe safe_showPages(2) assms(1)) (use assms(2) in \<open>simp add: clusterTargets_def\<close>)

lemma safe_spin: "starts t \<Longrightarrow> safeS I (spin t)"
  unfolding spin_def withSpinner_def seqs_simps by (intro safe)

lemma safe_spinnerError: "shown [name] \<Longrightarrow> safeS I (spinnerError ev name msg)"
  unfolding spinnerError_def by (intro safe)

lemma safe_dns:
  assumes "starts (SetupDNS servers)" "shown [''hostname'']"
    "shown [''dnsServers'']" "shown [''vipTextPanel'', ''askVipMethodPanel'']" "shown [''serverUrl'']"
  shows "\<forall>servers. starts (SetupDNS servers) \<Longrightarrow> safeS I dnsEnter" "safeS I (dnsEsc ev)" "safeS I (dnsTask ev servers)"
proof -
  show "\<forall>servers. starts (SetupDNS servers) \<Longrightarrow> safeS I dnsEnter"
    unfolding dnsEnter_def Let_def by (intro safe safe_spin) auto
  show "safeS I (dnsEsc ev)"
    unfolding dnsEsc_def closeWithNote_def showHostnamePage_def by (intro safe assms)
  show "safeS I (dnsTask ev servers)"
    unfolding dnsTask_def dnsNextPage_def closeWithNote_def Let_def
    by (intro safe safe_spinnerError assms calm_intros; simp)
qed

lemma safe_vip:
  assumes "\<forall>names \<in> set vipTargets. shown names" "\<forall>m hw. starts (RequestVip m hw)"
  shows "safeS I (vipKeys ev name k)" "safeS I (vipTask ev m hw)"
proof -
  have f: "shown [''vipTextPanel'', ''askVipMethodPanel'']" "shown [''askVipMethodPanel'']" "shown [''vipPanel'']"
    "shown [''vipPanel'', ''vipHwAddrNotePanel'', ''vipHwAddrPanel'']" "shown [''vipHwAddrPanel'']" "shown [''dnsServers'']"
    "shown [''token'']"
    using assms(1) by (simp_all add: vipTargets_def)
  show "safeS I (vipKeys ev name k)"
    unfolding vipKeys_def vipPrevPage_def closeVipPage_def confirmAskVipMethod_def gotoVipPanel_def gotoVipParentPanel_def
      gotoVerifyIP_def vipNextPage_def withSpinner_def seqs_simps
    by (intro safe f assms(2) [rule_format]; simp)
  show "safeS I (vipTask ev m hw)"
    unfolding vipTask_def seqs_simps by (intro safe f calm_intros; simp)
qed

lemma safe_serverURL:
  assumes "\<forall>url. starts (CheckServerURL url)" "shown [''serverUrl'']" "shown [''token'']" "shown [''dnsServers'']"
  shows "safeS I (serverURLEnter ev)" "safeS I (serverURLEsc ev)" "safeS I (serverURLTask ev url)"
  unfolding serverURLEnter_def serverURLEsc_def serverURLTask_def seqs_simps
  by (intro safe safe_spin safe_spinnerError safe_fields assms(2,3,4) assms(1) [rule_format] calm_intros)+

lemma safe_token:
  assumes "\<forall>names \<in> set vipTargets. shown names"
  shows "safeS I (tokenEsc ev)" "shown [''ntpServersPanel''] \<Longrightarrow> safeS I (tokenEnter ev)"
proof -
  have f: "shown [''vipTextPanel'', ''askVipMethodPanel'']" "shown [''serverUrl'']"
    using assms by (simp_all add: vipTargets_def)
  show "safeS I (tokenEsc ev)" unfolding tokenEsc_def closeWithNote_def by (intro safe f)
  assume ntp: "shown [''ntpServersPanel'']"
  have tok: "safeS I (case checkToken tok of Inl err \<Rightarrow> setContentByName ''validator'' (errText err)
      | Inr u \<Rightarrow> seqs [modS (\<lambda>c. c\<lparr>cnConfig := (cnConfig c)\<lparr>hToken := tok\<rparr>\<rparr>), closeWithNote ''token'', showNext ev [''ntpServersPanel'']])"
    for tok
  proof (cases "checkToken tok")
    case (Inr u)
    then have "safeS I (modS (\<lambda>c. c\<lparr>cnConfig := (cnConfig c)\<lparr>hToken := tok\<rparr>\<rparr>))"
      by (intro safe_modS) (auto simp: calm_def all_fact install_def)
    with Inr ntp show ?thesis by (auto simp: closeWithNote_def intro!: safe)
  qed (auto intro: safe)
  show "safeS I (tokenEnter ev)"
    unfolding tokenEnter_def by (intro safeS_bindS safeS_if(1) tok calmS_widgets [THEN safe_calm])
qed

lemma safe_ntp:
  assumes "\<forall>s. starts (CheckNTP s)" "shown [''ntpServersPanel'']" "shown [''proxy'']" "shown [''token'']"
  shows "safeS I (ntpEnter ev)" "safeS I (ntpEsc ev)" "safeS I (ntpTask ev servers)"
  unfolding ntpEnter_def ntpEsc_def ntpTask_def ntpNextPage_def closeWithNote_def seqs_simps Let_def
  by (intro safe safe_spin safe_spinnerError assms(2,3,4) assms(1) [rule_format] calm_intros; simp)+

lemma safe_proxy:
  assumes "shown [''ntpServersPanel'']" "shown [''sshKey'']"
  shows "safeS I (proxyEnter ev)" "safeS I (proxyEsc ev)"
  unfolding proxyEnter_def proxyEsc_def seqs_simps by (intro safe assms)+

lemma safe_ssh:
  assumes "\<forall>u. starts (FetchSSHKeys u)" "shown [''sshKey'']" "shown [''proxy'']" "shown [''cloudInit'']"
  shows "safeS I (sshEnter ev)" "safeS I (sshEsc ev)" "safeS I (sshTask ev url)"
  unfolding sshEnter_def sshEsc_def sshTask_def sshNextPage_def closeWithNote_def seqs_simps
  by (intro safe safe_spin safe_spinnerError assms(2,3,4) assms(1) [rule_format] calm_intros; simp)+

lemma safe_cloudInit:
  assumes "\<forall>u. starts (FetchConfig u)" "shown [''sshKey'']" "shown [''cloudInit'']" "shown [''confirmInstall'']"
  shows "safeS I (cloudInitEnter ev)" "safeS I (cloudInitEsc ev)" "safeS I (cloudInitTask ev url)"
  unfolding cloudInitEnter_def cloudInitEsc_def cloudInitTask_def cloudInitNextPage_def seqs_simps
  by (intro safe safe_spin safe_spinnerError assms(2,3,4) assms(1) [rule_format] calm_intros; simp)+

lemma safe_confirmEsc:
  assumes "\<forall>names \<in> set diskTargets. shown names" "\<And>c. I c \<Longrightarrow> \<not> cnInstallModeOnly c \<Longrightarrow> shown [''cloudInit'']"
  shows "safeS I (confirmInstallEsc ev)"
  unfolding confirmInstallEsc_def
  by (intro safe_intros safeS_get safe safe_showDiskPage assms(1)) (use assms(2) in auto)

lemma safe_upgrade:
  assumes "shown [''askCreate'']" "shown [''upgrade'']"
  shows "safeS I (confirmUpgradeEnter ev)" "safeS I (confirmUpgradeEsc ev)"
  unfolding confirmUpgradeEnter_def confirmUpgradeEsc_def by (intro safe assms)+

lemma safe_halt: "safeS I (haltInstallation name)"
  unfolding haltInstallation_def seqs_simps by (intro safe safe_fields)

end

section \<open>The installation keeps the facts\<close>

text \<open>The parts of the configuration that the facts are about.\<close>

definition factsOf :: "HarvesterConfig \<Rightarrow> string \<times> string \<times> NetworkInterface list" where
  "factsOf cfg = (hToken cfg, osHostname (hOS cfg), nwInterfaces (inManagementInterface (hInstall cfg)))"

abbreviation "keepsFacts x \<equiv> keeps (\<lambda>st. factsOf (isCfg st) = x)"

lemma factsOf_steps:
  "factsOf (setConfigDefaultValues v c) = factsOf c" "factsOf (overwriteSSHDComponent c) = factsOf c"
  "factsOf (setConfigURL u c) = factsOf c" "factsOf (updateSystemSettings c) = factsOf c" "factsOf (setLabel k c) = factsOf c"
  "factsOf (addWipeDisks d c) = factsOf c"
  by (simp_all add: factsOf_def setConfigDefaultValues_def Let_def overwriteSSHDComponent_def setConfigURL_def
      updateSystemSettings_def setLabel_def addWipeDisks_def)

lemma facts_cos:
  "keeps (\<lambda>s. factsOf (fst s) = x) (initRancherdStage env stage)"
  "keeps (\<lambda>s. factsOf (fst s) = x) (ConvertToCOS env)"
  "keeps (\<lambda>s. factsOf (fst s) = x) (GenerateRancherdConfig env)"
proof -
  show r: "keeps (\<lambda>s. factsOf (fst s) = x) (initRancherdStage env stage)" for stage
    unfolding initRancherdStage_def by (intro keeps_intros) (auto simp: factsOf_steps)
  show "keeps (\<lambda>s. factsOf (fst s) = x) (ConvertToCOS env)"
    unfolding ConvertToCOS_def clusterStages_def Let_def
    by (intro keeps_intros keeps_case_prod r keeps_onProfiles) (auto simp: factsOf_steps)
  show "keeps (\<lambda>s. factsOf (fst s) = x) (GenerateRancherdConfig env)"
    unfolding GenerateRancherdConfig_def by (intro keeps_intros r keeps_onProfiles)
qed

lemma facts_basic:
  "keepsFacts x (perform env e)" "keepsFacts x (emit e)"
  "(\<And>c. factsOf (f c) = factsOf c) \<Longrightarrow> keepsFacts x (modCfg f)"
  "keeps (\<lambda>s. factsOf (fst s) = x) m \<Longrightarrow> keepsFacts x (onCos m)"
proof -
  show "keepsFacts x (perform env e)" "keepsFacts x (emit e)"
    by (auto simp: keeps_def perform_def split: option.splits)
  show "(\<And>c. factsOf (f c) = factsOf c) \<Longrightarrow> keepsFacts x (modCfg f)" by (simp add: keeps_def modCfg_def)
  assume m: "keeps (\<lambda>s. factsOf (fst s) = x) m"
  then show "keepsFacts x (onCos m)"
    unfolding keeps_def onCos_def by (auto split: prod.splits) (metis fst_conv snd_conv)
qed

lemma facts_saveTemp: "keepsFacts x (saveTemp env e prefix)"
  unfolding saveTemp_def by (intro keeps_intros facts_basic)

lemmas keeps_facts = keeps_intros keeps_catch keeps_case_prod facts_basic facts_saveTemp facts_cos

lemma facts_sum: "(\<And>e. keeps I (f e)) \<Longrightarrow> (\<And>y. keeps I (g y)) \<Longrightarrow> keeps I (case r of Inl e \<Rightarrow> f e | Inr y \<Rightarrow> g y)"
  by (cases r) simp_all

lemma facts_pure: "keepsFacts x (Pair r)" "keepsFacts x (\<lambda>st. (r', st))"
  by (simp_all add: keeps_def)

lemma facts_install_parts:
  "keepsFacts x roleSetup" "keepsFacts x (generateEnvAndConfig env)" "keepsFacts x (streamImageToDisk env envv cfg)"
  "keepsFacts x (runInstaller env envv)" "keepsFacts x (wrapErr msg (executeWipeDisks env d))"
proof -
  have report: "keepsFacts x (\<lambda>st. reportFailure env (isCfg st) err st)" for err
  proof -
    have "keepsFacts x (reportFailure env cfg err)" for cfg
      unfolding reportFailure_def Let_def by (intro keeps_facts)
    then show ?thesis unfolding keeps_def by blast
  qed
  show "keepsFacts x roleSetup"
    unfolding roleSetup_def by (intro keeps_facts factsOf_steps)
  show "keepsFacts x (generateEnvAndConfig env)"
    unfolding generateEnvAndConfig_def by (intro keeps_facts factsOf_steps facts_sum)
  show "keepsFacts x (streamImageToDisk env envv cfg)"
    unfolding streamImageToDisk_def by (intro keeps_facts)
  show "keepsFacts x (runInstaller env envv)"
    unfolding runInstaller_def by (intro keeps_facts report facts_pure)
  show "keepsFacts x (wrapErr msg (executeWipeDisks env d))"
    unfolding wrapErr_def executeWipeDisks_def by (intro keeps_facts facts_pure)
qed

lemma facts_doInstall: "keepsFacts x (doInstall env)"
  unfolding doInstall_def wipeAndInstall_def Let_def
  by (intro keeps_facts facts_install_parts factsOf_steps facts_pure)

lemma facts_configure: "keepsFacts x (configureInstalledNode env)"
proof -
  have parts: "keepsFacts x (generateTempConfigFiles env)" "keepsFacts x (applyRancherdConfig env cfg)" for cfg
    unfolding generateTempConfigFiles_def applyRancherdConfig_def apply_yip_def Let_def by (intro keeps_facts)+
  have fin: "keepsFacts x m \<Longrightarrow> keepsFacts x (\<lambda>st. case m st of (r, st') \<Rightarrow> (r, snd (seqS (emit e1) (emit e2) st')))" for m e1 e2
    by (auto simp: keeps_def bindS_run split: prod.splits)
  show ?thesis
    unfolding configureInstalledNode_def
    apply (intro keeps_facts facts_install_parts parts)
    subgoal for u
      by (cases u) (simp only: prod.case, intro fin keeps_facts parts facts_pure)
    done
qed

lemma calm_onInst:
  assumes "\<And>x. keepsFacts x m" "onInst m c = (r, c')"
  shows "calm {} c (c'\<lparr>cnTrace := cnTrace c\<rparr>)"
proof -
  obtain st where st: "m \<lparr>isCfg = cnConfig c, isNM = anProfiles (cnNet c), isCache = cnCache c, isTrace = cnTrace c\<rparr> = (r, st)"
    and c': "c' = c\<lparr>cnConfig := isCfg st, cnNet := (cnNet c)\<lparr>anProfiles := isNM st\<rparr>, cnCache := isCache st, cnTrace := isTrace st\<rparr>"
    using assms(2) by (auto simp: onInst_def split: prod.splits)
  have "factsOf (isCfg st) = factsOf (cnConfig c)"
    using keepsD [OF assms(1) _ st] by simp
  then show ?thesis
    by (auto simp: c' calm_def all_fact install_def factsOf_def)
qed

section \<open>The installation task\<close>

text \<open>For an invariant that does not speak of the trace, the whole task is safe.\<close>

locale untraced_invariant = page_invariant +
  assumes trace_I: "I (c\<lparr>cnTrace := tr\<rparr>) \<longleftrightarrow> I c"
begin

lemma safe_steps: "\<forall>m \<in> set ms. safeS I m \<Longrightarrow> safeS I (steps ms)"
  by (induction ms) (auto intro!: safe)

lemma safe_onInst: "(\<And>x. keepsFacts x m) \<Longrightarrow> safeS I (onInst m)"
  by (rule safeS_I) (metis calm_I calm_onInst trace_I)

lemma calm_printToPanel: "calmS {} (printToPanel msg)"
  unfolding printToPanel_def by (intro calm_intros calm_update; simp)

lemmas calm_install = calm_intros calm_printToPanel

lemma calm_install_parts:
  "calmS {} (stopWith msg)" "calmS {} (setVip vip)" "calmS {} (vipOfConfig ev)" "calmS {} lowerMethods" "calmS {} (chooseTTY ev)"
  "calmS {} finishDisks" "calmS {} (prepareStep ev)"
  unfolding stopWith_def setVip_def vipOfConfig_def lowerMethods_def chooseTTY_def finishDisks_def prepareStep_def
  by (intro calm_install; simp)+

lemma calm_findInterfaces: "calmS {} (findInterfaces ev)"
proof -
  have l: "length ns' = length ns" if "lookupInterfaces hs ns = (r, ns')" for hs ns ns' r
    using that by (induction hs ns arbitrary: ns' r rule: lookupInterfaces.induct) (auto split: sum.splits prod.splits)
  have "calm {} c (snd (findInterfaces ev c))" for c
  proof -
    let ?ns = "nwInterfaces (inManagementInterface (install c))"
    obtain r ns' where look: "lookupInterfaces (hoInterfaces (evHost ev)) ?ns = (r, ns')" by fastforce
    let ?set = "modInstall (\<lambda>i. i\<lparr>inManagementInterface := (inManagementInterface i)\<lparr>nwInterfaces := ns'\<rparr>\<rparr>)"
    have "calm {} c (snd (?set c))"
      using l [OF look] by (auto simp: modInstall_def calm_def all_fact install_def)
    moreover have "calmS {} (case r of Inl err \<Rightarrow> stopWith (errText err) | Inr u \<Rightarrow> retS True)"
      by (intro calm_intros calm_install_parts)
    ultimately show ?thesis
      using look by (auto simp: findInterfaces_def bindS_run modInstall_def calmS_def intro: calm_trans split: sum.splits)
  qed
  then show ?thesis by (simp add: calmS_def)
qed

text \<open>On an installed system the interfaces of the stored configuration count, whatever the page has.\<close>

lemma calm_configureInstallModeDHCP:
  "cnAlreadyInstalled c \<Longrightarrow> calm {} c (snd (configureInstallModeDHCP ev c))"
proof -
  assume "cnAlreadyInstalled c"
  then have "calm {} c (snd (modMgmt f c))" for f
    by (auto simp: modMgmt_def calm_def all_fact install_def)
  then have seq: "calm {} c (snd (seqS (modMgmt f) m c))" if "calmS {} m" for f m
    using that calm_trans [of "{}" c "snd (modMgmt f c)"] by (auto simp: calmS_def bindS_run modMgmt_def)
  have get: "bindS (getS g) k c = k (g c) c" for g :: "con \<Rightarrow> 'b" and k :: "'b \<Rightarrow> 'c ui"
    by (simp add: bindS_run)
  show ?thesis
    unfolding configureInstallModeDHCP_def get by (intro seq calm_install calm_install_parts)
qed

lemma calm_prepare_parts:
  "calmS {} (mergeRemoteConfig ev)" "calmS {} (automaticNetwork ev)" "calmS {} (automaticVip ev)" "calmS {} formatServerURL"
  "calmS {} (checkWarnings ev)" "calmS {} (installRoute ev)" "calmS {} (validateStep ev)"
  "calmS {} (bindS (getS id) (\<lambda>c. whenS (cnAlreadyInstalled c \<and> b c) (configureInstallModeDHCP ev)))"
proof -
  show "calmS {} (mergeRemoteConfig ev)" "calmS {} (automaticNetwork ev)" "calmS {} (automaticVip ev)"
    "calmS {} (installRoute ev)"
    unfolding mergeRemoteConfig_def automaticNetwork_def automaticVip_def installRoute_def goOn_def Let_def
    by (intro calm_install calm_install_parts calm_Merge)+
  show "calmS {} formatServerURL" "calmS {} (checkWarnings ev)" "calmS {} (validateStep ev)"
    unfolding formatServerURL_def checkWarnings_def validateStep_def goOn_def
    by (intro calm_install calm_install_parts; auto simp: calm_def all_fact install_def)+
  show "calmS {} (bindS (getS id) (\<lambda>c. whenS (cnAlreadyInstalled c \<and> b c) (configureInstallModeDHCP ev)))"
    using calm_configureInstallModeDHCP by (auto simp: calmS_def bindS_run whenS_def)
qed

lemma safe_runInstallation: "safeS I (runInstallation ev)"
proof (rule safeS_I)
  fix c x c' assume "I c" and r: "runInstallation ev c = (Inr x, c')"
  let ?m = "if cnAlreadyInstalled c then onInst (configureInstalledNode (evInst ev (cnInstallModeOnly c)))
            else onInst (doInstall (evInst ev (cnInstallModeOnly c)))"
  obtain q c1 where m: "?m c = (q, c1)" by fastforce
  then have "calm {} c (c1\<lparr>cnTrace := cnTrace c\<rparr>)"
    using calm_onInst [OF facts_doInstall] calm_onInst [OF facts_configure] by (auto split: if_splits)
  then have "I c1" using \<open>I c\<close> calm_I trace_I by blast
  moreover have "(case q of Inl err \<Rightarrow> printToPanel (''Install failed: '' @ errText err) c1 | Inr u \<Rightarrow> retS () c1) = (Inr x, c')"
    using r m by (simp add: runInstallation_def bindS_run tryS_def split: sum.splits)
  ultimately show "I c'"
    using calm_I calmS_run [OF calm_printToPanel] by (auto split: sum.splits)
qed

lemma safe_installTask: "safeS I (installTask ev)"
proof -
  have "safeS I (prepareInstallation ev)"
    unfolding prepareInstallation_def goOn_def
    by (rule safe_steps) (auto intro!: safe_calm calm_intros calm_install_parts calm_prepare_parts calm_findInterfaces)
  then show ?thesis
    unfolding installTask_def by (intro safe_intros safe_runInstallation safe_calm [OF calm_install_parts(7)])
qed

end

end
