(* ===== verification/Wizard_Invariant.thy ===== *)
theory Wizard_Invariant
  imports Wizard_Safety
begin

text \<open>
  The invariant of a run: what the pages passed so far have established. \<open>req\<close> gives for each element
  the facts that hold while it has the focus, \<open>reqT\<close> the facts that hold while a task is pending.
  The invariant and the claim that only an answer on the last page starts an installation are two
  interpretations of \<open>page_invariant\<close>.
\<close>

section \<open>Requirements\<close>

text \<open>\<open>B\<close>: the values that \<^verbatim>\<open>installModeOnly\<close> may have; such an installation has no network pages.\<close>

definition req :: "bool set \<Rightarrow> string \<Rightarrow> fact set" where
  "req B name =
     (if name \<in> {''askVlanID'', ''askBondMode'', ''askNetworkMethod'', ''address'', ''mask'', ''gateway'', ''mtu''} then {FMgmt}
      else if name \<in> {''podCIDRPanel'', ''serviceCIDRPanel'', ''clusterDNSPanel'', ''hostname''} then {FNet}
      else if name \<in> {''dnsServers'', ''askVipMethodPanel'', ''vipHwAddrPanel'', ''vipPanel'', ''serverUrl'', ''token''} then {FHost, FNet}
      else if name \<in> {''ntpServersPanel'', ''proxy'', ''sshKey'', ''cloudInit''} then {FHost, FNet, FToken}
      else if name = ''confirmInstall'' \<and> False \<in> B then {FHost, FNet, FToken}
      else {})"

fun reqT :: "task \<Rightarrow> fact set" where
  "reqT (ApplyNetwork from) = {FMgmt}"
| "reqT (SetupDNS s) = {FHost, FNet}"
| "reqT (RequestVip m hw) = {FHost, FNet}"
| "reqT (CheckServerURL u) = {FHost, FNet}"
| "reqT (CheckNTP s) = {FHost, FNet, FToken}"
| "reqT (FetchSSHKeys u) = {FHost, FNet, FToken}"
| "reqT (FetchConfig u) = {FHost, FNet, FToken}"
| "reqT Installation = {}"
| "reqT Upgrade = {}"

definition goodTask :: "task \<Rightarrow> bool" where
  "goodTask t \<longleftrightarrow> (case t of ApplyNetwork from \<Rightarrow> from \<in> {''mtu'', ''askNetworkMethod''} | _ \<Rightarrow> True)"

definition good :: "bool set \<Rightarrow> fact set \<Rightarrow> con \<Rightarrow> bool" where
  "good B F c \<longleftrightarrow> cnInstallModeOnly c \<in> B \<and> (\<forall>f \<in> F. holds f c) \<and>
     (\<forall>t \<in> set (cnTasks c). goodTask t \<and> (\<forall>f \<in> reqT t. holds f c)) \<and> (\<forall>f \<in> req B (cnFocus c). holds f c)"

definition reachable :: "bool set \<Rightarrow> fact set \<Rightarrow> string list \<Rightarrow> bool" where
  "reachable B F names \<longleftrightarrow> names \<noteq> [] \<and> \<not> starting names \<and> (length names = 1 \<or> takesFocus (last names)) \<and> req B (last names) \<subseteq> F"

definition startable :: "fact set \<Rightarrow> task \<Rightarrow> bool" where
  "startable F t \<longleftrightarrow> goodTask t \<and> reqT t \<subseteq> F"

lemma req_keyless: "keyless name \<Longrightarrow> req B name = {}"
proof -
  have "\<forall>n \<in> set (''networkValidator'' # focusPanels). req B n = {}"
    by (simp add: focusPanels_def req_def)
  then show "keyless name \<Longrightarrow> req B name = {}" unfolding keyless_def by blast
qed

lemma holds_fields [simp]:
  "holds f (c\<lparr>cnTrace := tr\<rparr>) = holds f c" "holds f (c\<lparr>cnTasks := ts\<rparr>) = holds f c"
  "holds f (c\<lparr>cnInstallModeOnly := b\<rparr>) = holds f c"
  by (cases f; simp add: install_def)+

lemma calm_holds: "calm S c c' \<Longrightarrow> holds f c \<Longrightarrow> holds f c'"
  by (simp add: calm_def)

lemma good_calm:
  assumes "good B F c" "calm S c c'" "\<forall>n \<in> S. req B n \<subseteq> F"
  shows "good B F c'"
proof -
  have "req B (cnFocus c') \<subseteq> req B (cnFocus c) \<union> F"
    using assms(2,3) req_keyless by (fastforce simp: calm_def)
  then show ?thesis
    using assms(1,2) by (auto simp: good_def calm_def)
qed

lemma good_weaken: "good B F' c \<Longrightarrow> F \<subseteq> F' \<Longrightarrow> good B F c"
  by (auto simp: good_def)

lemma good_more: "good B F c \<Longrightarrow> \<forall>f \<in> F'. holds f c \<Longrightarrow> good B (F \<union> F') c"
  by (auto simp: good_def)

interpretation gd: untraced_invariant "good B F" "reachable B F" "startable F" for B F
proof (unfold_locales, goal_cases)
  case (1 c c')
  then show ?case by (rule good_calm) simp
next
  case (2 names c ev c')
  then have "calm {last names} c c'"
    by (intro showNext_calm) (auto simp: reachable_def length_Suc_conv)
  with 2 show ?case by (auto simp: reachable_def intro: good_calm)
next
  case (3 t c)
  then show ?case by (auto simp: good_def startable_def)
next
  case (4 c tr)
  show ?case by (simp add: good_def)
qed

section \<open>Pages\<close>

lemmas reach_defs = reachable_def starting_def takesFocus_def kindOf_def inputNames_def dropDownNames_def req_def

lemma reach_lists:
  "\<forall>names \<in> set networkTargets. reachable B F names" "\<forall>names \<in> set passwordTargets. reachable B F names"
  by (simp_all add: networkTargets_def passwordTargets_def reach_defs)

lemma reach_disks: "\<forall>names \<in> set diskTargets. reachable B F names" "\<forall>names \<in> set diskFields. reachable B F names"
  by (simp_all add: diskTargets_def diskFields_def passwordTargets_def reach_defs)

lemma reach_setup: "\<forall>names \<in> set setupTargets. reachable B F names" "\<forall>names \<in> set networkPrevTargets. reachable B F names"
proof -
  have "\<forall>names \<in> set [[''askCreate''], [''askRolePanel''], [''confirmUpgrade''], [''osPasswordConfirm''], [''osPassword'']]. reachable B F names"
    by (simp add: reach_defs)
  then show "\<forall>names \<in> set setupTargets. reachable B F names" "\<forall>names \<in> set networkPrevTargets. reachable B F names"
    using reach_lists reach_disks(1) unfolding setupTargets_def networkPrevTargets_def by auto
qed

lemma reach_network: "FMgmt \<in> F \<Longrightarrow> \<forall>names \<in> set networkFields. reachable B F names"
  by (simp add: networkFields_def reach_defs)

lemma reach_cluster:
  "FNet \<in> F \<Longrightarrow> \<forall>names \<in> set clusterTargets. reachable B F names"
  "FNet \<in> F \<Longrightarrow> \<forall>names \<in> set clusterFields. reachable B F names"
  by (simp_all add: clusterTargets_def clusterFields_def reach_defs)

lemma reach_vip: "FHost \<in> F \<Longrightarrow> FNet \<in> F \<Longrightarrow> \<forall>names \<in> set vipTargets. reachable B F names"
  by (simp add: vipTargets_def reach_defs)

lemma reach_service:
  "FHost \<in> F \<Longrightarrow> FNet \<in> F \<Longrightarrow>
    reachable B F [''dnsServers''] \<and> reachable B F [''serverUrl''] \<and> reachable B F [''token''] \<and> reachable B F [''hostname''] \<and>
    reachable B F [''vipTextPanel'', ''askVipMethodPanel'']"
  by (simp add: reach_defs)

lemma reach_late:
  "{FHost, FNet, FToken} \<subseteq> F \<Longrightarrow>
    reachable B F [''ntpServersPanel''] \<and> reachable B F [''proxy''] \<and> reachable B F [''sshKey''] \<and> reachable B F [''cloudInit''] \<and>
    reachable B F [''confirmInstall''] \<and> reachable B F [''token'']"
  by (simp add: reach_defs)

subsection \<open>Pages that keep what holds\<close>

lemma start_late: "{FHost, FNet, FToken} \<subseteq> F \<Longrightarrow> startable F (CheckNTP s) \<and> startable F (FetchSSHKeys u) \<and> startable F (FetchConfig v)"
  by (simp add: startable_def goodTask_def)

lemma start_service:
  "FHost \<in> F \<Longrightarrow> FNet \<in> F \<Longrightarrow> startable F (SetupDNS s) \<and> startable F (RequestVip m hw) \<and> startable F (CheckServerURL u)"
  by (simp add: startable_def goodTask_def)

lemma setup_good: "safeS (good UNIV F) (setupKeys ev name k)"
  by (rule gd.safe_setup [OF reach_setup(1)]) (auto simp: good_def)

lemma disk_good: "safeS (good {b} F) (diskKeys ev name k)"
  by (rule gd.safe_disk [OF reach_disks(2) _ reach_lists(1)]) (auto simp: good_def reachable_def starting_def req_def)

lemma network_good: "FMgmt \<in> F \<Longrightarrow> safeS (good B F) (networkKeys ev name k)"
  by (rule gd.safe_network [OF reach_setup(2) reach_network]) (auto simp: startable_def goodTask_def)

lemma cluster_good: "FNet \<in> F \<Longrightarrow> safeS (good B F) (clusterKeys ev name k)"
  by (rule gd.safe_cluster [OF reach_lists(1) reach_cluster(2)])

lemma hostname_prev_good: "FNet \<in> F \<Longrightarrow> safeS (good B F) (hostnamePrev ev)"
  by (rule gd.safe_hostnamePrev [OF reach_lists(1) reach_cluster(1)])

lemma enterEsc_safe: "safeS I enter \<Longrightarrow> safeS I esc \<Longrightarrow> safeS I (enterEsc k enter esc)"
  by (cases k) (simp_all add: enterEsc_def safeS_retS)

lemma dns_good:
  assumes "FHost \<in> F" "FNet \<in> F"
  shows "safeS (good B F) (enterEsc k dnsEnter (dnsEsc ev))" "safeS (good B F) (dnsTask ev servers)"
  using gd.safe_dns [of F _ B] reach_service [OF assms] start_service [OF assms] by (auto intro: enterEsc_safe)

lemma vip_good:
  assumes "FHost \<in> F" "FNet \<in> F"
  shows "safeS (good B F) (vipKeys ev name k)" "safeS (good B F) (vipTask ev m hw)"
  using gd.safe_vip [OF reach_vip [OF assms]] start_service [OF assms] by auto

lemma serverURL_good:
  assumes "FHost \<in> F" "FNet \<in> F"
  shows "safeS (good B F) (enterEsc k (serverURLEnter ev) (serverURLEsc ev))" "safeS (good B F) (serverURLTask ev url)"
  using gd.safe_serverURL [of F B] reach_service [OF assms] start_service [OF assms] by (auto intro: enterEsc_safe)

lemma late_good:
  assumes "{FHost, FNet, FToken} \<subseteq> F"
  shows "safeS (good B F) (enterEsc k (ntpEnter ev) (ntpEsc ev))" "safeS (good B F) (ntpTask ev servers)"
    "safeS (good B F) (enterEsc k (proxyEnter ev) (proxyEsc ev))"
    "safeS (good B F) (enterEsc k (sshEnter ev) (sshEsc ev))" "safeS (good B F) (sshTask ev url)"
    "safeS (good B F) (enterEsc k (cloudInitEnter ev) (cloudInitEsc ev))" "safeS (good B F) (cloudInitTask ev url)"
  using gd.safe_ntp [of F B] gd.safe_proxy [of B F] gd.safe_ssh [of F B] gd.safe_cloudInit [of F B] reach_late [OF assms] start_late [OF assms]
  by (auto intro: enterEsc_safe)

subsection \<open>Pages that establish a fact\<close>

text \<open>A program that keeps the invariant, and an answer that comes with new facts.\<close>

lemma good_after:
  assumes "bindS m k c = (Inr u, c')" "good B F c" "safeS (good B F) m"
    "\<And>x c1. m c = (Inr x, c1) \<Longrightarrow> P x \<Longrightarrow> \<forall>f \<in> G. holds f c1"
    "\<And>x. P x \<Longrightarrow> safeS (good B (F \<union> G)) (k x)" "\<And>x. \<not> P x \<Longrightarrow> safeS (good B F) (k x)"
  shows "good B F c'"
proof -
  from assms(1) obtain x c1 where x: "m c = (Inr x, c1)" "k x c1 = (Inr u, c')" by (auto simp: bindS_Inr)
  then have c1: "good B F c1" using assms(2,3) safeS_D by metis
  show ?thesis
  proof (cases "P x")
    case True
    then have "good B (F \<union> G) c1" using c1 assms(4) x(1) good_more by blast
    then have "good B (F \<union> G) c'" using x(2) assms(5) [OF True] safeS_D by metis
    then show ?thesis by (rule good_weaken) simp
  next
    case False
    then show ?thesis using c1 x(2) assms(6) safeS_D by metis
  qed
qed

lemma chosenInterfaces_message: "chosenInterfaces ev ifs \<noteq> Inr (Inl [])"
proof (induction ifs)
  case (Cons a ifs)
  then show ?case
    by (cases "chosenInterfaces ev ifs") (auto simp: bindR_Inr split: NICState.splits sum.splits)
qed simp

lemma validateInterface_establishes: "validateInterface ev c = (Inr [], c') \<Longrightarrow> holds FMgmt c'"
  by (auto simp: chosenInterfaces_message validateInterface_def getMultiData_def modMgmt_def bindS_run dest!: chosenInterfaces_length
      split: sum.splits option.splits if_splits)

lemma interface_good: "safeS (good B F) (networkKeys ev ''askInterface'' k)"
proof -
  have enter: "safeS (good B F) (gotoNextPanel ev [''askVlanID''] (validateInterface ev))"
    unfolding gotoNextPanel_def
  proof (rule safeS_seqS [OF calmS_widgets(4) [THEN gd.safe_calm]], rule safeS_I)
    fix c u c'
    assume "good B F c" and b: "bindS (validateInterface ev) (\<lambda>msg. if msg \<noteq> [] then updateNetworkMessage msg
       else seqS (showBondNote ev) (showNext ev [''askVlanID''])) c = (Inr u, c')"
    have vlan: "safeS (good B (insert FMgmt F)) (showNext ev [''askVlanID''])"
      by (rule gd.safe_show) (simp add: reach_defs)
    show "good B F c'"
    proof (rule good_after [OF b \<open>good B F c\<close>, where P = "\<lambda>msg. msg = []" and G = "{FMgmt}"])
      show "safeS (good B F) (validateInterface ev)" by (rule gd.safe_calm [OF calmS_validateInterface])
    next
      fix msg c1 assume "validateInterface ev c = (Inr msg, c1)" "msg = []"
      then show "\<forall>f \<in> {FMgmt}. holds f c1" using validateInterface_establishes by blast
    qed (auto intro!: safe_intros vlan gd.calm_checks [THEN gd.safe_calm])
  qed
  show ?thesis
    unfolding networkKeys_def network_tables by (simp add: enter gd.safe_networkPrevPage [OF reach_setup(2)])
qed

lemma calm_validateHostname: "calmS {} validateHostname"
  by (auto simp: calmS_def validateHostname_def getData_def modOS_def bindS_run kindOf_def inputNames_def calm_def all_fact install_def)

lemma validateHostname_good: "safeS (good B F) validateHostname"
  by (rule gd.safe_calm [OF calm_validateHostname])

lemma validateHostname_establishes: "validateHostname c = (Inr [], c') \<Longrightarrow> holds FHost c'"
  by (auto simp: validateHostname_def getData_def modOS_def bindS_run kindOf_def inputNames_def split: if_splits)

lemma hostname_good:
  assumes "FNet \<in> F"
  shows "safeS (good B F) (hostnameKeys ev k)"
proof -
  have "safeS (good B F) (hostnameEnter ev)"
    unfolding hostnameEnter_def
  proof (rule safeS_I)
    fix c u c'
    assume "good B F c" and b: "bindS validateHostname (\<lambda>message. if message \<noteq> [] then setContentByName ''hostnameValidator'' message
       else seqS closeHostnamePage (showNext ev [''dnsServers''])) c = (Inr u, c')"
    have dns: "safeS (good B (insert FHost F)) (showNext ev [''dnsServers''])"
      using reach_service [of "insert FHost F" B] assms by (intro gd.safe_show) simp
    show "good B F c'"
    proof (rule good_after [OF b \<open>good B F c\<close> validateHostname_good, where P = "\<lambda>msg. msg = []" and G = "{FHost}"])
      fix msg c1 assume "validateHostname c = (Inr msg, c1)" "msg = []"
      then show "\<forall>f \<in> {FHost}. holds f c1" using validateHostname_establishes by blast
    qed (auto intro!: safe_intros dns calmS_widgets [THEN gd.safe_calm] simp: closeHostnamePage_def)
  qed
  then show ?thesis
    unfolding hostnameKeys_def by (cases k) (auto intro: hostname_prev_good [OF assms] safeS_retS)
qed

lemma token_good:
  assumes "FHost \<in> F" "FNet \<in> F"
  shows "safeS (good B F) (enterEsc k (tokenEnter ev) (tokenEsc ev))"
proof -
  have "safeS (good B F) (tokenEnter ev)"
  proof (rule safeS_I)
    fix c u c' assume g: "good B F c" and t: "tokenEnter ev c = (Inr u, c')"
    obtain tok where d: "getData ''token'' c = (Inr tok, c)"
      using t by (auto simp: tokenEnter_def getData_def bindS_run split: if_splits)
    show "good B F c'"
    proof (cases "tok = [] \<or> checkToken tok \<noteq> Inr ()")
      case True
      have "calm {} c c'"
        using t d True calmS_run [OF calmS_widgets(1)] by (auto simp: tokenEnter_def bindS_run split: sum.splits if_splits)
      then show ?thesis using g good_calm by blast
    next
      case False
      let ?c1 = "c\<lparr>cnConfig := (cnConfig c)\<lparr>hToken := tok\<rparr>\<rparr>"
      have "calm {} c ?c1" using False by (auto simp: calm_def all_fact install_def)
      then have "good B (F \<union> {FToken}) ?c1"
        using g good_calm [of B F c "{}" ?c1] False by (intro good_more) auto
      moreover have "seqS (closeWithNote ''token'') (showNext ev [''ntpServersPanel'']) ?c1 = (Inr u, c')"
        using t d False by (auto simp: tokenEnter_def bindS_run split: sum.splits)
      moreover have "safeS (good B (F \<union> {FToken})) (seqS (closeWithNote ''token'') (showNext ev [''ntpServersPanel'']))"
      proof (rule safeS_seqS)
        show "safeS (good B (F \<union> {FToken})) (closeWithNote ''token'')"
          unfolding closeWithNote_def by (intro safeS_seqS calmS_widgets [THEN gd.safe_calm])
        show "safeS (good B (F \<union> {FToken})) (showNext ev [''ntpServersPanel''])"
          using reach_late [of "F \<union> {FToken}" B] assms by (intro gd.safe_show) auto
      qed
      ultimately have "good B (F \<union> {FToken}) c'" by (rule safeS_D [rotated])
      then show ?thesis by (rule good_weaken) blast
    qed
  qed
  moreover have "safeS (good B F) (tokenEsc ev)"
    by (rule gd.safe_token [OF reach_vip [OF assms]])
  ultimately show ?thesis by (rule enterEsc_safe)
qed

subsection \<open>The confirmation and the network task\<close>

text \<open>Showing the install or the upgrade panel starts its task and is calm otherwise.\<close>

lemma showNext_install:
  assumes "showNext ev [name] c = (Inr (), c')" "(name, t) \<in> {(''install'', Installation), (''upgrade'', Upgrade)}"
  shows "calm {} (c\<lparr>cnTasks := cnTasks c @ [t]\<rparr>) c'"
proof -
  have "preShow ev ''install'' = seqS (startTask Installation) (setContentByName ''footer'' [])"
    "preShow ev ''upgrade'' = seqS (startTask Upgrade) (setContentByName ''footer'' [])"
    "openElement ev ''install'' = showPanel ''install''" "openElement ev ''upgrade'' = showPanel ''upgrade''"
    by (simp_all add: preShow_def hooks openElement_def kindOf_def inputNames_def dropDownNames_def selectNames_def)
  then have pre: "preShow ev name = seqS (startTask t) (setContentByName ''footer'' [])" and op: "openElement ev name = showPanel name"
    using assms(2) by blast+
  have "calmS {} (seqS (setContentByName ''footer'' []) (seqS (showPanel name) (closeEl ''validator'')))"
    by (intro calm_intros)
  moreover have "seqS (setContentByName ''footer'' []) (seqS (showPanel name) (closeEl ''validator'')) (c\<lparr>cnTasks := cnTasks c @ [t]\<rparr>) = (Inr (), c')"
    using assms(1) by (auto simp: showNext_def ShowElement_def pre op startTask_def bindS_run split: prod.splits sum.splits)
  ultimately show ?thesis by (rule calmS_run)
qed

lemma show_task_good:
  "(name, t) \<in> {(''install'', Installation), (''upgrade'', Upgrade)} \<Longrightarrow> safeS (good B F) (showNext ev [name])"
proof (rule safeS_I)
  fix c u c' assume nt: "(name, t) \<in> {(''install'', Installation), (''upgrade'', Upgrade)}"
    and g: "good B F c" and s: "showNext ev [name] c = (Inr u, c')"
  have "good B F (c\<lparr>cnTasks := cnTasks c @ [t]\<rparr>)"
    using g nt by (intro gd.start_I) (auto simp: startable_def goodTask_def)
  then show "good B F c'"
    using showNext_install [OF _ nt] s good_calm by fastforce
qed

lemma confirm_good:
  assumes "name = ''confirmInstall'' \<Longrightarrow> \<not> b \<Longrightarrow> {FHost, FNet, FToken} \<subseteq> F"
  shows "safeS (good {b} F) (confirmKeys ev name k)"
proof -
  have "safeS (good {b} F) (confirmInstallEnter ev)" "safeS (good {b} F) (confirmUpgradeEnter ev)"
    unfolding confirmInstallEnter_def confirmUpgradeEnter_def
    by (intro safe_intros gd.safe_halt show_task_good gd.safe_show calmS_widgets [THEN gd.safe_calm]; simp add: reach_defs)+
  moreover have "safeS (good {b} F) (confirmUpgradeEsc ev)"
    unfolding confirmUpgradeEsc_def by (intro safe_intros gd.safe_show calmS_widgets [THEN gd.safe_calm]; simp add: reach_defs)
  moreover have "safeS (good {b} F) (confirmInstallEsc ev)" if "name = ''confirmInstall''"
    by (rule gd.safe_confirmEsc [OF reach_disks(1)]) (use assms [OF that] in \<open>auto simp: good_def reach_defs\<close>)
  ultimately show ?thesis
    unfolding confirmKeys_def by (intro safe_intros enterEsc_safe)
qed

lemma preGotoNextPage_good:
  assumes "preGotoNextPage ev c = (Inr msg, c')" "good B F c" "holds FMgmt c"
  shows "good B F c' \<and> (msg = [] \<longrightarrow> holds FNet c')"
proof -
  have e: "''Configure network failed: '' @ x \<noteq> []" for x by simp
  let ?set = "modInstall (\<lambda>i. i\<lparr>inManagementInterface := cnMgmt c\<rparr>)"
  let ?rest = "if nwMethod (cnMgmt c) = NetworkMethodDHCP
               then (case evDHCP ev (getManagementInterfaceName (cnMgmt c)) of
                       Inl err \<Rightarrow> retS (''Requesting IP through DHCP failed: '' @ errText err)
                     | Inr addr \<Rightarrow>
                         seqS (modUser (\<lambda>u. u\<lparr>uiAddress := []\<rparr>))
                        (seqS (modMgmt (\<lambda>n. n\<lparr>nwIP := [], nwSubnetMask := [], nwGateway := [], nwMTU := 0\<rparr>))
                              (checkRoute ev)))
               else checkRoute ev"
  obtain r c1 where net: "onNet (applyNetworks (evNM ev) (evHostname ev) (cnMgmt c) (osHostname (hOS (cnConfig c)))) c = (r, c1)"
    by fastforce
  have c1: "calm {} c c1" using calmS_run [OF calmS_parts(1) net] .
  have rest: "calmS {} ?rest"
    unfolding checkRoute_def by (intro calm_intros) simp_all
  show ?thesis
  proof (cases r)
    case (Inl err)
    then have "c' = c1" "msg \<noteq> []"
      using assms(1) net by (auto simp: preGotoNextPage_def bindS_run tryS_def)
    then show ?thesis using c1 assms(2) good_calm by blast
  next
    case (Inr u)
    let ?c2 = "snd (?set c1)"
    have r2: "?rest ?c2 = (Inr msg, c')"
      using assms(1) net Inr by (simp add: preGotoNextPage_def bindS_run tryS_def modInstall_def)
    have net2: "holds FNet ?c2" "calm {} c1 ?c2"
      using assms(3) c1 by (auto simp: modInstall_def calm_def all_fact install_def)
    have c': "calm {} ?c2 c'" using calmS_run [OF rest r2] .
    then have "calm {} c c'" using c1 net2(2) calm_trans by blast
    moreover have "holds FNet c'" using c' net2(1) by (rule calm_holds)
    ultimately show ?thesis using assms(2) good_calm by blast
  qed
qed

lemma applyNetwork_good:
  assumes "FMgmt \<in> F" "from \<in> {''mtu'', ''askNetworkMethod''}"
  shows "safeS (good B F) (applyNetworkTask ev from)"
proof (rule safeS_I)
  fix c u c' assume g: "good B F c" and t: "applyNetworkTask ev from c = (Inr u, c')"
  let ?k = "\<lambda>msg. seqS (spinnerStop ''networkValidator'' msg)
       (if msg \<noteq> [] then showNext ev [from]
        else seqS closeNetworkPage
            (bindS (getS (\<lambda>c. inMode (install c))) (\<lambda>mode.
               if mode = ModeCreate then showClusterNetworkPage ev else showHostnamePage ev)))"
  have mgmt: "holds FMgmt c" using g assms(1) by (auto simp: good_def simp del: holds.simps)
  obtain msg c1 where pre: "preGotoNextPage ev c = (Inr msg, c1)" and k: "?k msg c1 = (Inr u, c')"
    using t by (auto simp: applyNetworkTask_def bindS_Inr)
  have c1: "good B F c1" "msg = [] \<longrightarrow> holds FNet c1"
    using preGotoNextPage_good [OF pre g mgmt] by blast+
  show "good B F c'"
  proof (cases "msg = []")
    case True
    have "safeS (good B (F \<union> {FNet})) (showClusterNetworkPage ev)" "safeS (good B (F \<union> {FNet})) (showHostnamePage ev)"
      unfolding showClusterNetworkPage_def showHostnamePage_def
      by (rule gd.safe_show, simp add: reach_defs)+
    then have "safeS (good B (F \<union> {FNet})) (?k msg)"
      unfolding True using gd.calm_checks(8) [THEN gd.safe_calm] calmS_widgets(9) [THEN gd.safe_calm]
      by (simp add: safeS_seqS safeS_get safeS_if(1))
    moreover have "good B (F \<union> {FNet}) c1" using c1 True good_more by blast
    ultimately have "good B (F \<union> {FNet}) c'" using k by (rule safeS_D)
    then show ?thesis by (rule good_weaken) blast
  next
    case False
    then have "safeS (good B F) (?k msg)"
      using assms by (auto intro!: safe_intros calmS_widgets [THEN gd.safe_calm] gd.safe_show simp: reach_defs)
    then show ?thesis using c1(1) k by (rule safeS_D)
  qed
qed

section \<open>Steps\<close>

lemma task_good:
  assumes "goodTask t" "reqT t \<subseteq> F"
  shows "safeS (good B F) (runTask ev t)"
  using assms
  by (cases t) (auto simp: runTask_def goodTask_def intro: applyNetwork_good dns_good vip_good serverURL_good late_good
      gd.safe_installTask safeS_retS)

abbreviation "consistent c \<equiv> good {cnInstallModeOnly c} {} c"

lemma consistent_of_good: "good B F c \<Longrightarrow> consistent c"
proof -
  assume "good B F c"
  moreover from this have "req {cnInstallModeOnly c} (cnFocus c) \<subseteq> req B (cnFocus c)"
    by (cases "cnInstallModeOnly c") (auto simp: good_def req_def split: if_splits)
  ultimately show ?thesis by (auto simp: good_def)
qed

lemma consistent_focus: "consistent c \<Longrightarrow> good {cnInstallModeOnly c} (req {cnInstallModeOnly c} (cnFocus c)) c"
  by (simp add: good_def)

lemma req_pages:
  "name \<in> set setupPageNames \<Longrightarrow> req B name = {}"
  "name \<in> set networkPageNames \<Longrightarrow> name \<noteq> ''askInterface'' \<Longrightarrow> FMgmt \<in> req B name"
  "name \<in> set clusterPageNames \<Longrightarrow> FNet \<in> req B name"
  "name \<in> set vipPageNames \<Longrightarrow> FHost \<in> req B name \<and> FNet \<in> req B name"
proof -
  have "\<forall>n \<in> set setupPageNames. req B n = {}" "\<forall>n \<in> set networkPageNames. n \<noteq> ''askInterface'' \<longrightarrow> FMgmt \<in> req B n"
    "\<forall>n \<in> set clusterPageNames. FNet \<in> req B n" "\<forall>n \<in> set vipPageNames. FHost \<in> req B n \<and> FNet \<in> req B n"
    by (simp_all add: setupPageNames_def networkPageNames_def clusterPageNames_def vipPageNames_def req_def)
  then show "name \<in> set setupPageNames \<Longrightarrow> req B name = {}"
    "name \<in> set networkPageNames \<Longrightarrow> name \<noteq> ''askInterface'' \<Longrightarrow> FMgmt \<in> req B name"
    "name \<in> set clusterPageNames \<Longrightarrow> FNet \<in> req B name"
    "name \<in> set vipPageNames \<Longrightarrow> FHost \<in> req B name \<and> FNet \<in> req B name"
    by blast+
qed

lemma service_good: "name \<in> set servicePageNames \<Longrightarrow> safeS (good B (req B name)) (serviceKeys ev name k)"
  unfolding serviceKeys_def
proof (intro safeS_if)
  assume "name \<in> set servicePageNames" "name \<noteq> ''dnsServers''" "name \<noteq> ''serverUrl''" "name \<noteq> ''token''"
    "name \<noteq> ''ntpServersPanel''" "name \<noteq> ''proxy''" "name \<noteq> ''sshKey''" "name \<noteq> ''cloudInit''"
  then have "name \<in> set vipPageNames" by (auto simp: servicePageNames_def)
  then show "safeS (good B (req B name)) (vipKeys ev name k)" using req_pages(4) vip_good(1) by blast
qed (rule dns_good serverURL_good token_good late_good; simp add: req_def)+

lemma key_safe:
  assumes "name \<notin> set setupPageNames"
  shows "safeS (good {b} (req {b} name)) (keyHandler ev name k)"
  unfolding keyHandler_def
proof (intro safeS_if)
  assume "name \<in> set networkPageNames"
  then show "safeS (good {b} (req {b} name)) (networkKeys ev name k)"
    using interface_good network_good req_pages(2) by (cases "name = ''askInterface''") simp_all
next
  show "safeS (good {b} (req {b} name)) (confirmKeys ev name k)"
    by (rule confirm_good) (simp add: req_def)
next
  assume "name = ''hostname''"
  then show "safeS (good {b} (req {b} name)) (hostnameKeys ev k)" by (intro hostname_good) (simp add: req_def)
qed (use assms in \<open>auto intro: disk_good cluster_good req_pages service_good\<close>)

lemma key_consistent:
  assumes "consistent c" "cnFocus c = name" "keyHandler ev name k c = (Inr u, c')"
  shows "consistent c'"
proof (cases "name \<in> set setupPageNames")
  case True
  then have "good UNIV {} c" using assms(1,2) by (auto simp: good_def req_pages)
  moreover have "setupKeys ev name k c = (Inr u, c')" using assms(3) True by (simp add: keyHandler_def)
  ultimately have "good UNIV {} c'" by (rule safeS_D [OF setup_good])
  then show ?thesis by (rule consistent_of_good)
next
  case False
  then show ?thesis
    using key_safe [OF False] consistent_focus [OF assms(1)] assms(2,3) safeS_D consistent_of_good by metis
qed

subsection \<open>Events\<close>

lemma onFocus_run: "onFocus f c = (if cnFocus c \<in> set (cnOpen c) then f (cnFocus c) c else (Inr (), c))"
  by (simp add: onFocus_def bindS_run whenS_def)

text \<open>Typing, moving and marking change the data of widgets only.\<close>

definition edits :: "event \<Rightarrow> bool" where
  "edits e \<longleftrightarrow> (case e of Edit txt \<Rightarrow> True | Move n \<Rightarrow> True | Mark marks \<Rightarrow> True | _ \<Rightarrow> False)"

lemma edits_calm: "edits e \<Longrightarrow> calmS {} (handle ev e)"
proof -
  have f: "calmS {} (onFocus f)" if "\<And>name. calmS {} (f name)" for f
    unfolding onFocus_def using that by (intro calm_intros)
  have o: "calmS {} (focusOptions ev name g)" if "\<And>opts. calmS {} (g opts)" for name g
    unfolding focusOptions_def using that by (intro calm_intros)
  have m: "calmS {} (modS (\<lambda>c. c\<lparr>cnMulti := h c\<rparr>))" for h
    by (intro calm_intros calm_update) simp_all
  show "edits e \<Longrightarrow> calmS {} (handle ev e)"
    unfolding edits_def handle_def by (cases e) (auto intro!: f o m calm_intros)
qed

text \<open>The list of a drop-down closes and the element is shown again: it keeps the focus.\<close>

lemma reopen_calm:
  assumes "reopen ev name c = (Inr u, c')" "kindOf name = KDropDown"
  shows "calm {name} c c' \<and> cnFocus c' = name"
proof -
  obtain c1 where c1: "closeEl name c = (Inr (), c1)" "ShowElement ev name c1 = (Inr u, c')"
    using assms(1) by (auto simp: reopen_def seqS_Inr)
  then obtain c2 where "openElement ev name c2 = (Inr u, c')" by (auto simp: ShowElement_def seqS_Inr)
  then have "cnFocus c' = name" using assms(2) openElement_focus [of name] by (auto simp: takesFocus_def)
  moreover have "\<not> starting [name]"
    using assms(2) by (auto simp: starting_def kindOf_def inputNames_def dropDownNames_def selectNames_def split: if_splits)
  then have "calm {name} c1 c'" using calmS_run [OF calmS_ShowElement c1(2)] by blast
  moreover have "calm {name} c c1" using calmS_run [OF calmS_widgets(3) c1(1)] by blast
  ultimately show ?thesis using calm_trans by blast
qed

lemma pick_steps:
  assumes "pick ev n name c = (Inr u, c')"
  shows "c' = c \<or> (\<exists>c1 c2. kindOf name = KDropDown \<and> calm {} c c1 \<and> reopen ev name c1 = (Inr (), c2) \<and> keyHandler ev name KEnter c2 = (Inr u, c'))"
proof (cases "kindOf name = KDropDown")
  case True
  let ?put = "\<lambda>opts :: Option list. if name \<in> set multiNames then bindS (getMultiData name) (\<lambda>vs. putData name (strJoin '','' vs))
                else whenS (n < length opts) (putData name (opValue (opts ! n)))"
  obtain opts c1 c2 where "?put opts c = (Inr (), c1)" and steps: "reopen ev name c1 = (Inr (), c2)" "keyHandler ev name KEnter c2 = (Inr u, c')"
    using assms True by (simp add: pick_def focusOptions_def whenS_def seqS_Inr bindS_Inr) blast
  moreover have "calmS {} (?put opts)" by (intro calm_intros)
  ultimately have "calm {} c c1" by (metis calmS_run)
  with steps True show ?thesis by blast
qed (use assms in \<open>auto simp: pick_def whenS_def\<close>)

lemma consistent_calm: "consistent c \<Longrightarrow> calm S c c' \<Longrightarrow> S \<subseteq> {cnFocus c} \<Longrightarrow> consistent c'"
  by (rule consistent_of_good [OF good_calm [OF consistent_focus]]) auto

lemma drop_consistent:
  "consistent c \<Longrightarrow> reopen ev (cnFocus c) c = (Inr u, c') \<Longrightarrow> kindOf (cnFocus c) = KDropDown \<Longrightarrow> consistent c'"
  by (rule consistent_calm [of c "{cnFocus c}"]) (auto dest: reopen_calm)

lemma event_consistent:
  assumes "consistent c" "handle ev e c = (Inr (), c')"
  shows "consistent c'"
proof (cases "edits e")
  case True
  then show ?thesis using assms calmS_run [OF edits_calm] consistent_calm by blast
next
  case False
  show ?thesis
  proof (cases e)
    case (Press k)
    then show ?thesis using assms key_consistent by (auto simp: handle_def onFocus_run split: if_splits)
  next
    case (Pick n)
    then have "c' = c \<or> pick ev n (cnFocus c) c = (Inr (), c')"
      using assms(2) by (auto simp: handle_def onFocus_run split: if_splits)
    then consider "c' = c" | c1 c2 where "kindOf (cnFocus c) = KDropDown" "calm {} c c1" "reopen ev (cnFocus c) c1 = (Inr (), c2)"
        "keyHandler ev (cnFocus c) KEnter c2 = (Inr (), c')"
      using pick_steps by blast
    then show ?thesis
    proof cases
      case 2
      then have c2: "calm {cnFocus c} c c2" "cnFocus c2 = cnFocus c"
        using reopen_calm calm_trans calm_mono by blast+
      then have "consistent c2" using assms(1) consistent_calm by blast
      then show ?thesis using c2(2) 2(4) key_consistent by metis
    qed (use assms(1) in simp)
  next
    case Drop
    then show ?thesis using assms drop_consistent by (auto simp: handle_def onFocus_run whenS_def split: if_splits)
  next
    case (Finish n)
    let ?c1 = "c\<lparr>cnTasks := take n (cnTasks c) @ drop (Suc n) (cnTasks c)\<rparr>"
    let ?t = "cnTasks c ! n"
    show ?thesis
    proof (cases "n < length (cnTasks c)")
      case True
      then have t: "?t \<in> set (cnTasks c)" by simp
      then have "good {cnInstallModeOnly c} (reqT ?t) ?c1"
        using assms(1) by (auto simp: good_def dest: in_set_takeD in_set_dropD)
      moreover have "runTask ev ?t ?c1 = (Inr (), c')"
        using assms(2) True Finish by (simp add: handle_def bindS_run whenS_def)
      moreover have "goodTask ?t" using t assms(1) by (auto simp: good_def)
      ultimately show ?thesis using task_good safeS_D consistent_of_good by (metis order_refl)
    next
      case False
      then show ?thesis using assms Finish by (simp add: handle_def bindS_run whenS_def)
    qed
  qed (use False in \<open>auto simp: edits_def\<close>)
qed

lemma run_consistent: "run c0 c \<Longrightarrow> consistent c0 \<Longrightarrow> consistent c"
  by (induction rule: run.induct) (auto intro: event_consistent)

section \<open>What starts an installation\<close>

text \<open>\<open>p\<close>: an installation may be pending; \<open>tr\<close>: the effects of installations so far.\<close>

definition quiet :: "bool \<Rightarrow> (effect \<times> bool) list \<Rightarrow> con \<Rightarrow> bool" where
  "quiet p tr c \<longleftrightarrow> (Installation \<in> set (cnTasks c) \<longrightarrow> p) \<and> cnTrace c = tr"

definition quietShown :: "string list \<Rightarrow> bool" where
  "quietShown names \<longleftrightarrow> \<not> starting names \<or> names = [''upgrade'']"

lemma quiet_calm: "quiet p tr c \<Longrightarrow> calm S c c' \<Longrightarrow> quiet p tr c'"
  by (simp add: quiet_def calm_def)

interpretation qt: page_invariant "quiet p tr" quietShown "\<lambda>t. t \<noteq> Installation" for p tr
proof (unfold_locales, goal_cases)
  case (1 c c')
  then show ?case by (rule quiet_calm)
next
  case (2 names c ev c')
  show ?case
  proof (cases "starting names")
    case True
    with 2 have "calm {} (c\<lparr>cnTasks := cnTasks c @ [Upgrade]\<rparr>) c'"
      by (intro showNext_install) (auto simp: quietShown_def)
    with 2(2) show ?thesis by (auto simp: quiet_def calm_def)
  next
    case False
    then have "calmS (set names) (showNext ev names)"
      unfolding showNext_def by (intro calmS_seqS calmS_forS_show calmS_widgets)
    then show ?thesis using 2 calmS_run quiet_calm by blast
  qed
next
  case (3 t c)
  then show ?case by (auto simp: quiet_def)
qed

lemma quiet_targets:
  "\<forall>names \<in> set networkTargets. quietShown names" "\<forall>names \<in> set diskTargets. quietShown names"
  "\<forall>names \<in> set networkFields. quietShown names" "\<forall>names \<in> set clusterTargets. quietShown names"
  "\<forall>names \<in> set clusterFields. quietShown names" "\<forall>names \<in> set vipTargets. quietShown names"
  "\<forall>names \<in> set diskFields. quietShown names"
  by (simp_all add: networkTargets_def diskTargets_def networkFields_def clusterTargets_def clusterFields_def vipTargets_def
      diskFields_def passwordTargets_def quietShown_def starting_def)

lemma quiet_setup: "\<forall>names \<in> set setupTargets. quietShown names" "\<forall>names \<in> set networkPrevTargets. quietShown names"
proof -
  have "\<forall>names \<in> set ([[''askCreate''], [''askRolePanel''], [''confirmUpgrade''], [''osPasswordConfirm''], [''osPassword'']] @ passwordTargets).
      quietShown names"
    by (simp add: quietShown_def starting_def passwordTargets_def)
  then show "\<forall>names \<in> set setupTargets. quietShown names" "\<forall>names \<in> set networkPrevTargets. quietShown names"
    using quiet_targets(1,2) unfolding setupTargets_def networkPrevTargets_def by auto
qed

lemma quiet_single: "name \<noteq> ''install'' \<Longrightarrow> quietShown [name]"
  by (auto simp: quietShown_def starting_def)

lemma quiet_vipShown: "quietShown [''vipTextPanel'', ''askVipMethodPanel'']"
  by (simp add: quietShown_def starting_def)

lemma quiet_services:
  "safeS (quiet p tr) (serviceKeys ev name k)"
proof -
  note one = quiet_single quiet_vipShown
  show ?thesis
    unfolding serviceKeys_def
    by (intro safeS_if enterEsc_safe qt.safe_dns qt.safe_serverURL qt.safe_token qt.safe_ntp qt.safe_proxy qt.safe_ssh
        qt.safe_cloudInit qt.safe_vip quiet_targets one; (intro one)?; simp)
qed

lemma quiet_hostname: "safeS (quiet p tr) (hostnameKeys ev k)"
proof -
  have "safeS (quiet p tr) (hostnameEnter ev)"
    unfolding hostnameEnter_def closeHostnamePage_def
    by (intro safe_intros qt.safe_calm [OF calm_validateHostname] calmS_widgets [THEN qt.safe_calm] qt.safe_show quiet_single) simp
  moreover have "safeS (quiet p tr) (hostnamePrev ev)"
    by (rule qt.safe_hostnamePrev [OF quiet_targets(1,4)])
  ultimately show ?thesis unfolding hostnameKeys_def by (cases k) (auto intro: safeS_retS)
qed

lemma quiet_confirm:
  assumes "\<not> (name = ''confirmInstall'' \<and> k = KEnter)"
  shows "safeS (quiet p tr) (confirmKeys ev name k)"
proof -
  have esc: "safeS (quiet p tr) (confirmInstallEsc ev)"
    by (rule qt.safe_confirmEsc [OF quiet_targets(2)]) (simp add: quiet_single)
  have "safeS (quiet p tr) (confirmUpgradeEnter ev)" "safeS (quiet p tr) (confirmUpgradeEsc ev)"
    by (rule qt.safe_upgrade, simp_all add: quiet_single)+
  then show ?thesis
    using assms esc unfolding confirmKeys_def by (cases k) (auto simp: enterEsc_def safeS_retS)
qed

lemma quiet_keys:
  assumes "\<not> (name = ''confirmInstall'' \<and> k = KEnter)"
  shows "safeS (quiet p tr) (keyHandler ev name k)"
proof -
  have "safeS (quiet p tr) (setupKeys ev name k)"
    by (rule qt.safe_setup [OF quiet_setup(1)]) (simp add: quiet_def)
  moreover have "safeS (quiet p tr) (diskKeys ev name k)"
    by (rule qt.safe_disk [OF quiet_targets(7)]) (simp_all add: quiet_single quiet_targets)
  moreover have "safeS (quiet p tr) (networkKeys ev name k)"
    by (rule qt.safe_network [OF quiet_setup(2) quiet_targets(3)]) simp_all
  moreover have "safeS (quiet p tr) (clusterKeys ev name k)"
    by (rule qt.safe_cluster [OF quiet_targets(1,5)])
  ultimately show ?thesis
    unfolding keyHandler_def by (intro safeS_if quiet_hostname quiet_services quiet_confirm [OF assms])
qed

lemma quiet_applyNetwork: "from \<noteq> ''install'' \<Longrightarrow> safeS (quiet p tr) (applyNetworkTask ev from)"
proof (rule qt.safe_applyNetwork [OF _ _ quiet_targets(4)])
  have "safeS (quiet p tr) (modInstall f)" "safeS (quiet p tr) (modMgmt g)" for f g
    by (auto simp: safeS_def quiet_def modInstall_def modMgmt_def)
  then show "safeS (quiet p tr) (preGotoNextPage ev)"
    unfolding preGotoNextPage_def checkRoute_def
    by (intro safe_intros qt.safe_tryS calm_intros qt.safe_calm [OF calmS_config(1)] qt.safe_calm [OF calmS_basic(4)])
qed (simp_all add: quiet_single)

lemma quiet_task:
  assumes "goodTask t" "t \<noteq> Installation"
  shows "safeS (quiet p tr) (runTask ev t)"
proof (cases t)
  case (ApplyNetwork panel)
  then have "panel \<noteq> ''install''" using assms(1) by (auto simp: goodTask_def)
  with ApplyNetwork show ?thesis using quiet_applyNetwork by (simp add: runTask_def)
next
  case (RequestVip m hw)
  then show ?thesis using qt.safe_vip(2) [OF quiet_targets(6)] by (simp add: runTask_def)
qed (use assms in \<open>auto simp: runTask_def quiet_vipShown intro!: qt.safe_serverURL qt.safe_ssh qt.safe_cloudInit qt.safe_ntp qt.safe_dns
     quiet_single safeS_retS\<close>)

text \<open>An event is an answer on the last page, the end of an installation, or quiet.\<close>

definition answers :: "con \<Rightarrow> event \<Rightarrow> bool" where
  "answers c e \<longleftrightarrow> e = Press KEnter \<and> cnFocus c = ''confirmInstall'' \<and> ''confirmInstall'' \<in> set (cnOpen c)"

definition installs :: "con \<Rightarrow> event \<Rightarrow> bool" where
  "installs c e \<longleftrightarrow> (\<exists>n < length (cnTasks c). e = Finish n \<and> cnTasks c ! n = Installation)"

lemma quiet_event:
  assumes "quiet p tr c" "handle ev e c = (Inr (), c')" "\<forall>t \<in> set (cnTasks c). goodTask t" "\<not> answers c e" "\<not> installs c e"
  shows "quiet p tr c'"
proof (cases "edits e")
  case True
  then show ?thesis using assms calmS_run [OF edits_calm] quiet_calm by blast
next
  case False
  show ?thesis
  proof (cases e)
    case (Press k)
    then have "c' = c \<or> keyHandler ev (cnFocus c) k c = (Inr (), c') \<and> \<not> (cnFocus c = ''confirmInstall'' \<and> k = KEnter)"
      using assms(2,4) by (auto simp: handle_def onFocus_run answers_def split: if_splits)
    then show ?thesis
    proof
      assume h: "keyHandler ev (cnFocus c) k c = (Inr (), c') \<and> \<not> (cnFocus c = ''confirmInstall'' \<and> k = KEnter)"
      then show ?thesis using safeS_D [OF quiet_keys assms(1), of "cnFocus c" k] by blast
    qed (use assms(1) in simp)
  next
    case (Pick n)
    then have "c' = c \<or> pick ev n (cnFocus c) c = (Inr (), c')"
      using assms(2) by (auto simp: handle_def onFocus_run split: if_splits)
    then consider "c' = c" | c1 c2 where "kindOf (cnFocus c) = KDropDown" "calm {} c c1" "reopen ev (cnFocus c) c1 = (Inr (), c2)"
        "keyHandler ev (cnFocus c) KEnter c2 = (Inr (), c')"
      using pick_steps by blast
    then show ?thesis
    proof cases
      case 2
      then have "quiet p tr c2" using assms(1) reopen_calm quiet_calm by blast
      moreover have "cnFocus c \<noteq> ''confirmInstall''"
        using 2(1) by (auto simp: kindOf_def inputNames_def dropDownNames_def selectNames_def)
      ultimately show ?thesis using 2(4) safeS_D [OF quiet_keys, of "cnFocus c" KEnter p tr c2] by blast
    qed (use assms(1) in simp)
  next
    case Drop
    then show ?thesis using assms(1,2) reopen_calm quiet_calm by (fastforce simp: handle_def onFocus_run whenS_def split: if_splits)
  next
    case (Finish n)
    let ?c1 = "c\<lparr>cnTasks := take n (cnTasks c) @ drop (Suc n) (cnTasks c)\<rparr>"
    show ?thesis
    proof (cases "n < length (cnTasks c)")
      case True
      have "quiet p tr ?c1" using assms(1) by (auto simp: quiet_def dest: in_set_takeD in_set_dropD)
      moreover have "runTask ev (cnTasks c ! n) ?c1 = (Inr (), c')"
        using assms(2) True Finish by (simp add: handle_def bindS_run whenS_def)
      moreover have "goodTask (cnTasks c ! n)" "cnTasks c ! n \<noteq> Installation"
        using assms(3,5) True Finish by (auto simp: installs_def)
      ultimately show ?thesis using safeS_D [OF quiet_task] by metis
    next
      case False
      then show ?thesis using assms(1,2) Finish by (simp add: handle_def bindS_run whenS_def)
    qed
  qed (use False in \<open>auto simp: edits_def\<close>)
qed

lemma confirm_handler: "keyHandler ev ''confirmInstall'' KEnter = confirmInstallEnter ev"
  by (simp add: keyHandler_def setupPageNames_def diskPageNames_def networkPageNames_def clusterPageNames_def servicePageNames_def
      vipPageNames_def confirmKeys_def enterEsc_def)

lemma answer_run:
  assumes "answers c e" "handle ev e c = (r, c')" "lookupStr (cnData c) ''confirmInstall'' \<noteq> ''no''"
  shows "r = Inr () \<and> calm {} (c\<lparr>cnTasks := cnTasks c @ [Installation]\<rparr>) c' \<and> ''install'' \<in> set (cnOpen c')"
proof -
  let ?c1 = "c\<lparr>cnOpen := removeAll ''confirmInstall'' (cnOpen c)\<rparr>"
  have k: "kindOf ''confirmInstall'' = KSelect" "kindOf ''install'' = KPanel True" "kindOf ''validator'' = KPanel False"
    by (simp_all add: kindOf_def inputNames_def dropDownNames_def selectNames_def focusPanels_def)
  have enter: "confirmInstallEnter ev c = (r, c')"
    using assms(1,2) by (simp add: handle_def answers_def onFocus_run confirm_handler)
  then have s: "showNext ev [''install''] ?c1 = (r, c')"
    using assms(1,3) by (simp add: confirmInstallEnter_def getData_def closeEl_def closePanel_def postClose_def post_hooks bindS_run k answers_def)
  have "preShow ev ''install'' = seqS (startTask Installation) (setContentByName ''footer'' [])"
    "openElement ev ''install'' = showPanel ''install''"
    by (simp_all add: preShow_def hooks openElement_def k)
  then have "r = Inr () \<and> ''install'' \<in> set (cnOpen c')"
    using s by (auto simp: showNext_def ShowElement_def bindS_run startTask_def setContentByName_def closePanel_def showPanel_def
        closeEl_def postClose_def post_hooks k split: if_splits)
  moreover from this have "calm {} (?c1\<lparr>cnTasks := cnTasks ?c1 @ [Installation]\<rparr>) c'"
    using s by (intro showNext_install [where t = Installation]) auto
  moreover have "calm {} (c\<lparr>cnTasks := cnTasks c @ [Installation]\<rparr>) (?c1\<lparr>cnTasks := cnTasks ?c1 @ [Installation]\<rparr>)"
    by (rule calm_update) simp_all
  ultimately show ?thesis using calm_trans by blast
qed

lemma answer_no:
  assumes "answers c e" "handle ev e c = (Inr (), c')" "lookupStr (cnData c) ''confirmInstall'' = ''no''" "quiet p tr c"
  shows "quiet p tr c'"
proof -
  have "haltInstallation ''confirmInstall'' c = (Inr (), c')"
    using assms(1,2,3) by (simp add: handle_def answers_def onFocus_run confirm_handler confirmInstallEnter_def getData_def bindS_run)
  then show ?thesis by (rule safeS_D [OF qt.safe_halt assms(4)])
qed

section \<open>Start\<close>

text \<open>No page is open before the start; whatever the configuration, the first page requires nothing.\<close>

definition atStart :: "con \<Rightarrow> bool" where
  "atStart c \<longleftrightarrow> set (cnTasks c) \<subseteq> {Installation} \<and> req UNIV (cnFocus c) = {}"

lemma atStart_calm: "atStart c \<Longrightarrow> calm S c c' \<Longrightarrow> \<forall>n \<in> S. req UNIV n = {} \<Longrightarrow> atStart c'"
  using req_keyless by (auto simp: atStart_def calm_def)

lemma keeps_start:
  "calmS S m \<Longrightarrow> \<forall>n \<in> S. req UNIV n = {} \<Longrightarrow> keeps atStart m"
  "(\<And>c. cnTasks (f c) = cnTasks c \<and> cnFocus (f c) = cnFocus c) \<Longrightarrow> keeps atStart (modS f)"
  "keeps atStart (startTask Installation)"
proof -
  show "calmS S m \<Longrightarrow> \<forall>n \<in> S. req UNIV n = {} \<Longrightarrow> keeps atStart m"
    unfolding keeps_def calmS_def using atStart_calm by blast
qed (simp_all add: keeps_def atStart_def startTask_def)

lemma keeps_logged: "keeps I m \<Longrightarrow> keeps I (logged m x)"
  by (auto simp: keeps_def logged_def split: prod.splits sum.splits)

lemma keeps_ShowElement:
  assumes "name \<in> {''title'', ''validator'', ''note'', ''footer'', ''preflightCheck'', ''askCreate'', ''install''}"
  shows "keeps atStart (ShowElement ev name)"
proof (cases "name = ''install''")
  case True
  have "ShowElement ev ''install'' = seqS (seqS (startTask Installation) (setContentByName ''footer'' [])) (showPanel ''install'')"
    by (simp add: ShowElement_def preShow_def hooks openElement_def kindOf_def inputNames_def dropDownNames_def selectNames_def)
  then show ?thesis
    unfolding True using keeps_start(1) [OF calmS_widgets(1), of "{}"] keeps_start(1) [OF calmS_showPanel, of "{}"]
    by (simp add: keeps_seqS keeps_start(3))
next
  case False
  have "\<forall>n \<in> {''title'', ''validator'', ''note'', ''footer'', ''preflightCheck'', ''askCreate''}. \<not> starting [n] \<and> req UNIV n = {}"
    by (simp add: starting_def req_def)
  moreover have "name \<in> {''title'', ''validator'', ''note'', ''footer'', ''preflightCheck'', ''askCreate''}"
    using assms False by simp
  ultimately have "\<not> starting [name]" "req UNIV name = {}" by (metis (no_types, lifting))+
  then show ?thesis using keeps_start(1) [OF calmS_ShowElement] by simp
qed

lemma bind_assoc: "bindS (seqS m n) k = seqS m (bindS n k)" "bindS (retS x) k = k x"
  "bindS (if b then m' else n') k' = (if b then bindS m' k' else bindS n' k')"
  by (auto simp: fun_eq_iff bindS_run split: prod.splits sum.splits)

lemma layout_start:
  assumes "layoutInstall ev c = (r, c0)" "cnTasks c = []" "cnFocus c = []"
  shows "consistent c0"
proof -
  let ?P = "{''preflightCheck'', ''askCreate'', ''install''}"
  have merge: "keeps atStart (logged (mergeCloudInit ev) ())"
    unfolding mergeCloudInit_def seqs_simps whenS_def modOS_def
    by (intro keeps_logged keeps_intros keeps_start(2); simp)
  have show': "keeps atStart (forS (ShowElement ev) [''title'', ''validator'', ''note'', ''footer'', p])" if "p \<in> ?P" for p
  proof (intro keeps_forS keeps_ShowElement)
    fix x assume "x \<in> set [''title'', ''validator'', ''note'', ''footer'', p]"
    then show "x \<in> {''title'', ''validator'', ''note'', ''footer'', ''preflightCheck'', ''askCreate'', ''install''}"
      using that by (simp; elim disjE; simp)
  qed
  have conf: "keeps atStart (modOS f)" for f unfolding modOS_def by (intro keeps_start(2)) simp
  have mods: "keeps atStart (modS (\<lambda>c. c\<lparr>cnConfig := Merge (cnConfig c) cfg\<rparr>))"
    "keeps atStart (modS (\<lambda>c. if x c then c\<lparr>cnInstallModeOnly := True\<rparr> else c))"
    "keeps atStart (modS (\<lambda>c. if y c then c\<lparr>cnConfig := (cnConfig c)\<lparr>hSchemeVersion := v\<rparr>\<rparr> else c))" for cfg x y v
    by (intro keeps_start(2); simp)+
  have "keeps atStart (layoutInstall ev)"
    unfolding layoutInstall_def whenS_def
    by (cases "evReadConfig ev")
      (simp_all only: sum.case bind_assoc, intro keeps_get keeps_intros conf merge mods show'; simp)+
  moreover have "atStart c" using assms(2,3) by (simp add: atStart_def req_def)
  ultimately have "atStart c0" using assms(1) keepsD by metis
  moreover from this have "req {cnInstallModeOnly c0} (cnFocus c0) = {}"
    unfolding atStart_def req_def by (auto split: if_splits)
  ultimately show ?thesis by (auto simp: good_def atStart_def goodTask_def)
qed

section \<open>Properties\<close>

lemma consistent_confirm:
  assumes "consistent c" "cnFocus c = ''confirmInstall''" "\<not> cnInstallModeOnly c"
  shows "checkToken (hToken (cnConfig c)) = Inr () \<and> IsDNS1123Subdomain (osHostname (hOS (cnConfig c))) = [] \<and>
    (cnAlreadyInstalled c \<or> nwInterfaces (inManagementInterface (install c)) \<noteq> [])"
  using consistent_focus [OF assms(1)] assms(2,3) by (simp add: good_def req_def)

text \<open>C1: The invariant of the wizard. Every start of the installer is consistent, and every run from a consistent state stays
  consistent: while an element has the focus or a check is pending, the facts that the pages before it establish hold. So on the
  confirmation page, unless only the binaries are installed, the token is valid, the host name is a valid
  name and a management interface is chosen (or comes from the installed system), whatever keys were pressed,
  whatever text was typed, in whatever order the checks ended and however the outside answered.\<close>

theorem wizard_invariant:
  "(cnTasks c = [] \<and> cnFocus c = [] \<and> layoutInstall ev c = (r, c0) \<longrightarrow> consistent c0) \<and>
   (consistent c1 \<and> run c1 c2 \<longrightarrow> consistent c2 \<and>
     (cnFocus c2 = ''confirmInstall'' \<and> \<not> cnInstallModeOnly c2 \<longrightarrow>
        checkToken (hToken (cnConfig c2)) = Inr () \<and> IsDNS1123Subdomain (osHostname (hOS (cnConfig c2))) = [] \<and>
        (cnAlreadyInstalled c2 \<or> nwInterfaces (inManagementInterface (install c2)) \<noteq> [])))"
  using layout_start [of ev c r c0] run_consistent [of c1 c2] consistent_confirm [of c2] by blast

text \<open>C2: Nothing installs without an answer on the confirmation page. One event adds an installation to the pending tasks
  only if it is the enter key on that page with an answer other than no, and the recorded effects of
  installations change only when a pending installation runs.\<close>

theorem installation_needs_confirmation:
  assumes "consistent c" "handle ev e c = (Inr (), c')"
  shows "(Installation \<in> set (cnTasks c') \<longrightarrow> Installation \<in> set (cnTasks c) \<or>
      (e = Press KEnter \<and> cnFocus c = ''confirmInstall'' \<and> lookupStr (cnData c) ''confirmInstall'' \<noteq> ''no'')) \<and>
    (cnTrace c' = cnTrace c \<or> (\<exists>n < length (cnTasks c). e = Finish n \<and> cnTasks c ! n = Installation))"
proof -
  let ?no = "lookupStr (cnData c) ''confirmInstall'' = ''no''"
  have tasks: "\<forall>t \<in> set (cnTasks c). goodTask t" using assms(1) by (simp add: good_def)
  have q: "quiet (Installation \<in> set (cnTasks c)) (cnTrace c) c" by (simp add: quiet_def)
  consider "answers c e" "\<not> ?no" | "answers c e" ?no | "installs c e" "\<not> answers c e" | "\<not> answers c e" "\<not> installs c e" by blast
  then show ?thesis
  proof cases
    case 1
    then show ?thesis using answer_run [OF 1(1) assms(2)] by (auto simp: answers_def calm_def)
  next
    case 2
    then show ?thesis using answer_no [OF 2(1) assms(2) 2(2) q] by (auto simp: quiet_def)
  next
    case 3
    then show ?thesis by (metis installs_def nth_mem)
  next
    case 4
    then show ?thesis using quiet_event [OF q assms(2) tasks 4] by (auto simp: quiet_def)
  qed
qed

text \<open>C13: The confirmation page is not stuck: the enter key on any answer other than no succeeds, opens the install panel and
  leaves the installation as the last pending task, with the trace, the mode and the established facts as they were.\<close>

theorem confirmation_starts_installation:
  assumes "cnFocus c = ''confirmInstall''" "''confirmInstall'' \<in> set (cnOpen c)"
    "lookupStr (cnData c) ''confirmInstall'' \<noteq> ''no''"
  shows "\<exists>c'. handle ev (Press KEnter) c = (Inr (), c') \<and> cnTasks c' = cnTasks c @ [Installation] \<and>
    ''install'' \<in> set (cnOpen c') \<and> cnTrace c' = cnTrace c \<and> cnInstallModeOnly c' = cnInstallModeOnly c"
proof -
  obtain r c' where h: "handle ev (Press KEnter) c = (r, c')" by fastforce
  then show ?thesis
    using answer_run [OF _ h assms(3)] assms(1,2) by (auto simp: answers_def calm_def)
qed

end
