(* ===== verification/Wizard_Props.thy ===== *)
theory Wizard_Props
  imports Wizard_Invariant
begin

text \<open>
  Properties of single pages and of the installation task, and concrete states of the wizard at
  which the properties of runs apply.
\<close>

section \<open>Disk page\<close>

lemma showDiskError_run:
  "fst (showDiskError r next' c) = (case r of Inl err \<Rightarrow> Inr False | Inr u \<Rightarrow> fst (next' c))"
  by (auto simp: showDiskError_def updateDiskMessage_def setContentByName_def showPanel_def setContent_def closePanel_def bindS_run
      split: sum.splits)

lemma page_disk_sizes: "fst (validateAllDiskSizes ev c) = Inr (isOk (checkDeviceSizes (evHost ev) (cnConfig c)))"
  by (auto simp: validateAllDiskSizes_def checkDeviceSizes_def bindS_run showDiskError_run Let_def install_def isOk_def thenR_def
      split: sum.splits)

text \<open>What stays when only the message of the page changes.\<close>

definition onDiskPage :: "con \<Rightarrow> con \<Rightarrow> bool" where
  "onDiskPage c c' \<longleftrightarrow> cnConfig c' = cnConfig c \<and> cnDiskConfirmed c' = cnDiskConfirmed c \<and> cnFocus c' = cnFocus c \<and>
     (\<forall>name. name \<noteq> ''diskValidator'' \<longrightarrow> (name \<in> set (cnOpen c') \<longleftrightarrow> name \<in> set (cnOpen c)))"

lemma disk_message_stays: "onDiskPage c (snd (updateDiskMessage msg c))"
  by (auto simp: onDiskPage_def updateDiskMessage_def setContentByName_def showPanel_def setContent_def closePanel_def bindS_run
      kindOf_def inputNames_def dropDownNames_def selectNames_def focusPanels_def)

lemma disk_sizes_stay: "onDiskPage c (snd (validateAllDiskSizes ev c))"
proof -
  have s: "snd (seqS m (retS x) c) = snd (m c)" for m :: "unit ui" and x :: bool
    by (simp add: bindS_run split: prod.splits sum.splits)
  have "onDiskPage c c" by (simp add: onDiskPage_def)
  then have "onDiskPage c (snd (showDiskError r (retS True) c))" "onDiskPage c (snd (showDiskError r (showDiskError r' (retS True)) c))" for r r'
    by (cases r; cases r'; simp add: showDiskError_def s disk_message_stays)+
  then show ?thesis
    by (simp add: validateAllDiskSizes_def bindS_run Let_def onDiskPage_def)
qed

text \<open>C12: The disk page and the validation of the final configuration agree on the sizes of the disks: the page accepts them
  exactly when \<open>checkDeviceSizes\<close> of \<^verbatim>\<open>validator.go\<close> does, although the two are separate code. When they are refused the
  key that leaves the page changes nothing but the message: configuration, focus and open elements stay.\<close>

theorem disk_page_agrees_with_validator:
  "fst (validateAllDiskSizes ev c) = Inr (isOk (checkDeviceSizes (evHost ev) (cnConfig c))) \<and>
   (isOk (checkDeviceSizes (evHost ev) (cnConfig c)) \<or> (\<exists>c'. diskNextPage ev c = (Inr (), c') \<and> onDiskPage c c'))"
proof -
  obtain r c1 where v: "validateAllDiskSizes ev c = (r, c1)" by fastforce
  have "r = Inr (isOk (checkDeviceSizes (evHost ev) (cnConfig c)))" "onDiskPage c c1"
    using page_disk_sizes [of ev c] disk_sizes_stay [of c ev] v by simp_all
  then show ?thesis using v by (auto simp: diskNextPage_def bindS_run)
qed

section \<open>The installation task\<close>

lemma steps_run:
  "steps ms c = (Inr True, c') \<Longrightarrow> ms \<noteq> [] \<Longrightarrow> \<exists>c1. steps (butlast ms) c = (Inr True, c1) \<and> last ms c1 = (Inr True, c')"
proof (induction ms arbitrary: c)
  case (Cons m ms)
  then obtain c1 where m: "m c = (Inr True, c1)" "steps ms c1 = (Inr True, c')"
    by (auto simp: bindS_Inr split: if_splits)
  show ?case
  proof (cases "ms = []")
    case True
    with m show ?thesis by auto
  next
    case False
    then show ?thesis using Cons.IH [OF m(2)] m(1) by (auto simp: bindS_run)
  qed
qed simp

lemma calm_keeps_trace: "calmS S m \<Longrightarrow> keeps (\<lambda>c. cnTrace c = tr) m"
  by (auto simp: keeps_def calmS_def calm_def)

lemma keeps_trace_steps: "\<forall>m \<in> set ms. keeps (\<lambda>c. cnTrace c = tr) m \<Longrightarrow> keeps (\<lambda>c. cnTrace c = tr) (steps ms)"
  by (induction ms) (auto intro: keeps_intros)

lemma prepare_keeps_trace: "keeps (\<lambda>c. cnTrace c = tr) (prepareInstallation ev)"
  unfolding prepareInstallation_def goOn_def
  by (rule keeps_trace_steps)
    (auto intro!: calm_keeps_trace [where S = "{}"] calm_intros gd.calm_install_parts gd.calm_prepare_parts gd.calm_findInterfaces)

lemma validateStep_accepts:
  "validateStep ev c = (Inr True, c') \<Longrightarrow>
    validateConfig Validate ((evHost ev)\<lparr>hoAlreadyInstalled := cnAlreadyInstalled c\<rparr>) (cnCache c) (cnConfig c) = (Inr (), cnCache c') \<and>
    c' = c\<lparr>cnCache := cnCache c'\<rparr>"
  by (auto simp: validateStep_def stopWith_def bindS_Inr seqS_Inr split: prod.splits sum.splits if_splits)


section \<open>A request for the virtual address\<close>


section \<open>Concrete states\<close>

definition sampleRemote :: remote where
  "sampleRemote = \<lparr>reGet = (\<lambda>_ _. Inr (200, Inr ''pong'')), reLookupIP = (\<lambda>_. Inr [[1, 2, 3, 4]]), reNTP = (\<lambda>_. None),
     reLoadIni = None, reSaveIni = (\<lambda>_. None), reCommand = (\<lambda>_ _. None), reParseKey = (\<lambda>_. True),
     reLoadConfig = (\<lambda>_. Inr NewHarvesterConfig)\<rparr>"

definition sampleEnv :: env where
  "sampleEnv = \<lparr>evHost = sampleHost, evNet = sampleNetHost, evNM = reliableIO,
     evHostname = \<lparr>hiGetBefore = None, hiGetAfter = None, hiSet = (\<lambda>_. None), hiDHCP = None\<rparr>,
     evVip = sampleVipIO\<lparr>viDHCP := (\<lambda>n. Inr [10, 0, 0, 8])\<rparr>, evOSHostname = Inr ''rancher'', evRandomName = ''abcde'',
     evDHCP = (\<lambda>_. Inr [10, 0, 0, 9]), evRemote = sampleRemote, evEncrypt = Inr, evUserExists = True, evPasswordFile = None,
     evYip = ([], None), evPrintInstall = (\<lambda>_. Inr []), evSpeed = (\<lambda>_. Inr ''10000''), evConsoles = Inr ''tty1'', evArm64 = False,
     evMyTTY = ''/dev/tty1'', evVersion = ''v1'', evRender = (\<lambda>t c. Inr t), evMgmtIface = None,
     evInst = (\<lambda>b. sampleInstEnv (\<lambda>_. None)), evReadConfig = Inl (Ext ''none''), evUserData = Inl (Ext ''none'')\<rparr>"

text \<open>A console with one open page, which has the focus.\<close>

definition sampleCon :: "string \<Rightarrow> con" where
  "sampleCon name = \<lparr>cnConfig = sampleConfig, cnUser = \<lparr>uiServerURL = [], uiSSHKeyURL = [], uiPassword = [], uiPasswordConfirm = [],
       uiAddress = [], uiAddrMask = [], uiDNSServers = [], uiNTPServers = [], uiHasCheckedNTPServers = False\<rparr>,
     cnMgmt = inManagementInterface (hInstall sampleConfig), cnAlreadyInstalled = False, cnInstallModeOnly = False,
     cnDiskConfirmed = False, cnPreflightWarnings = [], cnPreflightAck = False, cnCache = sampleCache,
     cnNet = \<lparr>anProfiles = sampleProfiles, anHostname = ''rancher''\<rparr>, cnLinks = [''eth1''],
     cnRemote = \<lparr>rsRequests = [], rsCommands = [], rsNTP = None, rsPrinted = []\<rparr>, cnEnviron = [],
     cnOpen = (if name = [] then [] else [name]), cnFocus = name, cnContent = [], cnData = [], cnValue = [], cnMulti = [],
     cnTasks = [], cnRebooting = False, cnTrace = []\<rparr>"

lemma sample_fields [simp]:
  "cnConfig (sampleCon n) = sampleConfig" "cnTasks (sampleCon n) = []" "cnTrace (sampleCon n) = []" "cnFocus (sampleCon n) = n"
  "cnInstallModeOnly (sampleCon n) = False" "cnAlreadyInstalled (sampleCon n) = False" "cnData (sampleCon n) = []"
  "cnMulti (sampleCon n) = []" "cnValue (sampleCon n) = []" "cnPreflightWarnings (sampleCon n) = []"
  "cnOpen (sampleCon n) = (if n = [] then [] else [n])" "cnLinks (sampleCon n) = [''eth1'']"
  by (simp_all add: sampleCon_def)

lemma sample_env_fields [simp]:
  "evHost sampleEnv = sampleHost" "evPrintInstall sampleEnv i = Inr []" "evVip sampleEnv = sampleVipIO\<lparr>viDHCP := (\<lambda>n. Inr [10, 0, 0, 8])\<rparr>"
  "evReadConfig sampleEnv = Inl (Ext ''none'')"
  by (simp_all add: sampleEnv_def)

lemma sample_facts: "consistent (sampleCon n)"
proof -
  have "holds f (sampleCon n)" if "f \<noteq> FMgmt" for f
    using that sample_values(1) sample_hostname by (cases f) (simp_all add: install_def sampleConfig_def emptyOS_def emptyNetwork_def emptyInstall_def)
  moreover have "holds FMgmt (sampleCon n)"
    by (simp add: sampleCon_def sampleConfig_def emptyInstall_def emptyNetwork_def)
  ultimately have "holds f (sampleCon n)" for f by (cases "f = FMgmt") blast+
  then show ?thesis by (simp add: good_def)
qed

text \<open>Evaluation of a program on a state: the rest of a sequence is only looked at when its turn comes.\<close>

lemma run_weak:
  "m = m' \<Longrightarrow> bindS m k = bindS m' k" "m = m' \<Longrightarrow> tryS m h k = tryS m' h k" "u = u' \<Longrightarrow> seqS u n = seqS u' n"
  "b = b' \<Longrightarrow> whenS b w = whenS b' w"
  by simp_all

lemma whenS_run: "whenS b m c = (if b then m c else (Inr (), c))"
  by (simp add: whenS_def)

lemma sample_kinds: "kindOf ''cloudInit'' = KInput" "kindOf ''confirmInstall'' = KSelect" "kindOf ''validator'' = KPanel False"
  "kindOf ''askCreate'' = KSelect" "kindOf ''title'' = KPanel False" "kindOf ''note'' = KPanel False" "kindOf ''footer'' = KPanel False"
  by (simp_all add: kindOf_def inputNames_def dropDownNames_def selectNames_def focusPanels_def)

lemma sample_cloudInit_handler: "keyHandler ev ''cloudInit'' KEnter = cloudInitEnter ev"
  by (simp add: keyHandler_def setupPageNames_def diskPageNames_def networkPageNames_def clusterPageNames_def servicePageNames_def
      serviceKeys_def enterEsc_def)

lemma sample_preShow: "preShow ev ''confirmInstall'' = preShowConfirmInstall ev" "preShow ev ''title'' = retS ()"
  "preShow ev ''validator'' = retS ()" "preShow ev ''note'' = retS ()" "preShow ev ''footer'' = retS ()" "preShow ev ''askCreate'' = preShowAskCreate"
  by (simp_all add: preShow_def)

lemmas sample_run = bindS_run whenS_run sample_kinds sample_preShow cloudInitEnter_def getData_def lookupStr_def cloudInitNextPage_def
  closeEl_def closePanel_def postClose_def post_hooks modInstall_def install_def showNext_def ShowElement_def preShowConfirmInstall_def setContent_def
  setTitle_def setContentByName_def showPanel_def openElement_def openNew_def putData_def mapGet_def optionsOf_def

lemma sample_reaches_confirm:
  "\<exists>c. handle sampleEnv (Press KEnter) (sampleCon ''cloudInit'') = (Inr (), c) \<and> cnFocus c = ''confirmInstall'' \<and> \<not> cnInstallModeOnly c"
  by (simp add: handle_def onFocus_run sample_cloudInit_handler sample_run cong: run_weak)

theorem wizard_invariant_witness:
  "consistent (snd (layoutInstall sampleEnv (sampleCon []))) \<and>
   (\<exists>c2. run (sampleCon ''cloudInit'') c2 \<and> cnFocus c2 = ''confirmInstall'' \<and> consistent c2 \<and>
      checkToken (hToken (cnConfig c2)) = Inr () \<and> IsDNS1123Subdomain (osHostname (hOS (cnConfig c2))) = [] \<and>
      (cnAlreadyInstalled c2 \<or> nwInterfaces (inManagementInterface (install c2)) \<noteq> []))"
proof -
  obtain r c0 where l: "layoutInstall sampleEnv (sampleCon []) = (r, c0)" by fastforce
  obtain c2 where c2: "handle sampleEnv (Press KEnter) (sampleCon ''cloudInit'') = (Inr (), c2)" "cnFocus c2 = ''confirmInstall''"
    "\<not> cnInstallModeOnly c2"
    using sample_reaches_confirm by blast
  have "run (sampleCon ''cloudInit'') c2" using c2(1) by (meson run.intros)
  then show ?thesis
    using wizard_invariant [of "sampleCon []" sampleEnv r c0 "sampleCon ''cloudInit''" c2] l c2 sample_facts [of "''cloudInit''"] by auto
qed

theorem installation_needs_confirmation_witness:
  "\<exists>c'. handle sampleEnv (Press KEnter) (sampleCon ''confirmInstall'') = (Inr (), c') \<and> Installation \<in> set (cnTasks c') \<and>
     cnTrace c' = [] \<and> lookupStr (cnData (sampleCon ''confirmInstall'')) ''confirmInstall'' \<noteq> ''no''"
proof -
  obtain r c' where h: "handle sampleEnv (Press KEnter) (sampleCon ''confirmInstall'') = (r, c')" by fastforce
  have "answers (sampleCon ''confirmInstall'') (Press KEnter)" by (simp add: answers_def)
  moreover have "lookupStr (cnData (sampleCon ''confirmInstall'')) ''confirmInstall'' \<noteq> ''no''" by (simp add: lookupStr_def mapGet_def)
  ultimately have "r = Inr ()" "Installation \<in> set (cnTasks c')" using answer_run [OF _ h] by (auto simp: calm_def)
  then show ?thesis
    using installation_needs_confirmation [OF sample_facts, of sampleEnv "Press KEnter" "''confirmInstall''" c'] h by simp
qed

theorem confirmation_starts_installation_witness:
  "\<exists>c'. handle sampleEnv (Press KEnter) (sampleCon ''confirmInstall'') = (Inr (), c') \<and> cnTasks c' = [Installation] \<and>
     ''install'' \<in> set (cnOpen c') \<and> cnTrace c' = [] \<and> \<not> cnInstallModeOnly c'"
  using confirmation_starts_installation [of "sampleCon ''confirmInstall''" sampleEnv] by (simp add: lookupStr_def mapGet_def)


end
