(* ===== verification/Cmdline.thy ===== *)
theory Cmdline
  imports Go_Net
begin

text \<open>
  Kernel parameters, \<^verbatim>\<open>pkg/util/cmdline.go\<close>, with the nested maps of
  \<^verbatim>\<open>vendor/github.com/rancher/mapper/values\<close>, and the password comparison of
  \<^verbatim>\<open>pkg/util/crypt.go\<close>. The regular expression of \<^verbatim>\<open>ParseCmdLine\<close> is a scanner that makes the
  choices of Go's leftmost-first matching: the alternatives in order, a greedy repetition the
  longest way first.
\<close>

section \<open>Nested maps\<close>

text \<open>What an \<^verbatim>\<open>interface{}\<close> of the parsed parameters can hold.\<close>

datatype cval =
    CStr string
  | CStrs "string list"
  | CIfs "string gomap list"
  | CUint nat
  | CMap "(string \<times> cval) list"

fun GetValue :: "cval gomap \<Rightarrow> string list \<Rightarrow> cval option" where
  "GetValue data [] = None"
| "GetValue data [key] = mapGet data key"
| "GetValue data (key # k # ks) = GetValue (case mapGet data key of Some (CMap m) \<Rightarrow> m | _ \<Rightarrow> []) (k # ks)"

fun PutValue :: "cval gomap \<Rightarrow> cval \<Rightarrow> string list \<Rightarrow> cval gomap" where
  "PutValue data val [] = data"
| "PutValue data val [key] = mapPut key val data"
| "PutValue data val (key # k # ks) =
     (case mapGet data key of
        None \<Rightarrow> mapPut key (CMap (PutValue [] val (k # ks))) data
      | Some (CMap newMap) \<Rightarrow> mapPut key (CMap (PutValue newMap val (k # ks))) data
      | Some v \<Rightarrow> data)"

section \<open>The scanner\<close>

text \<open>The class \<^verbatim>\<open>\s\<close>, and the lengths of what \<^verbatim>\<open>"[^"]+"\<close> and \<^verbatim>\<open>[^\s]+="[^"]+"\<close> match at the start.\<close>

definition isReSpace :: "char \<Rightarrow> bool" where
  "isReSpace c = (c \<in> {CHR '' '', CHR 0x09, CHR 0x0A, CHR 0x0C, CHR 0x0D})"

definition quotedLen :: "string \<Rightarrow> nat option" where
  "quotedLen s =
     (case s of
        [] \<Rightarrow> None
      | c # cs \<Rightarrow>
          (let n = length (takeWhile (\<lambda>x. x \<noteq> CHR 0x22) cs) in
           if c = CHR 0x22 \<and> 0 < n \<and> n < length cs then Some (n + 2) else None))"

text \<open>The longest proper prefix below \<open>n\<close> bytes that an equals sign and a quoted text follow.\<close>

fun keyQuotedLen :: "string \<Rightarrow> nat \<Rightarrow> nat option" where
  "keyQuotedLen s 0 = None"
| "keyQuotedLen s (Suc p) =
     (case (if 0 < p \<and> s ! p = CHR ''='' then quotedLen (drop (Suc p) s) else None) of
        Some n \<Rightarrow> Some (Suc p + n)
      | None \<Rightarrow> keyQuotedLen s p)"

definition matchLen :: "string \<Rightarrow> nat" where
  "matchLen s =
     (let n = length (takeWhile (\<lambda>c. \<not> isReSpace c) s) in
      case quotedLen s of
        Some q \<Rightarrow> q
      | None \<Rightarrow> (case keyQuotedLen s n of Some k \<Rightarrow> k | None \<Rightarrow> n))"

lemma keyQuotedLen_pos: "keyQuotedLen s n = Some k \<Longrightarrow> 0 < k"
  by (induction n) (auto split: option.splits if_splits)

lemma quotedLen_pos: "quotedLen s = Some k \<Longrightarrow> 0 < k"
  by (auto simp: quotedLen_def Let_def split: list.splits if_splits)

lemma matchLen_pos: "\<not> isReSpace c \<Longrightarrow> 0 < matchLen (c # cs)"
  by (auto simp: matchLen_def Let_def keyQuotedLen_pos quotedLen_pos split: option.splits)

function findItems :: "string \<Rightarrow> string list" where
  "findItems [] = []"
| "findItems (c # cs) =
     (if isReSpace c then findItems cs
      else take (matchLen (c # cs)) (c # cs) # findItems (drop (matchLen (c # cs)) (c # cs)))"
  by pat_completeness auto
termination
  by (relation "measure length") (auto simp: matchLen_pos)

section \<open>ParseCmdLine\<close>

abbreviation quote :: char where "quote \<equiv> CHR 0x22"

definition addItem :: "string \<Rightarrow> string \<Rightarrow> cval gomap \<Rightarrow> cval gomap" where
  "addItem prefix item data =
     (let (key, v) = splitN2 (CHR ''='') item;
          value = (case v of None \<Rightarrow> ''true'' | Some t \<Rightarrow> trimChar quote t);
          keys0 = splitOn (CHR ''.'') (trimChar quote key) in
      if prefix \<noteq> [] \<and> hd keys0 \<noteq> prefix then data
      else (let keys = (if prefix \<noteq> [] then tl keys0 else keys0) in
            case GetValue data keys of
              None \<Rightarrow> PutValue data (CStr value) keys
            | Some (CStr v) \<Rightarrow> PutValue data (CStrs [v, value]) keys
            | Some (CStrs vs) \<Rightarrow> PutValue data (CStrs (vs @ [value])) keys
            | Some other \<Rightarrow> data))"

definition cmdlineData :: "string \<Rightarrow> string \<Rightarrow> cval gomap" where
  "cmdlineData cmdline prefix = fold (addItem prefix) (findItems cmdline) []"

definition IsMACAddress :: "string \<Rightarrow> bool result" where
  "IsMACAddress s =
     (case ParseMAC s of
        None \<Rightarrow> Inl (Msg (''address '' @ s @ '': invalid MAC address''))
      | Some hw \<Rightarrow> Inr True)"

definition couldNotParse :: "string \<Rightarrow> goerror" where
  "couldNotParse details = Msg (''could not parse interface details '' @ details)"

definition putHwAddr :: "string list \<Rightarrow> string gomap \<Rightarrow> string gomap result" where
  "putHwAddr octs data =
     (let hwAddr = strJoin '':'' octs in
      case IsMACAddress hwAddr of
        Inl err \<Rightarrow> Inl (Wrap ''could not parse interface details'' err)
      | Inr b \<Rightarrow> Inr (mapPut ''hwAddr'' hwAddr data))"

definition parseIfField :: "string \<Rightarrow> string \<Rightarrow> string gomap \<Rightarrow> string gomap result" where
  "parseIfField details field data =
     (let subParts = map trimSpace (splitOn (CHR '':'') field) in
      if length subParts = 7
      then (if hd subParts \<noteq> ''hwAddr'' then Inl (couldNotParse details) else putHwAddr (tl subParts) data)
      else if length subParts = 6 then putHwAddr subParts data
      else if length subParts = 2
      then (if hd subParts \<noteq> ''name'' then Inl (couldNotParse details)
            else Inr (mapPut ''name'' (subParts ! 1) data))
      else if length subParts = 1 then Inr (mapPut ''name'' (hd subParts) data)
      else Inl (couldNotParse details))"

definition parseIfDetails :: "string \<Rightarrow> string gomap result" where
  "parseIfDetails details =
     (if details = [] then Inl (Msg ''empty interface details'')
      else foldR (parseIfField details)
             (if CHR '','' \<in> set details then splitOn (CHR '','') details else [details]) [])"

abbreviation interfacesKey :: "string list" where
  "interfacesKey \<equiv> [''install'', ''management_interface'', ''interfaces'']"

definition toNetworkInterfaces :: "cval gomap \<Rightarrow> cval gomap result" where
  "toNetworkInterfaces data =
     (case GetValue data interfacesKey of
        None \<Rightarrow> Inr data
      | Some v \<Rightarrow>
          (let ifDetails = (case v of CStr s \<Rightarrow> [s] | CStrs ss \<Rightarrow> ss | _ \<Rightarrow> []) in
           case mapR parseIfDetails ifDetails of
             Inl err \<Rightarrow> Inl err
           | Inr outDetails \<Rightarrow> Inr (PutValue data (CIfs outDetails) interfacesKey)))"

text \<open>The type assertion \<^verbatim>\<open>schemeVersion.(string)\<close> panics on anything but a single text.\<close>

definition toSchemeVersion :: "cval gomap \<Rightarrow> cval gomap result" where
  "toSchemeVersion data =
     (case GetValue data [''scheme_version''] of
        None \<Rightarrow> Inr data
      | Some (CStr s) \<Rightarrow>
          (case parseUint s 10 32 of
             Inl err \<Rightarrow> Inl err
           | Inr n \<Rightarrow> Inr (PutValue data (CUint n) [''scheme_version'']))
      | Some v \<Rightarrow> Inl (Panic ''interface conversion: interface is not string''))"

text \<open>The data are returned with an error as well.\<close>

definition ParseCmdLine :: "string \<Rightarrow> string \<Rightarrow> cval gomap \<times> goerror option" where
  "ParseCmdLine cmdline prefix =
     (let data = cmdlineData cmdline prefix in
      case toNetworkInterfaces data of
        Inl err \<Rightarrow> (data, Some err)
      | Inr data' \<Rightarrow> (case toSchemeVersion data' of Inl err \<Rightarrow> (data', Some err) | Inr d \<Rightarrow> (d, None)))"

text \<open>The file \<^verbatim>\<open>/proc/cmdline\<close>: absent, unreadable or its content.\<close>

datatype fileRead = FileMissing | FileError goerror | FileContent string

definition ReadCmdline :: "fileRead \<Rightarrow> string \<Rightarrow> cval gomap \<times> goerror option" where
  "ReadCmdline file prefix =
     (case file of
        FileMissing \<Rightarrow> ([], None)
      | FileError err \<Rightarrow> ([], Some err)
      | FileContent bytes \<Rightarrow> ParseCmdLine bytes prefix)"

section \<open>CompareByShadow\<close>

datatype crypter = md5_crypt | sha256_crypt | sha512_crypt | apr1_crypt

text \<open>\<open>verify c hash key\<close> stands for \<^verbatim>\<open>c.Verify(hash, key) == nil\<close>.\<close>

definition CompareByShadow ::
  "(crypter \<Rightarrow> string \<Rightarrow> string \<Rightarrow> bool) \<Rightarrow> string \<Rightarrow> string \<Rightarrow> bool" where
  "CompareByShadow verify key shadowLine =
     (let shadowSplits = splitOn (CHR '':'') shadowLine in
      if length shadowSplits < 2 then False
      else (let passwdHash = shadowSplits ! 1; passwdHashSplits = splitOn (CHR ''$'') passwdHash in
            if length passwdHashSplits < 4 then False
            else (let prefix = passwdHashSplits ! 1 in
                  if prefix = ''1'' then verify md5_crypt passwdHash key
                  else if prefix = ''5'' then verify sha256_crypt passwdHash key
                  else if prefix = ''6'' then verify sha512_crypt passwdHash key
                  else if prefix = ''apr1'' then verify apr1_crypt passwdHash key
                  else False)))"

section \<open>Scanning what was written\<close>

text \<open>
  A parameter as a user writes it: the segments of its key, and a value in quotes. A value does not
  hold a quote, and does not end in an equals sign (see \<^verbatim>\<open>quoted_equals_misread\<close> below).
\<close>

definition keyChar :: "char \<Rightarrow> bool" where
  "keyChar c = (\<not> isReSpace c \<and> c \<notin> {quote, CHR ''='', CHR ''.''})"

definition wfItem :: "string list \<times> string \<Rightarrow> bool" where
  "wfItem i = (fst i \<noteq> [] \<and> list_all (list_all keyChar) (fst i) \<and>
               snd i \<noteq> [] \<and> quote \<notin> set (snd i) \<and> last (snd i) \<noteq> CHR ''='')"

definition keyText :: "string \<Rightarrow> string list \<Rightarrow> string" where
  "keyText prefix ks = strJoin ''.'' (prefix # ks)"

definition itemText :: "string \<Rightarrow> string list \<times> string \<Rightarrow> string" where
  "itemText prefix i = keyText prefix (fst i) @ CHR ''='' # quote # snd i @ [quote]"

definition lineText :: "string \<Rightarrow> (string list \<times> string) list \<Rightarrow> string" where
  "lineText prefix is = strJoin '' '' (map (itemText prefix) is)"

lemma quotedLen_quoted:
  assumes "v \<noteq> []" and "quote \<notin> set v"
  shows "quotedLen (quote # v @ quote # r) = Some (length v + 2)"
proof -
  have "takeWhile (\<lambda>x. x \<noteq> quote) (v @ quote # r) = v"
    using assms(2) by (subst takeWhile_append2) auto
  then show ?thesis using assms(1) by (simp add: quotedLen_def)
qed

lemma quotedLen_plain: "c \<noteq> quote \<Longrightarrow> quotedLen (c # cs) = None"
  by (simp add: quotedLen_def Let_def)

lemma keyQuotedLen_last:
  assumes "k < n" "0 < k" "s ! k = CHR ''=''" "quotedLen (drop (Suc k) s) = Some q"
    and "\<And>p. k < p \<Longrightarrow> p < n \<Longrightarrow> s ! p = CHR ''='' \<Longrightarrow> quotedLen (drop (Suc p) s) = None"
  shows "keyQuotedLen s n = Some (Suc k + q)"
  using assms
proof (induction n)
  case (Suc n)
  show ?case
  proof (cases "n = k")
    case False
    then have "keyQuotedLen s n = Some (Suc k + q)" using Suc by auto
    moreover have "s ! n = CHR ''='' \<Longrightarrow> quotedLen (drop (Suc n) s) = None"
      using Suc.prems False by auto
    ultimately show ?thesis by simp
  qed (use Suc.prems in simp)
qed simp

text \<open>The text after an item: the end, or a space.\<close>

definition spaced :: "string \<Rightarrow> bool" where
  "spaced r = (r = [] \<or> hd r = CHR '' '')"

lemma run_spaced:
  assumes "spaced r"
  shows "length (takeWhile (\<lambda>c. \<not> isReSpace c) (a @ r)) \<le> length a"
proof -
  have "takeWhile (\<lambda>c. \<not> isReSpace c) r = []"
    using assms by (cases r) (auto simp: spaced_def isReSpace_def)
  then show ?thesis by (simp add: takeWhile_append length_takeWhile_le)
qed

lemma quoted_value_no_match:
  assumes v: "v \<noteq> []" "quote \<notin> set v" "last v \<noteq> CHR ''=''"
    and p: "p < length v + 2" and eq: "(quote # v @ quote # r) ! p = CHR ''=''"
  shows "quotedLen (drop (Suc p) (quote # v @ quote # r)) = None"
proof -
  have p0: "p \<noteq> 0" using eq by (cases p) auto
  then obtain i where i: "p = Suc i" by (cases p) auto
  with p eq have "i < length v" "v ! i = CHR ''=''"
    by (auto simp: nth_append split: if_splits)
  moreover from this v(1,3) have "Suc i < length v"
    by (metis Suc_lessI diff_Suc_1 last_conv_nth)
  moreover from this v(2) have "v ! Suc i \<noteq> quote"
    by (metis nth_mem)
  ultimately show ?thesis
    using i by (simp add: Cons_nth_drop_Suc [symmetric] quotedLen_plain)
qed

lemma keyText_chars:
  assumes "list_all keyChar prefix" "list_all (list_all keyChar) ks" "c \<in> set (keyText prefix ks)"
  shows "\<not> isReSpace c \<and> c \<noteq> quote \<and> c \<noteq> CHR ''=''"
proof -
  have "set (strJoin ''.'' ws) \<subseteq> insert (CHR ''.'') (\<Union> (set ` set ws))" for ws
    by (induction ws rule: induct_list012) auto
  then show ?thesis
    using assms unfolding keyText_def list_all_iff keyChar_def
    by (fastforce simp: isReSpace_def)
qed

lemma matchLen_item:
  assumes key: "key \<noteq> []" "\<And>c. c \<in> set key \<Longrightarrow> \<not> isReSpace c \<and> c \<noteq> quote \<and> c \<noteq> CHR ''=''"
    and v: "v \<noteq> []" "quote \<notin> set v" "last v \<noteq> CHR ''=''" and r: "spaced r"
  shows "matchLen (key @ CHR ''='' # quote # v @ quote # r) = length key + length v + 3"
proof -
  let ?s = "key @ CHR ''='' # quote # v @ quote # r"
  let ?n = "length (takeWhile (\<lambda>c. \<not> isReSpace c) ?s)"
  have "quotedLen ?s = None"
    using key by (cases key) (auto simp: quotedLen_plain)
  moreover have "keyQuotedLen ?s ?n = Some (Suc (length key) + (length v + 2))"
  proof (rule keyQuotedLen_last)
    show "length key < ?n"
      using key(2) by (subst takeWhile_append2) (auto simp: isReSpace_def)
    show "quotedLen (drop (Suc (length key)) ?s) = Some (length v + 2)"
      using quotedLen_quoted [OF v(1,2)] by simp
    fix p assume p: "length key < p" "p < ?n" "?s ! p = CHR ''=''"
    obtain q where q: "p = Suc (length key + q)" using p(1) less_iff_Suc_add by blast
    have "?n \<le> length key + length v + 3"
      using run_spaced [OF r, of "key @ CHR ''='' # quote # v @ [quote]"] by simp
    then have "q < length v + 2" using p(2) q by simp
    moreover have "(quote # v @ quote # r) ! q = CHR ''=''"
      using p(3) q by (simp add: nth_append)
    ultimately show "quotedLen (drop (Suc p) ?s) = None"
      using quoted_value_no_match [OF v] q by simp
  qed (use key in auto)
  ultimately show ?thesis by (simp add: matchLen_def)
qed

lemma findItems_item:
  assumes "list_all keyChar prefix" "prefix \<noteq> []" "wfItem i" "spaced r"
  shows "findItems (itemText prefix i @ r) = itemText prefix i # findItems r"
proof -
  obtain c cs where key: "keyText prefix (fst i) = c # cs"
    using assms(2,3) by (cases "fst i"; cases prefix) (auto simp: keyText_def wfItem_def)
  have ch: "\<And>x. x \<in> set (keyText prefix (fst i)) \<Longrightarrow> \<not> isReSpace x \<and> x \<noteq> quote \<and> x \<noteq> CHR ''=''"
    using keyText_chars assms(1,3) by (auto simp: wfItem_def)
  have len: "matchLen (itemText prefix i @ r) = length (itemText prefix i)"
    using matchLen_item [of "keyText prefix (fst i)" "snd i" r] key ch assms(3,4)
    by (simp add: itemText_def wfItem_def)
  have "itemText prefix i @ r = c # (cs @ CHR ''='' # quote # snd i @ [quote]) @ r"
    by (simp add: itemText_def key)
  moreover have "\<not> isReSpace c" using ch key by simp
  ultimately show ?thesis
    using len by (metis append_eq_conv_conj findItems.simps(2))
qed

lemma findItems_lineText:
  assumes "list_all keyChar prefix" "prefix \<noteq> []" "list_all wfItem is"
  shows "findItems (lineText prefix is) = map (itemText prefix) is"
  using assms(3)
proof (induction "is")
  case (Cons i is')
  show ?case
  proof (cases is')
    case Nil
    then show ?thesis
      using findItems_item [OF assms(1,2), of i "[]"] Cons.prems by (simp add: lineText_def spaced_def)
  next
    case (Cons j js)
    then show ?thesis
      using findItems_item [OF assms(1,2), of i "CHR '' '' # lineText prefix is'"] Cons.IH Cons.prems
      by (simp add: lineText_def spaced_def isReSpace_def)
  qed
qed (simp add: lineText_def)

section \<open>A store of values by path\<close>

text \<open>
  What the loop of \<^verbatim>\<open>ParseCmdLine\<close> needs of the nested maps: reading gives back what was written
  at a path that no scalar blocks, and writing at an independent path changes nothing.
\<close>

locale path_store =
  fixes get :: "'s \<Rightarrow> 'k \<Rightarrow> cval option" and put :: "'s \<Rightarrow> cval \<Rightarrow> 'k \<Rightarrow> 's"
    and open_path :: "'s \<Rightarrow> 'k \<Rightarrow> bool" and indep :: "'k \<Rightarrow> 'k \<Rightarrow> bool"
  assumes get_put: "open_path s k \<Longrightarrow> get (put s v k) k = Some v"
    and get_put_indep: "indep k k' \<Longrightarrow> get (put s v k) k' = get s k'"
    and open_put: "open_path s k' \<Longrightarrow> k = k' \<or> indep k k' \<Longrightarrow> open_path (put s v k) k'"
begin

text \<open>One more value at a path, as the switch on the type of the existing value has it.\<close>

definition collected :: "string list \<Rightarrow> cval option" where
  "collected vs = (case vs of [] \<Rightarrow> None | [v] \<Rightarrow> Some (CStr v) | _ \<Rightarrow> Some (CStrs vs))"

definition add :: "'k \<times> string \<Rightarrow> 's \<Rightarrow> 's" where
  "add kv s =
     (case get s (fst kv) of
        None \<Rightarrow> put s (CStr (snd kv)) (fst kv)
      | Some (CStr v) \<Rightarrow> put s (CStrs [v, snd kv]) (fst kv)
      | Some (CStrs vs) \<Rightarrow> put s (CStrs (vs @ [snd kv])) (fst kv)
      | Some other \<Rightarrow> s)"

definition valuesOf :: "'k \<Rightarrow> ('k \<times> string) list \<Rightarrow> string list" where
  "valuesOf k kvs = map snd (filter (\<lambda>kv. fst kv = k) kvs)"

definition holds :: "'k set \<Rightarrow> ('k \<times> string) list \<Rightarrow> 's \<Rightarrow> bool" where
  "holds K kvs s \<longleftrightarrow> (\<forall>k \<in> K. open_path s k \<and> get s k = collected (valuesOf k kvs))"

lemma collected_cases:
  obtains "vs = []" | v where "vs = [v]" | a b ws where "vs = a # b # ws"
  by (cases vs; cases "tl vs") auto

lemma add_same:
  assumes "open_path s k" "get s k = collected vs"
  shows "get (add (k, v) s) k = collected (vs @ [v])" and "open_path (add (k, v) s) k"
  using assms by (cases vs rule: collected_cases, auto simp: add_def collected_def get_put open_put)+

lemma add_indep:
  assumes "indep k k'" "open_path s k'"
  shows "get (add (k, v) s) k' = get s k'" and "open_path (add (k, v) s) k'"
  using assms by (auto simp: add_def get_put_indep open_put split: option.splits cval.splits)

lemma holds_add:
  assumes h: "holds K kvs s" and k: "k \<in> K" and K: "\<And>k'. k' \<in> K \<Longrightarrow> k = k' \<or> indep k k'"
  shows "holds K (kvs @ [(k, v)]) (add (k, v) s)"
  unfolding holds_def
proof
  fix k' assume k': "k' \<in> K"
  show "open_path (add (k, v) s) k' \<and> get (add (k, v) s) k' = collected (valuesOf k' (kvs @ [(k, v)]))"
  proof (cases "k = k'")
    case True
    with h k' add_same [of s k "valuesOf k kvs" v] show ?thesis
      by (simp add: holds_def valuesOf_def)
  next
    case False
    then have "indep k k'" using K k' by blast
    with False h k' add_indep [of k k' s v] show ?thesis
      by (simp add: holds_def valuesOf_def)
  qed
qed

lemma holds_fold:
  assumes "\<And>k. k \<in> K \<Longrightarrow> open_path s k \<and> get s k = None"
    and "\<And>k k'. k \<in> K \<Longrightarrow> k' \<in> K \<Longrightarrow> k = k' \<or> indep k k'" and "fst ` set kvs \<subseteq> K"
  shows "holds K kvs (fold add kvs s)"
  using assms(3)
proof (induction kvs rule: rev_induct)
  case Nil
  then show ?case using assms(1) by (simp add: holds_def valuesOf_def collected_def)
next
  case (snoc kv kvs)
  then show ?case
    using holds_add [of K kvs "fold add kvs s" "fst kv" "snd kv"] assms(2) by auto
qed

end

text \<open>The nested maps are such a store: independent paths are those of which neither is a prefix of the other.\<close>

fun openPath :: "cval gomap \<Rightarrow> string list \<Rightarrow> bool" where
  "openPath d [] = False"
| "openPath d [k] = True"
| "openPath d (k # k' # ks) =
     (case mapGet d k of None \<Rightarrow> True | Some (CMap m) \<Rightarrow> openPath m (k' # ks) | _ \<Rightarrow> False)"

fun indepPaths :: "string list \<Rightarrow> string list \<Rightarrow> bool" where
  "indepPaths (k # ks) (k' # ks') = (k \<noteq> k' \<or> indepPaths ks ks')"
| "indepPaths _ _ = False"

lemma openPath_Nil_map [simp]: "ks \<noteq> [] \<Longrightarrow> openPath [] ks"
  by (cases "([] :: cval gomap, ks)" rule: openPath.cases) (auto simp: mapGet_def)

lemma GetValue_empty [simp]: "GetValue [] ks = None"
proof (induction ks)
  case (Cons k ks)
  then show ?case by (cases ks) (simp_all add: mapGet_def)
qed simp

lemma get_put_value: "openPath d ks \<Longrightarrow> GetValue (PutValue d v ks) ks = Some v"
  by (induction d v ks rule: PutValue.induct) (auto split: option.splits cval.splits)

lemma get_put_value_indep: "indepPaths ks ks' \<Longrightarrow> GetValue (PutValue d v ks) ks' = GetValue d ks'"
proof (induction d v ks arbitrary: ks' rule: PutValue.induct)
  case (2 d v k)
  then show ?case by (cases "(d, ks')" rule: GetValue.cases) auto
next
  case (3 d v k k2 ks)
  then show ?case
    by (cases "(d, ks')" rule: GetValue.cases) (auto split: option.splits cval.splits)
qed simp

lemma open_put_value:
  "openPath d ks' \<Longrightarrow> ks = ks' \<or> indepPaths ks ks' \<Longrightarrow> openPath (PutValue d v ks) ks'"
proof (induction d v ks arbitrary: ks' rule: PutValue.induct)
  case (2 d v k)
  then show ?case by (cases "(d, ks')" rule: openPath.cases) (auto split: option.splits cval.splits)
next
  case (3 d v k k2 ks)
  then show ?case
    by (cases "(d, ks')" rule: openPath.cases) (auto split: option.splits cval.splits)
qed simp

interpretation params: path_store GetValue PutValue openPath indepPaths
  by unfold_locales (auto simp: get_put_value get_put_value_indep open_put_value)

section \<open>The parameters of a command line\<close>

lemma splitN2_append: "c \<notin> set a \<Longrightarrow> splitN2 c (a @ c # b) = (a, Some b)"
  by (induction a) auto

lemma trimChar_quoted:
  assumes "quote \<notin> set v"
  shows "trimChar quote (quote # v @ [quote]) = v"
proof -
  have stop: "dropWhile (\<lambda>x. x = quote) w = w" if "quote \<notin> set w" for w
    using that by (cases w) auto
  have "dropWhile (\<lambda>x. x = quote) (v @ [quote]) = (if v = [] then [] else v @ [quote])"
    using assms by (cases v) auto
  then show ?thesis
    using stop [of "rev v"] assms by (simp add: trimChar_def trimBy_def)
qed

lemma addItem_itemText:
  assumes "list_all keyChar prefix" "prefix \<noteq> []" "wfItem i"
  shows "addItem prefix (itemText prefix i) = params.add i"
proof -
  have ch: "\<And>x. x \<in> set (keyText prefix (fst i)) \<Longrightarrow> x \<noteq> quote \<and> x \<noteq> CHR ''=''"
    using keyText_chars assms(1,3) by (auto simp: wfItem_def)
  have "splitN2 (CHR ''='') (itemText prefix i) = (keyText prefix (fst i), Some (quote # snd i @ [quote]))"
    unfolding itemText_def using ch by (intro splitN2_append) auto
  moreover have "trimChar quote (keyText prefix (fst i)) = keyText prefix (fst i)"
    unfolding trimChar_def using ch by (intro trimBy_none) auto
  moreover have "splitOn (CHR ''.'') (keyText prefix (fst i)) = prefix # fst i"
    unfolding keyText_def using assms
    by (intro splitOn_strJoin) (auto simp: wfItem_def list_all_iff keyChar_def)
  ultimately show ?thesis
    using assms(2,3) by (intro ext) (simp add: addItem_def params.add_def trimChar_quoted wfItem_def
      split: option.splits cval.splits)
qed

lemma cmdlineData_lineText:
  assumes "list_all keyChar prefix" "prefix \<noteq> []" "list_all wfItem is"
  shows "cmdlineData (lineText prefix is) prefix = fold params.add is []"
proof -
  have "fold (addItem prefix) (map (itemText prefix) is) = fold params.add is"
    using assms(3) by (induction "is") (simp_all add: addItem_itemText [OF assms(1,2)])
  then show ?thesis
    by (simp add: cmdlineData_def findItems_lineText [OF assms])
qed

text \<open>C18: a kernel command line of quoted parameters of which no key is a prefix of another is read back
  exactly: a parameter given once is its value, one given several times the list of its values in order,
  and any other path independent of them is absent.\<close>

theorem cmdline_roundtrip:
  assumes "list_all keyChar prefix" and "prefix \<noteq> []" and "list_all wfItem is" and "ks \<noteq> []"
    and "\<forall>a \<in> insert ks (fst ` set is). \<forall>b \<in> insert ks (fst ` set is). a = b \<or> indepPaths a b"
  shows "GetValue (cmdlineData (lineText prefix is) prefix) ks =
    (case map snd (filter (\<lambda>i. fst i = ks) is) of
       [] \<Rightarrow> None | [v] \<Rightarrow> Some (CStr v) | vs \<Rightarrow> Some (CStrs vs))"
proof -
  have "\<And>k. k \<in> insert ks (fst ` set is) \<Longrightarrow> openPath [] k \<and> GetValue [] k = None"
    using assms(3,4) by (auto simp: list_all_iff wfItem_def)
  then have "params.holds (insert ks (fst ` set is)) is (fold params.add is [])"
    using assms(5) by (intro params.holds_fold) auto
  then show ?thesis
    by (simp add: params.holds_def params.collected_def params.valuesOf_def cmdlineData_lineText [OF assms(1-3)]
        split: list.splits)
qed

definition sampleParams :: "(string list \<times> string) list" where
  "sampleParams =
     [([''install'', ''device''], ''/dev/sda''), ([''dns''], ''8.8.8.8''), ([''dns''], ''1.1.1.1''),
      ([''os'', ''motd''], ''hello = world'')]"

theorem cmdline_roundtrip_witness:
  "GetValue (cmdlineData (lineText ''harvester'' sampleParams) ''harvester'') [''dns''] = Some (CStrs [''8.8.8.8'', ''1.1.1.1''])
   \<and> GetValue (cmdlineData (lineText ''harvester'' sampleParams) ''harvester'') [''os'', ''motd''] = Some (CStr ''hello = world'')"
  using cmdline_roundtrip [of "''harvester''" sampleParams "[''dns'']"]
    cmdline_roundtrip [of "''harvester''" sampleParams "[''os'', ''motd'']"]
  by (simp add: sampleParams_def wfItem_def keyChar_def isReSpace_def)


section \<open>Interfaces and the scheme version\<close>

lemma ParseMAC_ok: "IsMACAddress a = Inr b \<longleftrightarrow> b \<and> ParseMAC a \<noteq> None"
  by (auto simp: IsMACAddress_def split: option.splits)

definition ifFieldOk :: "string gomap \<Rightarrow> bool" where
  "ifFieldOk m \<longleftrightarrow> fst ` set m \<subseteq> {''hwAddr'', ''name''} \<and>
     (\<forall>a. mapGet m ''hwAddr'' = Some a \<longrightarrow> ParseMAC a \<noteq> None)"

lemma ifFieldOk_put:
  "ifFieldOk m \<Longrightarrow> k \<in> {''hwAddr'', ''name''} \<Longrightarrow> k = ''name'' \<or> ParseMAC a \<noteq> None \<Longrightarrow> ifFieldOk (mapPut k a m)"
  by (auto simp: ifFieldOk_def keys_put)

lemma parseIfField_ok:
  "parseIfField d f m = Inr m' \<Longrightarrow> ifFieldOk m \<Longrightarrow> ifFieldOk m'"
  by (auto simp: parseIfField_def putHwAddr_def Let_def ParseMAC_ok intro!: ifFieldOk_put
      split: if_splits sum.splits)

lemma parseIfFields_ok: "foldR (parseIfField d) fs m = Inr m' \<Longrightarrow> ifFieldOk m \<Longrightarrow> ifFieldOk m'"
  by (induction fs arbitrary: m) (auto dest: parseIfField_ok split: sum.splits)

lemma parseIfDetails_ok: "parseIfDetails d = Inr m \<Longrightarrow> ifFieldOk m"
proof -
  assume d: "parseIfDetails d = Inr m"
  have "ifFieldOk []" by (simp add: ifFieldOk_def mapGet_def)
  then show ?thesis
    using d parseIfFields_ok unfolding parseIfDetails_def by (metis (no_types) sum.distinct(1))
qed

lemma open_if_present: "GetValue d ks = Some v \<Longrightarrow> openPath d ks"
  by (induction d ks rule: GetValue.induct) (auto split: option.splits cval.splits)

lemma toNetworkInterfaces_type:
  assumes "toNetworkInterfaces d = Inr d'"
  shows "case GetValue d' interfacesKey of None \<Rightarrow> True | Some (CIfs ms) \<Rightarrow> list_all ifFieldOk ms | _ \<Rightarrow> False"
proof (cases "GetValue d interfacesKey")
  case None
  then show ?thesis using assms unfolding toNetworkInterfaces_def by simp
next
  case (Some v)
  then obtain ds ms where ms: "mapR parseIfDetails ds = Inr ms" "d' = PutValue d (CIfs ms) interfacesKey"
    using assms unfolding toNetworkInterfaces_def Let_def by (auto split: sum.splits)
  have "list_all ifFieldOk ms"
    using ms(1) unfolding mapR_Inr_iff
    by (induction rule: list_all2_induct) (auto dest: parseIfDetails_ok)
  then show ?thesis
    unfolding ms(2) get_put_value [OF open_if_present [OF Some]] by simp
qed

lemma toSchemeVersion_type:
  assumes "toSchemeVersion d = Inr d'"
  shows "case GetValue d' [''scheme_version''] of None \<Rightarrow> True | Some (CUint n) \<Rightarrow> n < 2 ^ 32 | _ \<Rightarrow> False"
    and "GetValue d' interfacesKey = GetValue d interfacesKey"
proof -
  consider "GetValue d [''scheme_version''] = None" "d' = d"
    | n where "n < 2 ^ 32" "d' = PutValue d (CUint n) [''scheme_version'']"
    using assms unfolding toSchemeVersion_def
    by (auto dest: parseUint_bound split: option.split_asm cval.split_asm sum.split_asm)
  then have "(case GetValue d' [''scheme_version''] of None \<Rightarrow> True | Some (CUint n) \<Rightarrow> n < 2 ^ 32 | _ \<Rightarrow> False)
      \<and> GetValue d' interfacesKey = GetValue d interfacesKey"
  proof cases
    case 2
    then show ?thesis
      using get_put_value_indep [of "[''scheme_version'']" interfacesKey d "CUint n"] by simp
  qed simp
  then show "case GetValue d' [''scheme_version''] of None \<Rightarrow> True | Some (CUint n) \<Rightarrow> n < 2 ^ 32 | _ \<Rightarrow> False"
      "GetValue d' interfacesKey = GetValue d interfacesKey"
    by (rule conjunct1, rule conjunct2)
qed

text \<open>C36: when a command line is accepted, the management interfaces are a list of details whose keys are
  hwAddr and name only and whose hardware addresses are valid, and the scheme version is a number below
  \<open>2 ^ 32\<close>.\<close>

theorem cmdline_types:
  assumes "ParseCmdLine cmdline prefix = (data, None)"
  shows "(case GetValue data interfacesKey of
            None \<Rightarrow> True | Some (CIfs ms) \<Rightarrow> list_all ifFieldOk ms | _ \<Rightarrow> False)
    \<and> (case GetValue data [''scheme_version''] of None \<Rightarrow> True | Some (CUint n) \<Rightarrow> n < 2 ^ 32 | _ \<Rightarrow> False)"
proof -
  obtain d where "toNetworkInterfaces (cmdlineData cmdline prefix) = Inr d" "toSchemeVersion d = Inr data"
    using assms unfolding ParseCmdLine_def Let_def by (auto split: sum.split_asm)
  then show ?thesis
    using toNetworkInterfaces_type toSchemeVersion_type by metis
qed

lemma cmdline_data_sample:
  "cmdlineData ''h.scheme_version=1 h.install.management_interface.interfaces=name:eth0'' ''h'' =
     [(''scheme_version'', CStr ''1''),
      (''install'', CMap [(''management_interface'', CMap [(''interfaces'', CStr ''name:eth0'')])])]"
  by code_simp

lemma cmdline_interfaces_sample:
  "toNetworkInterfaces
     [(''scheme_version'', CStr ''1''),
      (''install'', CMap [(''management_interface'', CMap [(''interfaces'', CStr ''name:eth0'')])])] =
   Inr [(''scheme_version'', CStr ''1''),
      (''install'', CMap [(''management_interface'', CMap [(''interfaces'', CIfs [[(''name'', ''eth0'')]])])])]"
  by code_simp

lemma cmdline_types_sample:
  "ParseCmdLine ''h.scheme_version=1 h.install.management_interface.interfaces=name:eth0'' ''h'' =
     ([(''scheme_version'', CUint 1),
       (''install'', CMap [(''management_interface'', CMap [(''interfaces'', CIfs [[(''name'', ''eth0'')]])])])], None)"
  by (simp add: ParseCmdLine_def cmdline_data_sample cmdline_interfaces_sample toSchemeVersion_def mapGet_def mapPut_def
      parseUint_def isDigitC_def digitVal_def natOfDigits_def)

theorem cmdline_types_witness:
  "\<exists>data. ParseCmdLine ''h.scheme_version=1 h.install.management_interface.interfaces=name:eth0'' ''h'' = (data, None)
     \<and> GetValue data [''scheme_version''] = Some (CUint 1)
     \<and> (case GetValue data interfacesKey of Some (CIfs ms) \<Rightarrow> ms \<noteq> [] \<and> list_all ifFieldOk ms | _ \<Rightarrow> False)"
  using cmdline_types [OF cmdline_types_sample] cmdline_types_sample by (simp add: mapGet_def)

text \<open>A scheme version given twice is not an error but a panic.\<close>

lemma scheme_version_twice_panics:
  "snd (ParseCmdLine ''h.scheme_version=1 h.scheme_version=1'' ''h'') = Some (Panic ''interface conversion: interface is not string'')"
  by code_simp

end
