(* ===== verification/Dashboard.thy ===== *)
theory Dashboard
  imports Widgets Cmdline
begin

text \<open>
  The console of an installed node (\<^verbatim>\<open>dashboard_panels.go\<close>): the panels, the four goroutines that
  keep them up to date, the state they share, and the password prompt that leads to a shell.

  The screen is a \<^typ>\<open>gui\<close> of \<^theory_text>\<open>Widgets\<close>. A goroutine is known by the view it writes; one round of it
  (\<^verbatim>\<open>doSync...\<close>) is one event, which ends by queueing the function it gives to \<^verbatim>\<open>g.Update\<close>. \<^verbatim>\<open>gocui\<close> runs the
  queued functions in no fixed order, so running the \<open>n\<close>-th one is an event of its own. The main loop lays the
  screen out after each key, update and change of size, and ends with the first error.
\<close>

section \<open>State and environment\<close>

record state =
  stInstalled :: bool
  stFirstHost :: bool
  stManagementURL :: string

text \<open>
  \<open>dbOnce\<close> is the variable \<^verbatim>\<open>once\<close>, \<open>dbKubeconfig\<close> the environment variable, \<open>dbF12\<close> the global key binding,
  \<open>dbSyncs\<close> the goroutines that were started, \<open>dbUpdates\<close> the queued updates (the view and its new text), and
  \<open>dbPrompt\<close> the widgets (frame, input, validator) that the key bindings of the prompt's input hold.
\<close>

record dash =
  dbGui :: gui
  dbCurrent :: state
  dbOnce :: bool
  dbKubeconfig :: "string option"
  dbF12 :: bool
  dbSyncs :: "string list"
  dbUpdates :: "(string \<times> string) list"
  dbCursor :: bool
  dbPrompt :: "(Panel \<times> Input \<times> Panel) option"

type_synonym 'a dboard = "(dash, 'a) prog"

datatype yval = YStr string | YOther

text \<open>
  What the outside answers during one event: the file of \<^verbatim>\<open>rancherd\<close> and \<^verbatim>\<open>/etc/shadow\<close>, the YAML decoder, the
  hash functions, the version of the build, the name of the host, and a command given to the shell: its
  standard output (or with the standard error) and whether it succeeded, under the value of \<^verbatim>\<open>KUBECONFIG\<close>.
\<close>

record dashEnv =
  deRancherd :: fileRead
  deYaml :: "string \<Rightarrow> yval gomap result"
  deShadow :: fileRead
  deVerify :: "crypter \<Rightarrow> string \<Rightarrow> string \<Rightarrow> bool"
  deVersion :: string
  deHostname :: "string result"
  deOutput :: "string option \<Rightarrow> string \<Rightarrow> string \<times> bool"
  deCombined :: "string option \<Rightarrow> string \<Rightarrow> string \<times> bool"

abbreviation "ErrQuit \<equiv> Msg ''quit''"
abbreviation "colorGreen \<equiv> (2 :: nat)"
abbreviation "colorYellow \<equiv> (3 :: nat)"
abbreviation "statusReady \<equiv> ''Ready''"
abbreviation "statusNotReady \<equiv> ''NotReady''"
abbreviation "statusSettingUpNode \<equiv> ''Setting up node''"
abbreviation "statusSettingUpHarv \<equiv> ''Setting up Harvester''"
abbreviation apos :: char where "apos \<equiv> CHR 0x27"

definition modCurrent :: "(state \<Rightarrow> state) \<Rightarrow> unit dboard" where
  "modCurrent f = modS (\<lambda>d. d\<lparr>dbCurrent := f (dbCurrent d)\<rparr>)"

definition onGui :: "(gui \<Rightarrow> ('a \<times> gui) result) \<Rightarrow> 'a dboard" where
  "onGui f d = (case f (dbGui d) of Inl e \<Rightarrow> (Inl e, d) | Inr (x, g) \<Rightarrow> (Inr x, d\<lparr>dbGui := g\<rparr>))"

section \<open>The role of the node\<close>

definition getServerURLFromRancherdConfig :: "(string \<Rightarrow> yval gomap result) \<Rightarrow> string \<Rightarrow> string result" where
  "getServerURLFromRancherdConfig yaml data =
     bindR (yaml data) (\<lambda>rancherdConf.
       case mapGet rancherdConf ''server'' of Some (YStr serverURL) \<Rightarrow> Inr serverURL | _ \<Rightarrow> Inr [])"

definition initState :: "dashEnv \<Rightarrow> unit dboard" where
  "initState env =
     (case deRancherd env of
        FileMissing \<Rightarrow> failS (Ext ''no such file or directory'')
      | FileError err \<Rightarrow> failS err
      | FileContent content \<Rightarrow>
          bindS (liftS (getServerURLFromRancherdConfig (deYaml env) content)) (\<lambda>serverURL.
            if serverURL \<noteq> []
            then modS (\<lambda>d. d\<lparr>dbKubeconfig := Some ''/var/lib/rancher/rke2/agent/kubelet.kubeconfig''\<rparr>)
            else modCurrent (\<lambda>c. c\<lparr>stFirstHost := True\<rparr>)))"

section \<open>Panels\<close>

text \<open>\<^verbatim>\<open>if v, err := g.SetView(...); err != nil { ... }\<close>: what follows runs only on a new view.\<close>

definition onNew :: "string \<Rightarrow> int \<Rightarrow> int \<Rightarrow> int \<Rightarrow> int \<Rightarrow> unit dboard \<Rightarrow> unit dboard" where
  "onNew name x0 y0 x1 y1 act =
     bindS (onGui (\<lambda>g. bindR (SetView name x0 y0 x1 y1 g) (\<lambda>(g1, new). Inr (new, g1)))) (\<lambda>new.
       if new then act else retS ())"

definition printTo :: "string \<Rightarrow> string \<Rightarrow> unit dboard" where
  "printTo name text = modS (\<lambda>d. d\<lparr>dbGui := writeView name text (dbGui d)\<rparr>)"

definition goSync :: "string \<Rightarrow> unit dboard" where
  "goSync name = modS (\<lambda>d. d\<lparr>dbSyncs := name # dbSyncs d\<rparr>)"

definition clusterPanel :: "unit dboard" where
  "clusterPanel = bindS (getS (\<lambda>d. gMaxX (dbGui d))) (\<lambda>maxX.
     seqS (onNew ''clusterPanel'' (maxX div 2 - 40) 10 (maxX div 2 + 35) 15 (retS ()))
    (seqS (onNew ''managementUrl'' (maxX div 2 - 39) 10 (maxX div 2 + 34) 13
            (seqS (printTo ''managementUrl'' (''* Management URL:'' @ [LF] @ ''  loading...'' @ [LF])) (goSync ''managementUrl'')))
    (onNew ''clusterStatus'' (maxX div 2 - 39) 13 (maxX div 2 + 34) 15
            (seqS (printTo ''clusterStatus'' (''* Status: loading...'' @ [LF])) (goSync ''clusterStatus'')))))"

definition nodePanel :: "unit dboard" where
  "nodePanel = bindS (getS (\<lambda>d. gMaxX (dbGui d))) (\<lambda>maxX.
     seqS (onNew ''nodePanel'' (maxX div 2 - 40) 16 (maxX div 2 + 35) 21 (retS ()))
    (seqS (onNew ''nodeInfo'' (maxX div 2 - 39) 16 (maxX div 2 + 34) 19
            (seqS (printTo ''nodeInfo'' (''* Hostname: loading...'' @ [LF] @ ''* IP Address: loading...'' @ [LF])) (goSync ''nodeInfo'')))
    (onNew ''nodeStatus'' (maxX div 2 - 39) 19 (maxX div 2 + 34) 21
            (seqS (printTo ''nodeStatus'' (''* Status: loading...'' @ [LF])) (goSync ''nodeStatus'')))))"

abbreviation "footerText \<equiv> ''<Use F12 to switch between Harvester console and Shell>''"

definition footer :: "unit dboard" where
  "footer = bindS (getS (\<lambda>d. (gMaxX (dbGui d), gMaxY (dbGui d)))) (\<lambda>(maxX, maxY).
     onNew ''footer'' 0 (maxY - 2) maxX maxY (printTo ''footer'' footerText))"

text \<open>
  \<^verbatim>\<open>%*s\<close> with an empty string writes as many blanks as the absolute value of the width. The logo itself is a
  parameter, being a picture in bytes above 127.
\<close>

definition logoPanel :: "string \<Rightarrow> string \<Rightarrow> unit dboard" where
  "logoPanel logo version = bindS (getS (\<lambda>d. gMaxX (dbGui d))) (\<lambda>maxX.
     onNew ''logo'' (maxX div 2 - 40) 1 (maxX div 2 + 40) 9
       (let versionStr = ''version: '' @ version; nSpace = 74 - int (length versionStr) in
        seqS (printTo ''logo'' logo)
       (seqS (printTo ''logo'' (LF # replicate (nat \<bar>nSpace\<bar>) (CHR '' '')))
       (printTo ''logo'' versionStr))))"

definition logErr :: "unit dboard \<Rightarrow> unit dboard" where
  "logErr m d = (Inr (), snd (m d))"

definition layoutDashboard :: "string \<Rightarrow> dashEnv \<Rightarrow> unit dboard" where
  "layoutDashboard logo env =
     seqS (bindS (getS dbOnce) (\<lambda>done.
             if done then retS ()
             else seqS (modS (\<lambda>d. d\<lparr>dbOnce := True\<rparr>)) (seqS (logErr (initState env)) (modS (\<lambda>d. d\<lparr>dbF12 := True\<rparr>)))))
    (seqS clusterPanel (seqS nodePanel (seqS footer (logoPanel logo (deVersion env)))))"

section \<open>What the panels show\<close>

definition getVIP :: "dashEnv \<Rightarrow> dash \<Rightarrow> string" where
  "getVIP env d =
     (let cmd = (if stFirstHost (dbCurrent d)
                 then ''kubectl get configmap -n harvester-system vip -o jsonpath='{.data.ip}'' @ [apos]
                 else ''kubectl get svc -n kube-system ingress-expose -o jsonpath='{.status.loadBalancer.ingress[*].ip}'' @ [apos]) in
      case deOutput env (dbKubeconfig d) cmd of (outStr, ok) \<Rightarrow> if ok then outStr else [])"

definition doSyncManagementURL :: "dashEnv \<Rightarrow> unit dboard" where
  "doSyncManagementURL env =
     bindS (getS (getVIP env)) (\<lambda>managementIP.
     bindS (if managementIP \<noteq> []
            then seqS (modCurrent (\<lambda>c. c\<lparr>stManagementURL := ''https://'' @ managementIP\<rparr>)) (retS (''https://'' @ managementIP))
            else retS ''Unavailable'') (\<lambda>managementURL.
       modS (\<lambda>d. d\<lparr>dbUpdates := dbUpdates d @ [(''managementUrl'', ''* Management URL:'' @ [LF] @ ''  '' @ managementURL)]\<rparr>)))"

definition getNodeInfo :: "dashEnv \<Rightarrow> dash \<Rightarrow> string" where
  "getNodeInfo env d =
     (let run = deOutput env (dbKubeconfig d);
          answer = (\<lambda>cmd. case run cmd of (out, ok) \<Rightarrow> if ok then out else []);
          hostname = answer (''hostname | tr -d '' @ [apos, CHR 0x5C, CHR ''r'', CHR 0x5C, CHR ''n'', apos]);
          device0 = answer (''ip -4 -json route show default | jq -e -j '.[0]['' @ [CHR 0x22] @ ''dev'' @ [CHR 0x22, CHR '']'', apos]);
          device = (if device0 = [] then ''harvester-mgmt'' else device0);
          address = answer (''ip -4 -json address show dev '' @ device @ '' | jq -e -j '.[0]['' @ [CHR 0x22] @ ''addr_info'' @
                      [CHR 0x22] @ ''][0]['' @ [CHR 0x22] @ ''local'' @ [CHR 0x22, CHR '']'', apos]) in
      ''* Hostname: '' @ hostname @ [LF] @ ''* IP Address: '' @ address)"

definition doSyncNodeInfo :: "dashEnv \<Rightarrow> unit dboard" where
  "doSyncNodeInfo env = bindS (getS (getNodeInfo env)) (\<lambda>nodeIP. modS (\<lambda>d. d\<lparr>dbUpdates := dbUpdates d @ [(''nodeInfo'', nodeIP)]\<rparr>))"

definition k8sIsReady :: "dashEnv \<Rightarrow> dash \<Rightarrow> bool" where
  "k8sIsReady env d =
     (case deCombined env (dbKubeconfig d) (''kubectl get no -o jsonpath='{.items[*].metadata.name}'' @ [apos]) of
        (output, ok) \<Rightarrow> ok \<and> output \<noteq> [])"

definition chartCommand :: string where
  "chartCommand = ''kubectl -n fleet-local get ManagedChart harvester -o jsonpath='{.status.conditions}'' @ [apos] @
     '' | jq 'map(select(.type == '' @ [CHR 0x22] @ ''Ready'' @ [CHR 0x22] @ '' and .status == '' @ [CHR 0x22] @ ''True'' @ [CHR 0x22] @
     '')) | length'' @ [apos]"

definition chartIsInstalled :: "dashEnv \<Rightarrow> dash \<Rightarrow> bool" where
  "chartIsInstalled env d =
     (case deOutput env (dbKubeconfig d) chartCommand of
        (outStr, ok) \<Rightarrow>
          if \<not> ok then False
          else if length outStr = 0 then False
          else (case atoi (trimChar LF outStr) of Inl err \<Rightarrow> False | Inr processed \<Rightarrow> processed \<ge> 1))"

definition isAPIReady :: "dashEnv \<Rightarrow> dash \<Rightarrow> string \<Rightarrow> string \<Rightarrow> bool" where
  "isAPIReady env d managementURL path =
     (if \<not> hasPrefix (stManagementURL (dbCurrent d)) ''https://'' then False
      else snd (deCombined env (dbKubeconfig d) (''curl -fk '' @ managementURL @ path)))"

definition nodeIsPresent :: "dashEnv \<Rightarrow> dash \<Rightarrow> bool" where
  "nodeIsPresent env d =
     (case deHostname env of
        Inl err \<Rightarrow> False
      | Inr hostname \<Rightarrow> snd (deCombined env (dbKubeconfig d) (''kubectl get no '' @ hostname)))"

definition wrapColor :: "string \<Rightarrow> nat \<Rightarrow> string" where
  "wrapColor s color = [CHR 0x1B] @ ''[3'' @ showNat color @ '';7m'' @ s @ [CHR 0x1B] @ ''[0m''"

definition apiPath :: string where
  "apiPath = ''/v1/harvester/cluster/local''"

definition getHarvesterStatus :: "dashEnv \<Rightarrow> string dboard" where
  "getHarvesterStatus env = bindS (getS id) (\<lambda>d.
     if stFirstHost (dbCurrent d) \<and> \<not> stInstalled (dbCurrent d) \<and> (\<not> k8sIsReady env d \<or> \<not> chartIsInstalled env d)
     then retS statusSettingUpHarv
     else seqS (if stFirstHost (dbCurrent d) \<and> \<not> stInstalled (dbCurrent d)
                then modCurrent (\<lambda>c. c\<lparr>stInstalled := True\<rparr>) else retS ())
         (bindS (getS id) (\<lambda>d.
           if \<not> nodeIsPresent env d then retS (wrapColor statusNotReady colorYellow)
           else if isAPIReady env d (stManagementURL (dbCurrent d)) apiPath then retS (wrapColor statusReady colorGreen)
           else retS (wrapColor statusNotReady colorYellow))))"

definition getNodeStatus :: "dashEnv \<Rightarrow> string dboard" where
  "getNodeStatus env = bindS (getS id) (\<lambda>d.
     if stFirstHost (dbCurrent d) \<and> \<not> stInstalled (dbCurrent d) \<and> (\<not> k8sIsReady env d \<or> \<not> chartIsInstalled env d)
     then retS statusSettingUpNode
     else seqS (if stFirstHost (dbCurrent d) \<and> \<not> stInstalled (dbCurrent d)
                then modCurrent (\<lambda>c. c\<lparr>stInstalled := True\<rparr>) else retS ())
         (bindS (getS id) (\<lambda>d.
           if \<not> nodeIsPresent env d then retS (wrapColor statusNotReady colorYellow)
           else retS (wrapColor statusReady colorGreen))))"

definition doSyncHarvesterStatus :: "dashEnv \<Rightarrow> unit dboard" where
  "doSyncHarvesterStatus env = bindS (getHarvesterStatus env) (\<lambda>status.
     modS (\<lambda>d. d\<lparr>dbUpdates := dbUpdates d @ [(''clusterStatus'', ''* Status: '' @ status)]\<rparr>))"

definition doSyncNodeStatus :: "dashEnv \<Rightarrow> unit dboard" where
  "doSyncNodeStatus env = bindS (getNodeStatus env) (\<lambda>status.
     modS (\<lambda>d. d\<lparr>dbUpdates := dbUpdates d @ [(''nodeStatus'', ''* Status: '' @ status)]\<rparr>))"

text \<open>A round of the goroutine of a view, and a function given to \<^verbatim>\<open>g.Update\<close>.\<close>

definition syncRound :: "dashEnv \<Rightarrow> string \<Rightarrow> unit dboard" where
  "syncRound env name = bindS (getS dbSyncs) (\<lambda>syncs.
     if name \<notin> set syncs then retS ()
     else if name = ''managementUrl'' then doSyncManagementURL env
     else if name = ''clusterStatus'' then doSyncHarvesterStatus env
     else if name = ''nodeInfo'' then doSyncNodeInfo env
     else doSyncNodeStatus env)"

definition runUpdate :: "nat \<Rightarrow> unit dboard" where
  "runUpdate n = bindS (getS dbUpdates) (\<lambda>us.
     if length us \<le> n then retS ()
     else (case us ! n of (name, text) \<Rightarrow>
       seqS (modS (\<lambda>d. d\<lparr>dbUpdates := take n us @ drop (Suc n) us\<rparr>))
       (bindS (getS (\<lambda>d. guiView (dbGui d) name)) (\<lambda>v.
          case v of None \<Rightarrow> failS ErrUnknownView
                  | Some v \<Rightarrow> modS (\<lambda>d. d\<lparr>dbGui := writeView name text (clearView name (dbGui d))\<rparr>)))))"

section \<open>The way to a shell\<close>

text \<open>
  \<^verbatim>\<open>bufio.Scanner\<close> over lines: a carriage return at the end of a line is dropped, a last empty line is not
  reported, and a line that does not fit the buffer of 64 KiB with its end stops the scan.
\<close>

definition dropCR :: "string \<Rightarrow> string" where
  "dropCR line = (if line \<noteq> [] \<and> last line = CHR 0x0D then butlast line else line)"

definition scanLines :: "string \<Rightarrow> string list" where
  "scanLines content =
     (let lines = splitOn LF content;
          lines1 = (if last lines = [] then butlast lines else lines)
      in map dropCR (takeWhile (\<lambda>l. length l < 65536) lines1))"

definition validateAdminPassword :: "dashEnv \<Rightarrow> string \<Rightarrow> bool" where
  "validateAdminPassword env passwd =
     (case deShadow env of
        FileContent content \<Rightarrow>
          (case find (\<lambda>line. hasPrefix line ''rancher:'') (scanLines content) of
             None \<Rightarrow> False
           | Some line \<Rightarrow> CompareByShadow (deVerify env) passwd line)
      | _ \<Rightarrow> False)"

definition promptFrame :: "int \<Rightarrow> Panel" where
  "promptFrame maxX = SetLocation (maxX div 2 - 35) 10 (maxX div 2 + 35) 17 (NewPanel ''adminPasswordFrame'')"

definition promptInput :: "gui \<Rightarrow> Input" where
  "promptInput g = (let i = NewInput g ''adminPassword'' ''Input password: '' True in
     i\<lparr>inpPanel := SetLocation (gMaxX g div 2 - 30) 12 (gMaxX g div 2 + 30) 14 (inpPanel i)\<rparr>)"

definition promptValidator :: "int \<Rightarrow> Panel" where
  "promptValidator maxX =
     (SetLocation (maxX div 2 - 30) 14 (maxX div 2 + 30) 16 (NewPanel ''validator''))\<lparr>pnFocus := False\<rparr>"

text \<open>Key bindings are set only where the view is new; those of an open prompt stay.\<close>

definition toShell :: "unit dboard" where
  "toShell =
     seqS (modS (\<lambda>d. d\<lparr>dbCursor := True\<rparr>))
    (bindS (getS dbGui) (\<lambda>g0.
     bindS (onGui (Panel_Show (promptFrame (gMaxX g0)))) (\<lambda>frame.
     bindS (getS (\<lambda>d. guiView (dbGui d) (inputView (promptInput g0)) = None)) (\<lambda>new.
     bindS (onGui (Input_Show (promptInput g0))) (\<lambda>inp.
       if new then modS (\<lambda>d. d\<lparr>dbPrompt := Some (frame, inp, promptValidator (gMaxX g0))\<rparr>) else retS ())))))"

abbreviation "badPassword \<equiv> ''Invalid credential or password hash algorithm not supported.''"

definition promptEnter :: "dashEnv \<Rightarrow> unit dboard" where
  "promptEnter env = bindS (getS dbPrompt) (\<lambda>p.
     case p of None \<Rightarrow> retS ()
     | Some (frame, inp, validator) \<Rightarrow>
         bindS (bindS (getS dbGui) (\<lambda>g. liftS (Input_GetData inp g))) (\<lambda>passwd.
           if validateAdminPassword env passwd then failS ErrQuit
           else bindS (onGui (Panel_Show validator)) (\<lambda>v1.
                bindS (onGui (Panel_SetContent badPassword v1)) (\<lambda>v2.
                  modS (\<lambda>d. d\<lparr>dbPrompt := Some (frame, inp, v2)\<rparr>)))))"

definition promptEsc :: "unit dboard" where
  "promptEsc = bindS (getS dbPrompt) (\<lambda>p.
     case p of None \<Rightarrow> retS ()
     | Some (frame, inp, validator) \<Rightarrow>
         let close = (\<lambda>f. onGui (\<lambda>g. bindR (f g) (\<lambda>g1. Inr ((), g1)))) in
         seqS (modS (\<lambda>d. d\<lparr>dbCursor := False\<rparr>))
        (seqS (close (Panel_Close frame))
        (seqS (modS (\<lambda>d. d\<lparr>dbPrompt := None\<rparr>))
        (seqS (close (Input_Close inp)) (close (Panel_Close validator))))))"

section \<open>The main loop\<close>

text \<open>\<open>TypeText\<close> is what the editor of the focused input leaves in it.\<close>

datatype dashEv = KeyF12 | KeyEnter | KeyEsc | TypeText string | Resize int int | Update nat | Sync string

definition handleEvent :: "dashEnv \<Rightarrow> dashEv \<Rightarrow> unit dboard" where
  "handleEvent env ev =
     (case ev of
        KeyF12 \<Rightarrow> bindS (getS dbF12) (\<lambda>bound. if bound then toShell else retS ())
      | KeyEnter \<Rightarrow> promptEnter env
      | KeyEsc \<Rightarrow> promptEsc
      | TypeText text \<Rightarrow> modS (\<lambda>d. case dbPrompt d of None \<Rightarrow> d
                          | Some (frame, inp, validator) \<Rightarrow> d\<lparr>dbGui := writeView (inputView inp) text (clearView (inputView inp) (dbGui d))\<rparr>)
      | Resize x y \<Rightarrow> modS (\<lambda>d. d\<lparr>dbGui := (dbGui d)\<lparr>gMaxX := x, gMaxY := y\<rparr>\<rparr>)
      | Update n \<Rightarrow> runUpdate n
      | Sync name \<Rightarrow> syncRound env name)"

definition dashStep :: "string \<Rightarrow> dashEnv \<times> dashEv \<Rightarrow> unit dboard" where
  "dashStep logo e =
     (case e of (env, ev) \<Rightarrow>
        seqS (handleEvent env ev)
             (case ev of Sync name \<Rightarrow> retS () | _ \<Rightarrow> layoutDashboard logo env))"

definition MainLoop :: "string \<Rightarrow> dashEnv \<Rightarrow> (dashEnv \<times> dashEv) list \<Rightarrow> unit dboard" where
  "MainLoop logo env evs = seqS (layoutDashboard logo env) (forS (dashStep logo) evs)"

definition startDash :: "int \<Rightarrow> int \<Rightarrow> dash" where
  "startDash x y = \<lparr>dbGui = \<lparr>gMaxX = x, gMaxY = y, gViews = [], gCurrent = None\<rparr>,
     dbCurrent = \<lparr>stInstalled = False, stFirstHost = False, stManagementURL = []\<rparr>, dbOnce = False, dbKubeconfig = None,
     dbF12 = False, dbSyncs = [], dbUpdates = [], dbCursor = False, dbPrompt = None\<rparr>"

end
