(* ===== verification/Dashboard_Invariant.thy ===== *)
theory Dashboard_Invariant
  imports Dashboard
begin

text \<open>
  What every run of the dashboard keeps: the views of the screen exist once they have been laid out, the queued
  updates and the started goroutines belong to such views, the key bindings of the password prompt exist exactly
  while its input does, and the management URL is empty or made of an address. The handlers succeed from every such
  state (\<open>succeeds\<close>), and \<open>effect\<close> bounds what one step does to the texts of the screen and to the shared
  state; \<open>first_change\<close> then finds the step of a run at which a condition began to hold.
\<close>

section \<open>Buffers and sizes\<close>

definition bufOf :: "gui \<Rightarrow> string \<Rightarrow> string option" where
  "bufOf g n = map_option vwBuf (guiView g n)"

lemma bufOf_simps [simp]:
  "bufOf (writeView name s g) n = (if n = name then map_option (\<lambda>b. b @ s) (bufOf g n) else bufOf g n)"
  "bufOf (clearView name g) n = (if n = name then map_option (\<lambda>b. []) (bufOf g n) else bufOf g n)"
  "bufOf (g\<lparr>gCurrent := c\<rparr>) n = bufOf g n" "bufOf (g\<lparr>gMaxX := x\<rparr>) n = bufOf g n" "bufOf (g\<lparr>gMaxY := y\<rparr>) n = bufOf g n"
  by (simp_all add: bufOf_def option.map_comp comp_def) (simp_all add: guiView_def)

lemma bufOf_None: "bufOf g n = None \<longleftrightarrow> n \<notin> set (viewNames g)"
  by (simp add: bufOf_def guiView_None)

lemma viewNames_size [simp]: "viewNames (g\<lparr>gMaxX := x\<rparr>) = viewNames g" "viewNames (g\<lparr>gMaxY := y\<rparr>) = viewNames g"
  by (simp_all add: viewNames_def)

lemma gMaxX_write [simp]: "gMaxX (writeView n s g) = gMaxX g" "gMaxX (clearView n g) = gMaxX g"
  by (simp_all add: writeView_def clearView_def changeView_def)

lemma SetView_buf:
  assumes "SetView name x0 y0 x1 y1 g = Inr (g', new)"
  shows "bufOf g' n = (if n = name \<and> new then Some [] else bufOf g n)" "gMaxX g' = gMaxX g"
proof -
  have c: "map_option vwBuf (map_option (\<lambda>v. v\<lparr>vwWidth := w, vwHeight := h\<rparr>) o1) = map_option vwBuf o1" for w h o1
    by (cases o1) simp_all
  show "bufOf g' n = (if n = name \<and> new then Some [] else bufOf g n)"
  proof (cases new)
    case True
    then show ?thesis
      using SetView_new [of name x0 y0 x1 y1 g g'] assms
      by (auto simp: bufOf_def SetView_def guiView_def find_snoc split: if_splits option.splits)
  qed (use assms c in \<open>auto simp: bufOf_def SetView_def guiView_change split: if_splits option.splits\<close>)
  show "gMaxX g' = gMaxX g"
    using assms by (auto simp: SetView_def changeView_def split: if_splits option.splits)
qed

lemma SetView_succeeds:
  "x0 < x1 \<Longrightarrow> y0 < y1 \<Longrightarrow> name \<noteq> [] \<Longrightarrow> \<exists>g' new. SetView name x0 y0 x1 y1 g = Inr (g', new)"
  by (auto simp: SetView_def split: option.splits)

lemma find_remove1: "v \<in> set vs \<Longrightarrow> \<not> P v \<Longrightarrow> find P (remove1 v vs) = find P vs"
  by (induction vs) auto

lemma DeleteView_buf:
  assumes "DeleteView name g = Inr g'"
  shows "n \<noteq> name \<Longrightarrow> bufOf g' n = bufOf g n" "gMaxX g' = gMaxX g"
proof -
  from assms have m: "name \<in> set (viewNames g)" and g': "g' = g\<lparr>gViews := remove1 (the (guiView g name)) (gViews g)\<rparr>"
    by (auto simp: DeleteView_def split: if_splits)
  obtain v where v: "guiView g name = Some v" using m guiView_None [of g name] by auto
  then have "v \<in> set (gViews g)" "vwName v = name" by (auto simp: guiView_def find_Some_iff)
  then show "n \<noteq> name \<Longrightarrow> bufOf g' n = bufOf g n" "gMaxX g' = gMaxX g"
    using v by (simp_all add: g' bufOf_def guiView_def find_remove1)
qed

definition placed :: "Panel \<Rightarrow> bool" where
  "placed p \<longleftrightarrow> pnX0 p < pnX1 p \<and> pnY0 p < pnY1 p \<and> pnName p \<noteq> []"

lemma Panel_Show_placed:
  assumes "placed p"
  shows "\<exists>g'. Panel_Show p g = Inr (p, g') \<and> gMaxX g' = gMaxX g \<and>
    (\<forall>n. n \<noteq> pnName p \<longrightarrow> n \<noteq> ''footer'' \<longrightarrow> bufOf g' n = bufOf g n) \<and>
    (''footer'' \<in> set (viewNames g) \<longrightarrow> bufOf g' ''footer'' = Some (tipsText p))"
proof -
  have d: "defaultLocation g p = p" using assms by (auto simp: placed_def defaultLocation_def)
  obtain g1 new where sv: "SetView (pnName p) (pnX0 p) (pnY0 p) (pnX1 p) (pnY1 p) g = Inr (g1, new)"
    using SetView_succeeds [of "pnX0 p" "pnX1 p" "pnY0 p" "pnY1 p" "pnName p" g] assms by (auto simp: placed_def)
  note b = SetView_buf [OF sv] and nm = SetView_names [OF sv]
  define g2 where "g2 = (let w = if new then writeView (pnName p) (pnContent p) g1 else g1
    in if new \<and> pnFocus p then w\<lparr>gCurrent := Some (pnName p)\<rparr> else w)"
  have sc: "(if new \<and> pnFocus p then SetCurrentView (pnName p) (writeView (pnName p) (pnContent p) g1)
       else Inr (if new then writeView (pnName p) (pnContent p) g1 else g1)) = Inr g2"
    using nm(1) by (auto simp: g2_def Let_def view_simps)
  have vn: "viewNames g2 = viewNames g1" by (simp add: g2_def Let_def)
  define g3 where "g3 = (if guiView g2 ''footer'' = None then g2 else writeView ''footer'' (tipsText p) (clearView ''footer'' g2))"
  have sh: "Panel_Show p g = Inr (p, g3)"
    unfolding Panel_Show_def Let_def d sv bindR_simps prod.case sc g3_def ..
  have "gMaxX g3 = gMaxX g" using b(2) by (simp add: g3_def g2_def Let_def)
  moreover have "bufOf g3 n = bufOf g n" if "n \<noteq> pnName p" "n \<noteq> ''footer''" for n
    using b(1) [of n] that by (simp add: g3_def g2_def Let_def)
  moreover have "bufOf g3 ''footer'' = Some (tipsText p)" if "''footer'' \<in> set (viewNames g)"
  proof -
    have "''footer'' \<in> set (viewNames g2)" using that nm(1) vn by simp
    then obtain b2 where "bufOf g2 ''footer'' = Some b2" using bufOf_None [of g2 "''footer''"] by auto
    then show ?thesis using \<open>''footer'' \<in> set (viewNames g2)\<close> by (simp add: g3_def guiView_None)
  qed
  ultimately show ?thesis using sh by blast
qed

lemma Input_Show_placed:
  assumes "placed (inpPanel i)" "length (pnContent (inpPanel i)) \<le> 20" "pnX0 (inpPanel i) + 21 < pnX1 (inpPanel i)"
  shows "\<exists>g'. Input_Show i g = Inr (i, g') \<and> gMaxX g' = gMaxX g \<and>
    (\<forall>n. n \<noteq> pnName (inpPanel i) \<longrightarrow> n \<noteq> inputView i \<longrightarrow> n \<noteq> ''footer'' \<longrightarrow> bufOf g' n = bufOf g n) \<and>
    (''footer'' \<in> set (viewNames g) \<longrightarrow> inputView i \<noteq> ''footer'' \<longrightarrow> bufOf g' ''footer'' = Some (tipsText (inpPanel i)))"
proof -
  let ?p = "inpPanel i"
  obtain g1 where g1: "Panel_Show ?p g = Inr (?p, g1)" "gMaxX g1 = gMaxX g"
    "\<And>n. n \<noteq> pnName ?p \<Longrightarrow> n \<noteq> ''footer'' \<Longrightarrow> bufOf g1 n = bufOf g n"
    "''footer'' \<in> set (viewNames g) \<Longrightarrow> bufOf g1 ''footer'' = Some (tipsText ?p)"
    using Panel_Show_placed [OF assms(1), of g] by blast
  have ne: "inputView i \<noteq> []" by (simp add: inputView_def)
  obtain g2 new where sv: "SetView (inputView i) (pnX0 ?p + 20) (pnY0 ?p) (pnX1 ?p - 1) (pnY0 ?p + 2) g1 = Inr (g2, new)"
    using SetView_succeeds [of "pnX0 ?p + 20" "pnX1 ?p - 1" "pnY0 ?p" "pnY0 ?p + 2" "inputView i" g1] assms(3) ne by auto
  note b = SetView_buf [OF sv] and nm = SetView_names [OF sv]
  have "inputView i \<in> set (viewNames g2)" using nm(1) by simp
  then have "Input_Show i g = Inr (i, writeView (inputView i) (inpValue i) (clearView (inputView i) (g2\<lparr>gCurrent := Some (inputView i)\<rparr>)))"
    using assms(2) sv g1(1) by (simp add: Input_Show_def Let_def Input_SetData_def guiView_None SetCurrentView_def)
  then show ?thesis
    using g1 b by auto
qed

lemma Panel_Close_buf:
  assumes "Panel_Close p g = Inr g'"
  shows "n \<noteq> pnName p \<Longrightarrow> bufOf g' n = bufOf g n" "gMaxX g' = gMaxX g"
  using assms DeleteView_buf [of "pnName p" g g'] by (auto simp: Panel_Close_def split: if_splits)

lemma Input_Close_buf:
  assumes "Input_Close i g = Inr g'"
  shows "n \<noteq> pnName (inpPanel i) \<Longrightarrow> n \<noteq> inputView i \<Longrightarrow> bufOf g' n = bufOf g n" "gMaxX g' = gMaxX g"
proof -
  obtain g1 where g1: "DeleteView (inputView i) g = Inr g1" "Panel_Close (inpPanel i) g1 = Inr g'"
    using assms by (auto simp: Input_Close_def bindR_Inr)
  show "n \<noteq> pnName (inpPanel i) \<Longrightarrow> n \<noteq> inputView i \<Longrightarrow> bufOf g' n = bufOf g n"
    using DeleteView_buf(1) [OF g1(1)] Panel_Close_buf(1) [OF g1(2)] by simp
  show "gMaxX g' = gMaxX g"
    using DeleteView_buf(2) [OF g1(1)] Panel_Close_buf(2) [OF g1(2)] by simp
qed

section \<open>The invariant of the main loop\<close>

text \<open>A program that succeeds from every state of an invariant and keeps it.\<close>

definition succeeds :: "('s \<Rightarrow> bool) \<Rightarrow> ('s, 'a) prog \<Rightarrow> bool" where
  "succeeds I m \<longleftrightarrow> (\<forall>s. I s \<longrightarrow> (\<exists>x t. m s = (Inr x, t) \<and> I t))"

named_theorems succeeds_intros \<open>compositional rules for programs that succeed\<close>

lemma succeeds_basic [succeeds_intros]:
  "succeeds I (retS x)" "succeeds I (getS g)" "(\<And>s. I s \<Longrightarrow> I (f s)) \<Longrightarrow> succeeds I (modS f)"
  by (simp_all add: succeeds_def)

lemma succeeds_bindS [succeeds_intros]:
  "succeeds I m \<Longrightarrow> (\<And>x. succeeds I (k x)) \<Longrightarrow> succeeds I (bindS m k)"
  unfolding succeeds_def bindS_def by fastforce

lemma succeeds_get: "(\<And>s. I s \<Longrightarrow> \<exists>x t. k (g s) s = (Inr x, t) \<and> I t) \<Longrightarrow> succeeds I (bindS (getS g) k)"
  by (simp add: succeeds_def bindS_def)

lemma succeeds_seqS [succeeds_intros]: "succeeds I m \<Longrightarrow> succeeds I n \<Longrightarrow> succeeds I (seqS m n)"
  unfolding seqS_def by (rule succeeds_bindS)

lemma succeeds_if [succeeds_intros]:
  "(c \<Longrightarrow> succeeds I a) \<Longrightarrow> (\<not> c \<Longrightarrow> succeeds I b) \<Longrightarrow> succeeds I (if c then a else b)"
  by simp

lemma succeedsD: "succeeds I m \<Longrightarrow> I s \<Longrightarrow> \<exists>x t. m s = (Inr x, t) \<and> I t"
  by (simp add: succeeds_def)

definition syncNames :: "string set" where
  "syncNames = {''managementUrl'', ''clusterStatus'', ''nodeInfo'', ''nodeStatus''}"

abbreviation "inputName \<equiv> ''adminPassword-input''"
abbreviation "escTip \<equiv> ''<Use ESC to go back to previous page>''"

text \<open>
  The prompt: its bindings exist exactly while the view of its input does. The fixed geometry makes the
  validator's panel one that can be shown.
\<close>

definition promptOk :: "string set \<Rightarrow> (Panel \<times> Input \<times> Panel) option \<Rightarrow> bool" where
  "promptOk names p \<longleftrightarrow>
     (case p of
        None \<Rightarrow> inputName \<notin> names
      | Some (frame, inp, validator) \<Rightarrow>
          {inputName, ''adminPassword''} \<subseteq> names \<and>
          pnName frame = ''adminPasswordFrame'' \<and> pnName (inpPanel inp) = ''adminPassword'' \<and>
          pnName validator = ''validator'' \<and> placed validator \<and> pnX1 validator - pnX0 validator = 60 \<and>
          pnY1 validator - pnY0 validator = 2 \<and> \<not> pnWrap validator \<and> tipsText validator = escTip)"

definition urlOk :: "string \<Rightarrow> bool" where
  "urlOk url \<longleftrightarrow> url = [] \<or> (\<exists>ip. ip \<noteq> [] \<and> url = ''https://'' @ ip)"

text \<open>A view is known once it has been laid out: those of the started goroutines and queued updates are.\<close>

definition dashI :: "dash \<Rightarrow> bool" where
  "dashI d \<longleftrightarrow> distinct (viewNames (dbGui d)) \<and> 0 < gMaxX (dbGui d) \<and>
     fst ` set (dbUpdates d) \<union> set (dbSyncs d) \<subseteq> syncNames \<inter> set (viewNames (dbGui d)) \<and>
     promptOk (set (viewNames (dbGui d))) (dbPrompt d) \<and> urlOk (stManagementURL (dbCurrent d))"

lemma dashI_simps [simp]:
  "dashI (d\<lparr>dbOnce := b\<rparr>) = dashI d" "dashI (d\<lparr>dbKubeconfig := k\<rparr>) = dashI d" "dashI (d\<lparr>dbF12 := b\<rparr>) = dashI d"
  "dashI (d\<lparr>dbCursor := b\<rparr>) = dashI d"
  "dashI (d\<lparr>dbCurrent := (dbCurrent d)\<lparr>stInstalled := b\<rparr>\<rparr>) = dashI d"
  "dashI (d\<lparr>dbCurrent := (dbCurrent d)\<lparr>stFirstHost := b\<rparr>\<rparr>) = dashI d"
  by (simp_all add: dashI_def)

lemma dashI_prompt: "dashI d \<Longrightarrow> promptOk (set (viewNames (dbGui d))) (dbPrompt d)"
  by (simp add: dashI_def)

lemma dashI_sync: "dashI d \<Longrightarrow> name \<in> set (dbSyncs d) \<Longrightarrow> name \<in> syncNames \<and> name \<in> set (viewNames (dbGui d))"
  by (auto simp: dashI_def)

lemma dashI_queued:
  assumes "dashI d" "(name, s) \<in> set (dbUpdates d)"
  shows "name \<in> syncNames \<and> name \<in> set (viewNames (dbGui d))"
proof -
  have "fst (name, s) \<in> fst ` set (dbUpdates d)" using assms(2) by (rule imageI)
  moreover have "fst ` set (dbUpdates d) \<subseteq> syncNames \<inter> set (viewNames (dbGui d))" using assms(1) by (simp add: dashI_def)
  ultimately show ?thesis by auto
qed

lemma inputView_name: "pnName (inpPanel i) = ''adminPassword'' \<Longrightarrow> inputView i = inputName"
  by (simp add: inputView_def)

lemma dashI_gui:
  assumes "dashI d" "set (viewNames g) = set (viewNames (dbGui d))" "distinct (viewNames g)" "0 < gMaxX g"
  shows "dashI (d\<lparr>dbGui := g\<rparr>)"
  using assms by (simp add: dashI_def)

lemma promptOk_insert: "inputName \<noteq> name \<Longrightarrow> promptOk names p \<Longrightarrow> promptOk (insert name names) p"
  unfolding promptOk_def by (cases p) (simp_all split: prod.splits)

lemma dashI_more:
  assumes "dashI d" "set (viewNames g) = insert name (set (viewNames (dbGui d)))" "distinct (viewNames g)" "0 < gMaxX g"
    "inputName \<noteq> name"
  shows "dashI (d\<lparr>dbGui := g\<rparr>)"
  using assms(1-4) promptOk_insert [OF assms(5), of "set (viewNames (dbGui d))" "dbPrompt d"]
  by (simp add: dashI_def subset_insertI2)

lemma initState_keeps: "dashI d \<Longrightarrow> dashI (snd (initState env d))"
  by (auto simp: initState_def bindS_def modCurrent_def split: fileRead.splits sum.splits)

lemma onNew_succeeds:
  assumes "x0 < x1" "y0 < y1" "name \<noteq> []" "inputName \<noteq> name"
    and "\<And>d. dashI d \<Longrightarrow> name \<in> set (viewNames (dbGui d)) \<Longrightarrow> \<exists>u t. act d = (Inr u, t) \<and> dashI t"
  shows "succeeds dashI (onNew name x0 y0 x1 y1 act)"
proof -
  have "\<exists>u t. onNew name x0 y0 x1 y1 act d = (Inr u, t) \<and> dashI t" if d: "dashI d" for d
  proof -
    obtain g new where sv: "SetView name x0 y0 x1 y1 (dbGui d) = Inr (g, new)"
      using SetView_succeeds [OF assms(1-3)] by blast
    have g: "dashI (d\<lparr>dbGui := g\<rparr>)"
      using dashI_more [OF d SetView_names(1) [OF sv] SetView_names(3) [OF sv] _ assms(4)] SetView_buf(2) [OF sv] d
      by (simp add: dashI_def)
    show ?thesis
      using g assms(5) [OF g] SetView_names(1) [OF sv] by (auto simp: onNew_def bindS_def onGui_def sv)
  qed
  then show ?thesis by (simp add: succeeds_def)
qed

lemma printTo_dashI: "dashI d \<Longrightarrow> printTo name s d = (Inr (), d\<lparr>dbGui := writeView name s (dbGui d)\<rparr>) \<and> dashI (d\<lparr>dbGui := writeView name s (dbGui d)\<rparr>)"
  by (simp add: printTo_def dashI_def)

lemma printTo_succeeds [succeeds_intros]: "succeeds dashI (printTo name s)"
  using printTo_dashI by (simp add: succeeds_def)

lemma announce:
  assumes "dashI d" "name \<in> set (viewNames (dbGui d))" "name \<in> syncNames"
  shows "\<exists>u t. seqS (printTo name s) (goSync name) d = (Inr u, t) \<and> dashI t"
  using assms printTo_dashI [OF assms(1), of name s] by (simp add: bindS_run goSync_def) (auto simp: dashI_def)

lemma clusterPanel_succeeds: "succeeds dashI clusterPanel"
  unfolding clusterPanel_def
  by (intro succeeds_intros onNew_succeeds announce) (simp_all add: syncNames_def)

lemma nodePanel_succeeds: "succeeds dashI nodePanel"
  unfolding nodePanel_def
  by (intro succeeds_intros onNew_succeeds announce) (simp_all add: syncNames_def)

lemma footer_succeeds: "succeeds dashI footer"
  unfolding footer_def
proof (rule succeeds_get)
  fix d assume d: "dashI d"
  have "succeeds dashI (onNew ''footer'' 0 (gMaxY (dbGui d) - 2) (gMaxX (dbGui d)) (gMaxY (dbGui d)) (printTo ''footer'' footerText))"
  proof (rule onNew_succeeds)
    show "0 < gMaxX (dbGui d)" using d by (simp add: dashI_def)
    show "\<exists>u t. printTo ''footer'' footerText e = (Inr u, t) \<and> dashI t" if "dashI e" for e
      using succeedsD [OF printTo_succeeds that] .
  qed simp_all
  from succeedsD [OF this d]
  show "\<exists>u t. (case (gMaxX (dbGui d), gMaxY (dbGui d)) of (maxX, maxY) \<Rightarrow>
      onNew ''footer'' 0 (maxY - 2) maxX maxY (printTo ''footer'' footerText)) d = (Inr u, t) \<and> dashI t" by simp
qed

lemma logoPanel_succeeds: "succeeds dashI (logoPanel logo version)"
  unfolding logoPanel_def Let_def
  by (intro succeeds_intros onNew_succeeds succeedsD) simp_all

lemma layout_succeeds: "succeeds dashI (layoutDashboard logo env)"
  unfolding layoutDashboard_def
  by (intro succeeds_intros clusterPanel_succeeds nodePanel_succeeds footer_succeeds logoPanel_succeeds)
    (simp_all add: succeeds_def logErr_def initState_keeps)

section \<open>Handlers keep the invariant\<close>

text \<open>What the keys leave as it is, beside the views of the screen.\<close>

definition same :: "dash \<Rightarrow> dash \<Rightarrow> bool" where
  "same d t \<longleftrightarrow> dbUpdates t = dbUpdates d \<and> dbCurrent t = dbCurrent d \<and> dbOnce t = dbOnce d \<and> dbF12 t = dbF12 d"

lemma dashI_update: "dashI d \<Longrightarrow> name \<in> set (dbSyncs d) \<Longrightarrow> dashI (d\<lparr>dbUpdates := dbUpdates d @ [(name, s)]\<rparr>)"
  by (auto simp: dashI_def)

text \<open>Whether the first host is past its setup, as far as this round can tell.\<close>

definition settled :: "dashEnv \<Rightarrow> dash \<Rightarrow> bool" where
  "settled env d \<longleftrightarrow> (stFirstHost (dbCurrent d) \<and> \<not> stInstalled (dbCurrent d) \<longrightarrow> k8sIsReady env d \<and> chartIsInstalled env d)"

definition noteInstalled :: "dash \<Rightarrow> dash" where
  "noteInstalled d = d\<lparr>dbCurrent := (dbCurrent d)\<lparr>stInstalled := stInstalled (dbCurrent d) \<or> stFirstHost (dbCurrent d)\<rparr>\<rparr>"

lemma noteInstalled_simps [simp]:
  "dashI (noteInstalled d) = dashI d" "dbGui (noteInstalled d) = dbGui d" "dbSyncs (noteInstalled d) = dbSyncs d"
  "dbUpdates (noteInstalled d) = dbUpdates d" "dbOnce (noteInstalled d) = dbOnce d" "dbF12 (noteInstalled d) = dbF12 d" "dbPrompt (noteInstalled d) = dbPrompt d"
  "stFirstHost (dbCurrent (noteInstalled d)) = stFirstHost (dbCurrent d)"
  "stManagementURL (dbCurrent (noteInstalled d)) = stManagementURL (dbCurrent d)"
  "stInstalled (dbCurrent (noteInstalled d)) = (stInstalled (dbCurrent d) \<or> stFirstHost (dbCurrent d))"
  "nodeIsPresent env (noteInstalled d) = nodeIsPresent env d"
  "isAPIReady env (noteInstalled d) url path = isAPIReady env d url path"
  by (simp_all add: noteInstalled_def nodeIsPresent_def isAPIReady_def split: sum.split)

lemma status_write:
  "(if stFirstHost (dbCurrent d) \<and> \<not> stInstalled (dbCurrent d) then modCurrent (\<lambda>c. c\<lparr>stInstalled := True\<rparr>) else retS ()) d =
     (Inr (), noteInstalled d)"
proof -
  have "noteInstalled d = d" if "\<not> (stFirstHost (dbCurrent d) \<and> \<not> stInstalled (dbCurrent d))"
    using that by (cases d; cases "dbCurrent d") (auto simp: noteInstalled_def)
  then show ?thesis by (auto simp: modCurrent_def) (simp add: noteInstalled_def)
qed

lemma getHarvesterStatus_run:
  "getHarvesterStatus env d =
     (if settled env d
      then (Inr (if nodeIsPresent env d \<and> isAPIReady env d (stManagementURL (dbCurrent d)) apiPath
                 then wrapColor statusReady colorGreen else wrapColor statusNotReady colorYellow), noteInstalled d)
      else (Inr statusSettingUpHarv, d))"
proof -
  have b: "stFirstHost (dbCurrent d) \<and> \<not> stInstalled (dbCurrent d) \<and> (\<not> k8sIsReady env d \<or> \<not> chartIsInstalled env d) \<longleftrightarrow>
    \<not> settled env d" by (auto simp: settled_def)
  show ?thesis unfolding getHarvesterStatus_def by (cases "settled env d") (simp_all only: bindS_run getS_def sum.case prod.case id_apply b if_True if_False not_True_eq_False not_False_eq_True status_write, simp_all)
qed

lemma getNodeStatus_run:
  "getNodeStatus env d =
     (if settled env d
      then (Inr (if nodeIsPresent env d then wrapColor statusReady colorGreen else wrapColor statusNotReady colorYellow),
            noteInstalled d)
      else (Inr statusSettingUpNode, d))"
proof -
  have b: "stFirstHost (dbCurrent d) \<and> \<not> stInstalled (dbCurrent d) \<and> (\<not> k8sIsReady env d \<or> \<not> chartIsInstalled env d) \<longleftrightarrow>
    \<not> settled env d" by (auto simp: settled_def)
  show ?thesis unfolding getNodeStatus_def by (cases "settled env d") (simp_all only: bindS_run getS_def sum.case prod.case id_apply b if_True if_False not_True_eq_False not_False_eq_True status_write, simp_all)
qed

lemma syncRound_run:
  assumes "dashI d"
  shows "\<exists>t. syncRound env name d = (Inr (), t) \<and> dashI t \<and> dbGui t = dbGui d \<and> dbOnce t = dbOnce d \<and> dbF12 t = dbF12 d"
proof (cases "name \<in> set (dbSyncs d)")
  case False
  then show ?thesis using assms by (simp add: syncRound_def bindS_run)
next
  case True
  then have "name \<in> syncNames" using dashI_sync [OF assms] by blast
  then consider "name = ''managementUrl''" | "name = ''clusterStatus''" | "name = ''nodeInfo''" | "name = ''nodeStatus''"
    by (auto simp: syncNames_def)
  then show ?thesis
  proof cases
    case 1
    let ?c = "\<lambda>url. d\<lparr>dbCurrent := (dbCurrent d)\<lparr>stManagementURL := ''https://'' @ url\<rparr>\<rparr>"
    have "dashI (?c (getVIP env d))" if "getVIP env d \<noteq> []"
      using assms that by (simp add: dashI_def urlOk_def)
    then show ?thesis
      using 1 True assms dashI_update [of "?c (getVIP env d)"] dashI_update [of d]
      by (auto simp: syncRound_def doSyncManagementURL_def bindS_run modCurrent_def)
  next
    case 2
    then show ?thesis
      using True assms dashI_update [of "noteInstalled d"] dashI_update [of d]
      by (simp add: syncRound_def doSyncHarvesterStatus_def bindS_run getHarvesterStatus_run)
  next
    case 3
    then show ?thesis
      using True assms dashI_update [of d] by (simp add: syncRound_def doSyncNodeInfo_def bindS_run)
  next
    case 4
    then show ?thesis
      using True assms dashI_update [of "noteInstalled d"] dashI_update [of d]
      by (simp add: syncRound_def doSyncNodeStatus_def bindS_run getNodeStatus_run)
  qed
qed

lemma runUpdate_run:
  assumes "dashI d"
  shows "\<exists>t. runUpdate n d = (Inr (), t) \<and> dashI t \<and>
    (if length (dbUpdates d) \<le> n then t = d
     else t = d\<lparr>dbUpdates := take n (dbUpdates d) @ drop (Suc n) (dbUpdates d),
            dbGui := writeView (fst (dbUpdates d ! n)) (snd (dbUpdates d ! n)) (clearView (fst (dbUpdates d ! n)) (dbGui d))\<rparr>)"
proof (cases "length (dbUpdates d) \<le> n")
  case False
  obtain name s where u: "dbUpdates d ! n = (name, s)" by force
  then have m: "(name, s) \<in> set (dbUpdates d)" using False by (metis not_le nth_mem)
  then have "name \<in> set (viewNames (dbGui d))" using dashI_queued [OF assms] by blast
  then obtain v where v: "guiView (dbGui d) name = Some v" using guiView_None [of "dbGui d" name] by auto
  have sub: "set (take n (dbUpdates d) @ drop (Suc n) (dbUpdates d)) \<subseteq> set (dbUpdates d)"
    by (auto dest: in_set_takeD in_set_dropD)
  have "dashI (d\<lparr>dbUpdates := take n (dbUpdates d) @ drop (Suc n) (dbUpdates d),
            dbGui := writeView name s (clearView name (dbGui d))\<rparr>)"
    using assms image_mono [OF sub, of fst] unfolding dashI_def by simp (meson subset_trans)
  then show ?thesis using False u v by (simp add: runUpdate_def bindS_run)
qed (use assms in \<open>simp add: runUpdate_def bindS_run\<close>)

lemma prompt_placed:
  "placed (promptFrame x)" "placed (inpPanel (promptInput g))" "placed (promptValidator x)"
  "pnX0 (inpPanel (promptInput g)) + 21 < pnX1 (inpPanel (promptInput g))"
  "length (pnContent (inpPanel (promptInput g))) \<le> 20"
  by (simp_all add: placed_def promptFrame_def promptInput_def promptValidator_def NewPanel_def NewInput_def SetLocation_def)

lemma prompt_names:
  "pnName (promptFrame x) = ''adminPasswordFrame''" "pnName (inpPanel (promptInput g)) = ''adminPassword''"
  "pnName (promptValidator x) = ''validator''" "inputView (promptInput g) = inputName"
  by (simp_all add: promptFrame_def promptInput_def promptValidator_def NewPanel_def NewInput_def SetLocation_def inputView_def)

lemma toShell_run:
  assumes "dashI d"
  shows "\<exists>t. toShell d = (Inr (), t) \<and> dashI t \<and>
    (\<forall>n. n \<notin> {''adminPasswordFrame'', ''adminPassword'', inputName, ''footer''} \<longrightarrow> bufOf (dbGui t) n = bufOf (dbGui d) n) \<and>
    (''footer'' \<in> set (viewNames (dbGui d)) \<longrightarrow> bufOf (dbGui t) ''footer'' = Some escTip) \<and>
    same d t \<and> dbPrompt t \<noteq> None"
proof -
  let ?g = "dbGui d"
  let ?f = "promptFrame (gMaxX ?g)" and ?i = "promptInput ?g"
  obtain g1 where g1: "Panel_Show ?f ?g = Inr (?f, g1)" "gMaxX g1 = gMaxX ?g"
    "\<And>n. n \<noteq> ''adminPasswordFrame'' \<Longrightarrow> n \<noteq> ''footer'' \<Longrightarrow> bufOf g1 n = bufOf ?g n"
    using Panel_Show_placed [OF prompt_placed(1) [of "gMaxX ?g"], of ?g] by (auto simp: prompt_names)
  obtain g2 where g2: "Input_Show ?i g1 = Inr (?i, g2)" "gMaxX g2 = gMaxX g1"
    "\<And>n. n \<noteq> ''adminPassword'' \<Longrightarrow> n \<noteq> inputName \<Longrightarrow> n \<noteq> ''footer'' \<Longrightarrow> bufOf g2 n = bufOf g1 n"
    "''footer'' \<in> set (viewNames g1) \<Longrightarrow> bufOf g2 ''footer'' = Some (tipsText (inpPanel ?i))"
    using Input_Show_placed [OF prompt_placed(2) prompt_placed(5) prompt_placed(4), of ?g g1] by (auto simp: prompt_names)
  have tips: "tipsText (inpPanel ?i) = escTip"
    by (simp add: tipsText_def promptInput_def NewInput_def NewPanel_def SetLocation_def)
  note n1 = Panel_Show_ok [OF g1(1)] and n2 = Input_Show_ok [OF g2(1)]
  have names: "set (viewNames g2) = set (viewNames ?g) \<union> {''adminPasswordFrame'', ''adminPassword'', inputName}"
    using n1(1) n2(1) by (auto simp: prompt_names)
  have dist: "distinct (viewNames g2)" using assms n1(4) n2(4) by (simp add: dashI_def)
  define new where "new \<longleftrightarrow> guiView g1 (inputView ?i) = None"
  have new: "new \<longleftrightarrow> inputName \<notin> set (viewNames ?g)"
    using n1(1) by (simp add: new_def guiView_None prompt_names)
  define t where "t = (let u = d\<lparr>dbCursor := True, dbGui := g2\<rparr> in
    if new then u\<lparr>dbPrompt := Some (?f, ?i, promptValidator (gMaxX ?g))\<rparr> else u)"
  have run: "toShell d = (Inr (), t)"
    using g1(1) g2(1) by (simp add: toShell_def bindS_run onGui_def t_def new_def Let_def)
  have val: "pnX1 (promptValidator x) - pnX0 (promptValidator x) = 60" "pnY1 (promptValidator x) - pnY0 (promptValidator x) = 2"
    "\<not> pnWrap (promptValidator x)" "tipsText (promptValidator x) = escTip" for x
    by (simp_all add: promptValidator_def SetLocation_def NewPanel_def tipsText_def)
  have ok: "promptOk (set (viewNames g2)) (dbPrompt t)"
  proof (cases new)
    case True
    then show ?thesis by (simp add: t_def promptOk_def names prompt_names prompt_placed val)
  next
    case False
    then obtain f i v where p: "dbPrompt d = Some (f, i, v)"
      using dashI_prompt [OF assms] new by (cases "dbPrompt d") (auto simp: promptOk_def)
    then show ?thesis using dashI_prompt [OF assms] False by (simp add: t_def promptOk_def names)
  qed
  have t: "dbGui t = g2" "dbUpdates t = dbUpdates d" "dbSyncs t = dbSyncs d" "dbCurrent t = dbCurrent d" "same d t"
    by (simp_all add: t_def Let_def same_def)
  have "dashI t"
    using assms dist ok g1(2) g2(2) unfolding dashI_def t names by simp blast
  moreover have "bufOf g2 n = bufOf ?g n" if "n \<notin> {''adminPasswordFrame'', ''adminPassword'', inputName, ''footer''}" for n
    using that g1(3) [of n] g2(3) [of n] by (simp only: insert_iff empty_iff de_Morgan_disj simp_thms)
  moreover have "''footer'' \<in> set (viewNames ?g) \<Longrightarrow> bufOf g2 ''footer'' = Some (tipsText (inpPanel ?i))"
    using g2(4) n1(1) by blast
  moreover have "dbPrompt t \<noteq> None"
    using ok names by (cases "dbPrompt t") (simp_all add: promptOk_def)
  ultimately show ?thesis
    unfolding tips using run t by blast
qed

text \<open>Closing the prompt: what it opened goes, the rest stays.\<close>

lemma promptEsc_run:
  assumes "dashI d"
  shows "\<exists>t. promptEsc d = (Inr (), t) \<and> dashI t \<and>
    (\<forall>n. n \<notin> {''adminPasswordFrame'', ''adminPassword'', inputName, ''validator''} \<longrightarrow> bufOf (dbGui t) n = bufOf (dbGui d) n) \<and>
    same d t"
proof (cases "dbPrompt d")
  case None
  then show ?thesis using assms by (simp add: promptEsc_def bindS_run same_def)
next
  case (Some p)
  obtain f i v where p: "dbPrompt d = Some (f, i, v)" using Some by (cases p) auto
  let ?g = "dbGui d"
  have dist: "distinct (viewNames ?g)" using assms by (simp add: dashI_def)
  have nm: "pnName f = ''adminPasswordFrame''" "pnName (inpPanel i) = ''adminPassword''" "pnName v = ''validator''"
    and inp: "{inputName, ''adminPassword''} \<subseteq> set (viewNames ?g)"
    using dashI_prompt [OF assms] p by (simp_all add: promptOk_def)
  note iv = inputView_name [OF nm(2)]
  obtain g1 where g1: "Panel_Close f ?g = Inr g1" "set (viewNames g1) = set (viewNames ?g) - {pnName f}" "distinct (viewNames g1)"
    using Panel_Close_ok [OF dist] by blast
  have "{inputView i, pnName (inpPanel i)} \<subseteq> set (viewNames g1)"
    using inp unfolding g1(2) iv nm by auto
  then obtain g2 where g2: "Input_Close i g1 = Inr g2" using input.close_shown g1(3) by blast
  note n2 = input.close_names [OF g2 g1(3)] and d2 = input.close_distinct [OF g2 g1(3)]
  obtain g3 where g3: "Panel_Close v g2 = Inr g3" "set (viewNames g3) = set (viewNames g2) - {pnName v}" "distinct (viewNames g3)"
    using Panel_Close_ok [OF d2] by blast
  define t where "t = d\<lparr>dbCursor := False, dbPrompt := None, dbGui := g3\<rparr>"
  have run: "promptEsc d = (Inr (), t)"
    using p g1(1) g2 g3(1) by (simp add: promptEsc_def bindS_run Let_def onGui_def t_def)
  have names: "set (viewNames g3) = set (viewNames ?g) - {''adminPasswordFrame'', ''adminPassword'', inputName, ''validator''}"
    unfolding g3(2) n2 g1(2) iv nm by blast
  have sn: "syncNames \<inter> {''adminPasswordFrame'', ''adminPassword'', inputName, ''validator''} = {}"
    by (simp add: syncNames_def)
  have "inputName \<notin> set (viewNames g3)" by (simp add: names)
  moreover have "gMaxX g3 = gMaxX ?g"
    using Panel_Close_buf(2) [OF g1(1)] Input_Close_buf(2) [OF g2] Panel_Close_buf(2) [OF g3(1)] by simp
  moreover have "syncNames \<inter> set (viewNames g3) = syncNames \<inter> set (viewNames ?g)" using sn names by blast
  ultimately have "dashI t"
    using assms g3(3) by (simp add: dashI_def t_def promptOk_def del: Int_subset_iff)
  moreover have "bufOf g3 n = bufOf ?g n" if "n \<notin> {''adminPasswordFrame'', ''adminPassword'', inputName, ''validator''}" for n
    using that Panel_Close_buf(1) [OF g1(1), of n] Input_Close_buf(1) [OF g2, of n] Panel_Close_buf(1) [OF g3(1), of n]
    unfolding iv nm by (simp only: insert_iff empty_iff de_Morgan_disj simp_thms)
  ultimately show ?thesis using run by (auto simp: t_def same_def)
qed

text \<open>The enter key either ends the main loop, with an accepted password, or complains.\<close>

definition typed :: "dash \<Rightarrow> string" where
  "typed d = (case bufOf (dbGui d) inputName of None \<Rightarrow> [] | Some b \<Rightarrow> (case bufferLines b of [] \<Rightarrow> [] | l # ls \<Rightarrow> l))"

lemma bad_password_fits: "formatContent badPassword 59 1 False True = Inr badPassword"
  by (simp add: formatContent_def truncateLines_def)

lemma typed_get:
  assumes "dashI d" "dbPrompt d = Some (f, i, v)"
  shows "Input_GetData i (dbGui d) = Inr (typed d)"
proof -
  have iv: "inputView i = inputName" and inp: "inputName \<in> set (viewNames (dbGui d))"
    using dashI_prompt [OF assms(1)] assms(2) by (simp_all add: promptOk_def inputView_name)
  obtain w where "guiView (dbGui d) inputName = Some w" using guiView_None [of "dbGui d" inputName] inp by auto
  then show ?thesis by (simp add: Input_GetData_def iv typed_def bufOf_def)
qed

lemma promptEnter_accepts:
  assumes "dashI d" "dbPrompt d \<noteq> None" "validateAdminPassword env (typed d)"
  shows "promptEnter env d = (Inl ErrQuit, d)"
proof -
  obtain f i v where p: "dbPrompt d = Some (f, i, v)" using assms(2) by auto
  show ?thesis using p typed_get [OF assms(1) p] assms(3) by (simp add: promptEnter_def bindS_run)
qed

lemma promptEnter_run:
  assumes "dashI d"
  shows "(dbPrompt d \<noteq> None \<and> validateAdminPassword env (typed d) \<and> promptEnter env d = (Inl ErrQuit, d)) \<or>
    (\<exists>t. promptEnter env d = (Inr (), t) \<and> dashI t \<and>
      (\<forall>n. n \<noteq> ''validator'' \<longrightarrow> n \<noteq> ''footer'' \<longrightarrow> bufOf (dbGui t) n = bufOf (dbGui d) n) \<and>
      (''footer'' \<in> set (viewNames (dbGui d)) \<longrightarrow> dbPrompt d \<noteq> None \<longrightarrow> bufOf (dbGui t) ''footer'' = Some escTip) \<and>
      (dbPrompt d = None \<longrightarrow> t = d) \<and> same d t)"
proof (cases "dbPrompt d")
  case None
  then show ?thesis using assms by (simp add: promptEnter_def bindS_run same_def)
next
  case (Some p)
  obtain f i v where p: "dbPrompt d = Some (f, i, v)" using Some by (cases p) auto
  let ?g = "dbGui d"
  have nm: "pnName (inpPanel i) = ''adminPassword''" "pnName v = ''validator''"
    and v: "placed v" "pnX1 v - pnX0 v = 60" "pnY1 v - pnY0 v = 2" "\<not> pnWrap v" "tipsText v = escTip"
    using dashI_prompt [OF assms] p by (simp_all add: promptOk_def)
  note get = typed_get [OF assms p]
  show ?thesis
  proof (cases "validateAdminPassword env (typed d)")
    case True
    then show ?thesis using p get by (simp add: promptEnter_def bindS_run)
  next
    case False
    obtain g1 where g1: "Panel_Show v ?g = Inr (v, g1)" "gMaxX g1 = gMaxX ?g"
      "\<And>n. n \<noteq> pnName v \<Longrightarrow> n \<noteq> ''footer'' \<Longrightarrow> bufOf g1 n = bufOf ?g n"
      "''footer'' \<in> set (viewNames ?g) \<Longrightarrow> bufOf g1 ''footer'' = Some (tipsText v)"
      using Panel_Show_placed [OF v(1), of ?g] by blast
    note n1 = Panel_Show_ok [OF g1(1)]
    have vn: "guiView g1 (pnName v) \<noteq> None" using n1(1) guiView_None [of g1 "pnName v"] by simp
    let ?v = "v\<lparr>pnContent := badPassword\<rparr>" and ?g2 = "writeView (pnName v) badPassword (clearView (pnName v) g1)"
    have set: "Panel_SetContent badPassword v g1 = Inr (?v, ?g2)"
      using v vn bad_password_fits by (auto simp: Panel_SetContent_def Let_def)
    let ?t = "d\<lparr>dbGui := ?g2, dbPrompt := Some (f, i, ?v)\<rparr>"
    have run: "promptEnter env d = (Inr (), ?t)"
      using p get False g1(1) set by (simp add: promptEnter_def bindS_run onGui_def)
    have dn: "distinct (viewNames ?g2)" "set (viewNames ?g2) = insert ''validator'' (set (viewNames ?g))" "0 < gMaxX ?g2"
      using n1 assms nm g1(2) by (simp_all add: dashI_def)
    have "dashI (d\<lparr>dbGui := ?g2\<rparr>)" by (rule dashI_more [OF assms dn(2,1,3)]) simp
    moreover have "tipsText ?v = tipsText v" by (simp add: tipsText_def)
    ultimately have "dashI ?t" using p by (simp add: dashI_def promptOk_def placed_def)
    moreover have "bufOf ?g2 n = bufOf ?g n" if "n \<noteq> ''validator''" "n \<noteq> ''footer''" for n
      using g1(3) [of n] that unfolding nm bufOf_simps by (simp only: if_False simp_thms)
    moreover have "bufOf ?g2 ''footer'' = Some escTip" if "''footer'' \<in> set (viewNames ?g)"
      using g1(4) [OF that] v(5) by (simp add: nm)
    ultimately show ?thesis using run p by (auto simp: same_def)
  qed
qed

section \<open>Laying out again\<close>

text \<open>
  What a layout may do from a state \<open>d\<close> on: add views, start goroutines, learn the role of the node. The
  views that are there keep their text.
\<close>

definition grows :: "dash \<Rightarrow> dash \<Rightarrow> bool" where
  "grows d t \<longleftrightarrow> (\<forall>n b. bufOf (dbGui d) n = Some b \<longrightarrow> bufOf (dbGui t) n = Some b) \<and> dbUpdates t = dbUpdates d \<and>
     stInstalled (dbCurrent t) = stInstalled (dbCurrent d) \<and> dbPrompt t = dbPrompt d \<and> (dbF12 d \<longrightarrow> dbF12 t) \<and> (dbOnce d \<longrightarrow> dbOnce t)"

lemma grows_refl [simp]: "grows d d"
  by (simp add: grows_def)

lemma keeps_grows: "keeps (grows d) m \<Longrightarrow> m d = (r, t) \<Longrightarrow> grows d t"
  by (metis grows_refl keepsD)

lemma grows_names: "grows d t \<Longrightarrow> n \<in> set (viewNames (dbGui d)) \<Longrightarrow> n \<in> set (viewNames (dbGui t))"
  using bufOf_None [of "dbGui d" n] bufOf_None [of "dbGui t" n] by (auto simp: grows_def)

lemma goSync_grows [keeps_intros]: "keeps (grows d) (goSync name)"
  unfolding goSync_def by (rule keeps_basic) (simp add: grows_def)

lemma printTo_grows: "bufOf (dbGui d) name = None \<Longrightarrow> keeps (grows d) (printTo name s)"
  unfolding printTo_def by (rule keeps_basic) (auto simp: grows_def)

lemma onNew_grows [keeps_intros]:
  assumes "bufOf (dbGui d) name = None \<Longrightarrow> keeps (grows d) act"
  shows "keeps (grows d) (onNew name x0 y0 x1 y1 act)"
proof -
  have "grows d (snd (onNew name x0 y0 x1 y1 act s))" if g: "grows d s" for s
  proof (cases "SetView name x0 y0 x1 y1 (dbGui s)")
    case (Inl e)
    then show ?thesis using g by (simp add: onNew_def bindS_run onGui_def)
  next
    case (Inr r)
    obtain g' new where sv: "SetView name x0 y0 x1 y1 (dbGui s) = Inr (g', new)" using Inr by (cases r) auto
    have fresh: "bufOf (dbGui d) name = None" if new
      using that SetView_names(2) [OF sv] grows_names [OF g] bufOf_None by blast
    have "grows d (s\<lparr>dbGui := g'\<rparr>)"
      using g fresh SetView_buf(1) [OF sv] by (auto simp: grows_def)
    then show ?thesis
      using assms fresh by (auto simp: onNew_def bindS_run onGui_def sv keeps_def)
  qed
  then show ?thesis by (simp add: keeps_def)
qed

lemma initState_grows: "grows d s \<Longrightarrow> grows d (snd (initState env s))"
  by (auto simp: initState_def bindS_def modCurrent_def grows_def split: fileRead.splits sum.splits)

lemma once_grows: "keeps (grows d) (bindS (getS dbOnce) (\<lambda>done. if done then retS ()
     else seqS (modS (\<lambda>d. d\<lparr>dbOnce := True\<rparr>)) (seqS (logErr (initState env)) (modS (\<lambda>d. d\<lparr>dbF12 := True\<rparr>)))))"
  by (intro keeps_intros) (simp_all add: keeps_def logErr_def initState_grows, simp_all add: grows_def)

lemma panels_grow:
  "keeps (grows d) clusterPanel" "keeps (grows d) nodePanel" "keeps (grows d) footer" "keeps (grows d) (logoPanel logo version)"
  unfolding clusterPanel_def nodePanel_def footer_def logoPanel_def Let_def split_def
  by (intro keeps_intros printTo_grows; assumption)+

lemma layout_grows: "layoutDashboard logo env d = (r, t) \<Longrightarrow> grows d t"
proof -
  have "keeps (grows d) (layoutDashboard logo env)"
    unfolding layoutDashboard_def by (intro keeps_seqS once_grows panels_grow)
  then show "layoutDashboard logo env d = (r, t) \<Longrightarrow> grows d t" by (rule keeps_grows)
qed

text \<open>The screen after a layout: the views are there, and the key is bound.\<close>

definition laid :: "dash \<Rightarrow> bool" where
  "laid d \<longleftrightarrow> dbOnce d \<and> dbF12 d \<and> {''footer'', ''clusterStatus'', ''managementUrl'', ''nodeInfo'', ''nodeStatus''} \<subseteq> set (viewNames (dbGui d))"

lemma laid_grows: "laid d \<Longrightarrow> grows d t \<Longrightarrow> laid t"
  using grows_names [of d t] unfolding laid_def by (simp add: grows_def)

definition adds :: "string \<Rightarrow> 'a dboard \<Rightarrow> bool" where
  "adds n m \<longleftrightarrow> (\<forall>d u t. m d = (Inr u, t) \<longrightarrow> n \<in> set (viewNames (dbGui t)))"

lemma adds_onNew:
  assumes "\<And>s. viewNames (dbGui (snd (act s))) = viewNames (dbGui s)"
  shows "adds name (onNew name x0 y0 x1 y1 act)"
  unfolding adds_def
proof (intro allI impI)
  fix d u t assume run: "onNew name x0 y0 x1 y1 act d = (Inr u, t)"
  obtain g new where sv: "SetView name x0 y0 x1 y1 (dbGui d) = Inr (g, new)"
    using run by (cases "SetView name x0 y0 x1 y1 (dbGui d)") (auto simp: onNew_def bindS_run onGui_def)
  have m: "name \<in> set (viewNames g)" using SetView_names(1) [OF sv] by simp
  have "(if new then act else retS ()) (d\<lparr>dbGui := g\<rparr>) = (Inr u, t)"
    using run by (simp add: onNew_def bindS_run onGui_def sv)
  then show "name \<in> set (viewNames (dbGui t))"
    using assms [of "d\<lparr>dbGui := g\<rparr>"] m by (auto split: if_splits)
qed

lemma adds_seq:
  "adds n b \<Longrightarrow> adds n (seqS a b)" "adds n a \<Longrightarrow> (\<And>d. keeps (grows d) b) \<Longrightarrow> adds n (seqS a b)"
  unfolding adds_def seqS_Inr using keeps_grows grows_names by blast+

lemma adds_get: "(\<And>x. adds n (k x)) \<Longrightarrow> adds n (bindS (getS g) k)"
  by (simp add: adds_def bindS_def)

lemma names_kept:
  "viewNames (dbGui (snd (printTo name s d))) = viewNames (dbGui d)"
  "viewNames (dbGui (snd (seqS (printTo name s) (goSync name') d))) = viewNames (dbGui d)"
  by (simp_all add: printTo_def goSync_def bindS_run)

lemma panels_add:
  "adds ''managementUrl'' clusterPanel" "adds ''clusterStatus'' clusterPanel" "adds ''nodeInfo'' nodePanel"
  "adds ''nodeStatus'' nodePanel" "adds ''footer'' footer"
  unfolding clusterPanel_def nodePanel_def footer_def split_def
  subgoal by (intro adds_get) (rule adds_seq(1), rule adds_seq(2), rule adds_onNew, rule names_kept, intro keeps_intros printTo_grows)
  subgoal by (intro adds_get) (rule adds_seq(1), rule adds_seq(1), rule adds_onNew, rule names_kept)
  subgoal by (intro adds_get) (rule adds_seq(1), rule adds_seq(2), rule adds_onNew, rule names_kept, intro keeps_intros printTo_grows)
  subgoal by (intro adds_get) (rule adds_seq(1), rule adds_seq(1), rule adds_onNew, rule names_kept)
  subgoal by (intro adds_get) (rule adds_onNew, rule names_kept)
  done

lemma once_done:
  assumes "bindS (getS dbOnce) (\<lambda>done. if done then retS ()
     else seqS (modS (\<lambda>d. d\<lparr>dbOnce := True\<rparr>)) (seqS (logErr (initState env)) (modS (\<lambda>d. d\<lparr>dbF12 := True\<rparr>)))) d = (Inr u, t)"
    "dbOnce d \<longrightarrow> dbF12 d"
  shows "dbOnce t \<and> dbF12 t"
proof -
  have "dbOnce (snd (initState env e)) = dbOnce e" for e
    by (auto simp: initState_def bindS_def modCurrent_def split: fileRead.splits sum.splits)
  moreover from assms(1) have "t = (if dbOnce d then d else (snd (initState env (d\<lparr>dbOnce := True\<rparr>)))\<lparr>dbF12 := True\<rparr>)"
    by (simp add: bindS_run logErr_def split: if_splits)
  ultimately show ?thesis using assms(2) by simp
qed

lemma layout_laid:
  assumes "layoutDashboard logo env d = (Inr u, t)" "dbOnce d \<longrightarrow> dbF12 d"
  shows "laid t"
proof -
  let ?rest = "seqS clusterPanel (seqS nodePanel (seqS footer (logoPanel logo (deVersion env))))"
  have "adds n (layoutDashboard logo env)" if "adds n ?rest" for n
    unfolding layoutDashboard_def using that by (rule adds_seq(1))
  moreover have "adds n ?rest" if "adds n clusterPanel" for n
    using that by (rule adds_seq(2)) (intro keeps_seqS panels_grow)
  moreover have "adds n ?rest" if "adds n nodePanel" for n
    using that by (intro adds_seq(1) [of n _ clusterPanel] adds_seq(2) keeps_seqS panels_grow)
  moreover have "adds n ?rest" if "adds n footer" for n
    using that by (intro adds_seq(1) [of n _ clusterPanel] adds_seq(1) [of n _ nodePanel] adds_seq(2) panels_grow)
  ultimately have add: "adds n (layoutDashboard logo env)" if "adds n clusterPanel \<or> adds n nodePanel \<or> adds n footer" for n
    using that by blast
  obtain d1 where l: "bindS (getS dbOnce) (\<lambda>done. if done then retS ()
     else seqS (modS (\<lambda>d. d\<lparr>dbOnce := True\<rparr>)) (seqS (logErr (initState env)) (modS (\<lambda>d. d\<lparr>dbF12 := True\<rparr>)))) d = (Inr (), d1)"
    and rest: "seqS clusterPanel (seqS nodePanel (seqS footer (logoPanel logo (deVersion env)))) d1 = (Inr u, t)"
    using assms(1) unfolding layoutDashboard_def seqS_Inr by blast
  have "keeps (grows d1) (seqS clusterPanel (seqS nodePanel (seqS footer (logoPanel logo (deVersion env)))))"
    by (intro keeps_seqS panels_grow)
  then have "grows d1 t" using rest by (rule keeps_grows)
  then have "dbOnce t \<and> dbF12 t" using once_done [OF l assms(2)] by (simp add: grows_def)
  then show ?thesis
    using add panels_add assms(1) unfolding laid_def adds_def [of _ "layoutDashboard logo env"] by blast
qed

section \<open>One step\<close>

definition readyText :: string where
  "readyText = ''* Status: '' @ wrapColor statusReady colorGreen"

text \<open>The screen says that the cluster is ready, or is about to.\<close>

definition claimed :: "dash \<Rightarrow> bool" where
  "claimed d \<longleftrightarrow> (''clusterStatus'', readyText) \<in> set (dbUpdates d) \<or> bufOf (dbGui d) ''clusterStatus'' = Some readyText"

definition readyNow :: "dashEnv \<Rightarrow> dash \<Rightarrow> bool" where
  "readyNow env d \<longleftrightarrow> settled env d \<and> nodeIsPresent env d \<and> isAPIReady env d (stManagementURL (dbCurrent d)) apiPath"

definition effect :: "dashEnv \<Rightarrow> dashEv \<Rightarrow> dash \<Rightarrow> dash \<Rightarrow> bool" where
  "effect env ev d t \<longleftrightarrow>
     (claimed t \<longrightarrow> claimed d \<or> ev = Sync ''clusterStatus'' \<and> readyNow env d) \<and>
     (stInstalled (dbCurrent t) \<longrightarrow> stInstalled (dbCurrent d) \<or>
        (\<exists>name. ev = Sync name) \<and> stFirstHost (dbCurrent d) \<and> k8sIsReady env d \<and> chartIsInstalled env d) \<and>
     (stInstalled (dbCurrent d) \<longrightarrow> stInstalled (dbCurrent t)) \<and>
     (bufOf (dbGui t) ''footer'' = Some footerText \<longrightarrow> bufOf (dbGui d) ''footer'' = Some footerText \<and> ev \<noteq> KeyF12)"

definition up :: "dash \<Rightarrow> bool" where
  "up d \<longleftrightarrow> dashI d \<and> laid d"

lemma laidI:
  assumes "laid d" "dbOnce t = dbOnce d" "dbF12 t = dbF12 d"
    "bufOf (dbGui t) ''footer'' \<noteq> None" "\<And>n. n \<in> syncNames \<Longrightarrow> bufOf (dbGui t) n = bufOf (dbGui d) n"
  shows "laid t"
proof -
  have "n \<in> set (viewNames (dbGui t))" if "n \<in> syncNames" for n
    using assms(1) assms(5) [OF that] that bufOf_None [of "dbGui t" n] bufOf_None [of "dbGui d" n]
    unfolding laid_def syncNames_def by auto
  then show ?thesis
    using assms(1-4) bufOf_None [of "dbGui t" "''footer''"] unfolding laid_def syncNames_def by simp
qed

lemma effect_same:
  assumes "laid d" "same d t" "\<And>n. n \<in> syncNames \<Longrightarrow> bufOf (dbGui t) n = bufOf (dbGui d) n"
    "bufOf (dbGui t) ''footer'' = bufOf (dbGui d) ''footer'' \<and> ev \<noteq> KeyF12 \<or> bufOf (dbGui t) ''footer'' = Some escTip"
  shows "laid t \<and> effect env ev d t"
proof
  have "bufOf (dbGui d) ''footer'' \<noteq> None" using assms(1) unfolding bufOf_None laid_def by simp
  then show "laid t" using assms by (intro laidI [OF assms(1)]) (auto simp: same_def)
  have "bufOf (dbGui t) ''clusterStatus'' = bufOf (dbGui d) ''clusterStatus''" by (rule assms(3)) (simp add: syncNames_def)
  then show "effect env ev d t" using assms(2,4) by (auto simp: effect_def same_def claimed_def)
qed

text \<open>A layout after the event adds nothing to its effect.\<close>

lemma effect_grows:
  assumes "effect env ev d h" "laid h" "grows h t"
  shows "effect env ev d t"
proof -
  have "bufOf (dbGui t) n = bufOf (dbGui h) n" if "n \<in> set (viewNames (dbGui h))" for n
    using that assms(3) bufOf_None [of "dbGui h" n] by (auto simp: grows_def)
  then have "bufOf (dbGui t) ''footer'' = bufOf (dbGui h) ''footer''" "bufOf (dbGui t) ''clusterStatus'' = bufOf (dbGui h) ''clusterStatus''"
    using assms(2) by (simp_all add: laid_def)
  then show ?thesis
    using assms(1,3) unfolding effect_def claimed_def grows_def by simp
qed

lemma readyText_iff:
  "''* Status: '' @ s = readyText \<longleftrightarrow> s = wrapColor statusReady colorGreen"
  "wrapColor statusNotReady colorYellow \<noteq> wrapColor statusReady colorGreen"
  "statusSettingUpHarv \<noteq> wrapColor statusReady colorGreen"
  by (simp_all add: readyText_def wrapColor_def)

lemma syncRound_effect:
  assumes "dashI d" "syncRound env name d = (Inr (), t)"
  shows "effect env (Sync name) d t"
proof (cases "name \<in> set (dbSyncs d)")
  case False
  then show ?thesis using assms(2) by (simp add: syncRound_def bindS_run effect_def)
next
  case True
  have gui: "dbGui t = dbGui d" using syncRound_run [OF assms(1), of env name] assms(2) by auto
  consider "name = ''managementUrl''" | "name = ''clusterStatus''" | "name = ''nodeInfo''" | "name = ''nodeStatus''"
    using dashI_sync [OF assms(1) True] by (auto simp: syncNames_def)
  then show ?thesis
  proof cases
    case 1
    then show ?thesis
      using True assms(2)
      by (auto simp: syncRound_def doSyncManagementURL_def bindS_run modCurrent_def effect_def claimed_def split: if_splits)
  next
    case 2
    define st where "st = (if settled env d then if nodeIsPresent env d \<and> isAPIReady env d (stManagementURL (dbCurrent d)) apiPath
           then wrapColor statusReady colorGreen else wrapColor statusNotReady colorYellow else statusSettingUpHarv)"
    define n where "n = (if settled env d then noteInstalled d else d)"
    have "getHarvesterStatus env d = (Inr st, n)" by (simp add: getHarvesterStatus_run st_def n_def)
    then have t: "t = n\<lparr>dbUpdates := dbUpdates n @ [(''clusterStatus'', ''* Status: '' @ st)]\<rparr>"
      using 2 True assms(2) by (simp add: syncRound_def doSyncHarvesterStatus_def bindS_run)
    have "st = wrapColor statusReady colorGreen \<longleftrightarrow> readyNow env d"
      using readyText_iff(2,3) by (auto simp: st_def readyNow_def)
    then have "claimed t \<longleftrightarrow> claimed d \<or> readyNow env d"
      unfolding claimed_def gui readyText_iff(1) [of st, symmetric] by (auto simp: t n_def)
    then show ?thesis
      using 2 gui by (auto simp: t n_def effect_def settled_def)
  next
    case 3
    then show ?thesis
      using True assms(2) by (auto simp: syncRound_def doSyncNodeInfo_def bindS_run effect_def claimed_def)
  next
    case 4
    then show ?thesis
      using True assms(2)
      by (auto simp: syncRound_def doSyncNodeStatus_def bindS_run getNodeStatus_run effect_def claimed_def settled_def split: if_splits)
  qed
qed

lemma runUpdate_effect:
  assumes "up d" "runUpdate n d = (Inr (), t)"
  shows "laid t \<and> effect env (Update n) d t"
proof (cases "length (dbUpdates d) \<le> n")
  case True
  then show ?thesis using assms by (simp add: runUpdate_def bindS_run effect_def up_def)
next
  case False
  obtain name s where u: "dbUpdates d ! n = (name, s)" by force
  have m: "(name, s) \<in> set (dbUpdates d)" using False u by (metis not_le nth_mem)
  have i: "dashI d" and l: "laid d" using assms(1) by (simp_all add: up_def)
  have nm: "name \<in> syncNames" "name \<in> set (viewNames (dbGui d))" using dashI_queued [OF i m] by simp_all
  have t: "t = d\<lparr>dbUpdates := take n (dbUpdates d) @ drop (Suc n) (dbUpdates d),
            dbGui := writeView name s (clearView name (dbGui d))\<rparr>"
    using runUpdate_run [OF i, of n] assms(2) False u by auto
  have nf: "''footer'' \<noteq> name" using nm(1) by (auto simp: syncNames_def)
  obtain b where b: "bufOf (dbGui d) name = Some b" using nm(2) bufOf_None [of "dbGui d" name] by auto
  have fo: "bufOf (dbGui t) ''footer'' = bufOf (dbGui d) ''footer''" using nf by (simp add: t)
  have vn: "viewNames (dbGui t) = viewNames (dbGui d)" by (simp add: t)
  have "laid t" using l unfolding laid_def vn by (simp add: t)
  moreover have "claimed d" if "claimed t"
  proof -
    have sub: "set (dbUpdates t) \<subseteq> set (dbUpdates d)" by (auto simp: t dest: in_set_takeD in_set_dropD)
    have "bufOf (dbGui t) ''clusterStatus'' = (if ''clusterStatus'' = name then Some s else bufOf (dbGui d) ''clusterStatus'')"
      using b by (simp add: t)
    then show ?thesis
      using that m sub unfolding claimed_def by (auto split: if_splits)
  qed
  ultimately show ?thesis using fo by (auto simp: effect_def t)
qed

definition sizeOk :: "dashEv \<Rightarrow> bool" where
  "sizeOk ev = (case ev of Resize x y \<Rightarrow> 0 < x | _ \<Rightarrow> True)"

definition leaves :: "dashEnv \<Rightarrow> dashEv \<Rightarrow> dash \<Rightarrow> bool" where
  "leaves env ev d \<longleftrightarrow> ev = KeyEnter \<and> dbPrompt d \<noteq> None \<and> validateAdminPassword env (typed d)"

lemma away_from_syncs:
  assumes "n \<in> syncNames"
  shows "n \<notin> {''adminPasswordFrame'', ''adminPassword'', inputName, ''footer''}"
    "n \<notin> {''adminPasswordFrame'', ''adminPassword'', inputName, ''validator''}" "n \<noteq> ''validator''" "n \<noteq> ''footer''"
  using assms by (auto simp: syncNames_def)

lemma handle_key:
  assumes "up d" "handleEvent env ev d = (Inr (), t)" "dashI t" "same d t"
    "\<And>n. n \<in> syncNames \<Longrightarrow> bufOf (dbGui t) n = bufOf (dbGui d) n"
    "bufOf (dbGui t) ''footer'' = bufOf (dbGui d) ''footer'' \<and> ev \<noteq> KeyF12 \<or> bufOf (dbGui t) ''footer'' = Some escTip"
  shows "\<exists>h. handleEvent env ev d = (Inr (), h) \<and> up h \<and> effect env ev d h"
  using effect_same [OF _ assms(4-6)] assms(1-3) by (auto simp: up_def)

lemma up_parts:
  assumes "up d"
  shows "dashI d" "laid d" "''footer'' \<in> set (viewNames (dbGui d))" "dbF12 d"
  using assms by (simp_all add: up_def laid_def)

lemma handle_F12:
  assumes "up d"
  shows "\<exists>h. handleEvent env KeyF12 d = (Inr (), h) \<and> up h \<and> effect env KeyF12 d h"
proof -
  obtain t where t: "toShell d = (Inr (), t)" "dashI t" "same d t" "bufOf (dbGui t) ''footer'' = Some escTip"
    "\<And>n. n \<notin> {''adminPasswordFrame'', ''adminPassword'', inputName, ''footer''} \<Longrightarrow> bufOf (dbGui t) n = bufOf (dbGui d) n"
    using toShell_run [OF up_parts(1) [OF assms]] up_parts(3) [OF assms] by blast
  have run: "handleEvent env KeyF12 d = (Inr (), t)"
    using t(1) up_parts(4) [OF assms] by (simp add: handleEvent_def bindS_run)
  have "bufOf (dbGui t) n = bufOf (dbGui d) n" if "n \<in> syncNames" for n
    by (rule t(5), rule away_from_syncs(1) [OF that])
  from handle_key [OF assms run t(2,3) this disjI2 [OF t(4)]] show ?thesis .
qed

lemma handle_Esc:
  assumes "up d"
  shows "\<exists>h. handleEvent env KeyEsc d = (Inr (), h) \<and> up h \<and> effect env KeyEsc d h"
proof -
  obtain t where t: "promptEsc d = (Inr (), t)" "dashI t" "same d t"
    "\<And>n. n \<notin> {''adminPasswordFrame'', ''adminPassword'', inputName, ''validator''} \<Longrightarrow> bufOf (dbGui t) n = bufOf (dbGui d) n"
    using promptEsc_run [OF up_parts(1) [OF assms]] by blast
  have run: "handleEvent env KeyEsc d = (Inr (), t)" using t(1) by (simp add: handleEvent_def)
  have "bufOf (dbGui t) n = bufOf (dbGui d) n" if "n \<in> syncNames" for n
    by (rule t(4), rule away_from_syncs(2) [OF that])
  moreover have "bufOf (dbGui t) ''footer'' = bufOf (dbGui d) ''footer'' \<and> KeyEsc \<noteq> KeyF12" using t(4) [of "''footer''"] by simp
  ultimately show ?thesis using handle_key [OF assms run t(2,3) _ disjI1] by simp
qed

lemma handle_Enter:
  assumes "up d"
  shows "leaves env KeyEnter d \<and> handleEvent env KeyEnter d = (Inl ErrQuit, d) \<or>
    (\<exists>h. handleEvent env KeyEnter d = (Inr (), h) \<and> up h \<and> effect env KeyEnter d h)"
  using promptEnter_run [OF up_parts(1) [OF assms], of env]
proof
  assume "\<exists>t. promptEnter env d = (Inr (), t) \<and> dashI t \<and>
    (\<forall>n. n \<noteq> ''validator'' \<longrightarrow> n \<noteq> ''footer'' \<longrightarrow> bufOf (dbGui t) n = bufOf (dbGui d) n) \<and>
    (''footer'' \<in> set (viewNames (dbGui d)) \<longrightarrow> dbPrompt d \<noteq> None \<longrightarrow> bufOf (dbGui t) ''footer'' = Some escTip) \<and>
    (dbPrompt d = None \<longrightarrow> t = d) \<and> same d t"
  then obtain t where t: "promptEnter env d = (Inr (), t)" "dashI t"
    "\<forall>n. n \<noteq> ''validator'' \<longrightarrow> n \<noteq> ''footer'' \<longrightarrow> bufOf (dbGui t) n = bufOf (dbGui d) n"
    "''footer'' \<in> set (viewNames (dbGui d)) \<longrightarrow> dbPrompt d \<noteq> None \<longrightarrow> bufOf (dbGui t) ''footer'' = Some escTip"
    "dbPrompt d = None \<longrightarrow> t = d" "same d t"
    by (elim exE conjE) (rule that)
  have run: "handleEvent env KeyEnter d = (Inr (), t)" using t(1) by (simp add: handleEvent_def)
  have "bufOf (dbGui t) n = bufOf (dbGui d) n" if "n \<in> syncNames" for n
    using t(3) away_from_syncs(3,4) [OF that] by (simp only: simp_thms)
  moreover have "bufOf (dbGui t) ''footer'' = bufOf (dbGui d) ''footer'' \<and> KeyEnter \<noteq> KeyF12 \<or> bufOf (dbGui t) ''footer'' = Some escTip"
    using t(4,5) up_parts(3) [OF assms] by (cases "dbPrompt d = None") simp_all
  ultimately have "\<exists>h. handleEvent env KeyEnter d = (Inr (), h) \<and> up h \<and> effect env KeyEnter d h"
    by (rule handle_key [OF assms run t(2,6)])
  then show ?thesis ..
qed (simp add: handleEvent_def leaves_def)

lemma handle_Type:
  assumes "up d"
  shows "\<exists>h. handleEvent env (TypeText s) d = (Inr (), h) \<and> up h \<and> effect env (TypeText s) d h"
proof (cases "dbPrompt d")
  case None
  then show ?thesis using assms by (simp add: handleEvent_def effect_def)
next
  case (Some p)
  obtain f inp v where p: "dbPrompt d = Some (f, inp, v)" using Some by (cases p) auto
  then have iv: "inputView inp = inputName"
    using dashI_prompt [OF up_parts(1) [OF assms]] by (intro inputView_name) (simp add: promptOk_def)
  let ?t = "d\<lparr>dbGui := writeView inputName s (clearView inputName (dbGui d))\<rparr>"
  show ?thesis
  proof (rule handle_key [OF assms])
    show "handleEvent env (TypeText s) d = (Inr (), ?t)" using p iv by (simp add: handleEvent_def)
    show "dashI ?t" using up_parts(1) [OF assms] by (intro dashI_gui) (simp_all add: dashI_def)
    show "bufOf (dbGui ?t) n = bufOf (dbGui d) n" if "n \<in> syncNames" for n
      using that by (auto simp: syncNames_def)
  qed (simp_all add: same_def)
qed

lemma handle_Resize:
  assumes "up d" "0 < x"
  shows "\<exists>h. handleEvent env (Resize x y) d = (Inr (), h) \<and> up h \<and> effect env (Resize x y) d h"
proof (rule handle_key [OF assms(1)])
  let ?t = "d\<lparr>dbGui := (dbGui d)\<lparr>gMaxX := x, gMaxY := y\<rparr>\<rparr>"
  show "handleEvent env (Resize x y) d = (Inr (), ?t)" by (simp add: handleEvent_def)
  show "dashI ?t" using up_parts(1) [OF assms(1)] assms(2) by (intro dashI_gui) (simp_all add: dashI_def)
qed (simp_all add: same_def)

lemma handle_cases:
  assumes "up d" "sizeOk ev"
  shows "leaves env ev d \<and> handleEvent env ev d = (Inl ErrQuit, d) \<or>
    (\<exists>h. handleEvent env ev d = (Inr (), h) \<and> up h \<and> effect env ev d h)"
proof (cases ev)
  case KeyEnter
  then show ?thesis using handle_Enter [OF assms(1)] by simp
next
  case (Resize x y)
  then show ?thesis using handle_Resize [OF assms(1)] assms(2) by (simp add: sizeOk_def)
next
  case (Update n)
  obtain t where "runUpdate n d = (Inr (), t)" "dashI t" using runUpdate_run [OF up_parts(1) [OF assms(1)]] by blast
  then show ?thesis using runUpdate_effect [OF assms(1)] Update by (auto simp: handleEvent_def up_def)
next
  case (Sync name)
  note i = up_parts(1) [OF assms(1)]
  obtain t where t: "syncRound env name d = (Inr (), t)" "dashI t" "dbGui t = dbGui d" "dbOnce t = dbOnce d" "dbF12 t = dbF12 d"
    using syncRound_run [OF i] by blast
  then have "up t" using up_parts(2) [OF assms(1)] by (simp add: up_def laid_def)
  then show ?thesis using syncRound_effect [OF i t(1)] t(1) Sync by (auto simp: handleEvent_def)
qed (use handle_F12 [OF assms(1)] handle_Esc [OF assms(1)] handle_Type [OF assms(1)] in simp_all)

text \<open>A step of the main loop: the event, and the layout that follows it.\<close>

lemma dashStep_cases:
  assumes "up d" "sizeOk ev"
  shows "leaves env ev d \<and> dashStep logo (env, ev) d = (Inl ErrQuit, d) \<or>
    (\<exists>t. dashStep logo (env, ev) d = (Inr (), t) \<and> up t \<and> effect env ev d t)"
  using handle_cases [OF assms, of env]
proof
  assume "\<exists>h. handleEvent env ev d = (Inr (), h) \<and> up h \<and> effect env ev d h"
  then obtain h where h: "handleEvent env ev d = (Inr (), h)" "up h" "effect env ev d h" by blast
  obtain t where t: "layoutDashboard logo env h = (Inr (), t)" "dashI t"
    using succeedsD [OF layout_succeeds] h(2) by (fastforce simp: up_def)
  have g: "grows h t" by (rule layout_grows [OF t(1)])
  then have "up t" "effect env ev d t"
    using t(2) laid_grows [OF _ g] effect_grows [OF h(3) _ g] h(2) by (simp_all add: up_def)
  then show ?thesis using h t(1) by (cases ev) (auto simp: dashStep_def bindS_run)
qed (simp add: dashStep_def bindS_run)

section \<open>Runs\<close>

abbreviation sizesOk :: "(dashEnv \<times> dashEv) list \<Rightarrow> bool" where
  "sizesOk evs \<equiv> list_all (\<lambda>e. sizeOk (snd e)) evs"

lemma MainLoop_snoc: "MainLoop logo env (evs @ [e]) = seqS (MainLoop logo env evs) (dashStep logo e)"
  by (simp add: MainLoop_def forS_append seqS_assoc)

lemma startDash_I: "0 < x \<Longrightarrow> dashI (startDash x y)"
  by (simp add: dashI_def startDash_def viewNames_def promptOk_def urlOk_def)

lemma start_up:
  assumes "0 < x"
  shows "\<exists>t. MainLoop logo env [] (startDash x y) = (Inr (), t) \<and> up t"
proof -
  obtain t where "layoutDashboard logo env (startDash x y) = (Inr (), t)" "dashI t"
    using succeedsD [OF layout_succeeds startDash_I [OF assms]] by fastforce
  then show ?thesis using layout_laid by (fastforce simp: MainLoop_def up_def startDash_def)
qed

lemma MainLoop_cases:
  assumes "0 < x" "sizesOk evs"
  shows "(\<exists>d. MainLoop logo env evs (startDash x y) = (Inr (), d) \<and> up d) \<or>
    (\<exists>pre ek post d. evs = pre @ (ek, KeyEnter) # post \<and> MainLoop logo env pre (startDash x y) = (Inr (), d) \<and>
       leaves ek KeyEnter d \<and> MainLoop logo env evs (startDash x y) = (Inl ErrQuit, d))"
  using assms(2)
proof (induction evs rule: rev_induct)
  case Nil
  then show ?case using start_up [OF assms(1)] by blast
next
  case (snoc e evs)
  obtain ek ev where e: "e = (ek, ev)" by (cases e)
  have ok: "sizesOk evs" "sizeOk ev" using snoc.prems by (simp_all add: e)
  from snoc.IH [OF ok(1)] show ?case
  proof (elim disjE exE conjE)
    fix d assume d: "MainLoop logo env evs (startDash x y) = (Inr (), d)" "up d"
    from dashStep_cases [OF d(2) ok(2), of ek logo] show ?thesis
    proof (elim disjE exE conjE)
      assume l: "leaves ek ev d" "dashStep logo (ek, ev) d = (Inl ErrQuit, d)"
      then have "ev = KeyEnter" by (simp add: leaves_def)
      then show ?thesis using d(1) l by (auto simp: MainLoop_snoc bindS_run e intro!: disjI2)
    qed (simp add: MainLoop_snoc bindS_run e d(1))
  next
    fix pre ek' post d assume q: "evs = pre @ (ek', KeyEnter) # post" "MainLoop logo env pre (startDash x y) = (Inr (), d)"
      "leaves ek' KeyEnter d" "MainLoop logo env evs (startDash x y) = (Inl ErrQuit, d)"
    have "evs @ [e] = pre @ (ek', KeyEnter) # (post @ [e])" using q(1) by simp
    moreover have "MainLoop logo env (evs @ [e]) (startDash x y) = (Inl ErrQuit, d)" using q(4) by (simp add: MainLoop_snoc bindS_run)
    ultimately show ?thesis using q(2,3) by blast
  qed
qed

lemma MainLoop_up:
  assumes "0 < x" "sizesOk evs" "MainLoop logo env evs (startDash x y) = (Inr (), d)"
  shows "up d"
  using MainLoop_cases [OF assms(1,2), of logo env y] assms(3) by auto

text \<open>Where a condition that does not hold at the start begins to hold.\<close>

lemma first_change:
  assumes "0 < x" "sizesOk evs" "MainLoop logo env evs (startDash x y) = (Inr (), d)" "P d"
    "\<And>t. MainLoop logo env [] (startDash x y) = (Inr (), t) \<Longrightarrow> \<not> P t"
  shows "\<exists>pre ek ev post s t. evs = pre @ (ek, ev) # post \<and> MainLoop logo env pre (startDash x y) = (Inr (), s) \<and>
    \<not> P s \<and> effect ek ev s t \<and> P t"
  using assms(2-4)
proof (induction evs arbitrary: d rule: rev_induct)
  case Nil
  then show ?case using assms(5) by blast
next
  case (snoc e evs)
  obtain ek ev where e: "e = (ek, ev)" by (cases e)
  have ok: "sizesOk evs" "sizeOk ev" using snoc.prems by (simp_all add: e)
  obtain s where s: "MainLoop logo env evs (startDash x y) = (Inr (), s)" "dashStep logo e s = (Inr (), d)"
    using snoc.prems(2) unfolding MainLoop_snoc seqS_Inr by blast
  have "effect ek ev s d"
    using dashStep_cases [OF MainLoop_up [OF assms(1) ok(1) s(1)] ok(2), of ek logo] s(2) by (auto simp: e)
  then show ?case
  proof (cases "P s")
    case True
    obtain pre ek' ev' post s' t where "evs = pre @ (ek', ev') # post" "MainLoop logo env pre (startDash x y) = (Inr (), s')"
      "\<not> P s'" "effect ek' ev' s' t" "P t"
      using snoc.IH [OF ok(1) s(1) True] by blast
    moreover from this have "evs @ [e] = pre @ (ek', ev') # (post @ [e])" by simp
    ultimately show ?thesis by blast
  next
    case False
    then show ?thesis
      using \<open>effect ek ev s d\<close> s(1) snoc.prems(3) e by blast
  qed
qed

lemma unclaimed_start:
  assumes "MainLoop logo env [] (startDash x y) = (Inr (), t)"
  shows "\<not> stInstalled (dbCurrent t)" "\<not> claimed t"
proof -
  let ?N = "\<lambda>s. bufOf (dbGui s) ''clusterStatus'' \<noteq> Some readyText"
  have r: "last readyText = CHR ''m''" "readyText \<noteq> []" by (simp_all add: readyText_def wrapColor_def)
  have p: "keeps ?N (printTo name s)" if "name = ''clusterStatus'' \<Longrightarrow> s \<noteq> [] \<and> last s \<noteq> CHR ''m''" for name s
  proof -
    have "b @ s \<noteq> readyText" if "s \<noteq> []" "last s \<noteq> CHR ''m''" for b
      using that r(1) by (metis last_appendR)
    then show ?thesis using that unfolding printTo_def by (intro keeps_basic) auto
  qed
  have n: "keeps ?N (onNew name x0 y0 x1 y1 act)" if a: "keeps ?N act" for name x0 y0 x1 y1 act
    unfolding onNew_def
  proof (rule keeps_bindS)
    show "keeps ?N (onGui (\<lambda>g. bindR (SetView name x0 y0 x1 y1 g) (\<lambda>(g1, new). Inr (new, g1))))"
      using r(2) by (auto simp: keeps_def onGui_def bindR_def SetView_buf split: sum.splits prod.splits)
  qed (use a in \<open>simp add: keeps_basic\<close>)
  have g: "keeps ?N (goSync name)" for name unfolding goSync_def by (rule keeps_basic) simp
  have "dbGui (snd (initState env s)) = dbGui s" for s
    by (auto simp: initState_def bindS_def modCurrent_def split: fileRead.splits sum.splits)
  then have o: "keeps ?N (logErr (initState env))" by (simp add: keeps_def logErr_def)
  have "keeps ?N (layoutDashboard logo env)"
    unfolding layoutDashboard_def clusterPanel_def nodePanel_def footer_def logoPanel_def Let_def split_def
    by (intro keeps_intros n p g o) simp_all
  moreover have "?N (startDash x y)" by (simp add: startDash_def bufOf_def guiView_def)
  ultimately have "?N t" using assms by (auto simp: MainLoop_def dest: keepsD)
  moreover have "grows (startDash x y) t" using assms layout_grows by (auto simp: MainLoop_def)
  ultimately show "\<not> stInstalled (dbCurrent t)" "\<not> claimed t" by (auto simp: grows_def startDash_def claimed_def)
qed

end
