(* ===== verification/Dashboard_Props.thy ===== *)
theory Dashboard_Props
  imports Dashboard_Invariant
begin

text \<open>
  The properties of the dashboard: how it is left, what its status is worth, and what becomes of its footer.
\<close>

section \<open>Properties\<close>


text \<open>A step that is known, inside a run.\<close>

lemma run_step:
  assumes "0 < x" "sizesOk evs" "MainLoop logo env evs (startDash x y) = (Inr (), d)" "sizeOk ev" "\<not> leaves ek ev d"
  shows "\<exists>h t. handleEvent ek ev d = (Inr (), h) \<and> up h \<and> grows h t \<and> up t \<and>
    MainLoop logo env (evs @ [(ek, ev)]) (startDash x y) = (Inr (), t)"
proof -
  have d: "up d" by (rule MainLoop_up [OF assms(1-3)])
  obtain h where h: "handleEvent ek ev d = (Inr (), h)" "up h" using handle_cases [OF d assms(4), of ek] assms(5) by auto
  obtain t where t: "dashStep logo (ek, ev) d = (Inr (), t)" "up t" using dashStep_cases [OF d assms(4), of ek logo] assms(5) by auto
  have "t = h \<or> (\<exists>u. layoutDashboard logo ek h = (Inr u, t))"
    using t(1) h(1) by (cases ev) (auto simp: dashStep_def bindS_run)
  then have "grows h t" using layout_grows by auto
  then show ?thesis using h t assms(3) by (auto simp: MainLoop_snoc bindS_run)
qed

lemma password_leaves:
  assumes "0 < x" "sizesOk evs" "MainLoop logo env evs (startDash x y) = (Inr (), d)"
    "LF \<notin> set passwd" "validateAdminPassword e3 passwd"
  shows "fst (MainLoop logo env (evs @ [(e1, KeyF12), (e2, TypeText passwd), (e3, KeyEnter)]) (startDash x y)) = Inl ErrQuit"
proof -
  have d: "up d" by (rule MainLoop_up [OF assms(1-3)])
  obtain h1 t1 where h1: "handleEvent e1 KeyF12 d = (Inr (), h1)" "grows h1 t1" "up t1"
    "MainLoop logo env (evs @ [(e1, KeyF12)]) (startDash x y) = (Inr (), t1)"
    using run_step [OF assms(1-3), of KeyF12 e1] by (auto simp: sizeOk_def leaves_def)
  have p1: "dbPrompt t1 \<noteq> None"
    using h1(1,2) toShell_run [OF up_parts(1) [OF d]] up_parts(4) [OF d] by (auto simp: handleEvent_def bindS_run grows_def)
  then obtain f i v where p: "dbPrompt t1 = Some (f, i, v)" by auto
  obtain h2 t2 where h2: "handleEvent e2 (TypeText passwd) t1 = (Inr (), h2)" "grows h2 t2" "up t2"
    "MainLoop logo env ((evs @ [(e1, KeyF12)]) @ [(e2, TypeText passwd)]) (startDash x y) = (Inr (), t2)"
    using run_step [OF assms(1) _ h1(4), of "TypeText passwd" e2] assms(2) by (auto simp: sizeOk_def leaves_def)
  have iv: "inputView i = inputName" and m: "inputName \<in> set (viewNames (dbGui t1))"
    using dashI_prompt [OF up_parts(1) [OF h1(3)]] p by (simp_all add: promptOk_def inputView_name)
  obtain b where "bufOf (dbGui t1) inputName = Some b" using m bufOf_None [of "dbGui t1" inputName] by auto
  then have "bufOf (dbGui h2) inputName = Some passwd" "dbPrompt h2 = dbPrompt t1"
    using h2(1) p iv by (auto simp: handleEvent_def)
  then have b2: "bufOf (dbGui t2) inputName = Some passwd" and p2: "dbPrompt t2 \<noteq> None"
    using h2(2) p1 by (simp_all add: grows_def)
  have "splitOn LF passwd = [passwd]" if "LF \<notin> set passwd" for passwd :: string
    using that by (induction passwd) auto
  then have "typed t2 = passwd"
    using assms(4) by (auto simp: typed_def b2 bufferLines_def split: list.splits)
  then have "handleEvent e3 KeyEnter t2 = (Inl ErrQuit, t2)"
    using promptEnter_accepts [OF up_parts(1) [OF h2(3)] p2] assms(5) by (simp add: handleEvent_def)
  then have "dashStep logo (e3, KeyEnter) t2 = (Inl ErrQuit, t2)" by (simp add: dashStep_def bindS_run)
  then show ?thesis
    using h2(4) MainLoop_snoc [of logo env "(evs @ [(e1, KeyF12)]) @ [(e2, TypeText passwd)]" "(e3, KeyEnter)"]
    by (simp add: bindS_run)
qed

definition sampleDashEnv :: dashEnv where
  "sampleDashEnv = \<lparr>deRancherd = FileContent ''role: cluster-init'', deYaml = (\<lambda>s. Inr [(''role'', YStr ''cluster-init'')]),
     deShadow = FileContent (''root:*:1'' @ [LF] @ ''rancher:$6$salt$hash:1'' @ [LF]),
     deVerify = (\<lambda>c h k. c = sha512_crypt \<and> h = ''$6$salt$hash'' \<and> k = ''secret''), deVersion = ''v1.6.0'',
     deHostname = Inr ''node1'',
     deOutput = (\<lambda>k cmd. if cmd = chartCommand then (''1'' @ [LF], True) else (''10.0.0.5'', True)),
     deCombined = (\<lambda>k cmd. (''node1'', True))\<rparr>"

lemma sample_password:
  "validateAdminPassword sampleDashEnv ''secret''" "\<not> validateAdminPassword sampleDashEnv ''root''"
  by (simp_all add: validateAdminPassword_def sampleDashEnv_def scanLines_def dropCR_def hasPrefix_def CompareByShadow_def)

abbreviation "sampleKeys \<equiv> [(sampleDashEnv, KeyF12), (sampleDashEnv, TypeText ''secret''), (sampleDashEnv, KeyEnter)]"




lemma first_claim:
  assumes "0 < x" "sizesOk evs" "MainLoop logo env evs (startDash x y) = (Inr (), d)" "claimed d"
  shows "\<exists>pre ek ev post s t. evs = pre @ (ek, ev) # post \<and> MainLoop logo env pre (startDash x y) = (Inr (), s) \<and>
    \<not> claimed s \<and> effect ek ev s t \<and> claimed t"
  by (rule first_change [where P = claimed, OF assms]) (rule unclaimed_start(2))

lemma first_install:
  assumes "0 < x" "sizesOk evs" "MainLoop logo env evs (startDash x y) = (Inr (), d)" "stInstalled (dbCurrent d)"
  shows "\<exists>pre ek ev post s t. evs = pre @ (ek, ev) # post \<and> MainLoop logo env pre (startDash x y) = (Inr (), s) \<and>
    \<not> stInstalled (dbCurrent s) \<and> effect ek ev s t \<and> stInstalled (dbCurrent t)"
  by (rule first_change [where P = "\<lambda>s. stInstalled (dbCurrent s)", OF assms]) (rule unclaimed_start(1))

text \<open>C6: The console says that the cluster is ready only after a round in which the node was present, the API
  answered at the management URL, and, on the first host, after a round (this one or an earlier one) in which
  Kubernetes had a node and the Harvester chart was ready.
\<close>

theorem ready_is_earned:
  assumes "0 < x" "sizesOk evs" "MainLoop logo env evs (startDash x y) = (Inr (), d)"
    "bufOf (dbGui d) ''clusterStatus'' = Some readyText"
  shows "\<exists>pre ek post s. evs = pre @ (ek, Sync ''clusterStatus'') # post \<and> MainLoop logo env pre (startDash x y) = (Inr (), s) \<and>
    nodeIsPresent ek s \<and> isAPIReady ek s (stManagementURL (dbCurrent s)) apiPath \<and>
    (stFirstHost (dbCurrent s) \<longrightarrow> (\<exists>pre1 e1 name post1 s1. evs = pre1 @ (e1, Sync name) # post1 \<and> length pre1 \<le> length pre \<and>
       MainLoop logo env pre1 (startDash x y) = (Inr (), s1) \<and> k8sIsReady e1 s1 \<and> chartIsInstalled e1 s1))"
proof -
  have "claimed d" using assms(4) by (simp add: claimed_def)
  from first_claim [OF assms(1-3) this]
  obtain pre ek ev post s t where r: "evs = pre @ (ek, ev) # post" "MainLoop logo env pre (startDash x y) = (Inr (), s)"
    "\<not> claimed s" "effect ek ev s t" "claimed t" by (elim exE conjE) (rule that)
  then have ev: "ev = Sync ''clusterStatus''" and now: "readyNow ek s" by (auto simp: effect_def)
  have ok: "sizesOk pre" using assms(2) r(1) by simp
  have first: "\<exists>pre1 e1 name post1 s1. evs = pre1 @ (e1, Sync name) # post1 \<and> length pre1 \<le> length pre \<and>
      MainLoop logo env pre1 (startDash x y) = (Inr (), s1) \<and> k8sIsReady e1 s1 \<and> chartIsInstalled e1 s1"
    if "stFirstHost (dbCurrent s)"
  proof (cases "stInstalled (dbCurrent s)")
    case True
    from first_install [OF assms(1) ok r(2) True]
    obtain pre1 e1 ev1 post1 s1 t1 where q: "pre = pre1 @ (e1, ev1) # post1" "MainLoop logo env pre1 (startDash x y) = (Inr (), s1)"
      "\<not> stInstalled (dbCurrent s1)" "effect e1 ev1 s1 t1" "stInstalled (dbCurrent t1)" by (elim exE conjE) (rule that)
    then obtain name where "ev1 = Sync name" "k8sIsReady e1 s1" "chartIsInstalled e1 s1" by (auto simp: effect_def)
    moreover have "evs = pre1 @ (e1, ev1) # (post1 @ (ek, ev) # post)" "length pre1 \<le> length pre" using q(1) r(1) by simp_all
    ultimately show ?thesis using q(2) by blast
  next
    case False
    then have "k8sIsReady ek s" "chartIsInstalled ek s" using now that by (simp_all add: readyNow_def settled_def)
    then show ?thesis using r(1,2) ev by blast
  qed
  show ?thesis
    using r(1,2) ev now first unfolding readyNow_def by blast
qed

abbreviation "sampleRounds \<equiv> [(sampleDashEnv, Sync ''managementUrl''), (sampleDashEnv, Sync ''clusterStatus''), (sampleDashEnv, Update 1)]"

lemma sample_rounds:
  "case MainLoop [] sampleDashEnv sampleRounds (startDash 80 24) of
     (Inl e, d) \<Rightarrow> False | (Inr u, d) \<Rightarrow> bufOf (dbGui d) ''clusterStatus'' = Some readyText"
  by code_simp

theorem ready_is_earned_witness:
  "\<exists>pre ek post s. sampleRounds = pre @ (ek, Sync ''clusterStatus'') # post \<and>
    MainLoop [] sampleDashEnv pre (startDash 80 24) = (Inr (), s) \<and> nodeIsPresent ek s"
proof -
  obtain d where d: "MainLoop [] sampleDashEnv sampleRounds (startDash 80 24) = (Inr (), d)"
      "bufOf (dbGui d) ''clusterStatus'' = Some readyText"
    using sample_rounds by (cases "MainLoop [] sampleDashEnv sampleRounds (startDash 80 24)") (auto split: sum.splits)
  have "sizesOk sampleRounds" by (simp add: sizeOk_def)
  note earned = ready_is_earned [OF _ this d]
  have "0 < (80::int)" by simp
  from earned [OF this] show ?thesis by (elim exE conjE) (intro exI conjI, assumption+)
qed

text \<open>
  The hint at F12 that the footer shows does not survive its own use: once F12 has been pressed, the footer
  never says again that F12 leads to the shell, whatever follows (only a new view gets that text).
\<close>

theorem footer_hint_lost:
  assumes "0 < x" "sizesOk (pre @ (ek, KeyF12) # post)" "MainLoop logo env (pre @ (ek, KeyF12) # post) (startDash x y) = (Inr (), d)"
  shows "bufOf (dbGui d) ''footer'' \<noteq> Some footerText"
  using assms(2,3)
proof (induction post arbitrary: d rule: rev_induct)
  case Nil
  then show ?case
    using dashStep_cases [of _ KeyF12 ek logo] MainLoop_up [OF assms(1), of pre logo env y]
    by (fastforce simp: MainLoop_snoc seqS_Inr sizeOk_def leaves_def effect_def)
next
  case (snoc e post)
  obtain e1 ev where e: "e = (e1, ev)" by (cases e)
  let ?evs = "pre @ (ek, KeyF12) # post"
  obtain s where s: "MainLoop logo env ?evs (startDash x y) = (Inr (), s)" "dashStep logo e s = (Inr (), d)"
    using snoc.prems(2) MainLoop_snoc [of logo env ?evs e] by (auto simp: seqS_Inr)
  have ok: "sizesOk ?evs" "sizeOk ev" using snoc.prems(1) by (simp_all add: e)
  have "effect e1 ev s d"
    using dashStep_cases [OF MainLoop_up [OF assms(1) ok(1) s(1)] ok(2), of e1 logo] s(2) by (auto simp: e)
  then show ?case using snoc.IH [OF ok(1) s(1)] by (simp add: effect_def)
qed

theorem footer_hint_lost_witness:
  "\<exists>d. MainLoop [] sampleDashEnv ([] @ (sampleDashEnv, KeyF12) # [(sampleDashEnv, KeyEsc)]) (startDash 80 24) = (Inr (), d) \<and>
     bufOf (dbGui d) ''footer'' \<noteq> Some footerText"
proof -
  let ?evs = "[] @ (sampleDashEnv, KeyF12) # [(sampleDashEnv, KeyEsc)]"
  have ok: "sizesOk ?evs" by (simp add: sizeOk_def)
  have "(e, KeyEnter) \<notin> set ?evs" for e by simp
  then have "?evs \<noteq> pre @ (e, KeyEnter) # post" for pre e post by (metis in_set_conv_decomp)
  then obtain d where d: "MainLoop [] sampleDashEnv ?evs (startDash 80 24) = (Inr (), d)"
    using MainLoop_cases [of 80 ?evs "[]" sampleDashEnv 24] ok by auto
  have "bufOf (dbGui d) ''footer'' \<noteq> Some footerText" by (rule footer_hint_lost [OF _ ok d]) simp
  with d show ?thesis by (intro exI conjI)
qed

end
