(* ===== verification/Schema.thy ===== *)
theory Schema
  imports Config Cmdline
begin

text \<open>
  How a configuration is read from a generic map, as the kernel command line or a YAML file give it:
  the spellings of a field (\<^verbatim>\<open>rename.go\<close>), the conversion of its value to the type of the field
  (\<^verbatim>\<open>coerce.go\<close>, with \<^verbatim>\<open>convert.go\<close> of the mapper library), the loading functions (\<^verbatim>\<open>schemas.go\<close>,
  \<^verbatim>\<open>read.go\<close>), and the way back to environment variables and YAML (\<^verbatim>\<open>read.go\<close>, \<^verbatim>\<open>write.go\<close>).

  A map is an association list whose order is the order in which \<^verbatim>\<open>range\<close> visits it. The recursion of the
  mapper library into the structs below a field, the decoders of YAML and JSON, and the printing of nested values
  are parameters.
\<close>

section \<open>Values\<close>

text \<open>
  What an \<^verbatim>\<open>interface{}\<close> may hold here. \<open>JStrs\<close> and \<open>JStrMap\<close> are the typed \<^verbatim>\<open>[]string\<close> and
  \<^verbatim>\<open>map[string]string\<close> that the conversions make; \<open>JFloat\<close> names a floating point number by its text; \<open>JOther\<close>
  is any other value, with the text it prints as (a time in RFC 3339). \<open>JInt\<close> is an \<^verbatim>\<open>int\<close> or an \<^verbatim>\<open>int64\<close>: the first is
  printed and parsed again, which gives the same number.
\<close>

datatype jval =
    JNull
  | JStr string
  | JBool bool
  | JInt int
  | JUint nat
  | JFloat string
  | JStrs "string list"
  | JStrMap "string gomap"
  | JList "jval list"
  | JMap "(string \<times> jval) list"
  | JOther string

type_synonym jmap = "jval gomap"
type_synonym mapper = "jmap \<Rightarrow> jmap \<times> goerror option"
type_synonym converter = "jval \<Rightarrow> jval \<times> goerror option"

text \<open>\<open>cvSprint\<close> prints a nested value, \<open>cvTrunc\<close> and \<open>cvParseFloat\<close> are the operations on floating point numbers.\<close>

record convIO =
  cvSprint :: "jval \<Rightarrow> string"
  cvTrunc :: "string \<Rightarrow> int"
  cvParseFloat :: "string \<Rightarrow> string \<times> goerror option"

section \<open>Conversions of the mapper library\<close>

definition Singular :: "jval \<Rightarrow> jval" where
  "Singular value =
     (case value of
        JStrs ss \<Rightarrow> (case ss of [] \<Rightarrow> JNull | s # r \<Rightarrow> JStr s)
      | JList vs \<Rightarrow> (case vs of [] \<Rightarrow> JNull | v # r \<Rightarrow> v)
      | _ \<Rightarrow> value)"

definition sprint :: "convIO \<Rightarrow> jval \<Rightarrow> string" where
  "sprint io v =
     (case v of
        JStr s \<Rightarrow> s
      | JBool b \<Rightarrow> if b then ''true'' else ''false''
      | JInt i \<Rightarrow> showInt i
      | JUint n \<Rightarrow> showNat n
      | _ \<Rightarrow> cvSprint io v)"

definition ToStringNoTrim :: "convIO \<Rightarrow> jval \<Rightarrow> string" where
  "ToStringNoTrim io value =
     (case value of
        JOther t \<Rightarrow> t
      | _ \<Rightarrow> (case Singular value of JNull \<Rightarrow> [] | single \<Rightarrow> sprint io single))"

definition ToString :: "convIO \<Rightarrow> jval \<Rightarrow> string" where
  "ToString io value = trimSpace (ToStringNoTrim io value)"

definition ToBool :: "convIO \<Rightarrow> jval \<Rightarrow> bool" where
  "ToBool io value =
     (case Singular value of
        JBool b \<Rightarrow> b
      | single \<Rightarrow> toLower (ToString io single) \<in> {''true'', ''t'', ''yes'', ''y''})"

text \<open>\<^verbatim>\<open>strconv.ParseInt\<close> answers a number with an error too: 0, or the nearest one in range.\<close>

definition parseInt64 :: "string \<Rightarrow> int \<times> goerror option" where
  "parseInt64 s =
     (case parseInt10 ''ParseInt'' s of
        Inr i \<Rightarrow> (i, None)
      | Inl (NumRange f t) \<Rightarrow> (if hasPrefix s ''-'' then - (2 ^ 63) else 2 ^ 63 - 1, Some (NumRange f t))
      | Inl err \<Rightarrow> (0, Some err))"

definition ToNumber :: "convIO \<Rightarrow> jval \<Rightarrow> int \<times> goerror option" where
  "ToNumber io value =
     (case Singular value of
        JInt i \<Rightarrow> (i, None)
      | JFloat f \<Rightarrow> (cvTrunc io f, None)
      | single \<Rightarrow> parseInt64 (ToString io single))"

definition ToFloat :: "convIO \<Rightarrow> jval \<Rightarrow> string \<times> goerror option" where
  "ToFloat io value =
     (case Singular value of
        JFloat f \<Rightarrow> (f, None)
      | single \<Rightarrow> cvParseFloat io (ToString io single))"

definition ToStringSlice :: "convIO \<Rightarrow> jval \<Rightarrow> string list" where
  "ToStringSlice io data =
     (case data of JStrs v \<Rightarrow> v | JList v \<Rightarrow> map (ToString io) v | _ \<Rightarrow> [])"

text \<open>\<^verbatim>\<open>ToYAMLKey\<close>: \<open>cap\<close> says that only capital letters have been seen.\<close>

fun yamlRest :: "bool \<Rightarrow> string \<Rightarrow> string" where
  "yamlRest cap [] = []"
| "yamlRest cap (r # rs) =
     (if isUpperC r then (if cap then toLowerC r # yamlRest cap rs else CHR ''_'' # toLowerC r # yamlRest cap rs)
      else r # yamlRest False rs)"

definition ToYAMLKey :: "string \<Rightarrow> string" where
  "ToYAMLKey str = (case str of [] \<Rightarrow> [] | r # rs \<Rightarrow> toLowerC r # yamlRest (isUpperC r) rs)"

section \<open>Mappers\<close>

text \<open>\<^verbatim>\<open>NewErrors\<close>: no error, the only one, or all of them.\<close>

definition NewErrors :: "goerror option list \<Rightarrow> goerror option" where
  "NewErrors inErrors =
     (case [e. Some e \<leftarrow> inErrors] of
        [] \<Rightarrow> None
      | [e] \<Rightarrow> Some e
      | es \<Rightarrow> Some (Msg (strJoin '', '' (map errText es))))"

text \<open>\<^verbatim>\<open>Mappers.ToInternal\<close> runs the mappers from the last to the first, whether they fail or not.\<close>

fun runMappers :: "mapper list \<Rightarrow> jmap \<Rightarrow> jmap \<times> goerror option list" where
  "runMappers [] data = (data, [])"
| "runMappers (m # ms) data =
     (case m data of (data1, err) \<Rightarrow> (case runMappers ms data1 of (data2, errs) \<Rightarrow> (data2, err # errs)))"

definition Mappers_ToInternal :: "mapper list \<Rightarrow> mapper" where
  "Mappers_ToInternal ms data = (case runMappers (rev ms) data of (data1, errs) \<Rightarrow> (data1, NewErrors errs))"

definition fieldConverter :: "string \<Rightarrow> converter \<Rightarrow> mapper" where
  "fieldConverter fieldName conv data =
     (case mapGet data fieldName of
        None \<Rightarrow> (data, None)
      | Some val \<Rightarrow> (case conv val of (val1, err) \<Rightarrow>
          (mapPut fieldName val1 data, map_option (Wrap (''failed to convert field '' @ [CHR 0x22] @ fieldName @ [CHR 0x22])) err)))"

text \<open>
  \<^verbatim>\<open>typeConverter.ModifySchema\<close> collects a converter for each field of the type, in the order of \<^verbatim>\<open>range\<close>;
  \<^verbatim>\<open>typeConverter.ToInternal\<close> runs them. A schema is the list of its fields with their types.
\<close>

type_synonym fields = "(string \<times> string) list"

definition typeConverter_ModifySchema :: "string \<Rightarrow> converter \<Rightarrow> fields \<Rightarrow> mapper list" where
  "typeConverter_ModifySchema fieldType conv schema = [fieldConverter name conv. (name, ty) \<leftarrow> schema, ty = fieldType]"

definition typeConverter :: "string \<Rightarrow> converter \<Rightarrow> fields \<Rightarrow> mapper" where
  "typeConverter fieldType conv schema = Mappers_ToInternal (typeConverter_ModifySchema fieldType conv schema)"

definition toMap :: "convIO \<Rightarrow> converter" where
  "toMap io val = (case val of JMap m \<Rightarrow> (JStrMap (map (\<lambda>(k, v). (k, ToString io v)) m), None) | _ \<Rightarrow> (val, None))"

definition toSlice :: "convIO \<Rightarrow> converter" where
  "toSlice io val = (case val of JStr str \<Rightarrow> (JStrs [str], None) | _ \<Rightarrow> (JStrs (ToStringSlice io val), None))"

definition toBool :: "convIO \<Rightarrow> converter" where
  "toBool io val = (JBool (ToBool io val), None)"

definition toInt :: "convIO \<Rightarrow> converter" where
  "toInt io val =
     (if val = JNull \<or> val = JStr ''nil'' then (JNull, None)
      else (case ToNumber io val of (n, err) \<Rightarrow> (JInt n, err)))"

definition toFloat :: "convIO \<Rightarrow> converter" where
  "toFloat io val = (case ToFloat io val of (f, err) \<Rightarrow> (JFloat f, err))"

definition NewToMap :: "convIO \<Rightarrow> fields \<Rightarrow> mapper" where
  "NewToMap io = typeConverter ''map[string]'' (toMap io)"

definition NewToSlice :: "convIO \<Rightarrow> fields \<Rightarrow> mapper" where
  "NewToSlice io = typeConverter ''array[string]'' (toSlice io)"

definition NewToBool :: "convIO \<Rightarrow> fields \<Rightarrow> mapper" where
  "NewToBool io = typeConverter ''boolean'' (toBool io)"

definition NewToInt :: "convIO \<Rightarrow> fields \<Rightarrow> mapper" where
  "NewToInt io = typeConverter ''int'' (toInt io)"

definition NewToFloat :: "convIO \<Rightarrow> fields \<Rightarrow> mapper" where
  "NewToFloat io = typeConverter ''float'' (toFloat io)"

section \<open>Spellings of a field\<close>

definition addName :: "string \<Rightarrow> string \<Rightarrow> string gomap \<Rightarrow> string gomap" where
  "addName name toName names =
     mapPut (toLower (ToYAMLKey name)) toName (mapPut (ToYAMLKey name) toName (mapPut (toLower name) toName names))"

definition addFieldNames :: "string \<Rightarrow> string gomap \<Rightarrow> string gomap" where
  "addFieldNames name names =
     (let names1 = (if hasSuffix name ''s'' \<and> 1 < length name then addName (take (length name - 1) name) name names else names);
          names2 = (if hasSuffix name ''es'' \<and> 2 < length name then addName (take (length name - 2) name) name names1 else names1)
      in addName name name names2)"

definition FuzzyNames_ModifySchema :: "fields \<Rightarrow> string gomap" where
  "FuzzyNames_ModifySchema schema =
     mapPut ''password'' ''passphrase'' (mapPut ''pass'' ''passphrase''
       (foldl (\<lambda>names (name, ty). addFieldNames name names) [] schema))"

text \<open>
  One pass of the loop for a key that \<^verbatim>\<open>range\<close> visits, and the loop over the keys it visits: those of the map,
  in any order, and among the ones added meanwhile whichever the runtime picks.
\<close>

definition rename1 :: "string gomap \<Rightarrow> string \<Rightarrow> jmap \<Rightarrow> jmap" where
  "rename1 names k data =
     (case mapGet data k of
        None \<Rightarrow> data
      | Some v \<Rightarrow> (case mapGet names k of
          Some newK \<Rightarrow> if newK \<noteq> k then mapPut newK v data else data
        | None \<Rightarrow> data))"

definition FuzzyNames_ToInternal :: "string gomap \<Rightarrow> string list \<Rightarrow> jmap \<Rightarrow> jmap" where
  "FuzzyNames_ToInternal names visits data = foldl (\<lambda>d k. rename1 names k d) data visits"

definition FuzzyNames :: "fields \<Rightarrow> string list \<Rightarrow> mapper" where
  "FuzzyNames schema visits data = (FuzzyNames_ToInternal (FuzzyNames_ModifySchema schema) visits data, None)"

text \<open>The default mappers of a schema, and what they do to a map.\<close>

definition DefaultMappers :: "convIO \<Rightarrow> fields \<Rightarrow> string list \<Rightarrow> mapper list" where
  "DefaultMappers io schema visits =
     [NewToMap io schema, NewToSlice io schema, NewToBool io schema, NewToInt io schema, NewToFloat io schema,
      FuzzyNames schema visits]"

definition flatToInternal :: "convIO \<Rightarrow> fields \<Rightarrow> string list \<Rightarrow> mapper" where
  "flatToInternal io schema visits = Mappers_ToInternal (DefaultMappers io schema visits)"

section \<open>Loading\<close>

text \<open>
  \<open>ldUnmarshal\<close> is the YAML decoder, \<open>ldToInternal\<close> the mapper of the schema, \<open>ldToObj\<close> the way through JSON into a
  configuration (which a failure may leave partly filled), and \<open>ldMultiPath\<close>, \<open>ldOption2\<close>, \<open>ldOption1\<close> are the JSON of an
  unparsed value and its two decoders.
\<close>

record loadIO =
  ldUnmarshal :: "string \<Rightarrow> jmap result"
  ldToInternal :: mapper
  ldToObj :: "jmap \<Rightarrow> HarvesterConfig \<Rightarrow> HarvesterConfig \<times> goerror option"
  ldMultiPath :: "multiPath \<Rightarrow> string result"
  ldOption2 :: "string \<Rightarrow> MultiPathOption2 option"
  ldOption1 :: "string \<Rightarrow> DiskConfig list option"

definition ParseMultiPathConfig :: "loadIO \<Rightarrow> ExternalStorageConfig \<Rightarrow> ExternalStorageConfig result" where
  "ParseMultiPathConfig io esc =
     (if esMultiPathConfig esc = NoMultiPath then Inr esc
      else (case ldMultiPath io (esMultiPathConfig esc) of
        Inl err \<Rightarrow> Inl (Wrap ''failed to marshal multiPathConfig'' err)
      | Inr jsonBytes \<Rightarrow>
          (case ldOption2 io jsonBytes of
             Some mp \<Rightarrow> Inr (esc\<lparr>esMultiPathConfig := Option2 mp\<rparr>)
           | None \<Rightarrow> (case ldOption1 io jsonBytes of
               Some diskConfigs \<Rightarrow> Inr (esc\<lparr>esMultiPathConfig := Option1 diskConfigs\<rparr>)
             | None \<Rightarrow> Inl (Msg ''unsupported multiPathConfig format'')))))"

definition LoadHarvesterConfig :: "loadIO \<Rightarrow> string \<Rightarrow> HarvesterConfig \<times> goerror option" where
  "LoadHarvesterConfig io yamlBytes =
     (case ldUnmarshal io yamlBytes of
        Inl err \<Rightarrow> (NewHarvesterConfig, Some (Wrap ''failed to unmarshal yaml'' err))
      | Inr data \<Rightarrow> (case ldToInternal io data of
          (data1, Some err) \<Rightarrow> (NewHarvesterConfig, Some err)
        | (data1, None) \<Rightarrow> (case ldToObj io data1 NewHarvesterConfig of
            (result, Some err) \<Rightarrow> (result, Some (Wrap ''failed to convert to HarvesterConfig'' err))
          | (result, None) \<Rightarrow> (case ParseMultiPathConfig io (osExternalStorage (hOS result)) of
              Inl err \<Rightarrow> (result, Some (Wrap ''failed to parse external storage multi-path config'' err))
            | Inr esc \<Rightarrow> (result\<lparr>hOS := (hOS result)\<lparr>osExternalStorage := esc\<rparr>\<rparr>, None)))))"

definition readConfigFromMap :: "loadIO \<Rightarrow> jmap \<Rightarrow> HarvesterConfig \<times> goerror option" where
  "readConfigFromMap io data =
     (case ldToInternal io data of
        (data1, Some err) \<Rightarrow> (NewHarvesterConfig, Some err)
      | (data1, None) \<Rightarrow> ldToObj io data1 NewHarvesterConfig)"

text \<open>The values that the parser of the command line makes, as values of a generic map.\<close>

fun ofCval :: "cval \<Rightarrow> jval" where
  "ofCval (CStr s) = JStr s"
| "ofCval (CStrs ss) = JStrs ss"
| "ofCval (CIfs ms) = JList (map (\<lambda>m. JMap (map (\<lambda>(k, v). (k, JStr v)) m)) ms)"
| "ofCval (CUint n) = JUint n"
| "ofCval (CMap m) = JMap (map (\<lambda>(k, v). (k, ofCval v)) m)"

definition ReadConfig :: "loadIO \<Rightarrow> fileRead \<Rightarrow> HarvesterConfig \<times> goerror option" where
  "ReadConfig io cmdline =
     (case ReadCmdline cmdline ''harvester'' of
        (data, Some err) \<Rightarrow> (NewHarvesterConfig, Some err)
      | (data, None) \<Rightarrow> readConfigFromMap io (map (\<lambda>(k, v). (k, ofCval v)) data))"

definition cleanupFile :: "string \<Rightarrow> string" where
  "cleanupFile content =
     strJoin [CHR 0x0A] (filter (\<lambda>v. v \<noteq> ''#cloud-config'' \<and> v \<noteq> ''#!cloud-config'') (splitOn (CHR 0x0A) content))"

definition readUserData :: "loadIO \<Rightarrow> fileRead \<Rightarrow> HarvesterConfig \<times> goerror option" where
  "readUserData io file =
     (case file of
        FileMissing \<Rightarrow> (NewHarvesterConfig, None)
      | FileError err \<Rightarrow> (NewHarvesterConfig, Some err)
      | FileContent contents \<Rightarrow> LoadHarvesterConfig io (cleanupFile contents))"

section \<open>The way back\<close>

fun mapToEnv :: "(jval \<Rightarrow> string) \<Rightarrow> string \<Rightarrow> (string \<times> jval) list \<Rightarrow> string list" where
  "mapToEnv pr prefix [] = []"
| "mapToEnv pr prefix ((k, v) # data) =
     (let keyName = toUpper (prefix @ ToYAMLKey k) in
      (case v of JMap sub \<Rightarrow> mapToEnv pr (keyName @ ''_'') sub | _ \<Rightarrow> [keyName @ ''='' @ pr v]) @ mapToEnv pr prefix data)"

definition ToEnv :: "(jval \<Rightarrow> string) \<Rightarrow> string \<Rightarrow> jmap result \<Rightarrow> string list result" where
  "ToEnv pr prefix encoded = bindR encoded (\<lambda>data. Inr (mapToEnv pr prefix data))"

text \<open>
  \<^verbatim>\<open>toYAMLKeys\<close> changes the maps below in place before a key moves, and a key that has moved keeps its name, so
  visiting it again changes nothing.
\<close>

definition moveKey :: "string \<Rightarrow> jmap \<Rightarrow> jmap" where
  "moveKey k data =
     (case mapGet data k of
        None \<Rightarrow> data
      | Some v \<Rightarrow> (let newK = ToYAMLKey k in if newK \<noteq> k then mapPut newK v (mapDel k data) else data))"

definition moveKeys :: "jmap \<Rightarrow> jmap" where
  "moveKeys data = foldl (\<lambda>d k. moveKey k d) data (map fst data)"

fun yamlVal :: "jval \<Rightarrow> jval" where
  "yamlVal (JMap sub) = JMap (moveKeys (map (\<lambda>(k, v). (k, yamlVal v)) sub))"
| "yamlVal v = v"

definition toYAMLKeys :: "jmap \<Rightarrow> jmap" where
  "toYAMLKeys data = moveKeys (map (\<lambda>(k, v). (k, yamlVal v)) data)"

definition PrintInstall :: "(Install \<Rightarrow> jmap result) \<Rightarrow> (jmap \<Rightarrow> string result) \<Rightarrow> HarvesterConfig \<Rightarrow> string result" where
  "PrintInstall encode marshal cfg = bindR (encode (hInstall cfg)) (\<lambda>data. marshal (toYAMLKeys data))"

end
