(* ===== verification/Schema_Props.thy ===== *)
theory Schema_Props
  imports Schema "HOL-Library.Multiset"
begin

text \<open>
  What reading a generic map amounts to: the result holds under each field the value that was given under one of
  its spellings, converted to the type of the field, whatever the order in which the runtime visits the maps.
\<close>

section \<open>YAML keys\<close>

lemma toLowerC_upper [simp]: "\<not> isUpperC (toLowerC r)"
proof (cases "isUpperC r")
  case True
  then have "of_char r + 32 < (256::nat)" "\<not> of_char r + 32 \<le> (90::nat)" by (simp_all add: isUpperC_def)
  moreover from this(1) have "of_char (char_of (of_char r + 32 :: nat) :: char) = (of_char r + 32 :: nat)"
    by (simp only: of_char_of mod_less)
  ultimately show ?thesis using True by (simp add: toLowerC_def isUpperC_def [of "char_of _"])
qed (simp add: toLowerC_def)

lemma underscore_lower [simp]: "\<not> isUpperC (CHR ''_'')"
  by (simp add: isUpperC_def)

lemma yamlRest_lower: "r \<in> set (yamlRest cap s) \<Longrightarrow> \<not> isUpperC r"
  by (induction cap s rule: yamlRest.induct) (auto split: if_splits)

lemma yamlRest_id: "\<forall>r \<in> set s. \<not> isUpperC r \<Longrightarrow> yamlRest cap s = s"
  by (induction s arbitrary: cap) auto

lemma ToYAMLKey_lower: "r \<in> set (ToYAMLKey s) \<Longrightarrow> \<not> isUpperC r"
  by (cases s) (auto simp: ToYAMLKey_def dest: yamlRest_lower)

lemma ToYAMLKey_id: "(\<And>r. r \<in> set s \<Longrightarrow> \<not> isUpperC r) \<Longrightarrow> ToYAMLKey s = s"
  by (cases s) (simp_all add: ToYAMLKey_def yamlRest_id toLowerC_def)

lemma ToYAMLKey_idem [simp]: "ToYAMLKey (ToYAMLKey s) = ToYAMLKey s"
  by (rule ToYAMLKey_id) (rule ToYAMLKey_lower)

section \<open>Renaming\<close>

text \<open>The value given for a field: under its own name, or under another spelling.\<close>

definition spelled :: "string gomap \<Rightarrow> jmap \<Rightarrow> string \<Rightarrow> string \<Rightarrow> bool" where
  "spelled names data k f \<longleftrightarrow> mapGet data k \<noteq> None \<and> k \<noteq> f \<and> mapGet names k = Some f"

text \<open>No field is given twice, and the name of a field is not a spelling of another one.\<close>

definition unambiguous :: "string gomap \<Rightarrow> jmap \<Rightarrow> bool" where
  "unambiguous names data \<longleftrightarrow>
     (\<forall>k l f. spelled names data k f \<and> spelled names data l f \<longrightarrow> k = l) \<and>
     (\<forall>k f. spelled names data k f \<longrightarrow> mapGet data f = None \<and> mapGet names f \<in> {None, Some f})"

definition givenFor :: "string gomap \<Rightarrow> jmap \<Rightarrow> string \<Rightarrow> jval option \<Rightarrow> bool" where
  "givenFor names data f v \<longleftrightarrow>
     (case mapGet data f of
        Some w \<Rightarrow> v = Some w
      | None \<Rightarrow> (\<exists>k. spelled names data k f \<and> v = mapGet data k) \<or> (\<forall>k. \<not> spelled names data k f) \<and> v = None)"

lemma givenFor_unique: "unambiguous names data \<Longrightarrow> givenFor names data f v \<Longrightarrow> givenFor names data f w \<Longrightarrow> v = w"
  unfolding givenFor_def unambiguous_def by (auto split: option.splits)

lemma givenFor_exists: "\<exists>v. givenFor names data f v"
proof (cases "\<exists>k. spelled names data k f")
  case True
  then show ?thesis unfolding givenFor_def by (cases "mapGet data f") auto
next
  case False
  then show ?thesis unfolding givenFor_def by (cases "mapGet data f") auto
qed

text \<open>The loop so far: the keys of the start are untouched, and each spelling that was visited has been copied.\<close>

definition renamed :: "string gomap \<Rightarrow> jmap \<Rightarrow> string set \<Rightarrow> jmap \<Rightarrow> bool" where
  "renamed names data seen d \<longleftrightarrow>
     (\<forall>f. mapGet d f = (case mapGet data f of Some w \<Rightarrow> Some w
        | None \<Rightarrow> (if \<exists>k \<in> seen. spelled names data k f then mapGet data (THE k. spelled names data k f) else None)))"

lemma the_spelling: "unambiguous names data \<Longrightarrow> spelled names data k f \<Longrightarrow> (THE k. spelled names data k f) = k"
  unfolding unambiguous_def by blast

lemma renamed_step:
  assumes u: "unambiguous names data" and r: "renamed names data seen d"
  shows "renamed names data (insert k seen) (rename1 names k d)"
proof (cases "\<exists>f. spelled names data k f")
  case True
  then obtain f where f: "spelled names data k f" by blast
  then obtain v where v: "mapGet data k = Some v" and nf: "mapGet names k = Some f" "k \<noteq> f" by (auto simp: spelled_def)
  have dk: "mapGet d k = Some v" using r v by (simp add: renamed_def)
  have step: "rename1 names k d = mapPut f v d" using dk nf by (simp add: rename1_def)
  have only: "spelled names data k g \<longleftrightarrow> g = f" for g using f by (auto simp: spelled_def)
  have none: "mapGet data f = None" using u f by (simp add: unambiguous_def)
  have "(THE k. spelled names data k f) = k" by (rule the_spelling [OF u f])
  then show ?thesis
    using r none only v unfolding renamed_def step by (auto split: option.split)
next
  case False
  then have no: "\<not> spelled names data k f" for f by blast
  have "mapGet (rename1 names k d) f = mapGet d f" for f
  proof (cases "mapGet data k")
    case None
    show ?thesis
    proof (cases "mapGet d k")
      case (Some w)
      with None r obtain l where "spelled names data l k" by (auto simp: renamed_def split: if_splits)
      then have "mapGet names k \<in> {None, Some k}" using u by (simp add: unambiguous_def)
      then show ?thesis by (auto simp: rename1_def split: option.split)
    qed (simp add: rename1_def)
  next
    case (Some w)
    have "mapGet names k \<in> {None, Some k}"
    proof (cases "mapGet names k")
      case (Some a)
      then show ?thesis using no [of a] \<open>mapGet data k = Some w\<close> by (auto simp: spelled_def)
    qed simp
    then show ?thesis by (auto simp: rename1_def split: option.split)
  qed
  moreover have "(\<exists>l \<in> insert k seen. spelled names data l f) \<longleftrightarrow> (\<exists>l \<in> seen. spelled names data l f)" for f
    using no by blast
  ultimately show ?thesis using r by (simp only: renamed_def simp_thms)
qed

lemma renamed_all:
  assumes "unambiguous names data" "renamed names data seen d"
  shows "renamed names data (seen \<union> set visits) (foldl (\<lambda>d k. rename1 names k d) d visits)"
  using assms(2)
proof (induction visits arbitrary: seen d)
  case (Cons k ks)
  have "renamed names data (insert k seen \<union> set ks) (foldl (\<lambda>d k. rename1 names k d) (rename1 names k d) ks)"
    using renamed_step [OF assms(1) Cons.prems] by (rule Cons.IH)
  then show ?case by (simp add: insert_commute)
qed simp

lemma fuzzy_given:
  assumes "unambiguous names data" "fst ` set data \<subseteq> set visits"
  shows "givenFor names data f (mapGet (FuzzyNames_ToInternal names visits data) f)"
proof -
  have "renamed names data {} data" by (auto simp: renamed_def split: option.split)
  from renamed_all [OF assms(1) this, of visits]
  have r: "renamed names data (set visits) (FuzzyNames_ToInternal names visits data)"
    by (simp add: FuzzyNames_ToInternal_def)
  have dom: "k \<in> set visits" if "spelled names data k f" for k
    using that assms(2) by (force simp: spelled_def mapGet_def dest: map_of_SomeD)
  show ?thesis
  proof (cases "mapGet data f")
    case None
    then show ?thesis
      using r dom the_spelling [OF assms(1)] unfolding renamed_def givenFor_def by auto
  qed (use r in \<open>simp add: renamed_def givenFor_def\<close>)
qed

section \<open>Conversions\<close>

definition convOf :: "convIO \<Rightarrow> string \<Rightarrow> converter" where
  "convOf io ty =
     (if ty = ''map[string]'' then toMap io
      else if ty = ''array[string]'' then toSlice io
      else if ty = ''boolean'' then toBool io
      else if ty = ''int'' then toInt io
      else if ty = ''float'' then toFloat io
      else (\<lambda>val. (val, None)))"

lemma NewErrors_None: "NewErrors errs = None \<longleftrightarrow> (\<forall>e \<in> set errs. e = None)"
proof -
  have e: "[e. Some e \<leftarrow> errs] = [] \<longleftrightarrow> (\<forall>e \<in> set errs. e = None)" by (induction errs) (auto split: option.split)
  show ?thesis unfolding NewErrors_def e [symmetric] by (cases "[e. Some e \<leftarrow> errs]") (simp_all only: list.case split: list.split, simp_all)
qed

lemma fieldConverter_get:
  "mapGet (fst (fieldConverter f conv d)) k = (if k = f then map_option (fst \<circ> conv) (mapGet d k) else mapGet d k)"
  "snd (fieldConverter f conv d) = None \<longleftrightarrow> (\<forall>v. mapGet d f = Some v \<longrightarrow> snd (conv v) = None)"
  by (auto simp: fieldConverter_def split: option.split prod.split)

text \<open>A list of field converters for distinct fields converts each of them once.\<close>

lemma runMappers_fields:
  assumes "distinct fs"
  shows "mapGet (fst (runMappers (map (\<lambda>f. fieldConverter f conv) fs) d)) k =
      (if k \<in> set fs then map_option (fst \<circ> conv) (mapGet d k) else mapGet d k) \<and>
    ((\<forall>e \<in> set (snd (runMappers (map (\<lambda>f. fieldConverter f conv) fs) d)). e = None) \<longleftrightarrow>
      (\<forall>f \<in> set fs. \<forall>v. mapGet d f = Some v \<longrightarrow> snd (conv v) = None))"
  using assms
proof (induction fs arbitrary: d)
  case (Cons f fs)
  let ?d = "fst (fieldConverter f conv d)"
  have ne: "f \<notin> set fs" "distinct fs" using Cons.prems by auto
  have same: "mapGet ?d g = mapGet d g" if "g \<in> set fs" for g using that ne fieldConverter_get(1) [of f conv d g] by auto
  show ?case
    using Cons.IH [OF ne(2), of ?d] ne same fieldConverter_get [of f conv d] by (auto simp: case_prod_beta)
qed simp

lemma typeConverter_get:
  assumes "distinct (map fst schema)"
  shows "mapGet (fst (typeConverter ty conv schema d)) k =
      (if map_of schema k = Some ty then map_option (fst \<circ> conv) (mapGet d k) else mapGet d k)"
    "snd (typeConverter ty conv schema d) = None \<longleftrightarrow>
      (\<forall>f v. map_of schema f = Some ty \<and> mapGet d f = Some v \<longrightarrow> snd (conv v) = None)"
proof -
  let ?fs = "rev (map fst (filter (\<lambda>(n, t). t = ty) schema))"
  have ms: "rev (typeConverter_ModifySchema ty conv schema) = map (\<lambda>f. fieldConverter f conv) ?fs"
    unfolding typeConverter_ModifySchema_def by (induction schema) (auto simp: rev_map)
  have d: "distinct ?fs" using assms by (simp add: distinct_map_filter)
  have m: "f \<in> set ?fs \<longleftrightarrow> map_of schema f = Some ty" for f
    using assms by (auto simp: map_of_eq_Some_iff image_iff)
  show "mapGet (fst (typeConverter ty conv schema d)) k =
      (if map_of schema k = Some ty then map_option (fst \<circ> conv) (mapGet d k) else mapGet d k)"
    using runMappers_fields [OF d, of conv d k]
    unfolding typeConverter_def Mappers_ToInternal_def ms m by (simp add: case_prod_beta)
  show "snd (typeConverter ty conv schema d) = None \<longleftrightarrow>
      (\<forall>f v. map_of schema f = Some ty \<and> mapGet d f = Some v \<longrightarrow> snd (conv v) = None)"
  proof -
    have "snd (typeConverter ty conv schema d) = None \<longleftrightarrow> (\<forall>f \<in> set ?fs. \<forall>v. mapGet d f = Some v \<longrightarrow> snd (conv v) = None)"
      using runMappers_fields [OF d, of conv d]
      unfolding typeConverter_def Mappers_ToInternal_def ms case_prod_beta snd_conv NewErrors_None by blast
    then show ?thesis unfolding m [symmetric] by blast
  qed
qed

text \<open>The mappers of a schema, one after the other: each field is converted once, after the renaming.\<close>

lemma convOf_types:
  "convOf io ''map[string]'' = toMap io" "convOf io ''array[string]'' = toSlice io" "convOf io ''boolean'' = toBool io"
  "convOf io ''int'' = toInt io" "convOf io ''float'' = toFloat io"
  by (simp_all add: convOf_def)

lemma convOf_total: "ty \<noteq> ''int'' \<Longrightarrow> ty \<noteq> ''float'' \<Longrightarrow> snd (convOf io ty v) = None"
  by (auto simp: convOf_def toMap_def toSlice_def toBool_def split: jval.split)

lemma flat_steps:
  defines "d0 \<equiv> \<lambda>schema visits data. FuzzyNames_ToInternal (FuzzyNames_ModifySchema schema) visits data"
  shows "flatToInternal io schema visits data =
    (let d1 = NewToFloat io schema (d0 schema visits data); d2 = NewToInt io schema (fst d1); d3 = NewToBool io schema (fst d2);
         d4 = NewToSlice io schema (fst d3); d5 = NewToMap io schema (fst d4)
     in (fst d5, NewErrors [None, snd d1, snd d2, snd d3, snd d4, snd d5]))"
  by (simp add: flatToInternal_def Mappers_ToInternal_def DefaultMappers_def FuzzyNames_def d0_def case_prod_beta Let_def)

lemma flat_get:
  assumes "distinct (map fst schema)"
  shows "mapGet (fst (flatToInternal io schema visits data)) f =
    (let v = mapGet (FuzzyNames_ToInternal (FuzzyNames_ModifySchema schema) visits data) f
     in case map_of schema f of None \<Rightarrow> v | Some ty \<Rightarrow> map_option (fst \<circ> convOf io ty) v)"
proof -
  note tc = typeConverter_get(1) [OF assms]
  show ?thesis
  proof (cases "map_of schema f")
    case None
    then show ?thesis
      by (simp add: flat_steps Let_def NewToFloat_def NewToInt_def NewToBool_def NewToSlice_def NewToMap_def tc)
  next
    case (Some ty)
    show ?thesis
    proof (cases "ty \<in> {''map[string]'', ''array[string]'', ''boolean'', ''int'', ''float''}")
      case True
      then show ?thesis
        using Some by (auto simp: flat_steps Let_def NewToFloat_def NewToInt_def NewToBool_def NewToSlice_def NewToMap_def tc convOf_types)
    next
      case False
      then have "convOf io ty = (\<lambda>val. (val, None))" by (simp add: convOf_def)
      then have "fst \<circ> convOf io ty = id" by auto
      then show ?thesis
        using Some False by (simp add: flat_steps Let_def NewToFloat_def NewToInt_def NewToBool_def NewToSlice_def NewToMap_def tc option.map_id)
    qed
  qed
qed

text \<open>Only numbers can fail to be converted.\<close>

lemma flat_ok:
  assumes "distinct (map fst schema)"
  shows "snd (flatToInternal io schema visits data) = None \<longleftrightarrow>
    (\<forall>f ty v. map_of schema f = Some ty \<and> mapGet (FuzzyNames_ToInternal (FuzzyNames_ModifySchema schema) visits data) f = Some v
       \<longrightarrow> snd (convOf io ty v) = None)"
proof -
  note tc = typeConverter_get [OF assms]
  let ?d = "FuzzyNames_ToInternal (FuzzyNames_ModifySchema schema) visits data"
  have none: "snd (typeConverter ty conv schema d) = None" if "\<And>v. snd (conv v) = None" for ty conv d
    using that by (simp add: tc(2))
  have keep: "map_of schema f = Some ''int'' \<Longrightarrow> mapGet (fst (typeConverter ''float'' conv schema ?d)) f = mapGet ?d f" for f conv
    by (simp add: tc(1))
  have keep2: "map_of schema f = Some ''int'' \<and> mapGet (fst (typeConverter ''float'' conv schema ?d)) f = Some v \<longleftrightarrow>
      map_of schema f = Some ''int'' \<and> mapGet ?d f = Some v" for f v conv
    by (metis keep)
  have "snd (flatToInternal io schema visits data) = None \<longleftrightarrow>
      snd (NewToFloat io schema ?d) = None \<and> snd (NewToInt io schema (fst (NewToFloat io schema ?d))) = None"
    by (simp add: flat_steps Let_def NewErrors_None NewToBool_def NewToSlice_def NewToMap_def none
        toBool_def toSlice_def toMap_def split: jval.split)
  also have "\<dots> \<longleftrightarrow> (\<forall>f v. map_of schema f = Some ''float'' \<and> mapGet ?d f = Some v \<longrightarrow> snd (toFloat io v) = None) \<and>
      (\<forall>f v. map_of schema f = Some ''int'' \<and> mapGet ?d f = Some v \<longrightarrow> snd (toInt io v) = None)"
    unfolding NewToFloat_def NewToInt_def tc(2) keep2 ..
  also have "\<dots> \<longleftrightarrow> (\<forall>f ty v. map_of schema f = Some ty \<and> mapGet ?d f = Some v \<longrightarrow> snd (convOf io ty v) = None)"
  proof (intro iffI allI impI, elim conjE)
    fix f ty v
    assume "\<forall>f v. map_of schema f = Some ''float'' \<and> mapGet ?d f = Some v \<longrightarrow> snd (toFloat io v) = None"
      "\<forall>f v. map_of schema f = Some ''int'' \<and> mapGet ?d f = Some v \<longrightarrow> snd (toInt io v) = None"
      "map_of schema f = Some ty" "mapGet ?d f = Some v"
    then show "snd (convOf io ty v) = None"
      by (cases "ty = ''float''"; cases "ty = ''int''") (simp_all only: convOf_types convOf_total not_False_eq_True)
  next
    assume a: "\<forall>f ty v. map_of schema f = Some ty \<and> mapGet ?d f = Some v \<longrightarrow> snd (convOf io ty v) = None"
    show "(\<forall>f v. map_of schema f = Some ''float'' \<and> mapGet ?d f = Some v \<longrightarrow> snd (toFloat io v) = None) \<and>
      (\<forall>f v. map_of schema f = Some ''int'' \<and> mapGet ?d f = Some v \<longrightarrow> snd (toInt io v) = None)"
      using a [rule_format, of _ "''float''"] a [rule_format, of _ "''int''"] unfolding convOf_types by simp
  qed
  finally show ?thesis .
qed

section \<open>Reading a map\<close>

text \<open>C22: A generic map is read field by field, whatever the order in which the runtime visits it: when no field is given
  under two spellings, the result holds under each name what was given for it, under its own name or another
  spelling, converted to the type of the field; and the reading fails exactly when a number is given by something
  that is not one.
\<close>

theorem config_map_exact:
  assumes "distinct (map fst schema)" "unambiguous (FuzzyNames_ModifySchema schema) data" "fst ` set data \<subseteq> set visits"
  shows "(\<forall>f v. givenFor (FuzzyNames_ModifySchema schema) data f v \<longrightarrow>
      mapGet (fst (flatToInternal io schema visits data)) f =
        (case map_of schema f of None \<Rightarrow> v | Some ty \<Rightarrow> map_option (fst \<circ> convOf io ty) v)) \<and>
    (snd (flatToInternal io schema visits data) = None \<longleftrightarrow>
      (\<forall>f ty v. map_of schema f = Some ty \<and> givenFor (FuzzyNames_ModifySchema schema) data f (Some v) \<longrightarrow>
         snd (convOf io ty v) = None))"
proof -
  let ?n = "FuzzyNames_ModifySchema schema"
  have g: "givenFor ?n data f v \<longleftrightarrow> v = mapGet (FuzzyNames_ToInternal ?n visits data) f" for f v
    using fuzzy_given [OF assms(2,3)] givenFor_unique [OF assms(2)] by blast
  show ?thesis
    unfolding g flat_get [OF assms(1)] flat_ok [OF assms(1)] Let_def by (auto simp: eq_commute [of "Some _"])
qed

section \<open>The schemas of the configuration\<close>

text \<open>The fields that reflection finds in the structs, by their JSON names, with the types of the mapper library.\<close>

definition harvesterConfigFields :: fields where
  "harvesterConfigFields =
    [(''schemeVersion'', ''int''), (''serverUrl'', ''string''), (''token'', ''string''), (''sans'', ''array[string]''), (''os'', ''os''),
     (''install'', ''install''), (''runtimeVersion'', ''string''), (''rancherVersion'', ''string''), (''harvesterChartVersion'', ''string''),
     (''monitoringChartVersion'', ''string''), (''systemSettings'', ''map[string]''), (''loggingChartVersion'', ''string''),
     (''kubeovnChartVersion'', ''string'')]"

definition osFields :: fields where
  "osFields =
    [(''afterInstallChrootCommands'', ''array[string]''), (''sshAuthorizedKeys'', ''array[string]''), (''writeFiles'', ''array[file]''),
     (''hostname'', ''string''), (''modules'', ''array[string]''), (''sysctls'', ''map[string]''), (''ntpServers'', ''array[string]''),
     (''dnsNameservers'', ''array[string]''), (''password'', ''string''), (''environment'', ''map[string]''), (''labels'', ''map[string]''),
     (''sshd'', ''sshdConfig''), (''persistentStatePaths'', ''array[string]''), (''externalStorageConfig'', ''externalStorageConfig''),
     (''additionalKernelArguments'', ''string'')]"

definition networkFields :: fields where
  "networkFields =
    [(''interfaces'', ''array[networkInterface]''), (''method'', ''string''), (''ip'', ''string''), (''subnetMask'', ''string''),
     (''gateway'', ''string''), (''bondOptions'', ''map[string]''), (''mtu'', ''int''), (''vlanId'', ''int'')]"

definition installFields :: fields where
  "installFields =
    [(''automatic'', ''boolean''), (''skipchecks'', ''boolean''), (''mode'', ''string''), (''managementInterface'', ''network''),
     (''vip'', ''string''), (''vipHwAddr'', ''string''), (''vipMode'', ''string''), (''clusterDns'', ''string''),
     (''clusterPodCidr'', ''string''), (''clusterServiceCidr'', ''string''), (''forceEfi'', ''boolean''), (''device'', ''string''),
     (''configUrl'', ''string''), (''silent'', ''boolean''), (''isoUrl'', ''string''), (''powerOff'', ''boolean''), (''noFormat'', ''boolean''),
     (''debug'', ''boolean''), (''tty'', ''string''), (''forceGpt'', ''boolean''), (''role'', ''string''), (''withNetImages'', ''boolean''),
     (''wipeAllDisks'', ''boolean''), (''wipeDisksList'', ''array[string]''), (''forceMbr'', ''boolean''), (''dataDisk'', ''string''),
     (''webhooks'', ''array[webhook]''), (''addons'', ''map[addon]''), (''harvester'', ''harvesterChartValues''),
     (''rawDiskImagePath'', ''string''), (''persistentPartitionSize'', ''string'')]"

text \<open>The spellings that a field accepts.\<close>

definition nameForms :: "string \<Rightarrow> string list" where
  "nameForms name = [toLower name, ToYAMLKey name]"

definition spellings :: "string \<Rightarrow> string list" where
  "spellings name =
     nameForms name @
     (if hasSuffix name ''s'' \<and> 1 < length name then nameForms (take (length name - 1) name) else []) @
     (if hasSuffix name ''es'' \<and> 2 < length name then nameForms (take (length name - 2) name) else [])"

lemma toLower_yaml [simp]: "toLower (ToYAMLKey s) = ToYAMLKey s"
  unfolding toLower_def by (rule map_idI) (use ToYAMLKey_lower in \<open>auto simp: toLowerC_def\<close>)

lemma addName_get: "mapGet (addName s t names) k = (if k \<in> set (nameForms s) then Some t else mapGet names k)"
  by (auto simp: addName_def nameForms_def)

lemma addFieldNames_get: "mapGet (addFieldNames f names) k = (if k \<in> set (spellings f) then Some f else mapGet names k)"
  by (auto simp: addFieldNames_def Let_def spellings_def addName_get)

definition clearFields :: "fields \<Rightarrow> bool" where
  "clearFields schema \<longleftrightarrow> distinct (concat (map (\<lambda>(f, ty). remdups (spellings f)) schema))"

lemmas spelling_defs = clearFields_def spellings_def nameForms_def toLower_def toLowerC_def isUpperC_def ToYAMLKey_def hasSuffix_def

lemma clear_network: "clearFields networkFields"
  by (simp add: networkFields_def spelling_defs)

lemma clear_harvesterConfig: "clearFields harvesterConfigFields"
  by (simp add: harvesterConfigFields_def spelling_defs)

lemma clear_os: "clearFields osFields"
  by (simp add: osFields_def spelling_defs)

lemma clear_install: "clearFields installFields"
  by (simp add: installFields_def spelling_defs)

lemmas clear_known = clear_network clear_harvesterConfig clear_os clear_install

definition knownSchemas :: "fields list" where
  "knownSchemas = [harvesterConfigFields, installFields, osFields, networkFields]"

abbreviation "passNames \<equiv> {''pass'', ''password''}"

text \<open>The fields are all different, in lower case for none but those that YAML spells the same, and none is the field that passwords go to.\<close>

definition plainFields :: "fields \<Rightarrow> bool" where
  "plainFields schema \<longleftrightarrow> distinct (map fst schema) \<and>
     list_all (\<lambda>(f, ty). f \<noteq> ''pass'' \<and> ''passphrase'' \<notin> set (spellings f) \<and> (f = ToYAMLKey f \<or> ToYAMLKey f \<noteq> ''pass'' \<and> ToYAMLKey f \<noteq> ''password'') \<and>
       (f = ToYAMLKey f \<or> f \<noteq> toLower f)) schema"

lemma plain_known: "plainFields harvesterConfigFields" "plainFields osFields" "plainFields networkFields" "plainFields installFields"
  by (simp_all add: plainFields_def osFields_def installFields_def spelling_defs networkFields_def harvesterConfigFields_def
    char_of_def bit_0)

lemma known_clear:
  assumes "schema \<in> set knownSchemas"
  shows "clearFields schema" "plainFields schema"
  using assms clear_known plain_known by (auto simp: knownSchemas_def)

lemma clear_same:
  assumes "clearFields schema" "(f, ty) \<in> set schema" "(g, tz) \<in> set schema" "k \<in> set (spellings f)" "k \<in> set (spellings g)"
  shows "f = g"
  using assms
proof (induction schema)
  case (Cons x schema)
  then show ?case by (cases x) (fastforce simp: clearFields_def)
qed simp

abbreviation "fieldNames \<equiv> foldl (\<lambda>names (name, ty). addFieldNames name names) []"

lemma fieldNames_snoc:
  "mapGet (fieldNames (fs @ [(g, tz)])) k = (if k \<in> set (spellings g) then Some g else mapGet (fieldNames fs) k)"
  by (simp add: addFieldNames_get)

lemma names_of:
  assumes "\<forall>(g, tz) \<in> set fs. k \<in> set (spellings g) \<longrightarrow> g = f" "f \<in> fst ` set fs" "k \<in> set (spellings f)"
  shows "mapGet (fieldNames fs) k = Some f"
  using assms(1,2)
proof (induction fs rule: rev_induct)
  case (snoc x fs)
  obtain g tz where x: "x = (g, tz)" by (cases x)
  show ?case
  proof (cases "k \<in> set (spellings g)")
    case True
    then have "g = f" using snoc.prems(1) x by simp
    then show ?thesis using True unfolding x fieldNames_snoc by simp
  next
    case False
    then have "f \<in> fst ` set fs" using snoc.prems(2) assms(3) x by auto
    then have "mapGet (fieldNames fs) k = Some f" using snoc.IH snoc.prems(1) by simp
    then show ?thesis using False unfolding x fieldNames_snoc by simp
  qed
qed simp

lemma names_none: "\<forall>(g, tz) \<in> set fs. k \<notin> set (spellings g) \<Longrightarrow> mapGet (fieldNames fs) k = None"
proof (induction fs rule: rev_induct)
  case (snoc x fs)
  obtain g tz where x: "x = (g, tz)" by (cases x)
  have "mapGet (fieldNames fs) k = None" using snoc by simp
  then show ?case using snoc.prems unfolding x fieldNames_snoc by simp
qed (simp add: mapGet_def)

lemma ModifySchema_get:
  "mapGet (FuzzyNames_ModifySchema schema) k =
     (if k \<in> passNames then Some ''passphrase'' else mapGet (fieldNames schema) k)"
  by (auto simp: FuzzyNames_ModifySchema_def)

lemma spelling_leads:
  assumes "schema \<in> set knownSchemas" "set visited = set schema" "(f, ty) \<in> set schema" "k \<in> set (spellings f)"
  shows "mapGet (FuzzyNames_ModifySchema visited) k = Some (if k \<in> passNames then ''passphrase'' else f)"
proof -
  have "mapGet (fieldNames visited) k = Some f"
  proof (rule names_of)
    show "\<forall>(g, tz) \<in> set visited. k \<in> set (spellings g) \<longrightarrow> g = f"
      using clear_same [OF known_clear(1) [OF assms(1)] _ assms(3) _ assms(4)] assms(2) by blast
    show "f \<in> fst ` set visited" using assms(2,3) by force
  qed (rule assms(4))
  then show ?thesis by (cases "k \<in> passNames") (simp_all only: ModifySchema_get if_True if_False)
qed

lemma no_spelling:
  assumes "\<forall>(g, tz) \<in> set schema. k \<notin> set (spellings g)" "k \<notin> passNames"
  shows "mapGet (FuzzyNames_ModifySchema schema) k = None"
  using names_none [OF assms(1)] assms(2) by (simp only: ModifySchema_get if_False)

text \<open>C24: Every spelling of a field of the configuration, of its installation, its system or its management network (its name in lower
  case, its name in YAML, and both without a plural ending) leads to that field, in whatever order the runtime visits the
  fields of the struct; pass and password lead to passphrase instead.
\<close>

theorem field_spellings:
  assumes "schema \<in> set knownSchemas" "mset visited = mset schema" "(f, ty) \<in> set schema" "k \<in> set (spellings f)"
  shows "mapGet (FuzzyNames_ModifySchema visited) k = Some (if k \<in> passNames then ''passphrase'' else f)"
  by (rule spelling_leads [OF assms(1) mset_eq_setD [OF assms(2)] assms(3,4)])

theorem field_spellings_witness:
  "mapGet (FuzzyNames_ModifySchema (rev networkFields)) ''subnet_mask'' = Some ''subnetMask''"
proof -
  have "networkFields \<in> set knownSchemas" by (simp add: knownSchemas_def)
  moreover have "mset (rev networkFields) = mset networkFields" by simp
  moreover have "(''subnetMask'', ''string'') \<in> set networkFields" by (simp add: networkFields_def)
  moreover have "''subnet_mask'' \<in> set (spellings ''subnetMask'')"
    by (simp add: spellings_def nameForms_def ToYAMLKey_def isUpperC_def toLowerC_def toLower_def char_of_def bit_0)
  ultimately have "mapGet (FuzzyNames_ModifySchema (rev networkFields)) ''subnet_mask'' =
      Some (if ''subnet_mask'' \<in> passNames then ''passphrase'' else ''subnetMask'')"
    by (rule field_spellings)
  then show ?thesis by simp
qed

definition sampleConvIO :: convIO where
  "sampleConvIO = \<lparr>cvSprint = (\<lambda>v. []), cvTrunc = (\<lambda>f. 0), cvParseFloat = (\<lambda>s. (s, None))\<rparr>"

abbreviation "sampleMap \<equiv> [(''vlan_id'', JStr ''7'')]"

lemma sample_names:
  "mapGet (FuzzyNames_ModifySchema networkFields) ''vlan_id'' = Some ''vlanId''"
  "mapGet (FuzzyNames_ModifySchema networkFields) ''vlanId'' = None"
proof -
  have n: "networkFields \<in> set knownSchemas" by (simp add: knownSchemas_def)
  have m: "(''vlanId'', ''int'') \<in> set networkFields" by (simp add: networkFields_def)
  have "''vlan_id'' \<in> set (spellings ''vlanId'')"
    by (simp add: spellings_def nameForms_def ToYAMLKey_def isUpperC_def toLowerC_def toLower_def char_of_def bit_0)
  from spelling_leads [OF n refl m this] show "mapGet (FuzzyNames_ModifySchema networkFields) ''vlan_id'' = Some ''vlanId''"
    by simp
  show "mapGet (FuzzyNames_ModifySchema networkFields) ''vlanId'' = None"
    by (rule no_spelling)
      (simp_all add: networkFields_def spellings_def nameForms_def ToYAMLKey_def isUpperC_def toLowerC_def toLower_def hasSuffix_def char_of_def bit_0)
qed

lemma sample_spelled: "spelled (FuzzyNames_ModifySchema networkFields) sampleMap k f \<longleftrightarrow> k = ''vlan_id'' \<and> f = ''vlanId''"
proof
  assume s: "spelled (FuzzyNames_ModifySchema networkFields) sampleMap k f"
  then have k: "k = ''vlan_id''" by (auto simp: spelled_def mapGet_def split: if_splits)
  then show "k = ''vlan_id'' \<and> f = ''vlanId''" using s sample_names(1) by (simp add: spelled_def)
qed (use sample_names in \<open>simp add: spelled_def mapGet_def\<close>)

text \<open>The value is converted under the name of the field, and stays as it was under the other spelling.\<close>

theorem config_map_exact_witness:
  "mapGet (fst (flatToInternal sampleConvIO networkFields [''vlan_id''] sampleMap)) ''vlanId'' = Some (JInt 7) \<and>
   mapGet (fst (flatToInternal sampleConvIO networkFields [''vlan_id''] sampleMap)) ''vlan_id'' = Some (JStr ''7'')"
proof -
  let ?n = "FuzzyNames_ModifySchema networkFields"
  have d: "distinct (map fst networkFields)" by (simp add: networkFields_def)
  have none: "mapGet sampleMap ''vlanId'' = None" "mapGet sampleMap ''vlan_id'' = Some (JStr ''7'')" by (simp_all add: mapGet_def)
  have "unambiguous ?n sampleMap"
    unfolding unambiguous_def sample_spelled using none sample_names(2) by simp
  from config_map_exact [OF d this, of "[''vlan_id'']" sampleConvIO]
  have all: "\<forall>f v. givenFor ?n sampleMap f v \<longrightarrow> mapGet (fst (flatToInternal sampleConvIO networkFields [''vlan_id''] sampleMap)) f =
      (case map_of networkFields f of None \<Rightarrow> v | Some ty \<Rightarrow> map_option (fst \<circ> convOf sampleConvIO ty) v)"
    by simp
  have g: "givenFor ?n sampleMap ''vlanId'' (Some (JStr ''7''))" "givenFor ?n sampleMap ''vlan_id'' (Some (JStr ''7''))"
    by (simp_all add: givenFor_def none sample_spelled)
  have ty: "map_of networkFields ''vlanId'' = Some ''int''" "map_of networkFields ''vlan_id'' = None" by (simp_all add: networkFields_def)
  have "fst (convOf sampleConvIO ''int'' (JStr ''7'')) = JInt 7"
    by (simp add: convOf_def toInt_def ToNumber_def Singular_def parseInt64_def ToString_def ToStringNoTrim_def sprint_def
      trimSpace_def trimBy_def isSpace_def parseInt10_def isDigitC_def natOfDigits_def digitVal_def)
  then show ?thesis using all [rule_format, OF g(1)] all [rule_format, OF g(2)] by (simp add: ty)
qed

end
