(* ===== verification/Schema_Print.thy ===== *)
theory Schema_Print
  imports Schema_Props
begin

text \<open>
  The way back: the keys that \<^verbatim>\<open>PrintInstall\<close> turns into YAML are among the spellings that the reader accepts, so what
  is printed is read back under the same fields.
\<close>

section \<open>Printing and reading back\<close>

text \<open>Moving keys whose new names are new: each value ends up under the new name of its key.\<close>

definition freeMoves :: "string set \<Rightarrow> bool" where
  "freeMoves ks \<longleftrightarrow> (\<forall>f \<in> ks. \<forall>g \<in> ks. f \<noteq> g \<longrightarrow> ToYAMLKey f \<noteq> ToYAMLKey g \<and> ToYAMLKey f \<noteq> g)"

lemma moveKey_get:
  assumes "mapGet d k = Some v"
  shows "mapGet (moveKey k d) x = (if x = ToYAMLKey k then Some v else if x = k then None else mapGet d x)"
  using assms by (simp add: moveKey_def Let_def)

lemma moveKeys_step:
  assumes "freeMoves (set ks)" "distinct ks" "\<forall>k \<in> set ks. mapGet d k \<noteq> None"
  shows "mapGet (foldl (\<lambda>d k. moveKey k d) d ks) x = Some v \<longleftrightarrow>
    (\<exists>f \<in> set ks. ToYAMLKey f = x \<and> mapGet d f = Some v) \<or>
    x \<notin> set ks \<and> x \<notin> ToYAMLKey ` set ks \<and> mapGet d x = Some v"
  using assms
proof (induction ks arbitrary: d)
  case (Cons k ks)
  let ?d = "moveKey k d"
  obtain w where w: "mapGet d k = Some w" using Cons.prems(3) by auto
  note mv = moveKey_get [OF w]
  have free: "freeMoves (set ks)" and apart: "\<And>g. g \<in> set ks \<Longrightarrow> ToYAMLKey k \<noteq> ToYAMLKey g \<and> ToYAMLKey k \<noteq> g \<and> ToYAMLKey g \<noteq> k \<and> g \<noteq> k"
    using Cons.prems(1,2) unfolding freeMoves_def by auto
  have keep: "mapGet ?d g = mapGet d g" if "g \<in> set ks" for g unfolding mv using apart [OF that] by metis
  have "\<forall>k \<in> set ks. mapGet ?d k \<noteq> None" using Cons.prems(3) keep by simp
  then have IH: "mapGet (foldl (\<lambda>d k. moveKey k d) ?d ks) x = Some v \<longleftrightarrow>
      (\<exists>f \<in> set ks. ToYAMLKey f = x \<and> mapGet d f = Some v) \<or>
      x \<notin> set ks \<and> x \<notin> ToYAMLKey ` set ks \<and> mapGet ?d x = Some v"
    using Cons.IH [OF free] Cons.prems(2) keep by simp
  have run: "foldl (\<lambda>d k. moveKey k d) d (k # ks) = foldl (\<lambda>d k. moveKey k d) ?d ks" by simp
  consider "x = ToYAMLKey k" | "x \<noteq> ToYAMLKey k" "x = k" | "x \<noteq> ToYAMLKey k" "x \<noteq> k" by blast
  then show ?case
  proof cases
    case 1
    then show ?thesis unfolding run IH mv using apart w by auto
  next
    case 2
    then show ?thesis unfolding run IH mv using apart by auto
  next
    case 3
    then show ?thesis unfolding run IH mv by auto
  qed
qed simp

lemma moveKeys_get:
  assumes "freeMoves (fst ` set data)" "wfMap data"
  shows "mapGet (moveKeys data) x = Some v \<longleftrightarrow> (\<exists>f. ToYAMLKey f = x \<and> mapGet data f = Some v)"
proof -
  have m: "f \<in> set (map fst data) \<longleftrightarrow> mapGet data f \<noteq> None" for f
    by (simp add: mapGet_def map_of_eq_None_iff)
  have "mapGet (moveKeys data) x = Some v \<longleftrightarrow>
      (\<exists>f \<in> set (map fst data). ToYAMLKey f = x \<and> mapGet data f = Some v) \<or>
      x \<notin> set (map fst data) \<and> x \<notin> ToYAMLKey ` set (map fst data) \<and> mapGet data x = Some v"
    unfolding moveKeys_def by (rule moveKeys_step) (use assms m in \<open>simp_all add: wfMap_def\<close>)
  then show ?thesis using m by (metis option.distinct(1))
qed

text \<open>What the schemas of the configuration have in common.\<close>

lemma field_one:
  assumes "schema \<in> set knownSchemas" "f \<in> fst ` set schema" "g \<in> fst ` set schema" "k \<in> set (spellings f)" "k \<in> set (spellings g)"
  shows "f = g"
proof -
  obtain ty tz where "(f, ty) \<in> set schema" "(g, tz) \<in> set schema" using assms(2,3) by force
  then show ?thesis using clear_same [OF known_clear(1) [OF assms(1)] _ _ assms(4,5)] by blast
qed

lemma own_spelling: "ToYAMLKey f \<in> set (spellings f)" "toLower f \<in> set (spellings f)"
  by (simp_all add: spellings_def nameForms_def)

lemma spelling_lower: "k \<in> set (spellings f) \<Longrightarrow> toLower k = k"
  by (auto simp: spellings_def nameForms_def split: if_splits)

lemma field_leads:
  assumes "schema \<in> set knownSchemas" "f \<in> fst ` set schema"
  shows "mapGet (FuzzyNames_ModifySchema schema) (ToYAMLKey f) = Some (if ToYAMLKey f \<in> passNames then ''passphrase'' else f)"
proof -
  obtain ty where "(f, ty) \<in> set schema" using assms(2) by force
  then show ?thesis by (rule spelling_leads [OF assms(1) refl _ own_spelling(1)])
qed

lemma field_plain:
  assumes "schema \<in> set knownSchemas" "f \<in> fst ` set schema"
  shows "f \<noteq> ''pass''" "''passphrase'' \<notin> set (spellings f)" "f = ToYAMLKey f \<or> ToYAMLKey f \<notin> passNames" "f = ToYAMLKey f \<or> f \<noteq> toLower f"
  using known_clear(2) [OF assms(1)] assms(2) unfolding plainFields_def list_all_iff by force+

lemma field_no_passphrase:
  assumes "schema \<in> set knownSchemas" "f \<in> fst ` set schema"
  shows "f \<noteq> ''passphrase''"
proof -
  have "toLower ''passphrase'' = ''passphrase''" by (simp add: toLower_def toLowerC_def isUpperC_def)
  then show ?thesis using own_spelling(2) [of f] field_plain(2) [OF assms] by metis
qed

lemma field_yaml:
  assumes "schema \<in> set knownSchemas" "f \<in> fst ` set schema" "g \<in> fst ` set schema" "ToYAMLKey f = g"
  shows "f = g"
proof -
  have "toLower g = g" unfolding assms(4) [symmetric] by simp
  then have "ToYAMLKey f \<in> set (spellings g)" using own_spelling(2) [of g] assms(4) by simp
  then show ?thesis by (rule field_one [OF assms(1-3) own_spelling(1)])
qed

text \<open>The names that lead nowhere else: a field that YAML spells differently, and passphrase.\<close>

lemma field_fixed:
  assumes "schema \<in> set knownSchemas" "f \<in> fst ` set schema \<and> f \<noteq> ToYAMLKey f \<or> f = ''passphrase''"
  shows "mapGet (FuzzyNames_ModifySchema schema) f = None"
proof (rule no_spelling)
  have lower: "toLower ''pass'' = ''pass''" "toLower ''password'' = ''password''" by (simp_all add: toLower_def toLowerC_def isUpperC_def)
  show "\<forall>(g, tz) \<in> set schema. f \<notin> set (spellings g)"
  proof (clarify)
    fix g tz assume g: "(g, tz) \<in> set schema" "f \<in> set (spellings g)"
    then have "g \<in> fst ` set schema" by force
    then show False
      using g(2) assms field_plain(2,4) [OF assms(1)] spelling_lower [OF g(2)] by metis
  qed
  have "f \<noteq> ''pass''" "f \<noteq> ''password''"
    using assms(2) field_plain(4) [OF assms(1), of f] lower by force+
  then show "f \<notin> passNames" by simp
qed

text \<open>What is printed from fields of such a schema.\<close>

abbreviation "fieldsOf schema \<equiv> fst ` set schema"

definition printable :: "fields \<Rightarrow> jmap \<Rightarrow> bool" where
  "printable schema data \<longleftrightarrow> schema \<in> set knownSchemas \<and> wfMap data \<and> fieldsOf data \<subseteq> fieldsOf schema"

lemma printable_field: "printable schema data \<Longrightarrow> mapGet data f \<noteq> None \<Longrightarrow> f \<in> fieldsOf schema"
  unfolding printable_def by (force simp: mapGet_def dest: map_of_SomeD)

lemma printable_free:
  assumes "printable schema data"
  shows "freeMoves (fieldsOf data)"
  unfolding freeMoves_def
proof (intro ballI impI)
  fix f g assume fg: "f \<in> fieldsOf data" "g \<in> fieldsOf data" "f \<noteq> g"
  note s = assms [unfolded printable_def, THEN conjunct1]
  have F: "f \<in> fieldsOf schema" "g \<in> fieldsOf schema" using fg assms by (auto simp: printable_def)
  have "ToYAMLKey f \<noteq> ToYAMLKey g" using field_one [OF s F own_spelling(1)] own_spelling(1) [of g] fg(3) by metis
  moreover have "ToYAMLKey f \<noteq> g" using field_yaml [OF s F] fg(3) by metis
  ultimately show "ToYAMLKey f \<noteq> ToYAMLKey g \<and> ToYAMLKey f \<noteq> g" ..
qed

lemma printed_get:
  assumes "printable schema data"
  shows "mapGet (toYAMLKeys data) x = Some v \<longleftrightarrow> (\<exists>f w. mapGet data f = Some w \<and> ToYAMLKey f = x \<and> v = yamlVal w)"
proof -
  let ?d = "map (\<lambda>(k, v). (k, yamlVal v)) data"
  have keys: "fieldsOf ?d = fieldsOf data" "map fst ?d = map fst data" by (force, simp add: split_def comp_def)
  have get: "mapGet ?d f = map_option yamlVal (mapGet data f)" for f by (simp add: mapGet_def map_of_map)
  have wf: "wfMap ?d" using assms keys(2) by (simp only: wfMap_def printable_def)
  show ?thesis unfolding toYAMLKeys_def moveKeys_get [OF printable_free [OF assms, folded keys(1)] wf] get by auto
qed

lemma printed_key:
  assumes "printable schema data" "mapGet (toYAMLKeys data) k \<noteq> None"
  obtains g where "mapGet data g \<noteq> None" "ToYAMLKey g = k" "g \<in> fieldsOf schema"
    "mapGet (FuzzyNames_ModifySchema schema) k = Some (if k \<in> passNames then ''passphrase'' else g)"
proof -
  obtain g where g: "mapGet data g \<noteq> None" "ToYAMLKey g = k" using assms(2) printed_get [OF assms(1), of k] by auto
  note F = printable_field [OF assms(1) g(1)]
  show ?thesis using that [OF g F] field_leads [OF assms(1) [unfolded printable_def, THEN conjunct1] F] g(2) by simp
qed

text \<open>A spelling in what is printed is the YAML spelling of a field, or password, which stands for itself and for passphrase.\<close>

lemma printed_spelled:
  assumes p: "printable schema data" and k: "spelled (FuzzyNames_ModifySchema schema) (toYAMLKeys data) k f"
  shows "f \<in> fieldsOf schema \<and> k = ToYAMLKey f \<and> mapGet data f \<noteq> None \<and> k \<noteq> f \<or>
    f \<notin> fieldsOf schema \<and> k = ''password'' \<and> f = ''passphrase''"
proof -
  note s = p [unfolded printable_def, THEN conjunct1]
  have kf: "k \<noteq> f" "mapGet (FuzzyNames_ModifySchema schema) k = Some f" using k by (simp_all add: spelled_def)
  have r: "mapGet (toYAMLKeys data) k \<noteq> None" using k unfolding spelled_def by (rule conjunct1)
  obtain g where g: "mapGet data g \<noteq> None" "ToYAMLKey g = k" "g \<in> fieldsOf schema"
    "mapGet (FuzzyNames_ModifySchema schema) k = Some (if k \<in> passNames then ''passphrase'' else g)"
    using printed_key [OF p r] .
  show ?thesis
  proof (cases "k \<in> passNames")
    case True
    then have f: "f = ''passphrase''" using kf(2) g(4) by simp
    have "k = ''password''" using True field_plain(1,3) [OF s g(3)] g(2) by auto
    moreover have "f \<notin> fieldsOf schema" using field_no_passphrase [OF s, of f] f by blast
    ultimately show ?thesis using f by blast
  next
    case False
    then have "f = g" using kf(2) g(4) by (simp only: if_False option.inject)
    then show ?thesis using g(1-3) kf(1) by blast
  qed
qed

lemma printed_vacant:
  assumes "printable schema data" "f \<in> fieldsOf schema \<and> f \<noteq> ToYAMLKey f \<or> f = ''passphrase''"
  shows "mapGet (toYAMLKeys data) f = None"
proof (rule ccontr)
  note s = assms(1) [unfolded printable_def, THEN conjunct1]
  assume r: "mapGet (toYAMLKeys data) f \<noteq> None"
  obtain g where g: "ToYAMLKey g = f" "g \<in> fieldsOf schema" using printed_key [OF assms(1) r] by blast
  then show False
    using assms(2) field_yaml [OF s g(2) _ g(1)] field_plain(2) [OF s g(2)] own_spelling(1) [of g] by auto
qed

lemma printed_unambiguous:
  assumes p: "printable schema data"
  shows "unambiguous (FuzzyNames_ModifySchema schema) (toYAMLKeys data)"
  unfolding unambiguous_def
proof (intro conjI allI impI)
  fix k l f
  assume "spelled (FuzzyNames_ModifySchema schema) (toYAMLKeys data) k f \<and> spelled (FuzzyNames_ModifySchema schema) (toYAMLKeys data) l f"
  then show "k = l" using printed_spelled [OF p, of k f] printed_spelled [OF p, of l f] by blast
next
  fix k f
  assume "spelled (FuzzyNames_ModifySchema schema) (toYAMLKeys data) k f"
  from printed_spelled [OF p this] have a: "f \<in> fieldsOf schema \<and> f \<noteq> ToYAMLKey f \<or> f = ''passphrase''"
  proof (elim disjE conjE)
    assume "f \<in> fieldsOf schema" "k = ToYAMLKey f" "k \<noteq> f"
    then show ?thesis by metis
  qed (rule disjI2)
  show "mapGet (toYAMLKeys data) f = None" using printed_vacant [OF p a] .
  show "mapGet (FuzzyNames_ModifySchema schema) f \<in> {None, Some f}"
    using field_fixed [OF p [unfolded printable_def, THEN conjunct1] a] by simp
qed

lemma printed_given:
  assumes p: "printable schema data" and f: "f \<in> fieldsOf schema"
  shows "givenFor (FuzzyNames_ModifySchema schema) (toYAMLKeys data) f (map_option yamlVal (mapGet data f))"
proof (cases "mapGet (toYAMLKeys data) f")
  case (Some v)
  note s = p [unfolded printable_def, THEN conjunct1]
  obtain g w where g: "mapGet data g = Some w" "ToYAMLKey g = f" "v = yamlVal w" using Some printed_get [OF p] by blast
  then have "g = f" using field_yaml [OF s printable_field [OF p] f g(2)] by simp
  then show ?thesis using g Some by (simp add: givenFor_def)
next
  case None
  note s = p [unfolded printable_def, THEN conjunct1]
  show ?thesis
  proof (cases "mapGet data f")
    case (Some w)
    then have r: "mapGet (toYAMLKeys data) (ToYAMLKey f) = Some (yamlVal w)" using printed_get [OF p] by blast
    then have ne: "ToYAMLKey f \<noteq> f" using None by auto
    then have "spelled (FuzzyNames_ModifySchema schema) (toYAMLKeys data) (ToYAMLKey f) f"
      using r field_leads [OF s f] field_plain(3) [OF s f] by (auto simp: spelled_def)
    then show ?thesis using None r Some by (auto simp: givenFor_def)
  next
    case none: None
    then have "\<not> spelled (FuzzyNames_ModifySchema schema) (toYAMLKeys data) k f" for k using printed_spelled [OF p] f by blast
    then show ?thesis using None none by (simp add: givenFor_def)
  qed
qed

text \<open>C23: What PrintInstall writes under the YAML spellings of the fields is read back under the fields themselves: a map
  whose keys are fields of a schema of the configuration, with its keys turned into YAML, is unambiguous, and the
  mappers of that schema give each field of it the value it had, converted to the type of the field, whatever the order of the
  visits.
\<close>

theorem printed_keys_read_back:
  assumes "schema \<in> set knownSchemas" "wfMap data" "fst ` set data \<subseteq> fst ` set schema" "fst ` set (toYAMLKeys data) \<subseteq> set visits"
  shows "unambiguous (FuzzyNames_ModifySchema schema) (toYAMLKeys data) \<and>
    (\<forall>(f, ty) \<in> set schema. mapGet (fst (flatToInternal io schema visits (toYAMLKeys data))) f =
       map_option (\<lambda>v. fst (convOf io ty (yamlVal v))) (mapGet data f))"
proof (intro conjI ballI, unfold split_beta)
  have p: "printable schema data" using assms by (simp add: printable_def)
  have d: "distinct (map fst schema)" using known_clear(2) [OF assms(1)] by (simp add: plainFields_def)
  show u: "unambiguous (FuzzyNames_ModifySchema schema) (toYAMLKeys data)" by (rule printed_unambiguous [OF p])
  fix x assume x: "x \<in> set schema"
  then have "map_of schema (fst x) = Some (snd x)" "fst x \<in> fieldsOf schema" using d by simp_all
  then show "mapGet (fst (flatToInternal io schema visits (toYAMLKeys data))) (fst x) =
      map_option (\<lambda>v. fst (convOf io (snd x) (yamlVal v))) (mapGet data (fst x))"
    unfolding flat_get [OF d] Let_def
    using givenFor_unique [OF u fuzzy_given [OF u assms(4)] printed_given [OF p]] by (simp add: option.map_comp comp_def)
qed

theorem printed_keys_read_back_witness:
  "toYAMLKeys [(''vlanId'', JInt 7)] = [(''vlan_id'', JInt 7)] \<and>
   mapGet (fst (flatToInternal sampleConvIO networkFields [''vlan_id''] [(''vlan_id'', JInt 7)])) ''vlanId'' = Some (JInt 7)"
proof -
  have y: "toYAMLKeys [(''vlanId'', JInt 7)] = [(''vlan_id'', JInt 7)]"
    by (simp add: toYAMLKeys_def moveKeys_def moveKey_def mapGet_def mapPut_def mapDel_def ToYAMLKey_def isUpperC_def toLowerC_def
      char_of_def bit_0)
  have "networkFields \<in> set knownSchemas" by (simp add: knownSchemas_def)
  moreover have "wfMap [(''vlanId'', JInt 7)]" by (simp add: wfMap_def)
  moreover have f: "(''vlanId'', ''int'') \<in> set networkFields" by (simp add: networkFields_def)
  then have "fst ` set [(''vlanId'', JInt 7)] \<subseteq> fst ` set networkFields" by force
  moreover have "fst ` set (toYAMLKeys [(''vlanId'', JInt 7)]) \<subseteq> set [''vlan_id'']" unfolding y by simp
  ultimately have "\<forall>(f, ty) \<in> set networkFields.
      mapGet (fst (flatToInternal sampleConvIO networkFields [''vlan_id''] (toYAMLKeys [(''vlanId'', JInt 7)]))) f =
      map_option (\<lambda>v. fst (convOf sampleConvIO ty (yamlVal v))) (mapGet [(''vlanId'', JInt 7)] f)"
    by (rule printed_keys_read_back [THEN conjunct2])
  from bspec [OF this f] show ?thesis unfolding y
    by (simp add: mapGet_def convOf_def toInt_def ToNumber_def Singular_def)
qed

end
