(* ===== verification/Reserved.thy ===== *)
theory Reserved
  imports Config "HOL-Library.Log_Nat"
begin

text \<open>
  The share of the processor that is reserved for the system (\<^verbatim>\<open>calculateCPUReservedInMilliCPU\<close> of \<^verbatim>\<open>config.go\<close>),
  computed in \<^verbatim>\<open>float64\<close>. A \<^verbatim>\<open>float64\<close> is the rational number it stands for, and an operation is the exact one followed
  by \<open>rnd\<close>, the rounding of IEEE 754 to 53 bits, to the even neighbour in the middle. The numbers here are
  not negative and neither subnormal nor near the largest one, and \<^verbatim>\<open>int64(...)\<close> cuts the fraction off.
\<close>

section \<open>Rounding\<close>

text \<open>The exponent of the greatest power of two that is at most \<open>x\<close>.\<close>

definition scaleOf :: "rat \<Rightarrow> int" where
  "scaleOf x =
     (case quotient_of x of (p, q) \<Rightarrow> (let e = bitlen p - bitlen q in if 2 powi e \<le> x then e else e - 1))"

definition rnd :: "rat \<Rightarrow> rat" where
  "rnd x =
     (if x \<le> 0 then 0
      else (let u = 2 powi (scaleOf x - 52); n = \<lfloor>x / u\<rfloor>; r = x / u - of_int n in
            of_int (if r < 1 / 2 \<or> r = 1 / 2 \<and> even n then n else n + 1) * u))"

lemma scaleOf_bounds:
  assumes "0 < x"
  shows "2 powi scaleOf x \<le> x" "x < 2 powi (scaleOf x + 1)"
proof -
  obtain p q where pq: "quotient_of x = (p, q)" by (cases "quotient_of x")
  have q: "0 < q" and x: "x = of_int p / of_int q" using pq by (simp_all add: quotient_of_denom_pos quotient_of_div)
  have p: "0 < p" using assms q unfolding x by (simp add: zero_less_divide_iff)
  have nat_pred: "nat (bitlen k) - 1 = nat (bitlen k - 1)" for k by linarith
  have ints: "(of_int (2 ^ (nat (bitlen k) - 1)) :: rat) = 2 powi (bitlen k - 1)" "(of_int (2 ^ nat (bitlen k)) :: rat) = 2 powi bitlen k"
    if "0 < k" for k :: int
  proof -
    have "0 < bitlen k" using that by (simp add: bitlen_alt_def)
    then show "(of_int (2 ^ (nat (bitlen k) - 1)) :: rat) = 2 powi (bitlen k - 1)" "(of_int (2 ^ nat (bitlen k)) :: rat) = 2 powi bitlen k"
      by (simp_all add: power_int_def nat_diff_distrib)
  qed
  have b: "2 powi (bitlen k - 1) \<le> (of_int k :: rat)" "(of_int k :: rat) < 2 powi bitlen k" if "0 < k" for k :: int
    using bitlen_bounds [OF that] unfolding ints [OF that, symmetric] of_int_le_iff of_int_less_iff nat_pred
    by simp_all
  have "2 powi (bitlen p - bitlen q - 1) = (2 powi (bitlen p - 1) / 2 powi bitlen q :: rat)"
    by (simp add: power_int_diff)
  also have "\<dots> \<le> x"
    unfolding x using b [OF p] b [OF q] p q by (intro frac_le) auto
  finally have low: "2 powi (bitlen p - bitlen q - 1) \<le> x" .
  have "x < 2 powi bitlen p / 2 powi (bitlen q - 1)"
    unfolding x using b [OF p] b [OF q] p by (intro frac_less) auto
  also have "\<dots> = 2 powi (bitlen p - bitlen q + 1)"
    by (simp add: power_int_diff power_int_add)
  finally have high: "x < 2 powi (bitlen p - bitlen q + 1)" .
  show "2 powi scaleOf x \<le> x" "x < 2 powi (scaleOf x + 1)"
    using low high by (simp_all add: scaleOf_def pq Let_def)
qed

text \<open>The relative error of one operation.\<close>

lemma rnd_close:
  assumes "0 \<le> x"
  shows "x - x / 2 ^ 53 \<le> rnd x" "rnd x \<le> x + x / 2 ^ 53"
proof -
  have "x - x / 2 ^ 53 \<le> rnd x \<and> rnd x \<le> x + x / 2 ^ 53"
  proof (cases "x = 0")
    case False
    then have x: "\<not> x \<le> 0" "0 < x" using assms by simp_all
    define u :: rat where "u = 2 powi (scaleOf x - 52)"
    define n where "n = \<lfloor>x / u\<rfloor>"
    have u: "0 < u" by (simp add: u_def)
    have "u * 2 ^ 52 = 2 powi scaleOf x" by (simp add: u_def power_int_diff)
    then have half: "u / 2 \<le> x / 2 ^ 53" using scaleOf_bounds(1) [OF x(2)] by simp
    have fl: "of_int n \<le> x / u" "x / u < of_int n + 1" unfolding n_def by linarith+
    have "\<exists>k. rnd x = of_int k * u \<and> \<bar>of_int k - x / u\<bar> \<le> 1 / 2"
    proof (cases "x / u - of_int n < 1 / 2 \<or> x / u - of_int n = 1 / 2 \<and> even n")
      case True
      then have "rnd x = of_int n * u" using x(1) unfolding rnd_def Let_def u_def [symmetric] n_def [symmetric] by (simp only: if_True if_False)
      then show ?thesis using True fl by (intro exI [of _ n]) auto
    next
      case False
      then have "rnd x = of_int (n + 1) * u" using x(1) unfolding rnd_def Let_def u_def [symmetric] n_def [symmetric] by (simp only: if_True if_False)
      then show ?thesis using False fl by (intro exI [of _ "n + 1"]) auto
    qed
    then obtain k where k: "rnd x = of_int k * u" "\<bar>of_int k - x / u\<bar> \<le> 1 / 2" by blast
    have "\<bar>rnd x - x\<bar> = \<bar>of_int k - x / u\<bar> * u" using u by (simp add: k(1) abs_mult_pos left_diff_distrib)
    also have "\<dots> \<le> u / 2" using mult_right_mono [OF k(2), of u] u by simp
    finally show ?thesis using half by linarith
  qed (simp add: rnd_def)
  then show "x - x / 2 ^ 53 \<le> rnd x" "rnd x \<le> x + x / 2 ^ 53" by simp_all
qed

definition ulp :: rat where
  "ulp = 1 / 2 ^ 53"

lemma rnd_near:
  assumes "\<bar>x - X\<bar> \<le> d" "0 \<le> x" "x \<le> M" "d + M * ulp \<le> D"
  shows "\<bar>rnd x - X\<bar> \<le> D \<and> 0 \<le> rnd x"
proof -
  have "x / 2 ^ 53 \<le> M * ulp" "0 \<le> x - x / 2 ^ 53" using assms(2,3) by (simp_all add: ulp_def)
  then show ?thesis using rnd_close [OF assms(2)] assms(1,4) by linarith
qed

section \<open>The reservation\<close>

text \<open>The shares of the first four cores, and of those above.\<close>

definition firstCores :: "int \<Rightarrow> rat" where
  "firstCores cores =
     (let reserved0 = rnd (0 + rnd (6 / 100));
          reserved1 = (if 1 < cores then rnd (reserved0 + rnd (1 / 100)) else reserved0)
      in if 2 < cores then rnd (reserved1 + rnd (2 * (1 / 2) / 100)) else reserved1)"

definition coresAbove :: "int \<Rightarrow> rat" where
  "coresAbove n = rnd (rnd (rnd (of_int n) * (1 / 4)) / 100)"

definition calculateCPUReservedInMilliCPU :: "int \<Rightarrow> int \<Rightarrow> int" where
  "calculateCPUReservedInMilliCPU cores maxPods =
     (if cores \<le> 0 \<or> maxPods \<le> 0 then 0
      else
        (let reserved2 = firstCores cores;
             reserved3 = (if 4 < cores then rnd (reserved2 + coresAbove (cores - 4)) else reserved2);
             reserved4 = (if 110 < maxPods then rnd (reserved3 + rnd (4 / 10)) else reserved3)
         in \<lfloor>rnd (reserved4 * 1000)\<rfloor>))"

definition GetSystemReserved :: "int \<Rightarrow> string" where
  "GetSystemReserved numCPU =
     ''system-reserved=cpu='' @ showInt (calculateCPUReservedInMilliCPU numCPU (int MaxPods) * 2 * 2 div 5) @ ''m''"

definition GetKubeReserved :: "int \<Rightarrow> string" where
  "GetKubeReserved numCPU =
     ''kube-reserved=cpu='' @ showInt (calculateCPUReservedInMilliCPU numCPU (int MaxPods) * 2 * 3 div 5) @ ''m''"

text \<open>The shares without any rounding, in thousandths of a core. Three cores count as four.\<close>

definition exactMilli :: "int \<Rightarrow> int \<Rightarrow> rat" where
  "exactMilli cores maxPods =
     60 + (if 1 < cores then 10 else 0) + (if 2 < cores then 10 else 0) +
     (if 4 < cores then of_int (cores - 4) * 5 / 2 else 0) + (if 110 < maxPods then 400 else 0)"

abbreviation "second cores \<equiv> (if 1 < cores then 1 / 100 else 0 :: rat)"
abbreviation "third cores \<equiv> (if 2 < cores then 1 / 100 else 0 :: rat)"

lemma ulp_small: "0 < ulp" "ulp * 562949953421312 = 1 / 16"
  by (simp_all add: ulp_def)

lemma firstCores_near: "\<bar>firstCores cores - (6 / 100 + second cores + third cores)\<bar> \<le> 6 * ulp \<and> 0 \<le> firstCores cores"
proof -
  define c1 where "c1 = rnd (6 / 100)"
  define a where "a = rnd (0 + c1)"
  define c2 where "c2 = rnd (1 / 100)"
  define b where "b = (if 1 < cores then rnd (a + c2) else a)"
  define p1 where "p1 = second cores"
  have run: "firstCores cores = (if 2 < cores then rnd (b + c2) else b)"
    by (simp add: firstCores_def Let_def b_def a_def c1_def c2_def)
  note u = ulp_small
  have c1: "\<bar>c1 - 6 / 100\<bar> \<le> ulp \<and> 0 \<le> c1"
    unfolding c1_def by (rule rnd_near [where d = 0 and M = 1]) simp_all
  have c2: "\<bar>c2 - 1 / 100\<bar> \<le> ulp \<and> 0 \<le> c2"
    unfolding c2_def by (rule rnd_near [where d = 0 and M = 1]) simp_all
  have a: "\<bar>a - 6 / 100\<bar> \<le> 2 * ulp \<and> 0 \<le> a"
    unfolding a_def by (rule rnd_near [where d = ulp and M = 1]) (use c1 u in \<open>simp?; linarith\<close>)+
  have b: "\<bar>b - (6 / 100 + p1)\<bar> \<le> 4 * ulp \<and> 0 \<le> b"
  proof (cases "1 < cores")
    case True
    have "\<bar>rnd (a + c2) - (6 / 100 + p1)\<bar> \<le> 4 * ulp \<and> 0 \<le> rnd (a + c2)"
      by (rule rnd_near [where d = "3 * ulp" and M = 1]) (use a c2 u True in \<open>simp add: p1_def; linarith\<close>)+
    then show ?thesis using True by (simp only: b_def if_True)
  qed (use a u in \<open>simp add: b_def p1_def\<close>)
  show ?thesis
  proof (cases "2 < cores")
    case True
    have "\<bar>rnd (b + c2) - (6 / 100 + p1 + 1 / 100)\<bar> \<le> 6 * ulp \<and> 0 \<le> rnd (b + c2)"
      by (rule rnd_near [where d = "5 * ulp" and M = 1]) (use b c2 u True in \<open>simp add: p1_def; linarith\<close>)+
    then show ?thesis using True by (simp only: run p1_def if_True)
  qed (use b u in \<open>simp add: run p1_def\<close>)
qed

lemma coresAbove_near:
  assumes "0 \<le> n" "n \<le> 2 ^ 40"
  shows "\<bar>coresAbove n - of_int n / 400\<bar> \<le> 2 ^ 35 * ulp \<and> 0 \<le> coresAbove n"
proof -
  define m :: rat where "m = of_int n"
  have "(of_int n :: rat) \<le> of_int (2 ^ 40)" using assms(2) by (simp only: of_int_le_iff)
  then have m: "0 \<le> m" "m \<le> 2 ^ 40" using assms(1) by (simp_all add: m_def)
  define q1 where "q1 = rnd m"
  define q2 where "q2 = rnd (q1 * (1 / 4))"
  note u = ulp_small
  have q1: "\<bar>q1 - m\<bar> \<le> 2 ^ 40 * ulp \<and> 0 \<le> q1"
    unfolding q1_def by (rule rnd_near [where d = 0 and M = "2 ^ 40"]) (use m in simp_all)
  have q2: "\<bar>q2 - m / 4\<bar> \<le> 2 ^ 40 * ulp \<and> 0 \<le> q2"
    unfolding q2_def by (rule rnd_near [where d = "2 ^ 38 * ulp" and M = "2 ^ 39"]) (use q1 m u in \<open>simp?; linarith\<close>)+
  have "\<bar>rnd (q2 / 100) - m / 400\<bar> \<le> 2 ^ 35 * ulp \<and> 0 \<le> rnd (q2 / 100)"
    by (rule rnd_near [where d = "2 ^ 34 * ulp" and M = "2 ^ 34"]) (use q2 m u in \<open>simp?; linarith\<close>)+
  then show ?thesis by (simp only: coresAbove_def q2_def q1_def m_def)
qed

lemma steps_close:
  assumes "0 < cores" "cores \<le> 2 ^ 40" "0 < maxPods"
  shows "\<exists>y. calculateCPUReservedInMilliCPU cores maxPods = \<lfloor>y\<rfloor> \<and>
    exactMilli cores maxPods - 1 / 4 < y \<and> y < exactMilli cores maxPods + 1 / 4"
proof -
  define base :: rat where "base = 6 / 100 + second cores + third cores"
  define m :: rat where "m = (if 4 < cores then of_int (cores - 4) else 0)"
  define p4 :: rat where "p4 = (if 110 < maxPods then 4 / 10 else 0)"
  have "(of_int cores :: rat) \<le> of_int (2 ^ 40)" using assms(2) by (simp only: of_int_le_iff)
  then have m: "0 \<le> m" "m \<le> 2 ^ 40" by (simp_all add: m_def)
  have p: "0 \<le> base" "base \<le> 8 / 100" "0 \<le> p4" "p4 \<le> 4 / 10" by (simp_all add: base_def p4_def)
  note u = ulp_small
  define c4 where "c4 = rnd (4 / 10)"
  define d where "d = firstCores cores"
  define e where "e = (if 4 < cores then rnd (d + coresAbove (cores - 4)) else d)"
  define f where "f = (if 110 < maxPods then rnd (e + c4) else e)"
  have calc: "calculateCPUReservedInMilliCPU cores maxPods = \<lfloor>rnd (f * 1000)\<rfloor>"
    using assms(1,3) by (simp add: calculateCPUReservedInMilliCPU_def Let_def f_def e_def d_def c4_def)
  have c4: "\<bar>c4 - 4 / 10\<bar> \<le> ulp \<and> 0 \<le> c4"
    unfolding c4_def by (rule rnd_near [where d = 0 and M = 1]) simp_all
  have d: "\<bar>d - base\<bar> \<le> 6 * ulp \<and> 0 \<le> d" unfolding d_def base_def by (rule firstCores_near)
  have e: "\<bar>e - (base + m / 400)\<bar> \<le> 2 ^ 37 * ulp \<and> 0 \<le> e"
  proof (cases "4 < cores")
    case True
    have q: "\<bar>coresAbove (cores - 4) - m / 400\<bar> \<le> 2 ^ 35 * ulp \<and> 0 \<le> coresAbove (cores - 4)"
      using coresAbove_near [of "cores - 4"] assms(2) True by (simp add: m_def)
    have "\<bar>rnd (d + coresAbove (cores - 4)) - (base + m / 400)\<bar> \<le> 2 ^ 37 * ulp \<and> 0 \<le> rnd (d + coresAbove (cores - 4))"
      by (rule rnd_near [where d = "2 ^ 36 * ulp" and M = "2 ^ 35"]) (use d q m u p in \<open>simp?; linarith\<close>)+
    then show ?thesis using True by (simp only: e_def if_True)
  next
    case False
    then show ?thesis using d u by (simp add: e_def m_def; linarith)
  qed
  have f: "\<bar>f - (base + m / 400 + p4)\<bar> \<le> 2 ^ 38 * ulp \<and> 0 \<le> f"
  proof (cases "110 < maxPods")
    case True
    have "\<bar>rnd (e + c4) - (base + m / 400 + p4)\<bar> \<le> 2 ^ 38 * ulp \<and> 0 \<le> rnd (e + c4)"
      by (rule rnd_near [where d = "2 ^ 37 * ulp + ulp" and M = "2 ^ 35"]) (use e c4 m u p True in \<open>(simp add: p4_def)?; linarith\<close>)+
    then show ?thesis using True by (simp only: f_def if_True)
  next
    case False
    then show ?thesis using e u by (simp add: f_def p4_def; linarith)
  qed
  have "\<bar>rnd (f * 1000) - (1000 * base + m * 5 / 2 + 1000 * p4)\<bar> \<le> 2 ^ 49 * ulp \<and> 0 \<le> rnd (f * 1000)"
    by (rule rnd_near [where d = "2 ^ 48 * ulp" and M = "2 ^ 45"]) (use f m u p in \<open>simp?; linarith\<close>)+
  moreover have "exactMilli cores maxPods = 1000 * base + m * 5 / 2 + 1000 * p4"
    by (simp add: exactMilli_def base_def p4_def m_def)
  ultimately have "exactMilli cores maxPods - 1 / 4 < rnd (f * 1000)" "rnd (f * 1000) < exactMilli cores maxPods + 1 / 4"
    using u by (simp; linarith)+
  then show ?thesis using calc by blast
qed


text \<open>The second case exists: a node of 34 cores gets 554 thousandths, and not 555.\<close>

lemma cpu_reserved_loses_one: "calculateCPUReservedInMilliCPU 34 200 = 554" "exactMilli 34 200 = 555"
  by code_simp+


end
