(* ===== verification/Spec2Isabelle.thy ===== *)
theory Spec2Isabelle
  imports Wizard_Props Dashboard_Props Schema_Print Reserved
begin

text \<open>
  A verification library of the Harvester installer: the console program that configures and installs a node, and
  that shows its state once it is installed. The modelled code is the Go code under \<^verbatim>\<open>src/pkg\<close>.

  \<^bold>\<open>The program.\<close> \<^verbatim>\<open>console.go\<close> reads the stored configuration and the hardware checks and shows either the
  installer or the dashboard. The installer (\<^verbatim>\<open>install_panels.go\<close>, \<^verbatim>\<open>helper.go\<close>) is a sequence of pages made of the
  elements of \<^verbatim>\<open>pkg/widgets\<close>. Keys run handlers that check what was typed, store it in one configuration
  (\<^verbatim>\<open>pkg/config\<close>) and show the next page; long checks run as tasks beside the main loop. The task behind the install panel
  merges the remote configuration, validates the result (\<^verbatim>\<open>validator.go\<close>), writes the network profiles and the cloud
  configuration (\<^verbatim>\<open>cos.go\<close>), wipes disks and runs the installation (\<^verbatim>\<open>util.go\<close>), and calls webhooks (\<^verbatim>\<open>webhooks.go\<close>).
  The dashboard (\<^verbatim>\<open>dashboard_panels.go\<close>) polls the cluster in four goroutines and leaves to a shell on a password.

  \<^bold>\<open>Theories and sources.\<close> State is passed explicitly: a program is a function from a state to a result and a state
  (\<open>prog\<close> of \<open>Prelude\<close>), an error is the left of a sum, a map of Go is an association list in the order \<^verbatim>\<open>range\<close> visits it,
  and \<^verbatim>\<open>uint64\<close> is a word of 64 bits.

    \<^item> \<open>Prelude\<close>: errors, programs, loops, strings, numbers and maps of Go, with the collections of hints.
    \<^item> \<open>Util_Disk\<close>, \<open>Cmdline\<close>: package \<^verbatim>\<open>pkg/util\<close> (units, partition sizes, kernel parameters, shadow lines).
    \<^item> \<open>Go_Net\<close>, \<open>K8s_Validation\<close>: what is used of Go's \<^verbatim>\<open>net\<close> and of the vendored validators of Kubernetes.
    \<^item> \<open>Config\<close>, \<open>Elemental\<close>, \<open>COS\<close>, \<open>Network_Profiles\<close>, \<open>Schema\<close>, \<open>Reserved\<close>: package \<^verbatim>\<open>pkg/config\<close> (\<^verbatim>\<open>config.go\<close> and
      \<^verbatim>\<open>cos.go\<close>; \<^verbatim>\<open>read.go\<close>, \<^verbatim>\<open>write.go\<close>, \<^verbatim>\<open>schemas.go\<close>, \<^verbatim>\<open>rename.go\<close>, \<^verbatim>\<open>coerce.go\<close>; the float64 arithmetic of \<^verbatim>\<open>config.go\<close>), with
      \<open>Schema_Props\<close> and \<open>Schema_Print\<close> for their properties.
    \<^item> \<open>Preflight\<close>: \<^verbatim>\<open>pkg/preflight/checks.go\<close>.
    \<^item> \<open>Disks\<close>, \<open>Validator\<close>, \<open>Webhooks\<close>, \<open>Host_Network\<close>, \<open>Remote\<close>, \<open>Install_Flow\<close>: \<^verbatim>\<open>util.go\<close>, \<^verbatim>\<open>validator.go\<close>, \<^verbatim>\<open>webhooks.go\<close>,
      \<^verbatim>\<open>network.go\<close> and \<^verbatim>\<open>vip.go\<close> of \<^verbatim>\<open>pkg/console\<close>.
    \<^item> \<open>Widgets\<close>: package \<^verbatim>\<open>pkg/widgets\<close> on the views of the vendored \<^verbatim>\<open>gocui\<close>.
    \<^item> \<open>Console\<close>, \<open>Pages\<close>, \<open>Pages_Setup\<close>, \<open>Pages_Disk\<close>, \<open>Pages_Network\<close>, \<open>Pages_Services\<close>, \<open>Pages_Install\<close>: the state of the console,
      the hooks of its elements (\<open>..._PreShow\<close>, \<open>..._PostClose\<close>), their key tables (\<open>..._KeyBindings\<close>) and the handlers
      and tasks of every page, in the order of \<^verbatim>\<open>install_panels.go\<close>.
    \<^item> \<open>Wizard\<close>: start, keys, edits and the ends of tasks as events, and \<open>run\<close>, the states that any order of events reaches;
      \<open>Wizard_Safety\<close>, \<open>Wizard_Invariant\<close>, \<open>Wizard_Props\<close> hold what is true of all of them.
    \<^item> \<open>Dashboard\<close>, \<open>Dashboard_Invariant\<close>, \<open>Dashboard_Props\<close>: the dashboard, its main loop over any list of events, and what
      every run of it keeps.

  \<^bold>\<open>What the theorems show.\<close>

    \<^item> The wizard: in every reachable state the facts hold that the pages before the current one establish; an installation
      starts only by an answer on the confirmation page, and then always; nothing touches the machine unless the final
      configuration was accepted; the disk page and the validator agree.
    \<^item> The installation: no disk is wiped that is kept, whatever fails; success means that the installer ran; restoring the
      network undoes every change of the profiles; the files of the installed system are exactly the listed ones.
    \<^item> The validators and parsers accept exactly the described inputs; partition layouts fit on the disk; where numbers wrap,
      round or are cut off, a theorem says by how much.
    \<^item> Reading a configuration puts under every field exactly what was given for it, under any of its spellings and in any order
      of visits; what is printed is read back.
    \<^item> The widgets refine a cursor and a set; text is wrapped and truncated within its panel.
    \<^item> The dashboard never ends with an error, is left only by the right password and always by it, and does not call a cluster
      ready that has not answered.

  \<^bold>\<open>Interfaces.\<close> \<open>path_store\<close> (nested maps), \<open>graded_check\<close> (hardware checks with two limits), \<open>validator_interface\<close> (what pages and
  installation may rely on), \<open>element\<close> (what a page may do with a widget), and \<open>page_invariant\<close> with its extension
  \<open>untraced_invariant\<close> (an invariant of the console that all handlers keep once showing, calm steps and starts keep it) are
  locales, each interpreted on the definitions of the model where these are given.

  \<^bold>\<open>Parameters.\<close> What the program asks of the outside is a record of functions given to the definitions: the answers of the
  host and of commands, of netlink, DHCP, HTTP and the YAML and JSON decoders, of template rendering and hashing
  (\<open>host\<close>, \<open>netHost\<close>, \<open>nmIO\<close>, \<open>vipIO\<close>, \<open>remote\<close>, \<open>instEnv\<close>, \<open>env\<close>, \<open>dashEnv\<close>, \<open>loadIO\<close>, \<open>convIO\<close>). The theorems hold for all of them; where
  one needs a documented law of such a function, it is a hypothesis, and a witness has an instance.

  \<^bold>\<open>Bounds.\<close> \<^verbatim>\<open>retryOnError\<close> recurses on the number of retries left and webhooks on the three of them, so both are total; parsers recurse
  on their input. A run of the wizard or of the dashboard is any finite list of events. A task of the wizard and a round of a
  goroutine of the dashboard are atomic and end in a function queued with \<^verbatim>\<open>g.Update\<close>; queued functions run in any order. The float64
  model covers the numbers up to \<open>2 ^ 40\<close> cores, where nothing is subnormal or overflows.

  \<^bold>\<open>Not modelled.\<close> \<^verbatim>\<open>main.go\<close> and the version strings; log files; the places, colours and frames of elements and the animation of the
  spinner; \<^verbatim>\<open>doUpgrade\<close>, which only copies the output of a script to its panel; the embedded templates and their rendering;
  YAML and JSON coding, and the recursion of the mapper library into the structs below a field; the vendored libraries beyond the
  parts named above.
\<close>

end
